(* ===== verification/Prelude.thy ===== *)
theory Prelude
  imports
    Main
    "HOL-Library.Sublist"
    "HOL-Library.List_Lexorder"
    "HOL-Library.Char_ord"
    "HOL-Library.Multiset"
begin

text \<open>
  Shared vocabulary of the development. Go strings are byte strings, so they are HOL
  \<^typ>\<open>string\<close>s (a \<^typ>\<open>char\<close> is one of 256 bytes) and \<^term>\<open>length\<close> counts what
  Go's \<open>len\<close> counts. The string order that \<open>sort.Strings\<close> uses (bytewise,
  lexicographic) is the library's list order over bytes. Fallible Go code is modelled in two shapes: a function
  returning \<open>(T, error)\<close> is a sum (\<open>Inl\<close> the error), a function returning only
  \<open>error\<close> is an option (\<open>None\<close> is \<open>nil\<close>).
\<close>

section \<open>Fact collections\<close>

named_theorems go_string_simps \<open>equations of the modelled strings and strconv functions\<close>
named_theorems enum_simps \<open>labels, ranks and validity of the enumerations\<close>
named_theorems policy_simps \<open>unfolding rules of the policy component\<close>
named_theorems rollout_simps \<open>unfolding rules of the rollout component\<close>

section \<open>Errors as values\<close>

text \<open>
  \<open>first_err\<close> is a sequence of \<open>if err := check(); err != nil { return err }\<close>
  statements: the first failing check decides. \<open>err_if\<close> is one guarded return.
\<close>

definition err_if :: "bool \<Rightarrow> 'e \<Rightarrow> 'e option" where
  "err_if b e = (if b then Some e else None)"

primrec first_err :: "'e option list \<Rightarrow> 'e option" where
  "first_err [] = None"
| "first_err (x # xs) = (case x of Some e \<Rightarrow> Some e | None \<Rightarrow> first_err xs)"

lemma err_if_eq_None [simp]: "err_if b e = None \<longleftrightarrow> \<not> b"
  by (simp add: err_if_def)

lemma err_if_eq_Some [simp]: "err_if b e = Some e' \<longleftrightarrow> b \<and> e' = e"
  by (auto simp: err_if_def)

lemma err_if_simps [simp]: "err_if True e = Some e" "err_if False e = None"
  by (simp_all add: err_if_def)

lemma first_err_eq_None [simp]: "first_err xs = None \<longleftrightarrow> (\<forall>x \<in> set xs. x = None)"
  by (induction xs) (auto split: option.splits)

lemma case_option_Some_eq_None [simp]:
  "(case x of None \<Rightarrow> y | Some e \<Rightarrow> Some e) = None \<longleftrightarrow> x = None \<and> y = None"
  by (cases x) simp_all

lemma first_err_SomeD: "first_err xs = Some e \<Longrightarrow> Some e \<in> set xs"
  by (induction xs) (auto split: option.splits)

text \<open>Sequencing of \<open>(T, error)\<close> calls, and its iteration over a slice.\<close>

definition bindR :: "'e + 'a \<Rightarrow> ('a \<Rightarrow> 'e + 'b) \<Rightarrow> 'e + 'b" where
  "bindR m f = (case m of Inl e \<Rightarrow> Inl e | Inr x \<Rightarrow> f x)"

lemma bindR_simps [simp]: "bindR (Inl e) f = Inl e" "bindR (Inr x) f = f x"
  by (simp_all add: bindR_def)

lemma bindR_eq_Inr: "bindR m f = Inr y \<longleftrightarrow> (\<exists>x. m = Inr x \<and> f x = Inr y)"
  by (cases m) simp_all

lemma bindR_InrE [elim]:
  assumes "bindR m f = Inr y"
  obtains x where "m = Inr x" and "f x = Inr y"
  using assms by (auto simp: bindR_eq_Inr)

definition guardR :: "'e option \<Rightarrow> 'e + unit" where
  "guardR c = (case c of Some e \<Rightarrow> Inl e | None \<Rightarrow> Inr ())"

lemma guardR_eq_Inr [simp]: "guardR c = Inr u \<longleftrightarrow> c = None"
  by (auto simp: guardR_def split: option.splits)

lemma guardR_simps [simp]: "guardR (Some e) = Inl e" "guardR None = Inr ()"
  by (simp_all add: guardR_def)

primrec mapR :: "('a \<Rightarrow> 'e + 'b) \<Rightarrow> 'a list \<Rightarrow> 'e + 'b list" where
  "mapR f [] = Inr []"
| "mapR f (x # xs) = bindR (f x) (\<lambda>y. bindR (mapR f xs) (\<lambda>ys. Inr (y # ys)))"

lemma mapR_eq_Inr:
  "mapR f xs = Inr ys \<longleftrightarrow> list_all2 (\<lambda>x y. f x = Inr y) xs ys"
proof (induction xs arbitrary: ys)
  case Nil
  then show ?case by auto
next
  case (Cons x xs)
  then show ?case by (cases ys) (auto simp: bindR_eq_Inr)
qed

lemma mapR_length: "mapR f xs = Inr ys \<Longrightarrow> length ys = length xs"
  by (auto simp: mapR_eq_Inr dest: list_all2_lengthD)

section \<open>Go string functions\<close>

definition HasPrefix :: "string \<Rightarrow> string \<Rightarrow> bool" where
  "HasPrefix s p = prefix p s"

primrec ContainsStr :: "string \<Rightarrow> string \<Rightarrow> bool" where
  "ContainsStr [] sub = (sub = [])"
| "ContainsStr (c # s) sub = (prefix sub (c # s) \<or> ContainsStr s sub)"

primrec IndexByte :: "string \<Rightarrow> char \<Rightarrow> nat option" where
  "IndexByte [] b = None"
| "IndexByte (c # s) b = (if c = b then Some 0 else map_option Suc (IndexByte s b))"

text \<open>\<open>strings.Split(s, sep)\<close> for a one-byte separator: never empty.\<close>

fun split_on :: "char \<Rightarrow> string \<Rightarrow> string list" where
  "split_on sep [] = [[]]"
| "split_on sep (c # s) =
     (if c = sep then [] # split_on sep s
      else case split_on sep s of [] \<Rightarrow> [[c]] | w # ws \<Rightarrow> (c # w) # ws)"

fun join :: "string \<Rightarrow> string list \<Rightarrow> string" where
  "join sep [] = []"
| "join sep [w] = w"
| "join sep (w # ws) = w @ sep @ join sep ws"

definition digit_char :: "nat \<Rightarrow> char" where
  "digit_char d = char_of (48 + d)"

fun FormatUint :: "nat \<Rightarrow> string" where
  "FormatUint n = (if n < 10 then [digit_char n] else FormatUint (n div 10) @ [digit_char (n mod 10)])"

declare FormatUint.simps [simp del]

definition Itoa :: "int \<Rightarrow> string" where
  "Itoa i = (if i < 0 then CHR ''-'' # FormatUint (nat (- i)) else FormatUint (nat i))"

definition FormatBool :: "bool \<Rightarrow> string" where
  "FormatBool b = (if b then ''true'' else ''false'')"

lemma HasPrefix_code [go_string_simps]: "HasPrefix s p \<longleftrightarrow> take (length p) s = p"
  by (metis HasPrefix_def append_eq_conv_conj prefix_def)

lemma split_on_nonempty [simp]: "split_on sep s \<noteq> []"
  by (induction s) (auto split: list.splits)

lemma split_on_no_sep: "t \<in> set (split_on sep s) \<Longrightarrow> sep \<notin> set t"
proof (induction s arbitrary: t)
  case Nil
  then show ?case by simp
next
  case (Cons c s)
  then show ?case
    by (cases "split_on sep s") (auto split: if_splits)
qed

lemma join_split_on: "join [sep] (split_on sep s) = s"
proof (induction s)
  case Nil
  then show ?case by simp
next
  case (Cons c s)
  show ?case
  proof (cases "split_on sep s")
    case Nil
    then show ?thesis by simp
  next
    case (Cons w ws)
    then show ?thesis using Cons.IH by (cases ws) auto
  qed
qed

lemma split_on_fresh: "sep \<notin> set s \<Longrightarrow> split_on sep s = [s]"
  by (induction s) auto

lemma split_on_append_sep:
  "sep \<notin> set s \<Longrightarrow> split_on sep (s @ sep # t) = s # split_on sep t"
  by (induction s) auto

lemma split_on_join:
  "ws \<noteq> [] \<Longrightarrow> (\<forall>w \<in> set ws. sep \<notin> set w) \<Longrightarrow> split_on sep (join [sep] ws) = ws"
proof (induction ws rule: induct_list012)
  case 1
  then show ?case by simp
next
  case (2 w)
  then show ?case by (simp add: split_on_fresh)
next
  case (3 w v ws)
  then show ?case by (simp add: split_on_append_sep)
qed

lemma IndexByte_SomeD:
  "IndexByte s b = Some i \<Longrightarrow> i < length s \<and> s ! i = b \<and> b \<notin> set (take i s)"
proof (induction s arbitrary: i)
  case Nil
  then show ?case by simp
next
  case (Cons c s)
  then show ?case by (cases i) (auto split: if_splits)
qed

lemma IndexByte_eq_None: "IndexByte s b = None \<longleftrightarrow> b \<notin> set s"
  by (induction s) auto

section \<open>Lists and options\<close>

lemma find_eq_first:
  "find P xs = Some x \<longleftrightarrow> (\<exists>us vs. xs = us @ x # vs \<and> P x \<and> (\<forall>u \<in> set us. \<not> P u))"
proof (induction xs)
  case Nil
  then show ?case by simp
next
  case (Cons y ys)
  show ?case
  proof (cases "P y")
    case True
    then show ?thesis
      by (auto simp: Cons_eq_append_conv)
  next
    case False
    with Cons.IH show ?thesis
      by (auto simp: Cons_eq_append_conv) (metis append_Cons set_ConsD)
  qed
qed

text \<open>Keeping the last \<open>n\<close> entries of a slice, as in \<open>h = h[len(h)-n:]\<close>.\<close>

definition keep_last :: "nat \<Rightarrow> 'a list \<Rightarrow> 'a list" where
  "keep_last n xs = drop (length xs - n) xs"

lemma length_keep_last [simp]: "length (keep_last n xs) = min n (length xs)"
  by (simp add: keep_last_def)

lemma keep_last_suffix: "suffix (keep_last n xs) xs"
  by (simp add: keep_last_def suffix_drop)

text \<open>Decimal output determines the number.\<close>

definition dec_val :: "string \<Rightarrow> nat" where
  "dec_val s = foldl (\<lambda>v c. 10 * v + (of_char c - 48)) 0 s"

lemma of_char_digit_char: "d < 10 \<Longrightarrow> of_char (digit_char d) = (48 + d :: nat)"
  by (simp add: digit_char_def)

lemma dec_val_FormatUint: "dec_val (FormatUint n) = n"
proof (induction n rule: FormatUint.induct)
  case (1 n)
  show ?case
  proof (cases "n < 10")
    case True
    then show ?thesis by (subst FormatUint.simps) (simp add: dec_val_def of_char_digit_char)
  next
    case False
    then have "dec_val (FormatUint n) = 10 * dec_val (FormatUint (n div 10)) + n mod 10"
      by (subst FormatUint.simps) (simp add: dec_val_def of_char_digit_char)
    with 1 False show ?thesis by simp
  qed
qed

lemma FormatUint_inject [simp]: "FormatUint m = FormatUint n \<longleftrightarrow> m = n"
  by (metis dec_val_FormatUint)

lemma FormatUint_digits: "c \<in> set (FormatUint n) \<Longrightarrow> \<exists>d < 10. c = digit_char d"
proof (induction n rule: FormatUint.induct)
  case (1 n)
  have "n mod 10 < 10" by simp
  moreover have "n < 10 \<and> c = digit_char n \<or>
      \<not> n < 10 \<and> (c \<in> set (FormatUint (n div 10)) \<or> c = digit_char (n mod 10))"
    using "1.prems" by (subst (asm) FormatUint.simps) (auto split: if_splits)
  ultimately show ?case using "1.IH" by blast
qed

lemma FormatUint_no_minus: "CHR ''-'' \<notin> set (FormatUint n)"
proof
  assume "CHR ''-'' \<in> set (FormatUint n)"
  then obtain d where "d < 10" "CHR ''-'' = digit_char d" using FormatUint_digits by blast
  then have "of_char (CHR ''-'') = (48 + d :: nat)" by (simp add: of_char_digit_char)
  then show False by simp
qed

lemma Itoa_inject [simp]: "Itoa i = Itoa j \<longleftrightarrow> i = j"
  using FormatUint_no_minus[of "nat i"] FormatUint_no_minus[of "nat j"]
  by (auto simp: Itoa_def nat_eq_iff split: if_splits) (metis list.set_intros(1))+

section \<open>Sorting by a key\<close>

lemma distinct_map_perm: "mset xs = mset ys \<Longrightarrow> distinct (map f xs) = distinct (map f ys)"
  using mset_eq_imp_distinct_iff[of "map f xs" "map f ys"] by simp

lemma sorted_distinct_key_strict:
  "sorted (map f xs) \<Longrightarrow> distinct (map f xs) \<Longrightarrow> sorted_wrt (\<lambda>x y. f x < (f y :: 'b::linorder)) xs"
  by (induction xs) (auto simp: less_le)

lemma filter_eq_singleton: "distinct zs \<Longrightarrow> k \<in> set zs \<Longrightarrow> filter (\<lambda>x. x = k) zs = [k]"
  by (induction zs) (auto simp: filter_empty_conv)

lemma filter_key_singleton:
  assumes "inj_on f (set zs)" and "distinct zs" and "k \<in> set zs"
  shows "filter (\<lambda>x. f k = f x) zs = [k]"
proof -
  have "filter (\<lambda>x. f k = f x) zs = filter (\<lambda>x. x = k) zs"
    using assms by (intro filter_cong) (auto dest: inj_onD)
  then show ?thesis using assms by (simp add: filter_eq_singleton)
qed

lemma sort_key_perm_eq:
  assumes "mset xs = mset ys" and "distinct (map f xs)"
  shows "sort_key f xs = sort_key f ys"
proof (rule properties_for_sort_key)
  show "mset (sort_key f ys) = mset xs" using assms(1) by simp
  show "filter (\<lambda>x. f k = f x) (sort_key f ys) = filter (\<lambda>x. f k = f x) xs"
    if "k \<in> set (sort_key f ys)" for k
  proof -
    have sets: "set (sort_key f ys) = set xs"
      using mset_eq_setD[OF assms(1)] by simp
    have "distinct (map f (sort_key f ys))"
      using assms distinct_map_perm[of "sort_key f ys" xs f] by simp
    with assms(2) that sets show ?thesis
      by (simp add: distinct_map filter_key_singleton)
  qed
  show "sorted (map f (sort_key f ys))" by simp
qed

section \<open>Sequences of operations\<close>

fun run_ops :: "('op \<Rightarrow> 's \<Rightarrow> 's) \<Rightarrow> 'op list \<Rightarrow> 's \<Rightarrow> 's" where
  "run_ops step [] s = s"
| "run_ops step (oper # ops) s = run_ops step ops (step oper s)"

lemma run_ops_append: "run_ops step (ops @ ops') s = run_ops step ops' (run_ops step ops s)"
  by (induction ops arbitrary: s) simp_all

lemma run_ops_inv:
  assumes "\<And>oper s. allowed oper \<Longrightarrow> J s \<Longrightarrow> J (step oper s)" and "list_all allowed ops" and "J s"
  shows "J (run_ops step ops s)"
  using assms(2,3) by (induction ops arbitrary: s) (simp_all add: assms(1))

text \<open>What every allowed operation keeps holds after every run of allowed operations.\<close>

locale run_invariant =
  fixes step :: "'op \<Rightarrow> 's \<Rightarrow> 's" and allowed :: "'op \<Rightarrow> bool" and holds :: "'s \<Rightarrow> bool"
  assumes step_keeps: "holds s \<Longrightarrow> allowed oper \<Longrightarrow> holds (step oper s)"
begin

lemma run_keeps: "holds s \<Longrightarrow> list_all allowed ops \<Longrightarrow> holds (run_ops step ops s)"
  by (rule run_ops_inv[where allowed = allowed]) (simp_all add: step_keeps)

end

text \<open>
  Records that stay as they are once they are terminal: \<open>find_rec\<close> reads the record of an
  identifier, and an operation that does not create the identifier either keeps a terminal
  record or drops it.
\<close>

locale terminal_lifecycle =
  fixes step :: "'op \<Rightarrow> 's \<Rightarrow> 's"
    and find_rec :: "'s \<Rightarrow> 'id \<Rightarrow> 'r option"
    and terminal :: "'r \<Rightarrow> bool"
    and creates :: "'op \<Rightarrow> 'id \<Rightarrow> bool"
    and wf :: "'s \<Rightarrow> bool"
  assumes wf_step: "wf s \<Longrightarrow> wf (step oper s)"
    and terminal_step: "wf s \<Longrightarrow> find_rec s i = Some r \<Longrightarrow> terminal r \<Longrightarrow> \<not> creates oper i \<Longrightarrow>
      find_rec (step oper s) i = Some r \<or> find_rec (step oper s) i = None"
    and absent_step: "wf s \<Longrightarrow> find_rec s i = None \<Longrightarrow> \<not> creates oper i \<Longrightarrow> find_rec (step oper s) i = None"
begin

lemma wf_run: "wf s \<Longrightarrow> wf (run_ops step ops s)"
  by (rule run_ops_inv[where allowed = "\<lambda>_. True"]) (simp_all add: wf_step list_all_iff)

lemma absent_run:
  "wf s \<Longrightarrow> find_rec s i = None \<Longrightarrow> list_all (\<lambda>oper. \<not> creates oper i) ops \<Longrightarrow>
   find_rec (run_ops step ops s) i = None"
  by (induction ops arbitrary: s) (simp_all add: wf_step absent_step)

lemma terminal_run:
  assumes "wf s" "find_rec s i = Some r" "terminal r" "list_all (\<lambda>oper. \<not> creates oper i) ops"
  shows "find_rec (run_ops step ops s) i = Some r \<or> find_rec (run_ops step ops s) i = None"
  using assms
proof (induction ops arbitrary: s)
  case (Cons oper ops)
  then have w: "wf (step oper s)" and n: "\<not> creates oper i" "list_all (\<lambda>oper. \<not> creates oper i) ops"
    by (simp_all add: wf_step)
  from terminal_step[OF Cons.prems(1-3) n(1)] show ?case
  proof
    assume "find_rec (step oper s) i = Some r"
    with Cons.IH[OF w _ Cons.prems(3) n(2)] show ?thesis by simp
  next
    assume "find_rec (step oper s) i = None"
    with absent_run[OF w _ n(2)] show ?thesis by simp
  qed
qed simp

end

end
