(* ===== verification/Mcperr.thy ===== *)
theory Mcperr
  imports Prelude
begin

text \<open>
  The error model every MCP package shares (\<open>internal/mcp/mcperr/mcperr.go\<close>).
  \<open>Reason\<close> is a Go \<open>int\<close>, so it is an \<^typ>\<open>int\<close> here and a value outside the
  constants is a value of the type, as in Go; the constants are the \<open>iota\<close> values of
  the source. An \<open>error\<close> value is a tree: a kernel \<open>*Error\<close>, an error with a
  single \<open>Unwrap() error\<close>, one with \<open>Unwrap() []error\<close>, or an error with no
  \<open>Unwrap\<close> method.
\<close>

section \<open>Reasons\<close>

type_synonym reason = int

abbreviation (input) ReasonNone :: reason where "ReasonNone \<equiv> 0"
abbreviation (input) ReasonMalformedJSON :: reason where "ReasonMalformedJSON \<equiv> 1"
abbreviation (input) ReasonInvalidJSONRPC :: reason where "ReasonInvalidJSONRPC \<equiv> 2"
abbreviation (input) ReasonUnsupportedBatch :: reason where "ReasonUnsupportedBatch \<equiv> 3"
abbreviation (input) ReasonUnsupportedVersion :: reason where "ReasonUnsupportedVersion \<equiv> 4"
abbreviation (input) ReasonUnsupportedMethod :: reason where "ReasonUnsupportedMethod \<equiv> 5"
abbreviation (input) ReasonResourceLimit :: reason where "ReasonResourceLimit \<equiv> 6"
abbreviation (input) ReasonInvalidLifecycle :: reason where "ReasonInvalidLifecycle \<equiv> 7"
abbreviation (input) ReasonUncorrelatedResponse :: reason where "ReasonUncorrelatedResponse \<equiv> 8"
abbreviation (input) ReasonDuplicateCompletion :: reason where "ReasonDuplicateCompletion \<equiv> 9"
abbreviation (input) ReasonInvalidCancellation :: reason where "ReasonInvalidCancellation \<equiv> 10"
abbreviation (input) ReasonLateCancellation :: reason where "ReasonLateCancellation \<equiv> 11"
abbreviation (input) ReasonInvalidRegistration :: reason where "ReasonInvalidRegistration \<equiv> 12"
abbreviation (input) ReasonUnregisteredServer :: reason where "ReasonUnregisteredServer \<equiv> 13"
abbreviation (input) ReasonServerIdentityMismatch :: reason where "ReasonServerIdentityMismatch \<equiv> 14"
abbreviation (input) ReasonMalformedDiscovery :: reason where "ReasonMalformedDiscovery \<equiv> 15"
abbreviation (input) ReasonDuplicateTool :: reason where "ReasonDuplicateTool \<equiv> 16"
abbreviation (input) ReasonCanonicalizationFailed :: reason where "ReasonCanonicalizationFailed \<equiv> 17"
abbreviation (input) ReasonCapacityExceeded :: reason where "ReasonCapacityExceeded \<equiv> 18"
abbreviation (input) ReasonUnknownTool :: reason where "ReasonUnknownTool \<equiv> 19"
abbreviation (input) ReasonPrivilegeExpansion :: reason where "ReasonPrivilegeExpansion \<equiv> 20"
abbreviation (input) ReasonSemanticDrift :: reason where "ReasonSemanticDrift \<equiv> 21"
abbreviation (input) ReasonStaleSnapshot :: reason where "ReasonStaleSnapshot \<equiv> 22"
abbreviation (input) ReasonCredentialMissing :: reason where "ReasonCredentialMissing \<equiv> 23"
abbreviation (input) ReasonCredentialInQuery :: reason where "ReasonCredentialInQuery \<equiv> 24"
abbreviation (input) ReasonMalformedToken :: reason where "ReasonMalformedToken \<equiv> 25"
abbreviation (input) ReasonUnsupportedTokenType :: reason where "ReasonUnsupportedTokenType \<equiv> 26"
abbreviation (input) ReasonUnsupportedAlgorithm :: reason where "ReasonUnsupportedAlgorithm \<equiv> 27"
abbreviation (input) ReasonSignatureInvalid :: reason where "ReasonSignatureInvalid \<equiv> 28"
abbreviation (input) ReasonIssuerRejected :: reason where "ReasonIssuerRejected \<equiv> 29"
abbreviation (input) ReasonAudienceMissing :: reason where "ReasonAudienceMissing \<equiv> 30"
abbreviation (input) ReasonAudienceRejected :: reason where "ReasonAudienceRejected \<equiv> 31"
abbreviation (input) ReasonResourceMismatch :: reason where "ReasonResourceMismatch \<equiv> 32"
abbreviation (input) ReasonTokenExpired :: reason where "ReasonTokenExpired \<equiv> 33"
abbreviation (input) ReasonTokenNotYetValid :: reason where "ReasonTokenNotYetValid \<equiv> 34"
abbreviation (input) ReasonTokenTTLExceeded :: reason where "ReasonTokenTTLExceeded \<equiv> 35"
abbreviation (input) ReasonScopeMissing :: reason where "ReasonScopeMissing \<equiv> 36"
abbreviation (input) ReasonCapabilityMismatch :: reason where "ReasonCapabilityMismatch \<equiv> 37"
abbreviation (input) ReasonTenantMismatch :: reason where "ReasonTenantMismatch \<equiv> 38"
abbreviation (input) ReasonDelegationChainInvalid :: reason where "ReasonDelegationChainInvalid \<equiv> 39"
abbreviation (input) ReasonSenderConstraintRequired :: reason where "ReasonSenderConstraintRequired \<equiv> 40"
abbreviation (input) ReasonDPoPMalformed :: reason where "ReasonDPoPMalformed \<equiv> 41"
abbreviation (input) ReasonDPoPBindingMismatch :: reason where "ReasonDPoPBindingMismatch \<equiv> 42"
abbreviation (input) ReasonDPoPReplay :: reason where "ReasonDPoPReplay \<equiv> 43"
abbreviation (input) ReasonDPoPNonce :: reason where "ReasonDPoPNonce \<equiv> 44"
abbreviation (input) ReasonMTLSBindingMismatch :: reason where "ReasonMTLSBindingMismatch \<equiv> 45"
abbreviation (input) ReasonInactiveToken :: reason where "ReasonInactiveToken \<equiv> 46"
abbreviation (input) ReasonSessionIdentityBound :: reason where "ReasonSessionIdentityBound \<equiv> 47"
abbreviation (input) ReasonSessionIdentityRebind :: reason where "ReasonSessionIdentityRebind \<equiv> 48"
abbreviation (input) ReasonRegistryServerUnavailable :: reason where "ReasonRegistryServerUnavailable \<equiv> 49"
abbreviation (input) ReasonCredentialProfileMissing :: reason where "ReasonCredentialProfileMissing \<equiv> 50"
abbreviation (input) ReasonCredentialProfileDisabled :: reason where "ReasonCredentialProfileDisabled \<equiv> 51"
abbreviation (input) ReasonCredentialProfileAmbiguous :: reason where "ReasonCredentialProfileAmbiguous \<equiv> 52"
abbreviation (input) ReasonProviderUnavailable :: reason where "ReasonProviderUnavailable \<equiv> 53"
abbreviation (input) ReasonProviderUnsupportedOperation :: reason where "ReasonProviderUnsupportedOperation \<equiv> 54"
abbreviation (input) ReasonProviderInvalidMaterial :: reason where "ReasonProviderInvalidMaterial \<equiv> 55"
abbreviation (input) ReasonCredentialScopeMismatch :: reason where "ReasonCredentialScopeMismatch \<equiv> 56"
abbreviation (input) ReasonCredentialPowerExceeded :: reason where "ReasonCredentialPowerExceeded \<equiv> 57"
abbreviation (input) ReasonCredentialExpired :: reason where "ReasonCredentialExpired \<equiv> 58"
abbreviation (input) ReasonCredentialRevoked :: reason where "ReasonCredentialRevoked \<equiv> 59"
abbreviation (input) ReasonCredentialVersionStale :: reason where "ReasonCredentialVersionStale \<equiv> 60"
abbreviation (input) ReasonCacheMiss :: reason where "ReasonCacheMiss \<equiv> 61"
abbreviation (input) ReasonCacheFull :: reason where "ReasonCacheFull \<equiv> 62"
abbreviation (input) ReasonCacheIntegrityFailure :: reason where "ReasonCacheIntegrityFailure \<equiv> 63"
abbreviation (input) ReasonRotationInProgress :: reason where "ReasonRotationInProgress \<equiv> 64"
abbreviation (input) ReasonRotationFailed :: reason where "ReasonRotationFailed \<equiv> 65"
abbreviation (input) ReasonRevocationFailed :: reason where "ReasonRevocationFailed \<equiv> 66"
abbreviation (input) ReasonMaterializationGateDenied :: reason where "ReasonMaterializationGateDenied \<equiv> 67"
abbreviation (input) ReasonMaterializationGateUnavailable :: reason where "ReasonMaterializationGateUnavailable \<equiv> 68"
abbreviation (input) ReasonMaterialAlreadyConsumed :: reason where "ReasonMaterialAlreadyConsumed \<equiv> 69"
abbreviation (input) ReasonCredentialKindUnsupported :: reason where "ReasonCredentialKindUnsupported \<equiv> 70"
abbreviation (input) ReasonListenerDisabled :: reason where "ReasonListenerDisabled \<equiv> 71"
abbreviation (input) ReasonHTTPMethodRejected :: reason where "ReasonHTTPMethodRejected \<equiv> 72"
abbreviation (input) ReasonHostRejected :: reason where "ReasonHostRejected \<equiv> 73"
abbreviation (input) ReasonOriginRejected :: reason where "ReasonOriginRejected \<equiv> 74"
abbreviation (input) ReasonAdmissionRejected :: reason where "ReasonAdmissionRejected \<equiv> 75"
abbreviation (input) ReasonObserveOnly :: reason where "ReasonObserveOnly \<equiv> 76"
abbreviation (input) ReasonTLSRequired :: reason where "ReasonTLSRequired \<equiv> 77"
abbreviation (input) ReasonListenerConfigInvalid :: reason where "ReasonListenerConfigInvalid \<equiv> 78"
abbreviation (input) ReasonRequestDeadlineExceeded :: reason where "ReasonRequestDeadlineExceeded \<equiv> 79"
abbreviation (input) ReasonPolicySnapshotInvalid :: reason where "ReasonPolicySnapshotInvalid \<equiv> 80"
abbreviation (input) ReasonPolicyRuleInvalid :: reason where "ReasonPolicyRuleInvalid \<equiv> 81"
abbreviation (input) ReasonPolicyConditionInvalid :: reason where "ReasonPolicyConditionInvalid \<equiv> 82"
abbreviation (input) ReasonPolicyObligationInvalid :: reason where "ReasonPolicyObligationInvalid \<equiv> 83"
abbreviation (input) ReasonPolicyInputInvalid :: reason where "ReasonPolicyInputInvalid \<equiv> 84"
abbreviation (input) ReasonPolicyNamespaceMismatch :: reason where "ReasonPolicyNamespaceMismatch \<equiv> 85"
abbreviation (input) ReasonPolicyStaleRevision :: reason where "ReasonPolicyStaleRevision \<equiv> 86"
abbreviation (input) ReasonPolicyLimitExceeded :: reason where "ReasonPolicyLimitExceeded \<equiv> 87"
abbreviation (input) ReasonSchemaInvalid :: reason where "ReasonSchemaInvalid \<equiv> 88"
abbreviation (input) ReasonSchemaUnsupported :: reason where "ReasonSchemaUnsupported \<equiv> 89"
abbreviation (input) ReasonSchemaLimitExceeded :: reason where "ReasonSchemaLimitExceeded \<equiv> 90"
abbreviation (input) ReasonOutputTooLarge :: reason where "ReasonOutputTooLarge \<equiv> 91"
abbreviation (input) ReasonOutputSchemaInvalid :: reason where "ReasonOutputSchemaInvalid \<equiv> 92"
abbreviation (input) ReasonSecretDetected :: reason where "ReasonSecretDetected \<equiv> 93"
abbreviation (input) ReasonPIIDetected :: reason where "ReasonPIIDetected \<equiv> 94"
abbreviation (input) ReasonRedactionFailed :: reason where "ReasonRedactionFailed \<equiv> 95"
abbreviation (input) ReasonDestinationMalformed :: reason where "ReasonDestinationMalformed \<equiv> 96"
abbreviation (input) ReasonDestinationSchemeRejected :: reason where "ReasonDestinationSchemeRejected \<equiv> 97"
abbreviation (input) ReasonSSRFBlocked :: reason where "ReasonSSRFBlocked \<equiv> 98"
abbreviation (input) ReasonDNSResolutionFailed :: reason where "ReasonDNSResolutionFailed \<equiv> 99"
abbreviation (input) ReasonDNSAnswerMixed :: reason where "ReasonDNSAnswerMixed \<equiv> 100"
abbreviation (input) ReasonDNSPinMismatch :: reason where "ReasonDNSPinMismatch \<equiv> 101"
abbreviation (input) ReasonRedirectRejected :: reason where "ReasonRedirectRejected \<equiv> 102"
abbreviation (input) ReasonRedirectLimitExceeded :: reason where "ReasonRedirectLimitExceeded \<equiv> 103"
abbreviation (input) ReasonInjectionSuspected :: reason where "ReasonInjectionSuspected \<equiv> 104"
abbreviation (input) ReasonInspectionUnavailable :: reason where "ReasonInspectionUnavailable \<equiv> 105"
abbreviation (input) ReasonInspectionLimitExceeded :: reason where "ReasonInspectionLimitExceeded \<equiv> 106"
abbreviation (input) ReasonEventInvalid :: reason where "ReasonEventInvalid \<equiv> 107"
abbreviation (input) ReasonEventSchemaVersion :: reason where "ReasonEventSchemaVersion \<equiv> 108"
abbreviation (input) ReasonEventPartitionMismatch :: reason where "ReasonEventPartitionMismatch \<equiv> 109"
abbreviation (input) ReasonEventTenantConflict :: reason where "ReasonEventTenantConflict \<equiv> 110"
abbreviation (input) ReasonEventSecretPresent :: reason where "ReasonEventSecretPresent \<equiv> 111"
abbreviation (input) ReasonEventEvidenceMissing :: reason where "ReasonEventEvidenceMissing \<equiv> 112"
abbreviation (input) ReasonEventTooLarge :: reason where "ReasonEventTooLarge \<equiv> 113"
abbreviation (input) ReasonEventCorrelationMalformed :: reason where "ReasonEventCorrelationMalformed \<equiv> 114"
abbreviation (input) ReasonEventReplayConflict :: reason where "ReasonEventReplayConflict \<equiv> 115"
abbreviation (input) ReasonEventQueueSaturated :: reason where "ReasonEventQueueSaturated \<equiv> 116"
abbreviation (input) ReasonEventCommitFailed :: reason where "ReasonEventCommitFailed \<equiv> 117"
abbreviation (input) ReasonEventEncryptionUnavailable :: reason where "ReasonEventEncryptionUnavailable \<equiv> 118"
abbreviation (input) ReasonEventEncryptionFailed :: reason where "ReasonEventEncryptionFailed \<equiv> 119"
abbreviation (input) ReasonEventStorageFull :: reason where "ReasonEventStorageFull \<equiv> 120"
abbreviation (input) ReasonEventSpoolCorrupt :: reason where "ReasonEventSpoolCorrupt \<equiv> 121"
abbreviation (input) ReasonEventDurabilityDegraded :: reason where "ReasonEventDurabilityDegraded \<equiv> 122"
abbreviation (input) ReasonEventDenialLaneDegraded :: reason where "ReasonEventDenialLaneDegraded \<equiv> 123"
abbreviation (input) ReasonEventReceiptInvalid :: reason where "ReasonEventReceiptInvalid \<equiv> 124"
abbreviation (input) ReasonEventExportUnauthorized :: reason where "ReasonEventExportUnauthorized \<equiv> 125"
abbreviation (input) ReasonEventExportRangeExceeded :: reason where "ReasonEventExportRangeExceeded \<equiv> 126"
abbreviation (input) ReasonAdminRequestInvalid :: reason where "ReasonAdminRequestInvalid \<equiv> 127"
abbreviation (input) ReasonAdminRangeExceeded :: reason where "ReasonAdminRangeExceeded \<equiv> 128"
abbreviation (input) ReasonAdminUnknownField :: reason where "ReasonAdminUnknownField \<equiv> 129"
abbreviation (input) ReasonAdminNotFound :: reason where "ReasonAdminNotFound \<equiv> 130"
abbreviation (input) ReasonAdminForbidden :: reason where "ReasonAdminForbidden \<equiv> 131"
abbreviation (input) ReasonAdminTenantScope :: reason where "ReasonAdminTenantScope \<equiv> 132"
abbreviation (input) ReasonApprovalNotFound :: reason where "ReasonApprovalNotFound \<equiv> 133"
abbreviation (input) ReasonApprovalSelfApproval :: reason where "ReasonApprovalSelfApproval \<equiv> 134"
abbreviation (input) ReasonApprovalExpired :: reason where "ReasonApprovalExpired \<equiv> 135"
abbreviation (input) ReasonApprovalStaleRevision :: reason where "ReasonApprovalStaleRevision \<equiv> 136"
abbreviation (input) ReasonApprovalTerminalState :: reason where "ReasonApprovalTerminalState \<equiv> 137"
abbreviation (input) ReasonApprovalBindingMismatch :: reason where "ReasonApprovalBindingMismatch \<equiv> 138"
abbreviation (input) ReasonPublicationValidationFailed :: reason where "ReasonPublicationValidationFailed \<equiv> 139"
abbreviation (input) ReasonPublicationStaleBase :: reason where "ReasonPublicationStaleBase \<equiv> 140"
abbreviation (input) ReasonPublicationNotApproved :: reason where "ReasonPublicationNotApproved \<equiv> 141"
abbreviation (input) ReasonPublicationDurabilityRequired :: reason where "ReasonPublicationDurabilityRequired \<equiv> 142"
abbreviation (input) ReasonManagementToolUnknown :: reason where "ReasonManagementToolUnknown \<equiv> 143"
abbreviation (input) ReasonManagementToolUnauthorized :: reason where "ReasonManagementToolUnauthorized \<equiv> 144"
abbreviation (input) ReasonManagementResultTooLarge :: reason where "ReasonManagementResultTooLarge \<equiv> 145"
abbreviation (input) ReasonConfigInvalid :: reason where "ReasonConfigInvalid \<equiv> 146"
abbreviation (input) ReasonConfigApplyFailed :: reason where "ReasonConfigApplyFailed \<equiv> 147"
abbreviation (input) ReasonSnapshotMalformed :: reason where "ReasonSnapshotMalformed \<equiv> 148"
abbreviation (input) ReasonSnapshotSchemaUnknown :: reason where "ReasonSnapshotSchemaUnknown \<equiv> 149"
abbreviation (input) ReasonSnapshotCapabilityMismatch :: reason where "ReasonSnapshotCapabilityMismatch \<equiv> 150"
abbreviation (input) ReasonSnapshotAlgUnknown :: reason where "ReasonSnapshotAlgUnknown \<equiv> 151"
abbreviation (input) ReasonSnapshotKeyUntrusted :: reason where "ReasonSnapshotKeyUntrusted \<equiv> 152"
abbreviation (input) ReasonSnapshotHashMismatch :: reason where "ReasonSnapshotHashMismatch \<equiv> 153"
abbreviation (input) ReasonSnapshotSignatureInvalid :: reason where "ReasonSnapshotSignatureInvalid \<equiv> 154"
abbreviation (input) ReasonSnapshotTooLarge :: reason where "ReasonSnapshotTooLarge \<equiv> 155"
abbreviation (input) ReasonSnapshotRevisionInvalid :: reason where "ReasonSnapshotRevisionInvalid \<equiv> 156"
abbreviation (input) ReasonSnapshotRevisionRegression :: reason where "ReasonSnapshotRevisionRegression \<equiv> 157"
abbreviation (input) ReasonSnapshotEpochStale :: reason where "ReasonSnapshotEpochStale \<equiv> 158"
abbreviation (input) ReasonSnapshotEpochInvalid :: reason where "ReasonSnapshotEpochInvalid \<equiv> 159"
abbreviation (input) ReasonSnapshotMinVersionUnmet :: reason where "ReasonSnapshotMinVersionUnmet \<equiv> 160"
abbreviation (input) ReasonSnapshotMinVersionMalformed :: reason where "ReasonSnapshotMinVersionMalformed \<equiv> 161"
abbreviation (input) ReasonSnapshotValidationFailed :: reason where "ReasonSnapshotValidationFailed \<equiv> 162"
abbreviation (input) ReasonSnapshotPersistFailed :: reason where "ReasonSnapshotPersistFailed \<equiv> 163"
abbreviation (input) ReasonSnapshotSignerUnavailable :: reason where "ReasonSnapshotSignerUnavailable \<equiv> 164"
abbreviation (input) ReasonDistributionWriteAuthority :: reason where "ReasonDistributionWriteAuthority \<equiv> 165"
abbreviation (input) ReasonAckInvalid :: reason where "ReasonAckInvalid \<equiv> 166"
abbreviation (input) ReasonAckUnauthenticated :: reason where "ReasonAckUnauthenticated \<equiv> 167"
abbreviation (input) ReasonRollbackTargetMissing :: reason where "ReasonRollbackTargetMissing \<equiv> 168"
abbreviation (input) ReasonRollbackTargetCorrupt :: reason where "ReasonRollbackTargetCorrupt \<equiv> 169"
abbreviation (input) ReasonRollbackDirectiveInvalid :: reason where "ReasonRollbackDirectiveInvalid \<equiv> 170"
abbreviation (input) ReasonRolloutModeInvalid :: reason where "ReasonRolloutModeInvalid \<equiv> 171"
abbreviation (input) ReasonRolloutTransitionInvalid :: reason where "ReasonRolloutTransitionInvalid \<equiv> 172"
abbreviation (input) ReasonRolloutProductionLocked :: reason where "ReasonRolloutProductionLocked \<equiv> 173"
abbreviation (input) ReasonRolloutQualificationInvalid :: reason where "ReasonRolloutQualificationInvalid \<equiv> 174"
abbreviation (input) ReasonRolloutScopeInvalid :: reason where "ReasonRolloutScopeInvalid \<equiv> 175"
abbreviation (input) ReasonRolloutScopeStaleBase :: reason where "ReasonRolloutScopeStaleBase \<equiv> 176"
abbreviation (input) ReasonRolloutConnectorModeRejected :: reason where "ReasonRolloutConnectorModeRejected \<equiv> 177"
abbreviation (input) ReasonRolloutEvidenceInsufficient :: reason where "ReasonRolloutEvidenceInsufficient \<equiv> 178"
abbreviation (input) ReasonRolloutEmergencyActive :: reason where "ReasonRolloutEmergencyActive \<equiv> 179"
abbreviation (input) ReasonRolloutOutOfScope :: reason where "ReasonRolloutOutOfScope \<equiv> 180"
abbreviation (input) ReasonExecutionNotPermitted :: reason where "ReasonExecutionNotPermitted \<equiv> 181"
abbreviation (input) ReasonConfirmationRequired :: reason where "ReasonConfirmationRequired \<equiv> 182"
abbreviation (input) ReasonApprovalRequired :: reason where "ReasonApprovalRequired \<equiv> 183"
abbreviation (input) ReasonObligationReceiptInvalid :: reason where "ReasonObligationReceiptInvalid \<equiv> 184"
abbreviation (input) ReasonAllowanceConsumed :: reason where "ReasonAllowanceConsumed \<equiv> 185"
abbreviation (input) ReasonAllowanceInvalid :: reason where "ReasonAllowanceInvalid \<equiv> 186"
abbreviation (input) ReasonUpstreamEndpointInvalid :: reason where "ReasonUpstreamEndpointInvalid \<equiv> 187"
abbreviation (input) ReasonUpstreamServerUnusable :: reason where "ReasonUpstreamServerUnusable \<equiv> 188"
abbreviation (input) ReasonUpstreamVersionUnsupported :: reason where "ReasonUpstreamVersionUnsupported \<equiv> 189"
abbreviation (input) ReasonUpstreamTransportRejected :: reason where "ReasonUpstreamTransportRejected \<equiv> 190"
abbreviation (input) ReasonUpstreamResponseInvalid :: reason where "ReasonUpstreamResponseInvalid \<equiv> 191"
abbreviation (input) ReasonUpstreamResponseTooLarge :: reason where "ReasonUpstreamResponseTooLarge \<equiv> 192"
abbreviation (input) ReasonUpstreamConnectFailed :: reason where "ReasonUpstreamConnectFailed \<equiv> 193"
abbreviation (input) ReasonUpstreamTLSIdentity :: reason where "ReasonUpstreamTLSIdentity \<equiv> 194"
abbreviation (input) ReasonUpstreamTimeout :: reason where "ReasonUpstreamTimeout \<equiv> 195"
abbreviation (input) ReasonUpstreamPoolExhausted :: reason where "ReasonUpstreamPoolExhausted \<equiv> 196"
abbreviation (input) ReasonUpstreamCancelled :: reason where "ReasonUpstreamCancelled \<equiv> 197"
abbreviation (input) ReasonUpstreamRetryDenied :: reason where "ReasonUpstreamRetryDenied \<equiv> 198"
abbreviation (input) ReasonUpstreamCallFailed :: reason where "ReasonUpstreamCallFailed \<equiv> 199"
abbreviation (input) ReasonUpstreamDiscoveryFailed :: reason where "ReasonUpstreamDiscoveryFailed \<equiv> 200"
abbreviation (input) ReasonAmbiguousRequestHeader :: reason where "ReasonAmbiguousRequestHeader \<equiv> 201"
abbreviation (input) ReasonDecisionSnapshotStale :: reason where "ReasonDecisionSnapshotStale \<equiv> 202"
abbreviation (input) ReasonToolNotApprovable :: reason where "ReasonToolNotApprovable \<equiv> 203"
abbreviation (input) ReasonToolApprovalStale :: reason where "ReasonToolApprovalStale \<equiv> 204"
abbreviation (input) ReasonToolFingerprintMismatch :: reason where "ReasonToolFingerprintMismatch \<equiv> 205"
abbreviation (input) ReasonServerNotUsable :: reason where "ReasonServerNotUsable \<equiv> 206"
abbreviation (input) ReasonToolNotFound :: reason where "ReasonToolNotFound \<equiv> 207"
abbreviation (input) ReasonApprovalRevoked :: reason where "ReasonApprovalRevoked \<equiv> 208"
abbreviation (input) ReasonApprovalTenantConflict :: reason where "ReasonApprovalTenantConflict \<equiv> 209"
abbreviation (input) ReasonApprovalPurposeUnsupported :: reason where "ReasonApprovalPurposeUnsupported \<equiv> 210"
abbreviation (input) ReasonApprovalNotAuthorized :: reason where "ReasonApprovalNotAuthorized \<equiv> 211"
abbreviation (input) ReasonApprovalStoreUnavailable :: reason where "ReasonApprovalStoreUnavailable \<equiv> 212"
abbreviation (input) ReasonRolloutBudgetExhausted :: reason where "ReasonRolloutBudgetExhausted \<equiv> 213"
abbreviation (input) ReasonLiveTrustRevalidationFailed :: reason where "ReasonLiveTrustRevalidationFailed \<equiv> 214"

section \<open>Stable codes\<close>

definition reasonCode :: "(reason \<times> string) list" where
  "reasonCode = [
     (ReasonNone, ''none''),
     (ReasonMalformedJSON, ''malformed_json''),
     (ReasonInvalidJSONRPC, ''invalid_jsonrpc''),
     (ReasonUnsupportedBatch, ''unsupported_batch''),
     (ReasonUnsupportedVersion, ''unsupported_version''),
     (ReasonUnsupportedMethod, ''unsupported_method''),
     (ReasonResourceLimit, ''resource_limit''),
     (ReasonInvalidLifecycle, ''invalid_lifecycle''),
     (ReasonUncorrelatedResponse, ''uncorrelated_response''),
     (ReasonDuplicateCompletion, ''duplicate_completion''),
     (ReasonInvalidCancellation, ''invalid_cancellation''),
     (ReasonLateCancellation, ''late_cancellation''),
     (ReasonInvalidRegistration, ''invalid_registration''),
     (ReasonUnregisteredServer, ''unregistered_server''),
     (ReasonServerIdentityMismatch, ''server_identity_mismatch''),
     (ReasonMalformedDiscovery, ''malformed_discovery''),
     (ReasonDuplicateTool, ''duplicate_tool''),
     (ReasonCanonicalizationFailed, ''canonicalization_failed''),
     (ReasonCapacityExceeded, ''capacity_exceeded''),
     (ReasonUnknownTool, ''unknown_tool''),
     (ReasonPrivilegeExpansion, ''privilege_expansion''),
     (ReasonSemanticDrift, ''semantic_drift''),
     (ReasonStaleSnapshot, ''stale_snapshot''),
     (ReasonCredentialMissing, ''credential_missing''),
     (ReasonCredentialInQuery, ''credential_in_query''),
     (ReasonMalformedToken, ''malformed_token''),
     (ReasonUnsupportedTokenType, ''unsupported_token_type''),
     (ReasonUnsupportedAlgorithm, ''unsupported_algorithm''),
     (ReasonSignatureInvalid, ''signature_invalid''),
     (ReasonIssuerRejected, ''issuer_rejected''),
     (ReasonAudienceMissing, ''audience_missing''),
     (ReasonAudienceRejected, ''audience_rejected''),
     (ReasonResourceMismatch, ''resource_mismatch''),
     (ReasonTokenExpired, ''token_expired''),
     (ReasonTokenNotYetValid, ''token_not_yet_valid''),
     (ReasonTokenTTLExceeded, ''token_ttl_exceeded''),
     (ReasonScopeMissing, ''scope_missing''),
     (ReasonCapabilityMismatch, ''capability_mismatch''),
     (ReasonTenantMismatch, ''tenant_mismatch''),
     (ReasonDelegationChainInvalid, ''delegation_chain_invalid''),
     (ReasonSenderConstraintRequired, ''sender_constraint_required''),
     (ReasonDPoPMalformed, ''dpop_malformed''),
     (ReasonDPoPBindingMismatch, ''dpop_binding_mismatch''),
     (ReasonDPoPReplay, ''dpop_replay''),
     (ReasonDPoPNonce, ''dpop_nonce''),
     (ReasonMTLSBindingMismatch, ''mtls_binding_mismatch''),
     (ReasonInactiveToken, ''inactive_token''),
     (ReasonSessionIdentityBound, ''session_identity_bound''),
     (ReasonSessionIdentityRebind, ''session_identity_rebind''),
     (ReasonRegistryServerUnavailable, ''registry_server_unavailable''),
     (ReasonCredentialProfileMissing, ''credential_profile_missing''),
     (ReasonCredentialProfileDisabled, ''credential_profile_disabled''),
     (ReasonCredentialProfileAmbiguous, ''credential_profile_ambiguous''),
     (ReasonProviderUnavailable, ''provider_unavailable''),
     (ReasonProviderUnsupportedOperation, ''provider_unsupported_operation''),
     (ReasonProviderInvalidMaterial, ''provider_invalid_material''),
     (ReasonCredentialScopeMismatch, ''credential_scope_mismatch''),
     (ReasonCredentialPowerExceeded, ''credential_power_exceeded''),
     (ReasonCredentialExpired, ''credential_expired''),
     (ReasonCredentialRevoked, ''credential_revoked''),
     (ReasonCredentialVersionStale, ''credential_version_stale''),
     (ReasonCacheMiss, ''cache_miss''),
     (ReasonCacheFull, ''cache_full''),
     (ReasonCacheIntegrityFailure, ''cache_integrity_failure''),
     (ReasonRotationInProgress, ''rotation_in_progress''),
     (ReasonRotationFailed, ''rotation_failed''),
     (ReasonRevocationFailed, ''revocation_failed''),
     (ReasonMaterializationGateDenied, ''materialization_gate_denied''),
     (ReasonMaterializationGateUnavailable, ''materialization_gate_unavailable''),
     (ReasonMaterialAlreadyConsumed, ''material_already_consumed''),
     (ReasonCredentialKindUnsupported, ''credential_kind_unsupported''),
     (ReasonListenerDisabled, ''listener_disabled''),
     (ReasonHTTPMethodRejected, ''http_method_rejected''),
     (ReasonHostRejected, ''host_rejected''),
     (ReasonOriginRejected, ''origin_rejected''),
     (ReasonAdmissionRejected, ''admission_rejected''),
     (ReasonObserveOnly, ''observe_only''),
     (ReasonTLSRequired, ''tls_required''),
     (ReasonListenerConfigInvalid, ''listener_config_invalid''),
     (ReasonRequestDeadlineExceeded, ''request_deadline_exceeded''),
     (ReasonPolicySnapshotInvalid, ''policy_snapshot_invalid''),
     (ReasonPolicyRuleInvalid, ''policy_rule_invalid''),
     (ReasonPolicyConditionInvalid, ''policy_condition_invalid''),
     (ReasonPolicyObligationInvalid, ''policy_obligation_invalid''),
     (ReasonPolicyInputInvalid, ''policy_input_invalid''),
     (ReasonPolicyNamespaceMismatch, ''policy_namespace_mismatch''),
     (ReasonPolicyStaleRevision, ''policy_stale_revision''),
     (ReasonPolicyLimitExceeded, ''policy_limit_exceeded''),
     (ReasonSchemaInvalid, ''schema_invalid''),
     (ReasonSchemaUnsupported, ''schema_unsupported''),
     (ReasonSchemaLimitExceeded, ''schema_limit_exceeded''),
     (ReasonOutputTooLarge, ''output_too_large''),
     (ReasonOutputSchemaInvalid, ''output_schema_invalid''),
     (ReasonSecretDetected, ''secret_detected''),
     (ReasonPIIDetected, ''pii_detected''),
     (ReasonRedactionFailed, ''redaction_failed''),
     (ReasonDestinationMalformed, ''destination_malformed''),
     (ReasonDestinationSchemeRejected, ''destination_scheme_rejected''),
     (ReasonSSRFBlocked, ''ssrf_blocked''),
     (ReasonDNSResolutionFailed, ''dns_resolution_failed''),
     (ReasonDNSAnswerMixed, ''dns_answer_mixed''),
     (ReasonDNSPinMismatch, ''dns_pin_mismatch''),
     (ReasonRedirectRejected, ''redirect_rejected''),
     (ReasonRedirectLimitExceeded, ''redirect_limit_exceeded''),
     (ReasonInjectionSuspected, ''injection_suspected''),
     (ReasonInspectionUnavailable, ''inspection_unavailable''),
     (ReasonInspectionLimitExceeded, ''inspection_limit_exceeded''),
     (ReasonEventInvalid, ''event_invalid''),
     (ReasonEventSchemaVersion, ''event_schema_version''),
     (ReasonEventPartitionMismatch, ''event_partition_mismatch''),
     (ReasonEventTenantConflict, ''event_tenant_conflict''),
     (ReasonEventSecretPresent, ''event_secret_present''),
     (ReasonEventEvidenceMissing, ''event_evidence_missing''),
     (ReasonEventTooLarge, ''event_too_large''),
     (ReasonEventCorrelationMalformed, ''event_correlation_malformed''),
     (ReasonEventReplayConflict, ''event_replay_conflict''),
     (ReasonEventQueueSaturated, ''event_queue_saturated''),
     (ReasonEventCommitFailed, ''event_commit_failed''),
     (ReasonEventEncryptionUnavailable, ''event_encryption_unavailable''),
     (ReasonEventEncryptionFailed, ''event_encryption_failed''),
     (ReasonEventStorageFull, ''event_storage_full''),
     (ReasonEventSpoolCorrupt, ''event_spool_corrupt''),
     (ReasonEventDurabilityDegraded, ''event_durability_degraded''),
     (ReasonEventDenialLaneDegraded, ''event_denial_lane_degraded''),
     (ReasonEventReceiptInvalid, ''event_receipt_invalid''),
     (ReasonEventExportUnauthorized, ''event_export_unauthorized''),
     (ReasonEventExportRangeExceeded, ''event_export_range_exceeded''),
     (ReasonAdminRequestInvalid, ''admin_request_invalid''),
     (ReasonAdminRangeExceeded, ''admin_range_exceeded''),
     (ReasonAdminUnknownField, ''admin_unknown_field''),
     (ReasonAdminNotFound, ''admin_not_found''),
     (ReasonAdminForbidden, ''admin_forbidden''),
     (ReasonAdminTenantScope, ''admin_tenant_scope''),
     (ReasonApprovalNotFound, ''approval_not_found''),
     (ReasonApprovalSelfApproval, ''approval_self_approval''),
     (ReasonApprovalExpired, ''approval_expired''),
     (ReasonApprovalStaleRevision, ''approval_stale_revision''),
     (ReasonApprovalTerminalState, ''approval_terminal_state''),
     (ReasonApprovalBindingMismatch, ''approval_binding_mismatch''),
     (ReasonPublicationValidationFailed, ''publication_validation_failed''),
     (ReasonPublicationStaleBase, ''publication_stale_base''),
     (ReasonPublicationNotApproved, ''publication_not_approved''),
     (ReasonPublicationDurabilityRequired, ''publication_durability_required''),
     (ReasonManagementToolUnknown, ''management_tool_unknown''),
     (ReasonManagementToolUnauthorized, ''management_tool_unauthorized''),
     (ReasonManagementResultTooLarge, ''management_result_too_large''),
     (ReasonConfigInvalid, ''config_invalid''),
     (ReasonConfigApplyFailed, ''config_apply_failed''),
     (ReasonSnapshotMalformed, ''snapshot_malformed''),
     (ReasonSnapshotSchemaUnknown, ''snapshot_schema_unknown''),
     (ReasonSnapshotCapabilityMismatch, ''snapshot_capability_mismatch''),
     (ReasonSnapshotAlgUnknown, ''snapshot_alg_unknown''),
     (ReasonSnapshotKeyUntrusted, ''snapshot_key_untrusted''),
     (ReasonSnapshotHashMismatch, ''snapshot_hash_mismatch''),
     (ReasonSnapshotSignatureInvalid, ''snapshot_signature_invalid''),
     (ReasonSnapshotTooLarge, ''snapshot_too_large''),
     (ReasonSnapshotRevisionInvalid, ''snapshot_revision_invalid''),
     (ReasonSnapshotRevisionRegression, ''snapshot_revision_regression''),
     (ReasonSnapshotEpochStale, ''snapshot_epoch_stale''),
     (ReasonSnapshotEpochInvalid, ''snapshot_epoch_invalid''),
     (ReasonSnapshotMinVersionUnmet, ''snapshot_min_version_unmet''),
     (ReasonSnapshotMinVersionMalformed, ''snapshot_min_version_malformed''),
     (ReasonSnapshotValidationFailed, ''snapshot_validation_failed''),
     (ReasonSnapshotPersistFailed, ''snapshot_persist_failed''),
     (ReasonSnapshotSignerUnavailable, ''snapshot_signer_unavailable''),
     (ReasonDistributionWriteAuthority, ''distribution_write_authority''),
     (ReasonAckInvalid, ''ack_invalid''),
     (ReasonAckUnauthenticated, ''ack_unauthenticated''),
     (ReasonRollbackTargetMissing, ''rollback_target_missing''),
     (ReasonRollbackTargetCorrupt, ''rollback_target_corrupt''),
     (ReasonRollbackDirectiveInvalid, ''rollback_directive_invalid''),
     (ReasonRolloutModeInvalid, ''rollout_mode_invalid''),
     (ReasonRolloutTransitionInvalid, ''rollout_transition_invalid''),
     (ReasonRolloutProductionLocked, ''rollout_production_locked''),
     (ReasonRolloutQualificationInvalid, ''rollout_qualification_invalid''),
     (ReasonRolloutScopeInvalid, ''rollout_scope_invalid''),
     (ReasonRolloutScopeStaleBase, ''rollout_scope_stale_base''),
     (ReasonRolloutConnectorModeRejected, ''rollout_connector_mode_rejected''),
     (ReasonRolloutEvidenceInsufficient, ''rollout_evidence_insufficient''),
     (ReasonRolloutEmergencyActive, ''rollout_emergency_active''),
     (ReasonRolloutOutOfScope, ''rollout_out_of_scope''),
     (ReasonExecutionNotPermitted, ''execution_not_permitted''),
     (ReasonConfirmationRequired, ''confirmation_required''),
     (ReasonApprovalRequired, ''approval_required''),
     (ReasonObligationReceiptInvalid, ''obligation_receipt_invalid''),
     (ReasonAllowanceConsumed, ''allowance_consumed''),
     (ReasonAllowanceInvalid, ''allowance_invalid''),
     (ReasonUpstreamEndpointInvalid, ''upstream_endpoint_invalid''),
     (ReasonUpstreamServerUnusable, ''upstream_server_unusable''),
     (ReasonUpstreamVersionUnsupported, ''upstream_version_unsupported''),
     (ReasonUpstreamTransportRejected, ''upstream_transport_rejected''),
     (ReasonUpstreamResponseInvalid, ''upstream_response_invalid''),
     (ReasonUpstreamResponseTooLarge, ''upstream_response_too_large''),
     (ReasonUpstreamConnectFailed, ''upstream_connect_failed''),
     (ReasonUpstreamTLSIdentity, ''upstream_tls_identity''),
     (ReasonUpstreamTimeout, ''upstream_timeout''),
     (ReasonUpstreamPoolExhausted, ''upstream_pool_exhausted''),
     (ReasonUpstreamCancelled, ''upstream_cancelled''),
     (ReasonUpstreamRetryDenied, ''upstream_retry_denied''),
     (ReasonUpstreamCallFailed, ''upstream_call_failed''),
     (ReasonUpstreamDiscoveryFailed, ''upstream_discovery_failed''),
     (ReasonAmbiguousRequestHeader, ''ambiguous_request_header''),
     (ReasonDecisionSnapshotStale, ''decision_snapshot_stale''),
     (ReasonToolNotApprovable, ''tool_not_approvable''),
     (ReasonToolApprovalStale, ''tool_approval_stale''),
     (ReasonToolFingerprintMismatch, ''tool_fingerprint_mismatch''),
     (ReasonServerNotUsable, ''server_not_usable''),
     (ReasonToolNotFound, ''tool_not_found''),
     (ReasonApprovalRevoked, ''approval_revoked''),
     (ReasonApprovalTenantConflict, ''approval_tenant_conflict''),
     (ReasonApprovalPurposeUnsupported, ''approval_purpose_unsupported''),
     (ReasonApprovalNotAuthorized, ''approval_not_authorized''),
     (ReasonApprovalStoreUnavailable, ''approval_store_unavailable''),
     (ReasonRolloutBudgetExhausted, ''rollout_budget_exhausted''),
     (ReasonLiveTrustRevalidationFailed, ''live_trust_revalidation_failed'')]"

definition Code :: "reason \<Rightarrow> string" where
  "Code r = (case map_of reasonCode r of
     Some s \<Rightarrow> s
   | None \<Rightarrow> ''unknown('' @ Itoa r @ '')'')"

section \<open>Errors\<close>

datatype go_error =
    MErr (err_reason: reason) (err_op: string) (err_detail: string) (err_wrapped: "go_error option")
  | WrapErr "go_error option"
  | JoinErr "go_error list"
  | PlainErr string

definition New :: "reason \<Rightarrow> string \<Rightarrow> string \<Rightarrow> go_error" where
  "New r op detail = MErr r op detail None"

definition Wrap :: "reason \<Rightarrow> string \<Rightarrow> string \<Rightarrow> go_error option \<Rightarrow> go_error" where
  "Wrap r op detail cause = MErr r op detail cause"

definition ErrorText :: "reason \<Rightarrow> string \<Rightarrow> string \<Rightarrow> string" where
  "ErrorText r op detail =
     ''mcp: '' @ (if op \<noteq> [] then op @ '': '' else []) @ Code r
       @ (if detail \<noteq> [] then '': '' @ detail else [])"

fun ReasonOf :: "go_error \<Rightarrow> reason"
and ReasonOfBranches :: "go_error list \<Rightarrow> reason" where
  "ReasonOf (MErr r op detail w) = r"
| "ReasonOf (WrapErr None) = ReasonNone"
| "ReasonOf (WrapErr (Some e)) = ReasonOf e"
| "ReasonOf (JoinErr es) = ReasonOfBranches es"
| "ReasonOf (PlainErr s) = ReasonNone"
| "ReasonOfBranches [] = ReasonNone"
| "ReasonOfBranches (e # es) =
     (let r = ReasonOf e in if r \<noteq> ReasonNone then r else ReasonOfBranches es)"

type_synonym 'a res = "go_error + 'a"

section \<open>Sanitizing hostile tokens\<close>

definition sanitize_byte :: "char \<Rightarrow> char" where
  "sanitize_byte c =
     (let b = (of_char c :: nat) in
      if b < 0x20 \<or> b > 0x7E \<or> b = 0x5C \<or> b = 0x22 then CHR ''.'' else c)"

definition Sanitize :: "string \<Rightarrow> int \<Rightarrow> string" where
  "Sanitize s maxLen0 =
     (let maxLen = (if maxLen0 \<le> 0 then 64 else nat maxLen0);
          truncated = length s > maxLen;
          s' = (if truncated then take maxLen s else s)
      in map sanitize_byte s' @ (if truncated then ''~'' else []))"

section \<open>Lemmas\<close>

lemma ReasonOf_New [simp]: "ReasonOf (New r op detail) = r"
  by (simp add: New_def)

lemma New_inject [simp]: "New r op d = New r' op' d' \<longleftrightarrow> r = r' \<and> op = op' \<and> d = d'"
  by (simp add: New_def)

text \<open>A multi-error tree yields the reason of its first branch that has one.\<close>

lemma ReasonOfBranches_eq:
  "ReasonOfBranches es =
     (case filter (\<lambda>r. r \<noteq> ReasonNone) (map ReasonOf es) of [] \<Rightarrow> ReasonNone | r # _ \<Rightarrow> r)"
  by (induction es) (auto simp: Let_def)

lemma of_char_sanitize_byte:
  "0x20 \<le> (of_char (sanitize_byte c) :: nat) \<and> (of_char (sanitize_byte c) :: nat) \<le> 0x7E"
  by (simp add: sanitize_byte_def Let_def)

lemma sanitize_byte_safe: "sanitize_byte c \<noteq> CHR 0x5C" "sanitize_byte c \<noteq> CHR 0x22"
  by (auto simp: sanitize_byte_def Let_def)

lemma length_Sanitize:
  "0 < n \<Longrightarrow> length (Sanitize s n) = (if length s > nat n then Suc (nat n) else length s)"
  by (simp add: Sanitize_def Let_def)

lemma Sanitize_printable:
  assumes "c \<in> set (Sanitize s n)"
  shows "0x20 \<le> (of_char c :: nat) \<and> (of_char c :: nat) \<le> 0x7E \<and> c \<noteq> CHR 0x5C \<and> c \<noteq> CHR 0x22"
proof -
  from assms have "c \<in> range sanitize_byte \<or> c = CHR ''~''"
    by (auto simp: Sanitize_def Let_def split: if_splits)
  then show ?thesis
    using of_char_sanitize_byte sanitize_byte_safe by auto
qed

end
