(* ===== verification/PolicyEnums.thy ===== *)
theory PolicyEnums
  imports Mcperr
begin

text \<open>
  The closed enumerations of the policy engine
  (\<open>internal/mcp/policy/enums.go\<close>, \<open>action.go\<close>). Each Go type is a
  \<open>uint8\<close>; the constructors carry the source's constant names in \<open>iota\<close> order
  and one further constructor, \<open>XRaw k\<close>, stands for the values past the last constant
  (raw value: number of constants plus \<open>k\<close>), because a decision tuple may carry such a
  value and the code decides what to do with it. \<open>X_raw\<close> is the numeric value, which the
  comparisons of the source use; \<open>X_String\<close> is the \<open>String\<close> method.
\<close>

section \<open>Input enumerations\<close>

datatype capability =
    CapabilityUnset
  | CapGateway
  | CapManagement
  | CapabilityRaw nat

fun Capability_String :: "capability \<Rightarrow> string" where
  "Capability_String CapGateway = ''gateway''"
| "Capability_String CapManagement = ''management''"
| "Capability_String _ = ''unset''"

fun Capability_raw :: "capability \<Rightarrow> nat" where
  "Capability_raw CapabilityUnset = 0"
| "Capability_raw CapGateway = 1"
| "Capability_raw CapManagement = 2"
| "Capability_raw (CapabilityRaw k) = 3 + k"

datatype operation_class =
    OpUnset
  | OpRead
  | OpWrite
  | OpDestructive
  | OpDiscovery
  | OpControl
  | OperationClassRaw nat

fun OperationClass_String :: "operation_class \<Rightarrow> string" where
  "OperationClass_String OpRead = ''read''"
| "OperationClass_String OpWrite = ''write''"
| "OperationClass_String OpDestructive = ''destructive''"
| "OperationClass_String OpDiscovery = ''discovery''"
| "OperationClass_String OpControl = ''control''"
| "OperationClass_String _ = ''unset''"

fun OperationClass_raw :: "operation_class \<Rightarrow> nat" where
  "OperationClass_raw OpUnset = 0"
| "OperationClass_raw OpRead = 1"
| "OperationClass_raw OpWrite = 2"
| "OperationClass_raw OpDestructive = 3"
| "OperationClass_raw OpDiscovery = 4"
| "OperationClass_raw OpControl = 5"
| "OperationClass_raw (OperationClassRaw k) = 6 + k"

datatype operation_namespace =
    NamespaceUnset
  | NamespaceGatewayTool
  | NamespaceManagementOperation
  | OperationNamespaceRaw nat

fun OperationNamespace_String :: "operation_namespace \<Rightarrow> string" where
  "OperationNamespace_String NamespaceGatewayTool = ''gateway_tool''"
| "OperationNamespace_String NamespaceManagementOperation = ''management_operation''"
| "OperationNamespace_String _ = ''unset''"

fun OperationNamespace_raw :: "operation_namespace \<Rightarrow> nat" where
  "OperationNamespace_raw NamespaceUnset = 0"
| "OperationNamespace_raw NamespaceGatewayTool = 1"
| "OperationNamespace_raw NamespaceManagementOperation = 2"
| "OperationNamespace_raw (OperationNamespaceRaw k) = 3 + k"

datatype subject_kind =
    SubjectUnset
  | SubjectHuman
  | SubjectWorkload
  | SubjectKindRaw nat

fun SubjectKind_String :: "subject_kind \<Rightarrow> string" where
  "SubjectKind_String SubjectHuman = ''human''"
| "SubjectKind_String SubjectWorkload = ''workload''"
| "SubjectKind_String _ = ''unset''"

fun SubjectKind_raw :: "subject_kind \<Rightarrow> nat" where
  "SubjectKind_raw SubjectUnset = 0"
| "SubjectKind_raw SubjectHuman = 1"
| "SubjectKind_raw SubjectWorkload = 2"
| "SubjectKind_raw (SubjectKindRaw k) = 3 + k"

datatype assurance =
    AssuranceUnknown
  | AssuranceLow
  | AssuranceMedium
  | AssuranceHigh
  | AssuranceRaw nat

fun Assurance_String :: "assurance \<Rightarrow> string" where
  "Assurance_String AssuranceLow = ''low''"
| "Assurance_String AssuranceMedium = ''medium''"
| "Assurance_String AssuranceHigh = ''high''"
| "Assurance_String _ = ''unknown''"

fun Assurance_raw :: "assurance \<Rightarrow> nat" where
  "Assurance_raw AssuranceUnknown = 0"
| "Assurance_raw AssuranceLow = 1"
| "Assurance_raw AssuranceMedium = 2"
| "Assurance_raw AssuranceHigh = 3"
| "Assurance_raw (AssuranceRaw k) = 4 + k"

datatype disposition =
    DispUnset
  | DispQuarantined
  | DispReviewRequired
  | DispPendingNarrowing
  | DispServerDisabled
  | DispUsable
  | DispositionRaw nat

fun Disposition_String :: "disposition \<Rightarrow> string" where
  "Disposition_String DispQuarantined = ''quarantined''"
| "Disposition_String DispReviewRequired = ''review_required''"
| "Disposition_String DispPendingNarrowing = ''pending_narrowing''"
| "Disposition_String DispServerDisabled = ''server_disabled''"
| "Disposition_String DispUsable = ''usable''"
| "Disposition_String _ = ''unset''"

fun Disposition_raw :: "disposition \<Rightarrow> nat" where
  "Disposition_raw DispUnset = 0"
| "Disposition_raw DispQuarantined = 1"
| "Disposition_raw DispReviewRequired = 2"
| "Disposition_raw DispPendingNarrowing = 3"
| "Disposition_raw DispServerDisabled = 4"
| "Disposition_raw DispUsable = 5"
| "Disposition_raw (DispositionRaw k) = 6 + k"

datatype drift_class =
    DriftUnset
  | DriftNoMaterialChange
  | DriftSafeNarrowing
  | DriftPrivilegeExpansion
  | DriftSemanticDrift
  | DriftIdentityChange
  | DriftUnknownTool
  | DriftClassRaw nat

fun DriftClass_String :: "drift_class \<Rightarrow> string" where
  "DriftClass_String DriftNoMaterialChange = ''no_material_change''"
| "DriftClass_String DriftSafeNarrowing = ''safe_narrowing''"
| "DriftClass_String DriftPrivilegeExpansion = ''privilege_expansion''"
| "DriftClass_String DriftSemanticDrift = ''semantic_drift''"
| "DriftClass_String DriftIdentityChange = ''identity_change''"
| "DriftClass_String DriftUnknownTool = ''unknown_tool''"
| "DriftClass_String _ = ''unset''"

fun DriftClass_raw :: "drift_class \<Rightarrow> nat" where
  "DriftClass_raw DriftUnset = 0"
| "DriftClass_raw DriftNoMaterialChange = 1"
| "DriftClass_raw DriftSafeNarrowing = 2"
| "DriftClass_raw DriftPrivilegeExpansion = 3"
| "DriftClass_raw DriftSemanticDrift = 4"
| "DriftClass_raw DriftIdentityChange = 5"
| "DriftClass_raw DriftUnknownTool = 6"
| "DriftClass_raw (DriftClassRaw k) = 7 + k"

datatype destination =
    DestinationUnknown
  | DestinationNone
  | DestinationApproved
  | DestinationInternal
  | DestinationArbitrary
  | DestinationRaw nat

fun Destination_String :: "destination \<Rightarrow> string" where
  "Destination_String DestinationNone = ''none''"
| "Destination_String DestinationApproved = ''approved''"
| "Destination_String DestinationInternal = ''internal''"
| "Destination_String DestinationArbitrary = ''arbitrary''"
| "Destination_String _ = ''unknown''"

fun Destination_raw :: "destination \<Rightarrow> nat" where
  "Destination_raw DestinationUnknown = 0"
| "Destination_raw DestinationNone = 1"
| "Destination_raw DestinationApproved = 2"
| "Destination_raw DestinationInternal = 3"
| "Destination_raw DestinationArbitrary = 4"
| "Destination_raw (DestinationRaw k) = 5 + k"

datatype credential_power =
    PowerUnset
  | PowerReadOnly
  | PowerWrite
  | PowerAdmin
  | CredentialPowerRaw nat

fun CredentialPower_String :: "credential_power \<Rightarrow> string" where
  "CredentialPower_String PowerReadOnly = ''read_only''"
| "CredentialPower_String PowerWrite = ''write''"
| "CredentialPower_String PowerAdmin = ''admin''"
| "CredentialPower_String _ = ''unset''"

fun CredentialPower_raw :: "credential_power \<Rightarrow> nat" where
  "CredentialPower_raw PowerUnset = 0"
| "CredentialPower_raw PowerReadOnly = 1"
| "CredentialPower_raw PowerWrite = 2"
| "CredentialPower_raw PowerAdmin = 3"
| "CredentialPower_raw (CredentialPowerRaw k) = 4 + k"

datatype reversibility =
    ReversibilityUnset
  | Reversible
  | Irreversible
  | ReversibilityRaw nat

fun Reversibility_String :: "reversibility \<Rightarrow> string" where
  "Reversibility_String Reversible = ''reversible''"
| "Reversibility_String Irreversible = ''irreversible''"
| "Reversibility_String _ = ''unset''"

fun Reversibility_raw :: "reversibility \<Rightarrow> nat" where
  "Reversibility_raw ReversibilityUnset = 0"
| "Reversibility_raw Reversible = 1"
| "Reversibility_raw Irreversible = 2"
| "Reversibility_raw (ReversibilityRaw k) = 3 + k"

datatype trust_class =
    TrustUnknown
  | TrustUntrusted
  | TrustLow
  | TrustHigh
  | TrustClassRaw nat

fun TrustClass_String :: "trust_class \<Rightarrow> string" where
  "TrustClass_String TrustUntrusted = ''untrusted''"
| "TrustClass_String TrustLow = ''low''"
| "TrustClass_String TrustHigh = ''high''"
| "TrustClass_String _ = ''unknown''"

fun TrustClass_raw :: "trust_class \<Rightarrow> nat" where
  "TrustClass_raw TrustUnknown = 0"
| "TrustClass_raw TrustUntrusted = 1"
| "TrustClass_raw TrustLow = 2"
| "TrustClass_raw TrustHigh = 3"
| "TrustClass_raw (TrustClassRaw k) = 4 + k"

datatype managed_state =
    ManagedUnknown
  | Managed
  | Unmanaged
  | ManagedStateRaw nat

fun ManagedState_String :: "managed_state \<Rightarrow> string" where
  "ManagedState_String Managed = ''managed''"
| "ManagedState_String Unmanaged = ''unmanaged''"
| "ManagedState_String _ = ''unknown''"

fun ManagedState_raw :: "managed_state \<Rightarrow> nat" where
  "ManagedState_raw ManagedUnknown = 0"
| "ManagedState_raw Managed = 1"
| "ManagedState_raw Unmanaged = 2"
| "ManagedState_raw (ManagedStateRaw k) = 3 + k"

datatype server_verification =
    ServerVerifyUnset
  | ServerVerified
  | ServerIdentityMismatch
  | ServerVerificationRaw nat

fun ServerVerification_String :: "server_verification \<Rightarrow> string" where
  "ServerVerification_String ServerVerified = ''verified''"
| "ServerVerification_String ServerIdentityMismatch = ''identity_mismatch''"
| "ServerVerification_String _ = ''unset''"

fun ServerVerification_raw :: "server_verification \<Rightarrow> nat" where
  "ServerVerification_raw ServerVerifyUnset = 0"
| "ServerVerification_raw ServerVerified = 1"
| "ServerVerification_raw ServerIdentityMismatch = 2"
| "ServerVerification_raw (ServerVerificationRaw k) = 3 + k"

datatype sender_binding =
    SenderBindingNone
  | SenderBindingDPoP
  | SenderBindingMTLS
  | SenderBindingRaw nat

fun SenderBinding_String :: "sender_binding \<Rightarrow> string" where
  "SenderBinding_String SenderBindingDPoP = ''dpop''"
| "SenderBinding_String SenderBindingMTLS = ''mtls''"
| "SenderBinding_String _ = ''none''"

fun SenderBinding_raw :: "sender_binding \<Rightarrow> nat" where
  "SenderBinding_raw SenderBindingNone = 0"
| "SenderBinding_raw SenderBindingDPoP = 1"
| "SenderBinding_raw SenderBindingMTLS = 2"
| "SenderBinding_raw (SenderBindingRaw k) = 3 + k"

section \<open>Validity predicates\<close>

definition Capability_Valid :: "capability \<Rightarrow> bool" where
  "Capability_Valid c \<longleftrightarrow> c = CapGateway \<or> c = CapManagement"

definition OperationClass_Valid :: "operation_class \<Rightarrow> bool" where
  "OperationClass_Valid c \<longleftrightarrow>
     OperationClass_raw OpRead \<le> OperationClass_raw c \<and>
     OperationClass_raw c \<le> OperationClass_raw OpControl"

definition Disposition_Valid :: "disposition \<Rightarrow> bool" where
  "Disposition_Valid d \<longleftrightarrow>
     Disposition_raw DispQuarantined \<le> Disposition_raw d \<and>
     Disposition_raw d \<le> Disposition_raw DispUsable"

definition DriftClass_Valid :: "drift_class \<Rightarrow> bool" where
  "DriftClass_Valid d \<longleftrightarrow>
     DriftClass_raw DriftNoMaterialChange \<le> DriftClass_raw d \<and>
     DriftClass_raw d \<le> DriftClass_raw DriftUnknownTool"

definition ServerVerification_Valid :: "server_verification \<Rightarrow> bool" where
  "ServerVerification_Valid s \<longleftrightarrow> s = ServerVerified \<or> s = ServerIdentityMismatch"

definition SenderBinding_Bound :: "sender_binding \<Rightarrow> bool" where
  "SenderBinding_Bound s \<longleftrightarrow> s = SenderBindingDPoP \<or> s = SenderBindingMTLS"

section \<open>Ordered enumerations\<close>

text \<open>
  \<open>Assurance\<close> and \<open>CredentialPower\<close> are compared with \<open><=\<close> and
  \<open>>=\<close> by the condition matchers: the order is the order of the raw values.
\<close>

lemma Assurance_raw_inj: "Assurance_raw x = Assurance_raw y \<longleftrightarrow> x = y"
  by (cases x; cases y) simp_all

lemma CredentialPower_raw_inj: "CredentialPower_raw x = CredentialPower_raw y \<longleftrightarrow> x = y"
  by (cases x; cases y) simp_all

instantiation assurance :: linorder
begin

definition less_eq_assurance :: "assurance \<Rightarrow> assurance \<Rightarrow> bool" where
  "less_eq_assurance x y \<longleftrightarrow> Assurance_raw x \<le> Assurance_raw y"

definition less_assurance :: "assurance \<Rightarrow> assurance \<Rightarrow> bool" where
  "less_assurance x y \<longleftrightarrow> Assurance_raw x < Assurance_raw y"

instance
  by standard (auto simp: less_eq_assurance_def less_assurance_def Assurance_raw_inj)

end

instantiation credential_power :: linorder
begin

definition less_eq_credential_power :: "credential_power \<Rightarrow> credential_power \<Rightarrow> bool" where
  "less_eq_credential_power x y \<longleftrightarrow> CredentialPower_raw x \<le> CredentialPower_raw y"

definition less_credential_power :: "credential_power \<Rightarrow> credential_power \<Rightarrow> bool" where
  "less_credential_power x y \<longleftrightarrow> CredentialPower_raw x < CredentialPower_raw y"

instance
  by standard (auto simp: less_eq_credential_power_def less_credential_power_def CredentialPower_raw_inj)

end

section \<open>Actions and effects\<close>

datatype action =
    ActionInvalid
  | ActionAllow
  | ActionDeny
  | ActionMonitor
  | ActionQuarantine
  | ActionRequireConfirmation
  | ActionRequireApproval
  | ActionAllowOnce
  | ActionAllowForSession
  | ActionAllowWithRedaction
  | ActionRaw nat

fun Action_raw :: "action \<Rightarrow> nat" where
  "Action_raw ActionInvalid = 0"
| "Action_raw ActionAllow = 1"
| "Action_raw ActionDeny = 2"
| "Action_raw ActionMonitor = 3"
| "Action_raw ActionQuarantine = 4"
| "Action_raw ActionRequireConfirmation = 5"
| "Action_raw ActionRequireApproval = 6"
| "Action_raw ActionAllowOnce = 7"
| "Action_raw ActionAllowForSession = 8"
| "Action_raw ActionAllowWithRedaction = 9"
| "Action_raw (ActionRaw k) = 10 + k"

definition actionCode :: "(action \<times> string) list" where
  "actionCode = [
     (ActionInvalid, ''INVALID''),
     (ActionAllow, ''ALLOW''),
     (ActionDeny, ''DENY''),
     (ActionMonitor, ''MONITOR''),
     (ActionQuarantine, ''QUARANTINE''),
     (ActionRequireConfirmation, ''REQUIRE_CONFIRMATION''),
     (ActionRequireApproval, ''REQUIRE_APPROVAL''),
     (ActionAllowOnce, ''ALLOW_ONCE''),
     (ActionAllowForSession, ''ALLOW_FOR_SESSION''),
     (ActionAllowWithRedaction, ''ALLOW_WITH_REDACTION'')]"

definition codeAction :: "(string \<times> action) list" where
  "codeAction = map (\<lambda>(a, s). (s, a)) (filter (\<lambda>(a, s). a \<noteq> ActionInvalid) actionCode)"

definition Action_String :: "action \<Rightarrow> string" where
  "Action_String a = (case map_of actionCode a of Some s \<Rightarrow> s | None \<Rightarrow> ''INVALID'')"

definition Action_Valid :: "action \<Rightarrow> bool" where
  "Action_Valid a \<longleftrightarrow> Action_raw ActionAllow \<le> Action_raw a \<and>
     Action_raw a \<le> Action_raw ActionAllowWithRedaction"

definition ParseAction :: "string \<Rightarrow> action option" where
  "ParseAction code = map_of codeAction code"

datatype effect =
    EffectDenied
  | EffectPermitted
  | EffectPermittedWithObligations
  | EffectPendingConfirmation
  | EffectPendingApproval
  | EffectQuarantined

fun Effect_String :: "effect \<Rightarrow> string" where
  "Effect_String EffectPermitted = ''permitted''"
| "Effect_String EffectPermittedWithObligations = ''permitted_with_obligations''"
| "Effect_String EffectPendingConfirmation = ''pending_confirmation''"
| "Effect_String EffectPendingApproval = ''pending_approval''"
| "Effect_String EffectQuarantined = ''quarantined''"
| "Effect_String _ = ''denied''"

fun Action_Effect :: "action \<Rightarrow> effect" where
  "Action_Effect ActionAllow = EffectPermitted"
| "Action_Effect ActionMonitor = EffectPermittedWithObligations"
| "Action_Effect ActionAllowOnce = EffectPermittedWithObligations"
| "Action_Effect ActionAllowForSession = EffectPermittedWithObligations"
| "Action_Effect ActionAllowWithRedaction = EffectPermittedWithObligations"
| "Action_Effect ActionRequireConfirmation = EffectPendingConfirmation"
| "Action_Effect ActionRequireApproval = EffectPendingApproval"
| "Action_Effect ActionQuarantine = EffectQuarantined"
| "Action_Effect _ = EffectDenied"

fun Action_IsAllowClass :: "action \<Rightarrow> bool" where
  "Action_IsAllowClass ActionAllow = True"
| "Action_IsAllowClass ActionMonitor = True"
| "Action_IsAllowClass ActionAllowOnce = True"
| "Action_IsAllowClass ActionAllowForSession = True"
| "Action_IsAllowClass ActionAllowWithRedaction = True"
| "Action_IsAllowClass _ = False"

definition AllActions :: "action list" where
  "AllActions = [
     ActionAllow, ActionDeny, ActionMonitor, ActionQuarantine,
     ActionRequireConfirmation, ActionRequireApproval,
     ActionAllowOnce, ActionAllowForSession, ActionAllowWithRedaction]"

section \<open>Lemmas on the enumerations\<close>

lemma Capability_Valid_cases [enum_simps]:
  "Capability_Valid c \<longleftrightarrow> c \<in> {CapGateway, CapManagement}"
  by (simp add: Capability_Valid_def)

lemma OperationClass_Valid_cases [enum_simps]:
  "OperationClass_Valid c \<longleftrightarrow> c \<in> {OpRead, OpWrite, OpDestructive, OpDiscovery, OpControl}"
  by (cases c) (simp_all add: OperationClass_Valid_def)

lemma Disposition_Valid_cases [enum_simps]:
  "Disposition_Valid d \<longleftrightarrow>
     d \<in> {DispQuarantined, DispReviewRequired, DispPendingNarrowing, DispServerDisabled, DispUsable}"
  by (cases d) (simp_all add: Disposition_Valid_def)

lemma DriftClass_Valid_cases [enum_simps]:
  "DriftClass_Valid d \<longleftrightarrow>
     d \<in> {DriftNoMaterialChange, DriftSafeNarrowing, DriftPrivilegeExpansion,
          DriftSemanticDrift, DriftIdentityChange, DriftUnknownTool}"
  by (cases d) (simp_all add: DriftClass_Valid_def)

lemma ServerVerification_Valid_cases [enum_simps]:
  "ServerVerification_Valid s \<longleftrightarrow> s \<in> {ServerVerified, ServerIdentityMismatch}"
  by (simp add: ServerVerification_Valid_def)

lemma Action_Valid_iff_AllActions: "Action_Valid a \<longleftrightarrow> a \<in> set AllActions"
  by (cases a) (simp_all add: Action_Valid_def AllActions_def)

lemma ParseAction_valid: "ParseAction s = Some a \<Longrightarrow> a \<in> set AllActions"
  by (auto simp: ParseAction_def codeAction_def actionCode_def AllActions_def split: if_splits)

lemma ParseAction_String: "ParseAction s = Some a \<Longrightarrow> Action_String a = s"
  by (auto simp: ParseAction_def codeAction_def actionCode_def Action_String_def split: if_splits)

lemma ParseAction_of_String: "Action_Valid a \<Longrightarrow> ParseAction (Action_String a) = Some a"
  by (cases a)
    (simp_all add: Action_Valid_def ParseAction_def codeAction_def actionCode_def Action_String_def)

lemma allow_class_valid: "Action_IsAllowClass a \<Longrightarrow> Action_Valid a"
  by (cases a) (simp_all add: Action_Valid_def)

lemma allow_class_effect:
  "Action_IsAllowClass a \<longleftrightarrow> Action_Effect a \<in> {EffectPermitted, EffectPermittedWithObligations}"
  by (cases a) simp_all

lemma Assurance_floor: "AssuranceUnknown \<le> a"
  by (simp add: less_eq_assurance_def)

end
