(* ===== verification/PolicyInput.thy ===== *)
theory PolicyInput
  imports PolicyEnums
begin

text \<open>
  The bounds of the policy engine (\<open>internal/mcp/policy/limits.go\<close>) and the decision
  tuple with its structural validation (\<open>internal/mcp/policy/input.go\<close>). A Go
  \<open>time.Time\<close> is the number of nanoseconds since its zero instant, 1 January of year 1
  UTC, so \<open>IsZero\<close> is \<open>= 0\<close>. A nil pointer field is \<open>None\<close>. The attribute
  map of a resource is an association list with one entry per key, so \<open>len\<close> is its
  length.
\<close>

section \<open>Instants\<close>

type_synonym gotime = int

definition unixToInternal :: int where
  "unixToInternal = 62135596800"

definition nanosPerSecond :: int where
  "nanosPerSecond = 1000000000"

definition Time_IsZero :: "gotime \<Rightarrow> bool" where
  "Time_IsZero t \<longleftrightarrow> t = 0"

definition Time_Unix :: "gotime \<Rightarrow> int" where
  "Time_Unix t = t div nanosPerSecond - unixToInternal"

text \<open>\<open>time.Time.Sub\<close> saturates at the bounds of a \<open>Duration\<close>.\<close>

definition Time_Sub :: "gotime \<Rightarrow> gotime \<Rightarrow> int" where
  "Time_Sub t u = max (- (2 ^ 63)) (min (2 ^ 63 - 1) (t - u))"

section \<open>Limits\<close>

record limits =
  MaxSnapshotBytes :: int
  MaxRulesPerSnap :: int
  MaxConditions :: int
  MaxSetValues :: int
  MaxStringBytes :: int
  MaxPatternBytes :: int
  MaxPatternSegments :: int
  MaxResourceAttrs :: int
  MaxGroupsScopes :: int
  MaxObligations :: int
  MaxTraceEntries :: int
  MaxSimCases :: int
  MaxCompareSamples :: int
  MaxEvalOps :: int
  MaxSnapHistory :: int

definition limitErr :: "string \<Rightarrow> go_error" where
  "limitErr detail = New ReasonPolicyLimitExceeded ''policy.limits'' detail"

definition limit_checks :: "limits \<Rightarrow> (string \<times> int \<times> int) list" where
  "limit_checks c = [
     (''MaxSnapshotBytes'', MaxSnapshotBytes c, 8 * 2 ^ 20),
     (''MaxRulesPerSnap'', MaxRulesPerSnap c, 4096),
     (''MaxConditions'', MaxConditions c, 64),
     (''MaxSetValues'', MaxSetValues c, 256),
     (''MaxStringBytes'', MaxStringBytes c, 4096),
     (''MaxPatternBytes'', MaxPatternBytes c, 512),
     (''MaxPatternSegments'', MaxPatternSegments c, 32),
     (''MaxResourceAttrs'', MaxResourceAttrs c, 32),
     (''MaxGroupsScopes'', MaxGroupsScopes c, 256),
     (''MaxObligations'', MaxObligations c, 32),
     (''MaxTraceEntries'', MaxTraceEntries c, 512),
     (''MaxSimCases'', MaxSimCases c, 100000),
     (''MaxCompareSamples'', MaxCompareSamples c, 1024),
     (''MaxEvalOps'', MaxEvalOps c, 2 ^ 20),
     (''MaxSnapHistory'', MaxSnapHistory c, 64)]"

definition LimitConfig_Validate :: "limits \<Rightarrow> go_error option" where
  "LimitConfig_Validate c = first_err
     (map (\<lambda>(name, v, cap). first_err [
         err_if (v \<le> 0) (limitErr (name @ '' must be positive'')),
         err_if (v > cap) (limitErr (name @ '' exceeds its hard-cap ceiling''))])
        (limit_checks c)
      @ [err_if (MaxTraceEntries c < MaxRulesPerSnap c)
           (limitErr ''MaxTraceEntries must be at least MaxRulesPerSnap'')])"

definition NewLimits :: "limits \<Rightarrow> limits res" where
  "NewLimits c = (case LimitConfig_Validate c of Some e \<Rightarrow> Inl e | None \<Rightarrow> Inr c)"

definition defaultLimitConfig :: limits where
  "defaultLimitConfig = \<lparr>
     MaxSnapshotBytes = 2 ^ 20, MaxRulesPerSnap = 512, MaxConditions = 32,
     MaxSetValues = 128, MaxStringBytes = 1024, MaxPatternBytes = 256,
     MaxPatternSegments = 16, MaxResourceAttrs = 16, MaxGroupsScopes = 128,
     MaxObligations = 16, MaxTraceEntries = 512, MaxSimCases = 10000,
     MaxCompareSamples = 256, MaxEvalOps = 2 ^ 16, MaxSnapHistory = 16\<rparr>"

text \<open>\<open>DefaultLimits\<close> panics when its constants do not validate: \<open>None\<close> is the panic.\<close>

definition DefaultLimits :: "limits option" where
  "DefaultLimits = (case NewLimits defaultLimitConfig of Inl e \<Rightarrow> None | Inr l \<Rightarrow> Some l)"

section \<open>The decision tuple\<close>

record principal =
  pr_Kind :: subject_kind
  pr_SubjectID :: string
  pr_Tenant :: string
  pr_Groups :: "string list"
  pr_Assurance :: assurance
  pr_SenderBinding :: sender_binding
  pr_Issuer :: string

record agent =
  ag_AgentID :: string
  ag_Owner :: string
  ag_Version :: string
  ag_Managed :: managed_state
  ag_Trust :: trust_class

record client =
  cl_ClientID :: string
  cl_AppID :: string
  cl_Tenant :: string
  cl_Trust :: trust_class
  cl_Capability :: capability

record server =
  sv_ServerID :: string
  sv_Owner :: string
  sv_Environment :: string
  sv_Enabled :: bool
  sv_Verification :: server_verification

record tool =
  tl_Name :: string
  tl_ServerID :: string
  tl_FingerprintHash :: string
  tl_Disposition :: disposition
  tl_Drift :: drift_class
  tl_Destination :: destination
  tl_CredentialPower :: credential_power
  tl_Reversibility :: reversibility
  tl_InputSchemaHash :: string
  tl_OutputSchemaHash :: string
  tl_DescriptionHash :: string
  tl_RiskSignals :: "string list"

record operation =
  op_Method :: string
  op_Class :: operation_class
  op_Namespace :: operation_namespace
  op_Operand :: string
  op_DecisionPoint :: string

record resource =
  rs_Type :: string
  rs_ID :: string
  rs_Tenant :: string
  rs_Attrs :: "(string \<times> string) list"

record destination_meta =
  ds_Class :: destination
  ds_Environment :: string
  ds_ApprovedBreadth :: destination

record credential_meta =
  cr_ProfileRef :: string
  cr_PowerCeiling :: credential_power
  cr_Kind :: string

record session =
  se_Fingerprint :: string
  se_Assurance :: assurance
  se_SenderBinding :: sender_binding
  se_PriorConfirmation :: bool
  se_PriorApproval :: bool
  se_PriorGrant :: bool

record inspection =
  ip_DLPAvailable :: bool
  ip_RedactionAvailable :: bool
  ip_DestInspectAvailable :: bool
  ip_SecretScanAvailable :: bool
  ip_SecretFound :: bool
  ip_PIIFound :: bool
  ip_InjectionSuspected :: bool
  ip_SchemaInvalid :: bool

record decision_input =
  di_Capability :: capability
  di_PolicyRevision :: nat
  di_CatalogRevision :: nat
  di_RegistryRevision :: nat
  di_RuntimeRevision :: nat
  di_EvalTime :: gotime
  di_Principal :: principal
  di_Agent :: "agent option"
  di_Client :: client
  di_Server :: "server option"
  di_Tool :: "tool option"
  di_Operation :: operation
  di_Resource :: "resource option"
  di_Destination :: destination_meta
  di_Credential :: "credential_meta option"
  di_Session :: session
  di_Inspection :: inspection

section \<open>Structural validation\<close>

definition inputErr :: "string \<Rightarrow> go_error" where
  "inputErr detail = New ReasonPolicyInputInvalid ''policy.input'' detail"

definition validatePrincipal :: "decision_input \<Rightarrow> limits \<Rightarrow> go_error option" where
  "validatePrincipal i lim = (let p = di_Principal i in first_err [
     err_if (pr_Kind p \<noteq> SubjectHuman \<and> pr_Kind p \<noteq> SubjectWorkload)
       (inputErr ''missing or invalid subject kind''),
     err_if (pr_SubjectID p = []) (inputErr ''missing subject id''),
     err_if (pr_Tenant p = []) (inputErr ''missing tenant''),
     err_if (pr_Assurance p > AssuranceHigh) (inputErr ''impossible assurance level''),
     err_if (int (length (pr_Groups p)) > MaxGroupsScopes lim)
       (inputErr ''too many principal groups'')])"

definition validateOperation :: "decision_input \<Rightarrow> go_error option" where
  "validateOperation i = (let o' = di_Operation i in first_err [
     err_if (op_Method o' = []) (inputErr ''missing operation method''),
     err_if (\<not> OperationClass_Valid (op_Class o')) (inputErr ''missing or invalid operation class''),
     (case op_Namespace o' of
        NamespaceGatewayTool \<Rightarrow>
          err_if (di_Capability i \<noteq> CapGateway)
            (inputErr ''gateway-tool namespace on a non-Gateway capability'')
      | NamespaceManagementOperation \<Rightarrow>
          err_if (di_Capability i \<noteq> CapManagement)
            (inputErr ''management-operation namespace on a non-Management capability'')
      | _ \<Rightarrow> Some (inputErr ''missing or invalid operation namespace''))])"

definition validateGatewayTool :: "server \<Rightarrow> tool \<Rightarrow> limits \<Rightarrow> go_error option" where
  "validateGatewayTool sv t lim = first_err [
     err_if (tl_Name t = []) (inputErr ''Gateway tool requires a name''),
     err_if (tl_ServerID t \<noteq> sv_ServerID sv) (inputErr ''tool is not bound to the selected server''),
     err_if (\<not> Disposition_Valid (tl_Disposition t))
       (inputErr ''Gateway tool requires a valid catalog disposition''),
     err_if (tl_Disposition t \<noteq> DispQuarantined \<and> \<not> DriftClass_Valid (tl_Drift t))
       (inputErr ''Gateway tool requires a valid drift class''),
     err_if (tl_Disposition t = DispQuarantined \<and> tl_Drift t \<noteq> DriftUnset
               \<and> \<not> DriftClass_Valid (tl_Drift t))
       (inputErr ''Gateway tool has an invalid drift class''),
     err_if (tl_Disposition t \<noteq> DispQuarantined \<and> tl_Drift t \<noteq> DriftUnknownTool
               \<and> tl_FingerprintHash t = [])
       (inputErr ''missing fingerprint for a Gateway tool''),
     err_if (int (length (tl_RiskSignals t)) > MaxSetValues lim)
       (inputErr ''too many tool risk signals'')]"

definition validateCapabilityRefs :: "decision_input \<Rightarrow> limits \<Rightarrow> go_error option" where
  "validateCapabilityRefs i lim =
     (if di_Capability i = CapManagement then
        err_if (di_Server i \<noteq> None \<or> di_Tool i \<noteq> None)
          (inputErr ''Management input carries Gateway server/tool authority'')
      else case di_Server i of
        None \<Rightarrow> Some (inputErr ''Gateway input requires a server'')
      | Some sv \<Rightarrow>
          if sv_ServerID sv = [] then Some (inputErr ''Gateway input requires a server'')
          else if \<not> ServerVerification_Valid (sv_Verification sv) then
            Some (inputErr ''Gateway server verification state is unset or invalid'')
          else (case di_Tool i of
            None \<Rightarrow>
              if op_Class (di_Operation i) = OpDiscovery then None
              else Some (inputErr ''Gateway tool operation requires a resolved tool'')
          | Some t \<Rightarrow> validateGatewayTool sv t lim))"

definition validateResource :: "decision_input \<Rightarrow> limits \<Rightarrow> go_error option" where
  "validateResource i lim = (case di_Resource i of
     None \<Rightarrow> None
   | Some r \<Rightarrow> first_err [
       err_if (rs_Type r = [] \<or> rs_ID r = [])
         (inputErr ''ambiguous resource identity (type and id are required)''),
       err_if (int (length (rs_Attrs r)) > MaxResourceAttrs lim)
         (inputErr ''too many resource attributes'')])"

definition Validate :: "decision_input \<Rightarrow> limits \<Rightarrow> go_error option" where
  "Validate i lim = first_err [
     err_if (\<not> Capability_Valid (di_Capability i)) (inputErr ''missing or invalid capability''),
     err_if (di_PolicyRevision i = 0 \<or> di_CatalogRevision i = 0)
       (inputErr ''missing policy/catalog revision''),
     err_if (Time_IsZero (di_EvalTime i)) (inputErr ''missing explicit evaluation time''),
     validatePrincipal i lim,
     err_if (cl_Capability (di_Client i) \<noteq> di_Capability i)
       (inputErr ''client capability does not match the input capability''),
     err_if (cl_Tenant (di_Client i) \<noteq> [] \<and> cl_Tenant (di_Client i) \<noteq> pr_Tenant (di_Principal i))
       (inputErr ''client tenant conflicts with the principal tenant''),
     validateOperation i,
     validateCapabilityRefs i lim,
     validateResource i lim]"

section \<open>What a valid tuple guarantees\<close>

lemmas input_validation_defs =
  Validate_def validatePrincipal_def validateOperation_def validateCapabilityRefs_def
  validateResource_def validateGatewayTool_def

lemma Validate_capability: "Validate i lim = None \<Longrightarrow> di_Capability i \<in> {CapGateway, CapManagement}"
  by (simp add: Validate_def enum_simps)

lemma Validate_parts:
  assumes "Validate i lim = None"
  shows "validatePrincipal i lim = None" and "validateOperation i = None"
    and "validateCapabilityRefs i lim = None" and "validateResource i lim = None"
  using assms by (simp_all add: Validate_def)

lemma validatePrincipal_None:
  assumes "validatePrincipal i lim = None"
  shows "pr_Tenant (di_Principal i) \<noteq> []" and "pr_Assurance (di_Principal i) \<le> AssuranceHigh"
  using assms by (simp_all add: validatePrincipal_def Let_def not_less)

lemma Validate_gateway_server:
  assumes "Validate i lim = None" and "di_Capability i = CapGateway"
  obtains sv where "di_Server i = Some sv" and "sv_ServerID sv \<noteq> []"
    and "sv_Verification sv \<in> {ServerVerified, ServerIdentityMismatch}"
  using Validate_parts(3) [OF assms(1)] assms(2)
  by (auto simp: validateCapabilityRefs_def enum_simps split: option.splits if_splits)

lemma Validate_gateway_tool:
  assumes "Validate i lim = None" and "di_Capability i = CapGateway" and "di_Tool i = Some t"
  obtains sv where "di_Server i = Some sv" and "validateGatewayTool sv t lim = None"
  using Validate_parts(3) [OF assms(1)] assms(2,3)
  by (auto simp: validateCapabilityRefs_def split: option.splits if_splits)

lemma Validate_management_refs:
  assumes "Validate i lim = None" and "di_Capability i = CapManagement"
  shows "di_Server i = None \<and> di_Tool i = None"
  using Validate_parts(3) [OF assms(1)] assms(2) by (simp add: validateCapabilityRefs_def)

lemma DefaultLimits_eq: "DefaultLimits = Some defaultLimitConfig"
  by (simp add: DefaultLimits_def NewLimits_def LimitConfig_Validate_def limit_checks_def
      defaultLimitConfig_def split: option.splits)

lemma LimitConfig_Validate_bounds:
  assumes "LimitConfig_Validate c = None"
  shows "0 < MaxTraceEntries c" and "MaxTraceEntries c \<le> 512" and "0 < MaxRulesPerSnap c"
    and "MaxRulesPerSnap c \<le> MaxTraceEntries c" and "0 < MaxCompareSamples c"
  using assms by (simp_all add: LimitConfig_Validate_def limit_checks_def)

end
