(* ===== verification/PolicyGlob.thy ===== *)
theory PolicyGlob
  imports PolicyInput
begin

text \<open>
  The anchored glob matcher of the policy conditions
  (\<open>internal/mcp/policy/glob.go\<close>): the compile-time bounds, the iterative two-pointer
  matcher with its single backtracking point, and its relation to the declarative meaning
  of a pattern (\<open>*\<close> any run, \<open>?\<close> one byte, every other byte itself).
\<close>

section \<open>Compilation\<close>

definition condErr :: "string \<Rightarrow> go_error" where
  "condErr detail = New ReasonPolicyConditionInvalid ''policy.condition'' detail"

definition compileGlob :: "string \<Rightarrow> limits \<Rightarrow> string res" where
  "compileGlob p lim =
     (if p = [] then Inl (condErr ''empty glob pattern'')
      else if int (length p) > MaxPatternBytes lim then
        Inl (condErr ''glob pattern exceeds the byte bound'')
      else if ContainsStr p ''**'' then
        Inl (condErr (CHR 0x27 # ''**'' @ CHR 0x27 # '' is not permitted in a glob pattern''))
      else if int (count_list p (CHR ''/'') + 1) > MaxPatternSegments lim then
        Inl (condErr ''glob pattern has too many segments'')
      else Inr p)"

section \<open>The matcher\<close>

text \<open>
  \<open>glob_loop\<close> is the first \<open>for\<close> loop. Its state is the value index, the pattern
  index, the position of the last star (\<open>None\<close> for the source's \<open>-1\<close>) and the
  mark. \<open>None\<close> is the early \<open>return false\<close>; \<open>Some pj\<close> is the pattern index
  the loop ends with. \<open>skip_stars\<close> is the second loop.
\<close>

function glob_loop :: "string \<Rightarrow> string \<Rightarrow> nat \<Rightarrow> nat \<Rightarrow> nat option \<Rightarrow> nat \<Rightarrow> nat option" where
  "glob_loop p s si pj star mark =
     (if si < length s then
        if pj < length p \<and> (p ! pj = s ! si \<or> p ! pj = CHR ''?'') then
          glob_loop p s (Suc si) (Suc pj) star mark
        else if pj < length p \<and> p ! pj = CHR ''*'' then
          glob_loop p s si (Suc pj) (Some pj) si
        else (case star of
            Some st \<Rightarrow> glob_loop p s (Suc mark) (Suc st) (Some st) (Suc mark)
          | None \<Rightarrow> None)
      else Some pj)"
  by pat_completeness auto
termination
  by (relation "measures [\<lambda>(p, s, si, pj, star, mark). if mark \<le> si then 0 else 1,
                          \<lambda>(p, s, si, pj, star, mark). length s - mark,
                          \<lambda>(p, s, si, pj, star, mark). length s - si,
                          \<lambda>(p, s, si, pj, star, mark). length p - pj]") auto

function skip_stars :: "string \<Rightarrow> nat \<Rightarrow> nat" where
  "skip_stars p pj = (if pj < length p \<and> p ! pj = CHR ''*'' then skip_stars p (Suc pj) else pj)"
  by pat_completeness auto
termination
  by (relation "measure (\<lambda>(p, pj). length p - pj)") auto

declare glob_loop.simps [simp del] skip_stars.simps [simp del]

lemma glob_loop_end: "\<not> si < length s \<Longrightarrow> glob_loop p s si pj star mark = Some pj"
  by (simp add: glob_loop.simps)

lemma glob_loop_char:
  "si < length s \<Longrightarrow> pj < length p \<and> (p ! pj = s ! si \<or> p ! pj = CHR ''?'') \<Longrightarrow>
     glob_loop p s si pj star mark = glob_loop p s (Suc si) (Suc pj) star mark"
  by (subst glob_loop.simps) simp

lemma glob_loop_star:
  "si < length s \<Longrightarrow> \<not> (pj < length p \<and> (p ! pj = s ! si \<or> p ! pj = CHR ''?'')) \<Longrightarrow>
     pj < length p \<and> p ! pj = CHR ''*'' \<Longrightarrow>
     glob_loop p s si pj star mark = glob_loop p s si (Suc pj) (Some pj) si"
  by (subst glob_loop.simps) simp

lemma glob_loop_retry:
  "si < length s \<Longrightarrow> \<not> (pj < length p \<and> (p ! pj = s ! si \<or> p ! pj = CHR ''?'')) \<Longrightarrow>
     \<not> (pj < length p \<and> p ! pj = CHR ''*'') \<Longrightarrow>
     glob_loop p s si pj star mark =
       (case star of Some st \<Rightarrow> glob_loop p s (Suc mark) (Suc st) (Some st) (Suc mark) | None \<Rightarrow> None)"
  by (subst glob_loop.simps) (simp only: if_False if_True)

definition glob_match :: "string \<Rightarrow> string \<Rightarrow> bool" where
  "glob_match p s = (case glob_loop p s 0 0 None 0 of
     None \<Rightarrow> False
   | Some pj \<Rightarrow> skip_stars p pj = length p)"

section \<open>The meaning of a pattern\<close>

fun glob_spec :: "string \<Rightarrow> string \<Rightarrow> bool" where
  "glob_spec [] s = (s = [])"
| "glob_spec (c # p) s =
     (if c = CHR ''*'' then \<exists>k \<le> length s. glob_spec p (drop k s)
      else case s of [] \<Rightarrow> False | x # xs \<Rightarrow> (c = x \<or> c = CHR ''?'') \<and> glob_spec p xs)"

lemma glob_spec_star_absorb:
  "glob_spec (CHR ''*'' # p) (drop k s) \<Longrightarrow> glob_spec (CHR ''*'' # p) s"
proof (cases "k \<le> length s")
  case True
  assume "glob_spec (CHR ''*'' # p) (drop k s)"
  then obtain j where "j \<le> length s - k" and "glob_spec p (drop (j + k) s)"
    by auto
  with True show ?thesis by auto (metis le_add_diff_inverse2 add_le_mono1)
next
  case False
  assume "glob_spec (CHR ''*'' # p) (drop k s)"
  with False have "glob_spec p (drop (length s) s)" by simp
  then show ?thesis by auto
qed

lemma glob_spec_star_empty: "glob_spec p s \<Longrightarrow> glob_spec (CHR ''*'' # p) s"
  by (auto intro: exI [of _ 0])

lemma glob_spec_step:
  assumes "pj < length p" and "p ! pj \<noteq> CHR ''*''"
  shows "glob_spec (drop pj p) (drop si s) \<longleftrightarrow>
     si < length s \<and> (p ! pj = s ! si \<or> p ! pj = CHR ''?'') \<and>
     glob_spec (drop (Suc pj) p) (drop (Suc si) s)"
proof -
  have "drop pj p = p ! pj # drop (Suc pj) p"
    using assms(1) by (rule Cons_nth_drop_Suc [symmetric])
  moreover have "drop si s = s ! si # drop (Suc si) s" if "si < length s"
    using that by (rule Cons_nth_drop_Suc [symmetric])
  ultimately show ?thesis
    using assms(2) by (cases "si < length s") simp_all
qed

lemma drop_star: "pj < length p \<Longrightarrow> p ! pj = CHR ''*'' \<Longrightarrow> drop pj p = CHR ''*'' # drop (Suc pj) p"
  by (metis Cons_nth_drop_Suc)

text \<open>A star-free stretch of the pattern consumes exactly its own length.\<close>

lemma glob_spec_segment:
  assumes "\<forall>j. a \<le> j \<and> j < b \<longrightarrow> p ! j \<noteq> CHR ''*''" and "a \<le> b" and "b \<le> length p"
    and "m \<le> length s" and "glob_spec (drop a p) (drop m s)"
  shows "m + (b - a) \<le> length s \<and> glob_spec (drop b p) (drop (m + (b - a)) s)"
  using assms
proof (induction "b - a" arbitrary: a m)
  case 0
  then show ?case by simp
next
  case (Suc n)
  then have a: "a < length p" "p ! a \<noteq> CHR ''*''" by auto
  from Suc.prems(5) have step: "m < length s" "glob_spec (drop (Suc a) p) (drop (Suc m) s)"
    using glob_spec_step [OF a] by auto
  have eq: "Suc m + (b - Suc a) = m + (b - a)"
    using Suc.hyps(2) by arith
  have "Suc m + (b - Suc a) \<le> length s \<and> glob_spec (drop b p) (drop (Suc m + (b - Suc a)) s)"
    using Suc.hyps(2) Suc.prems step by (intro Suc.hyps(1)) auto
  then show ?case unfolding eq .
qed

lemma skip_stars_end [simp]: "skip_stars p (length p) = length p"
  by (simp add: skip_stars.simps)

lemma skip_stars_spec:
  "pj \<le> length p \<Longrightarrow> skip_stars p pj = length p \<longleftrightarrow> glob_spec (drop pj p) []"
proof (induction p pj rule: skip_stars.induct)
  case (1 p pj)
  show ?case
  proof (cases "pj < length p \<and> p ! pj = CHR ''*''")
    case True
    with "1" have "skip_stars p (Suc pj) = length p \<longleftrightarrow> glob_spec (drop (Suc pj) p) []"
      by simp
    with True show ?thesis
      by (simp add: skip_stars.simps [of p pj] drop_star)
  next
    case False
    show ?thesis
    proof (cases "pj < length p")
      case True
      with False have "\<not> glob_spec (drop pj p) []"
        using glob_spec_step [of pj p "length s" s for s :: string, of "[]"] by simp
      with True False show ?thesis by (simp add: skip_stars.simps [of p pj])
    next
      case neg: False
      with "1.prems" show ?thesis by simp
    qed
  qed
qed

section \<open>Soundness and completeness of the loop\<close>

definition loop_accepts :: "string \<Rightarrow> nat option \<Rightarrow> bool" where
  "loop_accepts p r = (case r of None \<Rightarrow> False | Some pj \<Rightarrow> skip_stars p pj = length p)"

definition loop_inv :: "string \<Rightarrow> string \<Rightarrow> nat \<Rightarrow> nat \<Rightarrow> nat option \<Rightarrow> nat \<Rightarrow> bool" where
  "loop_inv p s si pj star mark \<longleftrightarrow>
     si \<le> length s \<and> pj \<le> length p \<and> mark \<le> si \<and>
     (\<forall>st. star = Some st \<longrightarrow>
        st < pj \<and> p ! st = CHR ''*'' \<and> si - mark = pj - Suc st)"

definition no_star_since :: "string \<Rightarrow> nat \<Rightarrow> nat option \<Rightarrow> bool" where
  "no_star_since p pj star \<longleftrightarrow>
     (\<forall>st. star = Some st \<longrightarrow> (\<forall>j. Suc st \<le> j \<and> j < pj \<longrightarrow> p ! j \<noteq> CHR ''*''))"

definition loop_goal :: "string \<Rightarrow> string \<Rightarrow> nat \<Rightarrow> nat \<Rightarrow> nat option \<Rightarrow> nat \<Rightarrow> bool" where
  "loop_goal p s si pj star mark \<longleftrightarrow>
     glob_spec (drop pj p) (drop si s) \<or>
     (\<exists>st. star = Some st \<and> glob_spec (drop st p) (drop mark s))"

lemma loop_inv_start: "loop_inv p s 0 0 None 0"
  by (simp add: loop_inv_def)

lemma glob_loop_sound:
  "loop_inv p s si pj star mark \<Longrightarrow> loop_accepts p (glob_loop p s si pj star mark) \<Longrightarrow>
     loop_goal p s si pj star mark"
proof (induction p s si pj star mark rule: glob_loop.induct)
  case (1 p s si pj star mark)
  show ?case
  proof (cases "si < length s")
    case False
    then have "glob_loop p s si pj star mark = Some pj" by (rule glob_loop_end)
    with False "1.prems" have "si = length s" "skip_stars p pj = length p" "pj \<le> length p"
      by (auto simp: loop_inv_def loop_accepts_def)
    then show ?thesis by (simp add: loop_goal_def skip_stars_spec)
  next
    case in_s: True
    consider (char) "pj < length p \<and> (p ! pj = s ! si \<or> p ! pj = CHR ''?'')"
      | (star) "\<not> (pj < length p \<and> (p ! pj = s ! si \<or> p ! pj = CHR ''?''))"
          "pj < length p \<and> p ! pj = CHR ''*''"
      | (retry) "\<not> (pj < length p \<and> (p ! pj = s ! si \<or> p ! pj = CHR ''?''))"
          "\<not> (pj < length p \<and> p ! pj = CHR ''*'')" by blast
    then show ?thesis
    proof cases
      case char
      from "1.prems"(1) char in_s have inv: "loop_inv p s (Suc si) (Suc pj) star mark"
        by (auto simp: loop_inv_def)
      have goal: "loop_goal p s (Suc si) (Suc pj) star mark"
        using "1.IH"(1) [OF in_s char inv] "1.prems"(2) glob_loop_char [OF in_s char] by simp
      then show ?thesis
      proof (cases "p ! pj = CHR ''*''")
        case True
        have "glob_spec (drop pj p) (drop si s)"
          if "glob_spec (drop (Suc pj) p) (drop (Suc si) s)"
        proof -
          from that have "glob_spec (CHR ''*'' # drop (Suc pj) p) (drop 1 (drop si s))"
            by (intro glob_spec_star_empty) simp
          then have "glob_spec (CHR ''*'' # drop (Suc pj) p) (drop si s)"
            by (rule glob_spec_star_absorb)
          with True char show ?thesis by (simp add: drop_star)
        qed
        with goal show ?thesis by (auto simp: loop_goal_def)
      next
        case False
        with goal char in_s show ?thesis
          by (auto simp: loop_goal_def glob_spec_step)
      qed
    next
      case star
      from "1.prems"(1) star in_s have inv: "loop_inv p s si (Suc pj) (Some pj) si"
        by (auto simp: loop_inv_def)
      have "loop_goal p s si (Suc pj) (Some pj) si"
        using "1.IH"(2) [OF in_s star(1) star(2) inv] "1.prems"(2) glob_loop_star [OF in_s star] by simp
      with star show ?thesis
        by (auto simp: loop_goal_def drop_star glob_spec_star_empty simp del: glob_spec.simps)
    next
      case retry
      show ?thesis
      proof (cases star)
        case None
        with "1.prems"(2) glob_loop_retry [OF in_s retry] show ?thesis by (simp add: loop_accepts_def)
      next
        case (Some st)
        with "1.prems"(1) have st: "st < length p" "p ! st = CHR ''*''" "mark \<le> si"
          by (auto simp: loop_inv_def)
        with in_s have inv: "loop_inv p s (Suc mark) (Suc st) (Some st) (Suc mark)"
          by (auto simp: loop_inv_def)
        have "loop_goal p s (Suc mark) (Suc st) (Some st) (Suc mark)"
          using "1.IH"(3) [OF in_s retry(1) retry(2) Some inv] "1.prems"(2) Some
            glob_loop_retry [OF in_s retry] by simp
        then have "glob_spec (drop st p) (drop 1 (drop mark s))"
          using st by (auto simp: loop_goal_def drop_star glob_spec_star_empty simp del: glob_spec.simps)
        then have "glob_spec (drop st p) (drop mark s)"
          using st by (metis drop_star glob_spec_star_absorb)
        with Some show ?thesis by (auto simp: loop_goal_def)
      qed
    qed
  qed
qed

lemma no_star_since_start: "no_star_since p pj None"
  by (simp add: no_star_since_def)

text \<open>
  The greedy step: when the value matches from the last star on, and the star-free stretch
  since that star has been consumed up to \<open>si\<close>, some later alignment \<open>si + k\<close> also
  matches the rest of the pattern.
\<close>

lemma star_goal_shift:
  assumes inv: "loop_inv p s si pj (Some st) mark" and seg: "no_star_since p pj (Some st)"
    and g: "glob_spec (drop st p) (drop mark s)"
  obtains k where "si + k \<le> length s" and "glob_spec (drop pj p) (drop (si + k) s)"
    and "k = 0 \<or> glob_spec (drop st p) (drop (Suc mark) s)"
proof -
  from inv have st: "st < pj" "pj \<le> length p" "p ! st = CHR ''*''" "si - mark = pj - Suc st"
    "mark \<le> si" "si \<le> length s"
    by (auto simp: loop_inv_def)
  from g st have "glob_spec (CHR ''*'' # drop (Suc st) p) (drop mark s)"
    by (simp add: drop_star)
  then obtain k where k: "k \<le> length s - mark" "glob_spec (drop (Suc st) p) (drop (mark + k) s)"
    by (auto simp: add.commute)
  have "mark + k + (pj - Suc st) \<le> length s \<and>
      glob_spec (drop pj p) (drop (mark + k + (pj - Suc st)) s)"
    using seg st k by (intro glob_spec_segment) (auto simp: no_star_since_def)
  moreover have "mark + k + (pj - Suc st) = si + k"
    using st by arith
  moreover have "k = 0 \<or> glob_spec (drop st p) (drop (Suc mark) s)"
  proof (cases k)
    case (Suc j)
    from k(2) have "glob_spec (CHR ''*'' # drop (Suc st) p) (drop j (drop (Suc mark) s))"
      by (intro glob_spec_star_empty) (simp add: Suc add.commute)
    then have "glob_spec (CHR ''*'' # drop (Suc st) p) (drop (Suc mark) s)"
      by (rule glob_spec_star_absorb)
    with st show ?thesis by (simp add: drop_star)
  qed simp
  ultimately show ?thesis using that by metis
qed

lemma glob_loop_complete:
  "CHR ''*'' \<notin> set s \<Longrightarrow> loop_inv p s si pj star mark \<Longrightarrow> no_star_since p pj star \<Longrightarrow>
     loop_goal p s si pj star mark \<Longrightarrow> loop_accepts p (glob_loop p s si pj star mark)"
proof (induction p s si pj star mark rule: glob_loop.induct)
  case (1 p s si pj star mark)
  show ?case
  proof (cases "si < length s")
    case False
    with "1.prems"(2) have si: "si = length s" and pj: "pj \<le> length p"
      by (auto simp: loop_inv_def)
    have "glob_spec (drop pj p) []"
    proof (cases "glob_spec (drop pj p) (drop si s)")
      case True
      with si show ?thesis by simp
    next
      case neg: False
      with "1.prems"(4) obtain st where "star = Some st" "glob_spec (drop st p) (drop mark s)"
        by (auto simp: loop_goal_def)
      then obtain k where "si + k \<le> length s" "glob_spec (drop pj p) (drop (si + k) s)"
        using star_goal_shift "1.prems"(2,3) by metis
      with si show ?thesis by simp
    qed
    with False pj show ?thesis by (simp add: glob_loop_end loop_accepts_def skip_stars_spec)
  next
    case in_s: True
    consider (char) "pj < length p \<and> (p ! pj = s ! si \<or> p ! pj = CHR ''?'')"
      | (star) "\<not> (pj < length p \<and> (p ! pj = s ! si \<or> p ! pj = CHR ''?''))"
          "pj < length p \<and> p ! pj = CHR ''*''"
      | (retry) "\<not> (pj < length p \<and> (p ! pj = s ! si \<or> p ! pj = CHR ''?''))"
          "\<not> (pj < length p \<and> p ! pj = CHR ''*'')" by blast
    then show ?thesis
    proof cases
      case char
      from "1.prems"(1) in_s have "s ! si \<noteq> CHR ''*''" by (metis nth_mem)
      with char have ns: "p ! pj \<noteq> CHR ''*''" by auto
      have inv: "loop_inv p s (Suc si) (Suc pj) star mark"
        using "1.prems"(2) char in_s by (auto simp: loop_inv_def)
      have seg: "no_star_since p (Suc pj) star"
        using "1.prems"(3) ns by (auto simp: no_star_since_def less_Suc_eq)
      have goal: "loop_goal p s (Suc si) (Suc pj) star mark"
        using "1.prems"(4) char ns by (auto simp: loop_goal_def glob_spec_step)
      show ?thesis
        using "1.IH"(1) [OF in_s char "1.prems"(1) inv seg goal] glob_loop_char [OF in_s char] by simp
    next
      case star
      have inv: "loop_inv p s si (Suc pj) (Some pj) si"
        using "1.prems"(2) star in_s by (auto simp: loop_inv_def)
      have seg: "no_star_since p (Suc pj) (Some pj)"
        by (auto simp: no_star_since_def)
      have "glob_spec (drop pj p) (drop si s)"
      proof (cases "glob_spec (drop pj p) (drop si s)")
        case neg: False
        with "1.prems"(4) obtain st where "star = Some st" "glob_spec (drop st p) (drop mark s)"
          by (auto simp: loop_goal_def)
        then obtain k where "glob_spec (drop pj p) (drop (si + k) s)"
          using star_goal_shift "1.prems"(2,3) by metis
        then have "glob_spec (drop pj p) (drop k (drop si s))"
          by (simp add: add.commute)
        with star(2) show ?thesis
          by (metis drop_star glob_spec_star_absorb)
      qed
      then have goal: "loop_goal p s si (Suc pj) (Some pj) si"
        by (simp add: loop_goal_def)
      show ?thesis
        using "1.IH"(2) [OF in_s star(1) star(2) "1.prems"(1) inv seg goal]
          glob_loop_star [OF in_s star] by simp
    next
      case retry
      have "\<not> glob_spec (drop pj p) (drop si s)"
        using retry in_s by (cases "pj < length p") (auto simp: glob_spec_step)
      with "1.prems"(4) obtain st where st: "star = Some st" "glob_spec (drop st p) (drop mark s)"
        by (auto simp: loop_goal_def)
      then obtain k where k: "glob_spec (drop pj p) (drop (si + k) s)"
        "k = 0 \<or> glob_spec (drop st p) (drop (Suc mark) s)"
        using star_goal_shift "1.prems"(2,3) by metis
      with \<open>\<not> glob_spec (drop pj p) (drop si s)\<close>
      have g: "glob_spec (drop st p) (drop (Suc mark) s)"
        by (cases k) auto
      have inv: "loop_inv p s (Suc mark) (Suc st) (Some st) (Suc mark)"
        using "1.prems"(2) st in_s by (auto simp: loop_inv_def)
      have seg: "no_star_since p (Suc st) (Some st)"
        by (auto simp: no_star_since_def)
      have goal: "loop_goal p s (Suc mark) (Suc st) (Some st) (Suc mark)"
        using g by (simp add: loop_goal_def)
      show ?thesis
        using "1.IH"(3) [OF in_s retry(1) retry(2) st(1) "1.prems"(1) inv seg goal]
          glob_loop_retry [OF in_s retry] st by simp
    qed
  qed
qed

lemma glob_match_accepts: "glob_match p s = loop_accepts p (glob_loop p s 0 0 None 0)"
  by (simp add: glob_match_def loop_accepts_def)

lemma glob_match_sound: "glob_match p s \<Longrightarrow> glob_spec p s"
  using glob_loop_sound [OF loop_inv_start]
  by (fastforce simp: glob_match_accepts loop_goal_def)

lemma glob_match_complete: "CHR ''*'' \<notin> set s \<Longrightarrow> glob_spec p s \<Longrightarrow> glob_match p s"
  using glob_loop_complete [OF _ loop_inv_start no_star_since_start]
  by (simp add: glob_match_accepts loop_goal_def)

section \<open>The number of iterations\<close>

text \<open>The first loop with a budget of iterations; the outer \<open>None\<close> says that it ran out.\<close>

fun glob_iter :: "nat \<Rightarrow> string \<Rightarrow> string \<Rightarrow> nat \<Rightarrow> nat \<Rightarrow> nat option \<Rightarrow> nat \<Rightarrow> nat option option" where
  "glob_iter 0 p s si pj star mark = None"
| "glob_iter (Suc n) p s si pj star mark =
     (if si < length s then
        if pj < length p \<and> (p ! pj = s ! si \<or> p ! pj = CHR ''?'') then
          glob_iter n p s (Suc si) (Suc pj) star mark
        else if pj < length p \<and> p ! pj = CHR ''*'' then
          glob_iter n p s si (Suc pj) (Some pj) si
        else (case star of
            Some st \<Rightarrow> glob_iter n p s (Suc mark) (Suc st) (Some st) (Suc mark)
          | None \<Rightarrow> Some None)
      else Some (Some pj))"

lemma retry_budget:
  fixes L M m pj st k n :: nat
  assumes "m < L" "(L - m) * (M + 1) + (M - pj) < Suc n"
  shows "(L - Suc m) * (M + 1) + (M - Suc st) < n"
proof -
  have "(L - m) * (M + 1) = (L - Suc m) * (M + 1) + (M + 1)"
    using assms(1) by (metis Suc_diff_Suc add.commute mult_Suc)
  with assms(2) show ?thesis by linarith
qed

lemma star_budget:
  fixes L M :: nat
  assumes "mark \<le> si" "(L - mark) * (M + 1) + (M - pj) < Suc n" "pj < M"
  shows "(L - si) * (M + 1) + (M - Suc pj) < n"
proof -
  have "(L - si) * (M + 1) \<le> (L - mark) * (M + 1)" using assms(1) by (intro mult_le_mono1) simp
  with assms(2,3) show ?thesis by linarith
qed

lemma glob_iter_enough:
  assumes "mark \<le> si" "si \<le> length s" "pj \<le> length p" "\<forall>st. star = Some st \<longrightarrow> st < length p"
    and "(length s - mark) * (length p + 1) + (length p - pj) < n"
  shows "glob_iter n p s si pj star mark = Some (glob_loop p s si pj star mark)"
  using assms
proof (induction n arbitrary: si pj star mark)
  case (Suc n)
  consider (finish) "\<not> si < length s"
    | (char) "si < length s" "pj < length p \<and> (p ! pj = s ! si \<or> p ! pj = CHR ''?'')"
    | (star) "si < length s" "\<not> (pj < length p \<and> (p ! pj = s ! si \<or> p ! pj = CHR ''?''))" "pj < length p \<and> p ! pj = CHR ''*''"
    | (retry) "si < length s" "\<not> (pj < length p \<and> (p ! pj = s ! si \<or> p ! pj = CHR ''?''))" "\<not> (pj < length p \<and> p ! pj = CHR ''*'')"
    by blast
  then show ?case
  proof cases
    case finish
    then show ?thesis by (simp add: glob_loop_end)
  next
    case char
    have "glob_iter n p s (Suc si) (Suc pj) star mark = Some (glob_loop p s (Suc si) (Suc pj) star mark)"
      using char Suc.prems by (intro Suc.IH) auto
    with char show ?thesis by (simp add: glob_loop_char)
  next
    case star
    have "glob_iter n p s si (Suc pj) (Some pj) si = Some (glob_loop p s si (Suc pj) (Some pj) si)"
      using star Suc.prems star_budget[OF Suc.prems(1,5)] by (intro Suc.IH) auto
    then show ?thesis using glob_loop_star[OF star, of star mark] star by simp
  next
    case retry
    have "glob_iter n p s (Suc mark) (Suc st) (Some st) (Suc mark) = Some (glob_loop p s (Suc mark) (Suc st) (Some st) (Suc mark))"
      if "star = Some st" for st
      using retry Suc.prems that retry_budget[of mark "length s" "length p" pj n st] by (intro Suc.IH) auto
    moreover note glob_loop_retry[OF retry, of star mark]
    ultimately show ?thesis using retry
      by (cases star) (simp_all only: glob_iter.simps if_True if_False option.case)
  qed
qed simp

end
