(* ===== verification/PolicyCondition.thy ===== *)
theory PolicyCondition
  imports PolicyGlob
begin

text \<open>
  Conditions of policy rules: the closed field vocabulary and its accessors
  (\<open>internal/mcp/policy/fields.go\<close>) and the compiler from a raw condition to a match
  closure (\<open>internal/mcp/policy/condition.go\<close>). An accessor that returns
  \<open>(value, present)\<close> is an option. A compiled condition is a record whose
  \<open>cc_match\<close> field is the closure, a function of the decision tuple. Value sets are the
  lists they are built from; only membership is used.
\<close>

section \<open>Parsing RFC 3339 instants\<close>

text \<open>
  \<open>time.Parse(time.RFC3339, s)\<close> of the standard library for the one layout the code
  uses: fixed two-digit fields except the hour, which may have one digit; an optional
  fraction after a dot or comma even though the layout has none (digits past the ninth
  dropped); \<open>Z\<close> or a signed offset of at most 24 hours and 60 minutes; the day checked
  against the month.
\<close>

definition isDigit :: "char \<Rightarrow> bool" where
  "isDigit c \<longleftrightarrow> 48 \<le> (of_char c :: nat) \<and> (of_char c :: nat) \<le> 57"

definition digit_val :: "char \<Rightarrow> int" where
  "digit_val c = of_char c - 48"

fun getnum :: "bool \<Rightarrow> string \<Rightarrow> (int \<times> string) option" where
  "getnum fixed [] = None"
| "getnum fixed [c] = (if isDigit c \<and> \<not> fixed then Some (digit_val c, []) else None)"
| "getnum fixed (c # d # s) =
     (if \<not> isDigit c then None
      else if isDigit d then Some (10 * digit_val c + digit_val d, s)
      else if fixed then None else Some (digit_val c, d # s))"

fun skip_byte :: "char \<Rightarrow> string \<Rightarrow> string option" where
  "skip_byte b [] = None"
| "skip_byte b (c # s) = (if c = b then Some s else None)"

definition digits_val :: "string \<Rightarrow> int" where
  "digits_val ds = foldl (\<lambda>n c. 10 * n + digit_val c) 0 ds"

definition parse_year :: "string \<Rightarrow> (int \<times> string) option" where
  "parse_year s =
     (if length s \<ge> 4 \<and> list_all isDigit (take 4 s) then Some (digits_val (take 4 s), drop 4 s)
      else None)"

definition parse_fraction :: "string \<Rightarrow> int \<times> string" where
  "parse_fraction s = (case s of
     p # d # s' \<Rightarrow>
       if (p = CHR ''.'' \<or> p = CHR '','') \<and> isDigit d then
         let ds = takeWhile isDigit (d # s'); used = take 9 ds
         in (digits_val used * 10 ^ (9 - length used), dropWhile isDigit (d # s'))
       else (0, s)
   | _ \<Rightarrow> (0, s))"

definition parse_zone :: "string \<Rightarrow> (int \<times> string) option" where
  "parse_zone s = (case s of
     [] \<Rightarrow> None
   | c # s' \<Rightarrow>
       if c = CHR ''Z'' then Some (0, s')
       else if length s < 6 \<or> s ! 3 \<noteq> CHR '':'' then None
       else (case (getnum True (take 2 (drop 1 s)), getnum True (take 2 (drop 4 s))) of
           (Some (hr, _), Some (mm, _)) \<Rightarrow>
             if hr > 24 \<or> mm > 60 then None
             else if c = CHR ''+'' then Some ((hr * 60 + mm) * 60, drop 6 s)
             else if c = CHR ''-'' then Some (- ((hr * 60 + mm) * 60), drop 6 s)
             else None
         | _ \<Rightarrow> None))"

definition is_leap :: "int \<Rightarrow> bool" where
  "is_leap y \<longleftrightarrow> y mod 4 = 0 \<and> (y mod 100 \<noteq> 0 \<or> y mod 400 = 0)"

definition days_in :: "int \<Rightarrow> int \<Rightarrow> int" where
  "days_in m y =
     (if m = 2 then (if is_leap y then 29 else 28)
      else if m = 4 \<or> m = 6 \<or> m = 9 \<or> m = 11 then 30 else 31)"

definition days_before_month :: "int \<Rightarrow> int \<Rightarrow> int" where
  "days_before_month m y = sum_list (map (\<lambda>k. days_in k y) [1..m - 1])"

definition days_since_year1 :: "int \<Rightarrow> int \<Rightarrow> int \<Rightarrow> int" where
  "days_since_year1 y m d =
     365 * (y - 1) + (y - 1) div 4 - (y - 1) div 100 + (y - 1) div 400
       + days_before_month m y + (d - 1)"

definition parse_rfc3339 :: "string \<Rightarrow> gotime option" where
  "parse_rfc3339 s0 =
     Option.bind (parse_year s0) (\<lambda>(y, s).
     Option.bind (skip_byte (CHR ''-'') s) (\<lambda>s.
     Option.bind (getnum True s) (\<lambda>(mo, s).
     if mo \<le> 0 \<or> 12 < mo then None else
     Option.bind (skip_byte (CHR ''-'') s) (\<lambda>s.
     Option.bind (getnum True s) (\<lambda>(d, s).
     Option.bind (skip_byte (CHR ''T'') s) (\<lambda>s.
     Option.bind (getnum False s) (\<lambda>(h, s).
     if 24 \<le> h then None else
     Option.bind (skip_byte (CHR '':'') s) (\<lambda>s.
     Option.bind (getnum True s) (\<lambda>(mi, s).
     if 60 \<le> mi then None else
     Option.bind (skip_byte (CHR '':'') s) (\<lambda>s.
     Option.bind (getnum True s) (\<lambda>(sec, s).
     if 60 \<le> sec then None else
     (case parse_fraction s of (ns, s) \<Rightarrow>
     Option.bind (parse_zone s) (\<lambda>(off, s).
     if s \<noteq> [] \<or> d < 1 \<or> d > days_in mo y then None
     else Some ((((days_since_year1 y mo d * 24 + h) * 60 + mi) * 60 + sec - off)
                  * nanosPerSecond + ns))))))))))))))"

section \<open>Field vocabulary\<close>

datatype field_kind = kindString | kindSet | kindBool | kindAssurance | kindPower | kindTime

definition fieldKinds :: "(string \<times> field_kind) list" where
  "fieldKinds = [
     (''capability'', kindString),
     (''principal.kind'', kindString),
     (''principal.subject'', kindString),
     (''principal.tenant'', kindString),
     (''principal.issuer'', kindString),
     (''principal.groups'', kindSet),
     (''principal.assurance'', kindAssurance),
     (''principal.sender_binding'', kindString),
     (''principal.sender_bound'', kindBool),
     (''agent.id'', kindString),
     (''agent.owner'', kindString),
     (''agent.version'', kindString),
     (''agent.managed'', kindString),
     (''agent.trust'', kindString),
     (''client.id'', kindString),
     (''client.app'', kindString),
     (''client.trust'', kindString),
     (''server.id'', kindString),
     (''server.owner'', kindString),
     (''server.environment'', kindString),
     (''server.enabled'', kindBool),
     (''server.verification'', kindString),
     (''tool.name'', kindString),
     (''tool.fingerprint'', kindString),
     (''tool.disposition'', kindString),
     (''tool.drift'', kindString),
     (''tool.destination'', kindString),
     (''tool.credential_power'', kindPower),
     (''tool.reversibility'', kindString),
     (''tool.risk'', kindSet),
     (''operation.method'', kindString),
     (''operation.operand'', kindString),
     (''operation.point'', kindString),
     (''operation.class'', kindString),
     (''operation.namespace'', kindString),
     (''resource.type'', kindString),
     (''resource.id'', kindString),
     (''resource.tenant'', kindString),
     (''destination.class'', kindString),
     (''destination.environment'', kindString),
     (''destination.approved_breadth'', kindString),
     (''credential.profile'', kindString),
     (''credential.kind'', kindString),
     (''credential.power_ceiling'', kindPower),
     (''session.assurance'', kindAssurance),
     (''session.sender_binding'', kindString),
     (''session.prior_confirmation'', kindBool),
     (''session.prior_approval'', kindBool),
     (''session.prior_grant'', kindBool),
     (''inspection.dlp_available'', kindBool),
     (''inspection.redaction_available'', kindBool),
     (''inspection.dest_inspect_available'', kindBool),
     (''inspection.secret_scan_available'', kindBool),
     (''inspection.secret_found'', kindBool),
     (''inspection.pii_found'', kindBool),
     (''inspection.injection_suspected'', kindBool),
     (''inspection.schema_invalid'', kindBool),
     (''time'', kindTime)]"

definition present :: "string \<Rightarrow> string option" where
  "present s = (if s = [] then None else Some s)"

definition agentStr :: "(agent \<Rightarrow> string) \<Rightarrow> decision_input \<Rightarrow> string option" where
  "agentStr f i = (case di_Agent i of None \<Rightarrow> None | Some a \<Rightarrow> present (f a))"

definition serverStr :: "(server \<Rightarrow> string) \<Rightarrow> decision_input \<Rightarrow> string option" where
  "serverStr f i = (case di_Server i of None \<Rightarrow> None | Some s \<Rightarrow> present (f s))"

definition toolStr :: "(tool \<Rightarrow> string) \<Rightarrow> decision_input \<Rightarrow> string option" where
  "toolStr f i = (case di_Tool i of None \<Rightarrow> None | Some t \<Rightarrow> present (f t))"

definition resourceStr :: "(resource \<Rightarrow> string) \<Rightarrow> decision_input \<Rightarrow> string option" where
  "resourceStr f i = (case di_Resource i of None \<Rightarrow> None | Some r \<Rightarrow> present (f r))"

definition credStr :: "(credential_meta \<Rightarrow> string) \<Rightarrow> decision_input \<Rightarrow> string option" where
  "credStr f i = (case di_Credential i of None \<Rightarrow> None | Some c \<Rightarrow> present (f c))"

definition stringFields :: "(string \<times> (decision_input \<Rightarrow> string option)) list" where
  "stringFields = [
     (''capability'', \<lambda>i. Some (Capability_String (di_Capability i))),
     (''principal.kind'', \<lambda>i. Some (SubjectKind_String (pr_Kind (di_Principal i)))),
     (''principal.subject'', \<lambda>i. present (pr_SubjectID (di_Principal i))),
     (''principal.tenant'', \<lambda>i. present (pr_Tenant (di_Principal i))),
     (''principal.issuer'', \<lambda>i. present (pr_Issuer (di_Principal i))),
     (''principal.sender_binding'', \<lambda>i. Some (SenderBinding_String (pr_SenderBinding (di_Principal i)))),
     (''session.sender_binding'', \<lambda>i. Some (SenderBinding_String (se_SenderBinding (di_Session i)))),
     (''agent.id'', agentStr ag_AgentID),
     (''agent.owner'', agentStr ag_Owner),
     (''agent.version'', agentStr ag_Version),
     (''agent.managed'', agentStr (\<lambda>a. ManagedState_String (ag_Managed a))),
     (''agent.trust'', agentStr (\<lambda>a. TrustClass_String (ag_Trust a))),
     (''client.id'', \<lambda>i. present (cl_ClientID (di_Client i))),
     (''client.app'', \<lambda>i. present (cl_AppID (di_Client i))),
     (''client.trust'', \<lambda>i. Some (TrustClass_String (cl_Trust (di_Client i)))),
     (''server.id'', serverStr sv_ServerID),
     (''server.owner'', serverStr sv_Owner),
     (''server.environment'', serverStr sv_Environment),
     (''server.verification'', serverStr (\<lambda>s. ServerVerification_String (sv_Verification s))),
     (''tool.name'', toolStr tl_Name),
     (''tool.fingerprint'', toolStr tl_FingerprintHash),
     (''tool.disposition'', toolStr (\<lambda>t. Disposition_String (tl_Disposition t))),
     (''tool.drift'', toolStr (\<lambda>t. DriftClass_String (tl_Drift t))),
     (''tool.destination'', toolStr (\<lambda>t. Destination_String (tl_Destination t))),
     (''tool.reversibility'', toolStr (\<lambda>t. Reversibility_String (tl_Reversibility t))),
     (''operation.method'', \<lambda>i. present (op_Method (di_Operation i))),
     (''operation.operand'', \<lambda>i. present (op_Operand (di_Operation i))),
     (''operation.point'', \<lambda>i. present (op_DecisionPoint (di_Operation i))),
     (''operation.class'', \<lambda>i. Some (OperationClass_String (op_Class (di_Operation i)))),
     (''operation.namespace'', \<lambda>i. Some (OperationNamespace_String (op_Namespace (di_Operation i)))),
     (''resource.type'', resourceStr rs_Type),
     (''resource.id'', resourceStr rs_ID),
     (''resource.tenant'', resourceStr rs_Tenant),
     (''destination.class'', \<lambda>i. Some (Destination_String (ds_Class (di_Destination i)))),
     (''destination.environment'', \<lambda>i. present (ds_Environment (di_Destination i))),
     (''destination.approved_breadth'', \<lambda>i. Some (Destination_String (ds_ApprovedBreadth (di_Destination i)))),
     (''credential.profile'', credStr cr_ProfileRef),
     (''credential.kind'', credStr cr_Kind)]"

definition setFields :: "(string \<times> (decision_input \<Rightarrow> string list)) list" where
  "setFields = [
     (''principal.groups'', \<lambda>i. pr_Groups (di_Principal i)),
     (''tool.risk'', \<lambda>i. case di_Tool i of None \<Rightarrow> [] | Some t \<Rightarrow> tl_RiskSignals t)]"

definition boolFields :: "(string \<times> (decision_input \<Rightarrow> bool)) list" where
  "boolFields = [
     (''server.enabled'', \<lambda>i. case di_Server i of None \<Rightarrow> False | Some s \<Rightarrow> sv_Enabled s),
     (''principal.sender_bound'', \<lambda>i. SenderBinding_Bound (pr_SenderBinding (di_Principal i))),
     (''session.prior_confirmation'', \<lambda>i. se_PriorConfirmation (di_Session i)),
     (''session.prior_approval'', \<lambda>i. se_PriorApproval (di_Session i)),
     (''session.prior_grant'', \<lambda>i. se_PriorGrant (di_Session i)),
     (''inspection.dlp_available'', \<lambda>i. ip_DLPAvailable (di_Inspection i)),
     (''inspection.redaction_available'', \<lambda>i. ip_RedactionAvailable (di_Inspection i)),
     (''inspection.dest_inspect_available'', \<lambda>i. ip_DestInspectAvailable (di_Inspection i)),
     (''inspection.secret_scan_available'', \<lambda>i. ip_SecretScanAvailable (di_Inspection i)),
     (''inspection.secret_found'',
        \<lambda>i. ip_SecretScanAvailable (di_Inspection i) \<and> ip_SecretFound (di_Inspection i)),
     (''inspection.pii_found'',
        \<lambda>i. ip_DLPAvailable (di_Inspection i) \<and> ip_PIIFound (di_Inspection i)),
     (''inspection.injection_suspected'',
        \<lambda>i. ip_DLPAvailable (di_Inspection i) \<and> ip_InjectionSuspected (di_Inspection i)),
     (''inspection.schema_invalid'',
        \<lambda>i. ip_DestInspectAvailable (di_Inspection i) \<and> ip_SchemaInvalid (di_Inspection i))]"

definition assuranceFields :: "(string \<times> (decision_input \<Rightarrow> assurance)) list" where
  "assuranceFields = [
     (''principal.assurance'', \<lambda>i. pr_Assurance (di_Principal i)),
     (''session.assurance'', \<lambda>i. se_Assurance (di_Session i))]"

definition powerFields :: "(string \<times> (decision_input \<Rightarrow> credential_power)) list" where
  "powerFields = [
     (''tool.credential_power'',
        \<lambda>i. case di_Tool i of None \<Rightarrow> PowerUnset | Some t \<Rightarrow> tl_CredentialPower t),
     (''credential.power_ceiling'',
        \<lambda>i. case di_Credential i of None \<Rightarrow> PowerUnset | Some c \<Rightarrow> cr_PowerCeiling c)]"

definition resourceAttrField :: "string \<Rightarrow> string option" where
  "resourceAttrField field =
     (let p = ''resource.attr:'' in
      if HasPrefix field p then
        (let key = drop (length p) field in if key \<noteq> [] then Some key else None)
      else None)"

definition resourceAttr :: "decision_input \<Rightarrow> string \<Rightarrow> string option" where
  "resourceAttr i key = (case di_Resource i of
     None \<Rightarrow> None
   | Some r \<Rightarrow> (case map_of (rs_Attrs r) key of
       None \<Rightarrow> None
     | Some v \<Rightarrow> if v = [] then None else Some v))"

definition parseAssurance :: "string \<Rightarrow> assurance option" where
  "parseAssurance s =
     (if s = ''unknown'' then Some AssuranceUnknown
      else if s = ''low'' then Some AssuranceLow
      else if s = ''medium'' then Some AssuranceMedium
      else if s = ''high'' then Some AssuranceHigh
      else None)"

definition parsePower :: "string \<Rightarrow> credential_power option" where
  "parsePower s =
     (if s = ''read_only'' then Some PowerReadOnly
      else if s = ''write'' then Some PowerWrite
      else if s = ''admin'' then Some PowerAdmin
      else None)"

section \<open>Compiling a condition\<close>

record compiled_cond =
  cc_id :: string
  cc_match :: "decision_input \<Rightarrow> bool"

record raw_condition =
  rc_Field :: string
  rc_Op :: string
  rc_Value :: string
  rc_Values :: "string list"
  rc_Start :: string
  rc_End :: string

definition boundStr :: "string \<Rightarrow> limits \<Rightarrow> go_error option" where
  "boundStr s lim = first_err [
     err_if (s = [])
       (condErr ''condition value must be non-empty (an empty value is vacuous and would widen the rule)''),
     err_if (int (length s) > MaxStringBytes lim)
       (condErr ''condition string value exceeds the byte bound'')]"

definition boundSet :: "string list \<Rightarrow> limits \<Rightarrow> string list res" where
  "boundSet values lim =
     (if values = [] then Inl (condErr ''set operator requires a non-empty value set'')
      else if int (length values) > MaxSetValues lim then
        Inl (condErr ''condition value set exceeds the bound'')
      else mapR (\<lambda>v.
        if v = [] then Inl (condErr ''condition set value must be non-empty'')
        else if int (length v) > MaxStringBytes lim then
          Inl (condErr ''condition set value exceeds the byte bound'')
        else Inr v) values)"

text \<open>
  The getter of a string condition. The table lookup is total on compiled conditions
  (\<open>field_tables_complete\<close> below), so the missing-entry branch, where the source would
  call a nil function, is not taken.
\<close>

definition stringGetter :: "string \<Rightarrow> string \<Rightarrow> decision_input \<Rightarrow> string option" where
  "stringGetter field attrKey i =
     (if attrKey \<noteq> [] then resourceAttr i attrKey
      else case map_of stringFields field of None \<Rightarrow> None | Some g \<Rightarrow> g i)"

definition compileStringCond :: "raw_condition \<Rightarrow> limits \<Rightarrow> string \<Rightarrow> string \<Rightarrow> compiled_cond res" where
  "compileStringCond rc lim cid attrKey =
     (let get = stringGetter (rc_Field rc) attrKey in
      if rc_Op rc = ''exact'' then
        bindR (guardR (boundStr (rc_Value rc) lim)) (\<lambda>_.
          Inr \<lparr>cc_id = cid, cc_match = \<lambda>i. case get i of None \<Rightarrow> False | Some v \<Rightarrow> v = rc_Value rc\<rparr>)
      else if rc_Op rc = ''one_of'' then
        bindR (boundSet (rc_Values rc) lim) (\<lambda>vs.
          Inr \<lparr>cc_id = cid, cc_match = \<lambda>i. case get i of None \<Rightarrow> False | Some v \<Rightarrow> v \<in> set vs\<rparr>)
      else if rc_Op rc = ''prefix'' then
        bindR (guardR (boundStr (rc_Value rc) lim)) (\<lambda>_.
          Inr \<lparr>cc_id = cid,
               cc_match = \<lambda>i. case get i of None \<Rightarrow> False | Some v \<Rightarrow> HasPrefix v (rc_Value rc)\<rparr>)
      else if rc_Op rc = ''glob'' then
        bindR (compileGlob (rc_Value rc) lim) (\<lambda>g.
          Inr \<lparr>cc_id = cid, cc_match = \<lambda>i. case get i of None \<Rightarrow> False | Some v \<Rightarrow> glob_match g v\<rparr>)
      else Inl (condErr ''operator not valid for a string field''))"

definition compileSetCond :: "raw_condition \<Rightarrow> limits \<Rightarrow> string \<Rightarrow> compiled_cond res" where
  "compileSetCond rc lim cid =
     (let get = (\<lambda>i. case map_of setFields (rc_Field rc) of None \<Rightarrow> [] | Some g \<Rightarrow> g i) in
      if rc_Op rc = ''contains'' then
        bindR (guardR (boundStr (rc_Value rc) lim)) (\<lambda>_.
          Inr \<lparr>cc_id = cid, cc_match = \<lambda>i. list_ex (\<lambda>v. v = rc_Value rc) (get i)\<rparr>)
      else if rc_Op rc = ''contains_any'' then
        bindR (boundSet (rc_Values rc) lim) (\<lambda>vs.
          Inr \<lparr>cc_id = cid, cc_match = \<lambda>i. list_ex (\<lambda>v. v \<in> set vs) (get i)\<rparr>)
      else Inl (condErr ''operator not valid for a set field''))"

definition compileBoolCond :: "raw_condition \<Rightarrow> string \<Rightarrow> compiled_cond res" where
  "compileBoolCond rc cid =
     (if rc_Op rc \<noteq> ''bool'' then Inl (condErr ''operator not valid for a bool field'')
      else if rc_Value rc \<noteq> ''true'' \<and> rc_Value rc \<noteq> ''false'' then
        Inl (condErr (''bool condition value must be '' @ CHR 0x22 # ''true'' @ CHR 0x22 # '' or ''
               @ CHR 0x22 # ''false'' @ [CHR 0x22]))
      else
        (let want = (rc_Value rc = ''true'');
             get = (\<lambda>i. case map_of boolFields (rc_Field rc) of None \<Rightarrow> False | Some g \<Rightarrow> g i)
         in Inr \<lparr>cc_id = cid, cc_match = \<lambda>i. get i = want\<rparr>))"

definition compileAssuranceCond :: "raw_condition \<Rightarrow> string \<Rightarrow> compiled_cond res" where
  "compileAssuranceCond rc cid =
     (if rc_Op rc \<noteq> ''min_assurance'' then
        Inl (condErr ''operator not valid for an assurance field'')
      else case parseAssurance (rc_Value rc) of
        None \<Rightarrow> Inl (condErr ''invalid assurance level'')
      | Some lvl \<Rightarrow>
          Inr \<lparr>cc_id = cid, cc_match = \<lambda>i.
            case map_of assuranceFields (rc_Field rc) of None \<Rightarrow> False | Some g \<Rightarrow> g i \<ge> lvl\<rparr>)"

definition compilePowerCond :: "raw_condition \<Rightarrow> string \<Rightarrow> compiled_cond res" where
  "compilePowerCond rc cid =
     (case parsePower (rc_Value rc) of
        None \<Rightarrow> Inl (condErr ''invalid credential power'')
      | Some want \<Rightarrow>
          if want = PowerUnset then Inl (condErr ''invalid credential power'')
          else
            (let get = (\<lambda>i. case map_of powerFields (rc_Field rc) of None \<Rightarrow> PowerUnset | Some g \<Rightarrow> g i) in
             if rc_Op rc = ''max_power'' then
               Inr \<lparr>cc_id = cid, cc_match = \<lambda>i. get i \<noteq> PowerUnset \<and> get i \<le> want\<rparr>
             else if rc_Op rc = ''min_power'' then
               Inr \<lparr>cc_id = cid, cc_match = \<lambda>i. get i \<noteq> PowerUnset \<and> get i \<ge> want\<rparr>
             else Inl (condErr ''operator not valid for a power field'')))"

definition compileTimeCond :: "raw_condition \<Rightarrow> string \<Rightarrow> compiled_cond res" where
  "compileTimeCond rc cid =
     (if rc_Op rc \<noteq> ''time_window'' \<or> rc_Field rc \<noteq> ''time'' then
        Inl (condErr ''operator not valid for the time field'')
      else case parse_rfc3339 (rc_Start rc) of
        None \<Rightarrow> Inl (condErr ''invalid time-window start (RFC3339 UTC required)'')
      | Some start \<Rightarrow> (case parse_rfc3339 (rc_End rc) of
          None \<Rightarrow> Inl (condErr ''invalid time-window end (RFC3339 UTC required)'')
        | Some end' \<Rightarrow>
            if \<not> end' > start then Inl (condErr ''time-window end must be after start'')
            else Inr \<lparr>cc_id = cid,
                      cc_match = \<lambda>i. \<not> di_EvalTime i < start \<and> \<not> di_EvalTime i > end'\<rparr>))"

definition compileCondition :: "raw_condition \<Rightarrow> limits \<Rightarrow> compiled_cond res" where
  "compileCondition rc lim =
     (let cid = rc_Field rc @ ''|'' @ rc_Op rc in
      case map_of fieldKinds (rc_Field rc) of
        Some kindString \<Rightarrow> compileStringCond rc lim cid []
      | Some kindSet \<Rightarrow> compileSetCond rc lim cid
      | Some kindBool \<Rightarrow> compileBoolCond rc cid
      | Some kindAssurance \<Rightarrow> compileAssuranceCond rc cid
      | Some kindPower \<Rightarrow> compilePowerCond rc cid
      | Some kindTime \<Rightarrow> compileTimeCond rc cid
      | None \<Rightarrow> (case resourceAttrField (rc_Field rc) of
          Some key \<Rightarrow> compileStringCond rc lim cid key
        | None \<Rightarrow> Inl (condErr ''unknown condition field'')))"

section \<open>Lemmas\<close>

text \<open>Every field of the vocabulary has an accessor in the table of its kind.\<close>

definition field_tables_agree :: "string \<times> field_kind \<Rightarrow> bool" where
  "field_tables_agree fk = (case fk of (f, k) \<Rightarrow> (case k of
     kindString \<Rightarrow> map_of stringFields f \<noteq> None
   | kindSet \<Rightarrow> map_of setFields f \<noteq> None
   | kindBool \<Rightarrow> map_of boolFields f \<noteq> None
   | kindAssurance \<Rightarrow> map_of assuranceFields f \<noteq> None
   | kindPower \<Rightarrow> map_of powerFields f \<noteq> None
   | kindTime \<Rightarrow> f = ''time''))"

lemmas condition_defs =
  compileCondition_def compileStringCond_def compileSetCond_def compileBoolCond_def
  compileAssuranceCond_def compilePowerCond_def compileTimeCond_def

lemma compileCondition_id:
  "compileCondition rc lim = Inr c \<Longrightarrow> cc_id c = rc_Field rc @ ''|'' @ rc_Op rc"
  by (auto simp: condition_defs Let_def bindR_eq_Inr
      split: option.splits field_kind.splits if_splits)

lemma compileStringCond_absent:
  assumes "compileStringCond rc lim cid key = Inr c" and "stringGetter (rc_Field rc) key i = None"
  shows "\<not> cc_match c i"
  using assms by (auto simp: compileStringCond_def Let_def bindR_eq_Inr split: if_splits)

end
