(* ===== verification/Hashing.thy ===== *)
theory Hashing
  imports Prelude "HOL-Library.Word"
begin

unbundle bit_operations_syntax

text \<open>
  The byte encodings and the hash function the content hashes of the program use:
  big-endian 64-bit lengths (\<open>putUint64\<close>, \<open>binary.BigEndian\<close>), hexadecimal
  output (\<open>encoding/hex\<close>) and SHA-256 (\<open>crypto/sha256\<close>, FIPS 180-4). The
  theorems about content hashes are about the byte strings fed to the hash: equal inputs
  give equal hashes, and distinct inputs can collide only as SHA-256 itself can.
\<close>

section \<open>Big-endian words and hexadecimal\<close>

primrec be_bytes :: "nat \<Rightarrow> nat \<Rightarrow> string" where
  "be_bytes 0 v = []"
| "be_bytes (Suc n) v = be_bytes n (v div 256) @ [char_of (v mod 256)]"

definition putUint64 :: "nat \<Rightarrow> string" where
  "putUint64 v = be_bytes 8 v"

definition be_val :: "string \<Rightarrow> nat" where
  "be_val bs = foldl (\<lambda>n c. 256 * n + of_char c) 0 bs"

definition hex_digit :: "nat \<Rightarrow> char" where
  "hex_digit d = (if d < 10 then char_of (48 + d) else char_of (87 + d))"

definition hex_encode :: "string \<Rightarrow> string" where
  "hex_encode bs = concat (map (\<lambda>c. [hex_digit (of_char c div 16), hex_digit (of_char c mod 16)]) bs)"

section \<open>SHA-256\<close>

type_synonym u32 = "32 word"

text \<open>
  The constants of the standard are defined rather than tabulated: the first 32 bits of the
  fractional parts of the cube roots of the first 64 primes (round constants) and of the square
  roots of the first 8 (initial state). The root is found bit by bit, from bit 36 downwards, which
  covers every root needed here.
\<close>

primrec iroot :: "nat \<Rightarrow> nat \<Rightarrow> nat \<Rightarrow> nat \<Rightarrow> nat" where
  "iroot k n 0 r = r"
| "iroot k n (Suc b) r = (if (r + 2 ^ b) ^ k \<le> n then iroot k n b (r + 2 ^ b) else iroot k n b r)"

definition root_fraction :: "nat \<Rightarrow> nat \<Rightarrow> u32" where
  "root_fraction k p = word_of_nat (iroot k (p * 2 ^ (32 * k)) 37 0)"

definition sha_primes :: "nat list" where
  "sha_primes = filter (\<lambda>p. list_all (\<lambda>d. p mod d \<noteq> 0) [2..<p]) [2..<312]"

definition sha_k :: "u32 list" where
  "sha_k = map (root_fraction 3) sha_primes"

definition rotr :: "nat \<Rightarrow> u32 \<Rightarrow> u32" where
  "rotr n x = drop_bit n x OR push_bit (32 - n) x"

definition sha_ch :: "u32 \<Rightarrow> u32 \<Rightarrow> u32 \<Rightarrow> u32" where
  "sha_ch x y z = (x AND y) XOR (NOT x AND z)"

definition sha_maj :: "u32 \<Rightarrow> u32 \<Rightarrow> u32 \<Rightarrow> u32" where
  "sha_maj x y z = (x AND y) XOR (x AND z) XOR (y AND z)"

definition big_sigma0 :: "u32 \<Rightarrow> u32" where
  "big_sigma0 x = rotr 2 x XOR rotr 13 x XOR rotr 22 x"

definition big_sigma1 :: "u32 \<Rightarrow> u32" where
  "big_sigma1 x = rotr 6 x XOR rotr 11 x XOR rotr 25 x"

definition small_sigma0 :: "u32 \<Rightarrow> u32" where
  "small_sigma0 x = rotr 7 x XOR rotr 18 x XOR drop_bit 3 x"

definition small_sigma1 :: "u32 \<Rightarrow> u32" where
  "small_sigma1 x = rotr 17 x XOR rotr 19 x XOR drop_bit 10 x"

definition sha_pad :: "string \<Rightarrow> string" where
  "sha_pad s = s @ CHR 0x80 # replicate (nat ((55 - int (length s)) mod 64)) (CHR 0x00)
                 @ putUint64 (8 * length s)"

fun word_of_bytes :: "string \<Rightarrow> u32" where
  "word_of_bytes bs = word_of_nat (be_val bs)"

fun chunks :: "nat \<Rightarrow> nat \<Rightarrow> 'a list \<Rightarrow> 'a list list" where
  "chunks 0 k xs = []"
| "chunks (Suc n) k xs = take k xs # chunks n k (drop k xs)"

text \<open>The message schedule, kept reversed while it grows.\<close>

primrec sha_schedule :: "nat \<Rightarrow> u32 list \<Rightarrow> u32 list" where
  "sha_schedule 0 ws = ws"
| "sha_schedule (Suc n) ws =
     sha_schedule n ((small_sigma1 (ws ! 1) + ws ! 6 + small_sigma0 (ws ! 14) + ws ! 15) # ws)"

type_synonym sha_state = "u32 \<times> u32 \<times> u32 \<times> u32 \<times> u32 \<times> u32 \<times> u32 \<times> u32"

fun sha_round :: "u32 \<times> u32 \<Rightarrow> sha_state \<Rightarrow> sha_state" where
  "sha_round (k, w) (a, b, c, d, e, f, g, h) =
     (let t1 = h + big_sigma1 e + sha_ch e f g + k + w;
          t2 = big_sigma0 a + sha_maj a b c
      in (t1 + t2, a, b, c, d + t1, e, f, g))"

fun sha_add :: "sha_state \<Rightarrow> sha_state \<Rightarrow> sha_state" where
  "sha_add (a, b, c, d, e, f, g, h) (a', b', c', d', e', f', g', h') =
     (a + a', b + b', c + c', d + d', e + e', f + f', g + g', h + h')"

definition sha_block :: "string \<Rightarrow> sha_state \<Rightarrow> sha_state" where
  "sha_block blk st =
     (let ws = rev (sha_schedule 48 (rev (map word_of_bytes (chunks 16 4 blk))))
      in sha_add st (fold sha_round (zip sha_k ws) st))"

definition sha_init :: sha_state where
  "sha_init = (let h = (\<lambda>i. root_fraction 2 (sha_primes ! i))
     in (h 0, h 1, h 2, h 3, h 4, h 5, h 6, h 7))"

definition state_bytes :: "sha_state \<Rightarrow> string" where
  "state_bytes st = (case st of (a, b, c, d, e, f, g, h) \<Rightarrow>
     concat (map (\<lambda>w. be_bytes 4 (unat w)) [a, b, c, d, e, f, g, h]))"

definition sha256 :: "string \<Rightarrow> string" where
  "sha256 msg =
     (let m = sha_pad msg
      in state_bytes (fold sha_block (chunks (length m div 64) 64 m) sha_init))"

section \<open>Lemmas\<close>

lemma iroot_bounds:
  assumes "r ^ k \<le> n" and "n < (r + 2 ^ b) ^ k"
  shows "iroot k n b r ^ k \<le> n \<and> n < Suc (iroot k n b r) ^ k"
  using assms
proof (induction b arbitrary: r)
  case (Suc b)
  then show ?case
    using Suc.IH[of "r + 2 ^ b"] Suc.IH[of r] by (simp add: add.assoc mult_2)
qed simp

text \<open>The integer root is exact for every operand the constants need.\<close>

lemma root_fraction_exact:
  assumes "0 < k" and "p < (2 ^ 5) ^ k"
  shows "iroot k (p * 2 ^ (32 * k)) 37 0 ^ k \<le> p * 2 ^ (32 * k) \<and>
    p * 2 ^ (32 * k) < Suc (iroot k (p * 2 ^ (32 * k)) 37 0) ^ k"
proof (rule iroot_bounds)
  show "0 ^ k \<le> p * 2 ^ (32 * k)" using assms(1) by (simp add: zero_power)
  have "p * 2 ^ (32 * k) < (2 ^ 5) ^ k * 2 ^ (32 * k)" using assms(2) by simp
  also have "\<dots> = (2 ^ 5 * 2 ^ 32) ^ k" by (simp only: power_mult_distrib power_mult)
  also have "\<dots> = (0 + 2 ^ 37) ^ k" by simp
  finally show "p * 2 ^ (32 * k) < (0 + 2 ^ 37) ^ k" .
qed

lemma length_be_bytes [simp]: "length (be_bytes n v) = n"
  by (induction n arbitrary: v) simp_all

lemma length_putUint64 [simp]: "length (putUint64 v) = 8"
  by (simp add: putUint64_def)

lemma be_val_snoc: "be_val (bs @ [c]) = 256 * be_val bs + of_char c"
  by (simp add: be_val_def)

lemma be_val_be_bytes: "be_val (be_bytes n v) = v mod 256 ^ n"
proof (induction n arbitrary: v)
  case 0
  then show ?case by (simp add: be_val_def)
next
  case (Suc n)
  have "be_val (be_bytes (Suc n) v) = 256 * (v div 256 mod 256 ^ n) + v mod 256"
    by (simp add: be_val_snoc Suc.IH)
  also have "\<dots> = v mod 256 ^ Suc n"
    by (simp add: mod_mult2_eq)
  finally show ?case .
qed

lemma putUint64_inject:
  assumes "v < 2 ^ 64" and "w < 2 ^ 64"
  shows "putUint64 v = putUint64 w \<longleftrightarrow> v = w"
proof
  assume "putUint64 v = putUint64 w"
  then have "be_val (be_bytes 8 v) = be_val (be_bytes 8 w)"
    by (simp add: putUint64_def)
  with assms show "v = w" by (simp add: be_val_be_bytes)
qed simp

lemma length_state_bytes [simp]: "length (state_bytes st) = 32"
  by (simp add: state_bytes_def split: prod.splits)

lemma length_sha256 [simp]: "length (sha256 msg) = 32"
  by (simp add: sha256_def Let_def)

lemma length_hex_encode [simp]: "length (hex_encode bs) = 2 * length bs"
  by (induction bs) (simp_all add: hex_encode_def)

text \<open>
  A length-prefixed segment is uniquely decodable: two streams of segments that start with
  equal-width lengths agree only if the first segments agree.
\<close>

definition lp_seg :: "string \<Rightarrow> string" where
  "lp_seg b = putUint64 (length b) @ b"

lemma lp_seg_append_inject:
  assumes "length a < 2 ^ 64" and "length b < 2 ^ 64"
  shows "lp_seg a @ x = lp_seg b @ y \<longleftrightarrow> a = b \<and> x = y"
proof
  assume eq: "lp_seg a @ x = lp_seg b @ y"
  then have "take 8 (lp_seg a @ x) = take 8 (lp_seg b @ y)" by simp
  then have "putUint64 (length a) = putUint64 (length b)"
    by (simp add: lp_seg_def)
  with assms have "length a = length b" by (simp add: putUint64_inject)
  with eq show "a = b \<and> x = y" by (simp add: lp_seg_def)
qed simp

end
