(* ===== verification/PolicyRules.thy ===== *)
theory PolicyRules
  imports PolicyCondition Hashing
begin

text \<open>
  Obligations (\<open>internal/mcp/policy/obligation.go\<close>), reason codes
  (\<open>reason.go\<close>), remediations (\<open>remediation.go\<close>), rules (\<open>rule.go\<close>), the raw
  document shape (\<open>parse.go\<close>) and the compiler from a decoded document to a snapshot
  (\<open>compile.go\<close>, \<open>snapshot.go\<close>). The model starts from the decoded
  \<open>rawSnapshot\<close>; the JSON decoding in front of it is not part of this theory.
\<close>

section \<open>Obligations\<close>

datatype logging_class = LogUnset | LogStandard | LogFull | LogAudit

fun LoggingClass_String :: "logging_class \<Rightarrow> string" where
  "LoggingClass_String LogStandard = ''standard''"
| "LoggingClass_String LogFull = ''full''"
| "LoggingClass_String LogAudit = ''audit''"
| "LoggingClass_String _ = ''unset''"

datatype observation_level = ObsUnset | ObsSummary | ObsDetailed

fun ObservationLevel_String :: "observation_level \<Rightarrow> string" where
  "ObservationLevel_String ObsSummary = ''summary''"
| "ObservationLevel_String ObsDetailed = ''detailed''"
| "ObservationLevel_String _ = ''unset''"

record session_grant =
  sg_SessionBound :: bool
  sg_TTLSeconds :: int
  sg_MaxCalls :: int
  sg_RevokeRequired :: bool

record redaction_req =
  rr_ProfileRef :: string
  rr_TransformedHashRequired :: bool

record obligations =
  ob_Logging :: logging_class
  ob_Observation :: observation_level
  ob_RateLimitProfile :: string
  ob_Destination :: destination
  ob_CredentialProfile :: string
  ob_OnceCall :: bool
  ob_Session :: "session_grant option"
  ob_Redaction :: "redaction_req option"
  ob_Confirmation :: bool
  ob_Approval :: bool
  ob_TicketRequired :: bool

definition no_obligations :: obligations where
  "no_obligations = \<lparr>
     ob_Logging = LogUnset, ob_Observation = ObsUnset, ob_RateLimitProfile = [],
     ob_Destination = DestinationUnknown, ob_CredentialProfile = [], ob_OnceCall = False,
     ob_Session = None, ob_Redaction = None, ob_Confirmation = False, ob_Approval = False,
     ob_TicketRequired = False\<rparr>"

definition Obligations_IDs :: "obligations \<Rightarrow> string list" where
  "Obligations_IDs o' =
     (if ob_Logging o' \<noteq> LogUnset then [''log:'' @ LoggingClass_String (ob_Logging o')] else [])
   @ (if ob_Observation o' \<noteq> ObsUnset then [''obs:'' @ ObservationLevel_String (ob_Observation o')] else [])
   @ (if ob_RateLimitProfile o' \<noteq> [] then [''rate:'' @ ob_RateLimitProfile o'] else [])
   @ (if ob_Destination o' \<noteq> DestinationUnknown then [''dest:'' @ Destination_String (ob_Destination o')] else [])
   @ (if ob_CredentialProfile o' \<noteq> [] then [''cred:'' @ ob_CredentialProfile o'] else [])
   @ (if ob_OnceCall o' then [''once''] else [])
   @ (if ob_Session o' \<noteq> None then [''session''] else [])
   @ (case ob_Redaction o' of Some r \<Rightarrow> [''redact:'' @ rr_ProfileRef r] | None \<Rightarrow> [])
   @ (if ob_Confirmation o' then [''confirm''] else [])
   @ (if ob_Approval o' then [''approval''] else [])
   @ (if ob_TicketRequired o' then [''ticket''] else [])"

definition obligationErr :: "string \<Rightarrow> go_error" where
  "obligationErr detail = New ReasonPolicyObligationInvalid ''policy.obligation'' detail"

definition validateShape :: "obligations \<Rightarrow> go_error option" where
  "validateShape o' = first_err [
     (case ob_Session o' of
        Some s \<Rightarrow> err_if (sg_TTLSeconds s \<le> 0 \<or> sg_MaxCalls s \<le> 0)
          (obligationErr ''session grant requires positive TTL and max-calls'')
      | None \<Rightarrow> None),
     (case ob_Redaction o' of
        Some r \<Rightarrow> err_if (rr_ProfileRef r = [])
          (obligationErr ''redaction obligation requires a profile reference'')
      | None \<Rightarrow> None)]"

definition validateCredentialProfile :: "obligations \<Rightarrow> action \<Rightarrow> capability \<Rightarrow> go_error option" where
  "validateCredentialProfile o' a capNS =
     (if ob_CredentialProfile o' = [] then None
      else first_err [
        err_if (\<not> Action_IsAllowClass a)
          (obligationErr ''credential profile is not permitted on a non-ALLOW-class action''),
        err_if (capNS \<noteq> CapGateway)
          (obligationErr ''only a Gateway rule may select a credential profile'')])"

definition validateSessionGrant :: "obligations \<Rightarrow> go_error option" where
  "validateSessionGrant o' = (case ob_Session o' of
     None \<Rightarrow> Some (obligationErr ''ALLOW_FOR_SESSION requires a session grant'')
   | Some s \<Rightarrow> first_err [
       err_if (\<not> sg_SessionBound s)
         (obligationErr ''ALLOW_FOR_SESSION requires a session-bound grant''),
       err_if (\<not> sg_RevokeRequired s)
         (obligationErr ''ALLOW_FOR_SESSION requires a revocable grant'')])"

definition validateRedaction :: "obligations \<Rightarrow> go_error option" where
  "validateRedaction o' = (case ob_Redaction o' of
     None \<Rightarrow> Some (obligationErr ''ALLOW_WITH_REDACTION requires a redaction-profile reference'')
   | Some r \<Rightarrow> first_err [
       err_if (rr_ProfileRef r = [])
         (obligationErr ''ALLOW_WITH_REDACTION requires a redaction-profile reference''),
       err_if (\<not> rr_TransformedHashRequired r)
         (obligationErr ''ALLOW_WITH_REDACTION requires transformed-content hash attestation'')])"

definition validateActionObligations :: "obligations \<Rightarrow> action \<Rightarrow> go_error option" where
  "validateActionObligations o' a = (case a of
     ActionAllow \<Rightarrow> err_if (ob_Approval o')
       (obligationErr ''a plain ALLOW may not carry an approval obligation'')
   | ActionAllowOnce \<Rightarrow> err_if (\<not> ob_OnceCall o')
       (obligationErr ''ALLOW_ONCE requires the one-call obligation'')
   | ActionAllowForSession \<Rightarrow> validateSessionGrant o'
   | ActionAllowWithRedaction \<Rightarrow> validateRedaction o'
   | ActionMonitor \<Rightarrow> err_if (ob_Logging o' = LogUnset)
       (obligationErr ''MONITOR requires a logging/telemetry obligation'')
   | ActionRequireApproval \<Rightarrow> err_if (\<not> ob_Approval o')
       (obligationErr ''REQUIRE_APPROVAL requires the approval obligation'')
   | ActionRequireConfirmation \<Rightarrow> err_if (\<not> ob_Confirmation o')
       (obligationErr ''REQUIRE_CONFIRMATION requires the confirmation obligation'')
   | _ \<Rightarrow> None)"

definition validateDestructive :: "obligations \<Rightarrow> action \<Rightarrow> bool \<Rightarrow> go_error option" where
  "validateDestructive o' a destructive =
     (if \<not> destructive \<or> \<not> Action_IsAllowClass a then None
      else first_err [
        err_if (\<not> ob_OnceCall o' \<and> ob_Session o' = None)
          (obligationErr ''a destructive ALLOW-class rule must bound execution (one-call or session)''),
        err_if (ob_Logging o' \<noteq> LogAudit)
          (obligationErr ''a destructive ALLOW-class rule must mandate audit logging'')])"

definition validateFor :: "obligations \<Rightarrow> action \<Rightarrow> capability \<Rightarrow> bool \<Rightarrow> go_error option" where
  "validateFor o' a capNS destructive = first_err [
     validateShape o',
     validateCredentialProfile o' a capNS,
     validateActionObligations o' a,
     validateDestructive o' a destructive]"

definition scalarsEqual :: "obligations \<Rightarrow> obligations \<Rightarrow> bool" where
  "scalarsEqual o' x \<longleftrightarrow>
     ob_Logging o' = ob_Logging x \<and> ob_Observation o' = ob_Observation x \<and>
     ob_RateLimitProfile o' = ob_RateLimitProfile x \<and> ob_Destination o' = ob_Destination x \<and>
     ob_CredentialProfile o' = ob_CredentialProfile x \<and> ob_OnceCall o' = ob_OnceCall x \<and>
     ob_Confirmation o' = ob_Confirmation x \<and> ob_Approval o' = ob_Approval x \<and>
     ob_TicketRequired o' = ob_TicketRequired x"

definition sessionGrantEqual :: "session_grant option \<Rightarrow> session_grant option \<Rightarrow> bool" where
  "sessionGrantEqual a b =
     (if (a = None) \<noteq> (b = None) then False
      else case (a, b) of (Some x, Some y) \<Rightarrow> x = y | _ \<Rightarrow> True)"

definition redactionReqEqual :: "redaction_req option \<Rightarrow> redaction_req option \<Rightarrow> bool" where
  "redactionReqEqual a b =
     (if (a = None) \<noteq> (b = None) then False
      else case (a, b) of (Some x, Some y) \<Rightarrow> x = y | _ \<Rightarrow> True)"

definition Obligations_Equal :: "obligations \<Rightarrow> obligations \<Rightarrow> bool" where
  "Obligations_Equal o' x \<longleftrightarrow> scalarsEqual o' x \<and>
     sessionGrantEqual (ob_Session o') (ob_Session x) \<and>
     redactionReqEqual (ob_Redaction o') (ob_Redaction x)"

section \<open>Reason codes and remediations\<close>

definition acceptedPrefixes :: "string list" where
  "acceptedPrefixes = [
     ''MCP.AUTH'', ''MCP.SERVER'', ''MCP.TOOL'', ''MCP.POLICY'', ''MCP.CREDENTIAL'',
     ''MCP.INSPECTION'', ''MCP.RATE'', ''MCP.SYSTEM'', ''MCP.MANAGEMENT'']"

definition validCodeToken :: "string \<Rightarrow> bool" where
  "validCodeToken t \<longleftrightarrow>
     \<not> (t = [] \<or> length t > 48 \<or> hd t = CHR ''_'' \<or> last t = CHR ''_'') \<and>
     list_all (\<lambda>c. (CHR ''A'' \<le> c \<and> c \<le> CHR ''Z'') \<or> (CHR ''0'' \<le> c \<and> c \<le> CHR ''9'') \<or> c = CHR ''_'') t"

definition ReasonCode_Valid :: "string \<Rightarrow> bool" where
  "ReasonCode_Valid s =
     (if s = [] \<or> length s > 128 then False
      else case IndexByte s (CHR ''.'') of
        None \<Rightarrow> False
      | Some i1 \<Rightarrow> (case IndexByte (drop (i1 + 1) s) (CHR ''.'') of
          None \<Rightarrow> False
        | Some i2 \<Rightarrow>
            (let prefixEnd = i1 + 1 + i2;
                 tokens = split_on (CHR ''.'') (drop (prefixEnd + 1) s)
             in take prefixEnd s \<in> set acceptedPrefixes \<and>
                \<not> (length tokens = 0 \<or> length tokens > 8) \<and>
                list_all validCodeToken tokens)))"

definition remediations :: "string list" where
  "remediations = [
     ''none'', ''request_access'', ''review_tool_drift'', ''request_approval'',
     ''request_confirmation'', ''use_correct_resource'', ''increase_assurance'',
     ''contact_policy_owner'', ''wait_for_policy_publication'', ''verify_server_identity'',
     ''not_permitted'']"

definition Remediation_Valid :: "string \<Rightarrow> bool" where
  "Remediation_Valid r \<longleftrightarrow> r \<in> set remediations"

section \<open>Documents, rules and snapshots\<close>

record raw_session =
  rws_SessionBound :: bool
  rws_TTLSeconds :: int
  rws_MaxCalls :: int
  rws_RevokeRequired :: bool

record raw_redaction =
  rwr_ProfileRef :: string
  rwr_TransformedHashRequired :: bool

record raw_obligations =
  ro_Logging :: string
  ro_Observation :: string
  ro_RateLimitProfile :: string
  ro_Destination :: string
  ro_CredentialProfile :: string
  ro_OnceCall :: bool
  ro_Session :: "raw_session option"
  ro_Redaction :: "raw_redaction option"
  ro_Confirmation :: bool
  ro_Approval :: bool
  ro_TicketRequired :: bool

record raw_rule =
  rw_ID :: string
  rw_Priority :: int
  rw_Enabled :: "bool option"
  rw_Conditions :: "raw_condition list"
  rw_Action :: string
  rw_Reason :: string
  rw_Remediation :: string
  rw_Obligations :: "raw_obligations option"
  rw_Owner :: string
  rw_ExpiryUnix :: int
  rw_AllowDestructive :: bool

record raw_snapshot =
  rs_SchemaVersion :: int
  rs_Capability :: string
  rs_PolicyRevision :: nat
  rs_DefaultAction :: string
  rs_Description :: string
  rs_Rules :: "raw_rule list"

record rule =
  rl_id :: string
  rl_priority :: int
  rl_enabled :: bool
  rl_conditions :: "compiled_cond list"
  rl_action :: action
  rl_reason :: string
  rl_remediation :: string
  rl_obligations :: obligations
  rl_owner :: string
  rl_expiryUnix :: int
  rl_allowDestructive :: bool
  rl_rawKey :: string

record created_meta =
  cm_Author :: string
  cm_CreatedAt :: string
  cm_Note :: string

record snapshot =
  sn_schemaVersion :: int
  sn_capability :: capability
  sn_revision :: nat
  sn_hash :: string
  sn_description :: string
  sn_rules :: "rule list"
  sn_defaultAction :: action
  sn_lim :: limits
  sn_meta :: created_meta

primrec conditions_match :: "compiled_cond list \<Rightarrow> decision_input \<Rightarrow> bool \<times> string" where
  "conditions_match [] i = (True, [])"
| "conditions_match (c # cs) i = (if \<not> cc_match c i then (False, cc_id c) else conditions_match cs i)"

definition Rule_matches :: "rule \<Rightarrow> decision_input \<Rightarrow> bool \<times> string" where
  "Rule_matches r i =
     (if rl_expiryUnix r \<noteq> 0 \<and> Time_Unix (di_EvalTime i) \<ge> rl_expiryUnix r then (False, ''expiry'')
      else conditions_match (rl_conditions r) i)"

section \<open>Compilation\<close>

definition ruleErr :: "string \<Rightarrow> go_error" where
  "ruleErr detail = New ReasonPolicyRuleInvalid ''policy.compile'' detail"

definition snapshotErr :: "string \<Rightarrow> go_error" where
  "snapshotErr detail = New ReasonPolicySnapshotInvalid ''policy.parse'' detail"

definition parseCapability :: "string \<Rightarrow> capability option" where
  "parseCapability s =
     (if s = ''gateway'' then Some CapGateway
      else if s = ''management'' then Some CapManagement
      else None)"

definition parseLogging :: "string \<Rightarrow> logging_class" where
  "parseLogging s =
     (if s = ''standard'' then LogStandard
      else if s = ''full'' then LogFull
      else if s = ''audit'' then LogAudit
      else LogUnset)"

definition parseObservation :: "string \<Rightarrow> observation_level" where
  "parseObservation s =
     (if s = ''summary'' then ObsSummary
      else if s = ''detailed'' then ObsDetailed
      else ObsUnset)"

definition parseDestination :: "string \<Rightarrow> destination" where
  "parseDestination s =
     (if s = ''none'' then DestinationNone
      else if s = ''approved'' then DestinationApproved
      else if s = ''internal'' then DestinationInternal
      else if s = ''arbitrary'' then DestinationArbitrary
      else DestinationUnknown)"

definition buildObligations :: "raw_obligations option \<Rightarrow> obligations" where
  "buildObligations ro = (case ro of
     None \<Rightarrow> no_obligations
   | Some r \<Rightarrow> \<lparr>
       ob_Logging = parseLogging (ro_Logging r),
       ob_Observation = parseObservation (ro_Observation r),
       ob_RateLimitProfile = ro_RateLimitProfile r,
       ob_Destination = parseDestination (ro_Destination r),
       ob_CredentialProfile = ro_CredentialProfile r,
       ob_OnceCall = ro_OnceCall r,
       ob_Session = map_option (\<lambda>s. \<lparr>
         sg_SessionBound = rws_SessionBound s, sg_TTLSeconds = rws_TTLSeconds s,
         sg_MaxCalls = rws_MaxCalls s, sg_RevokeRequired = rws_RevokeRequired s\<rparr>) (ro_Session r),
       ob_Redaction = map_option (\<lambda>d. \<lparr>
         rr_ProfileRef = rwr_ProfileRef d,
         rr_TransformedHashRequired = rwr_TransformedHashRequired d\<rparr>) (ro_Redaction r),
       ob_Confirmation = ro_Confirmation r,
       ob_Approval = ro_Approval r,
       ob_TicketRequired = ro_TicketRequired r\<rparr>)"

fun managementLegalAction :: "action \<Rightarrow> bool" where
  "managementLegalAction ActionAllow = True"
| "managementLegalAction ActionDeny = True"
| "managementLegalAction ActionRequireApproval = True"
| "managementLegalAction _ = False"

definition compileRuleHeader ::
    "raw_rule \<Rightarrow> capability \<Rightarrow> limits \<Rightarrow> (action \<times> string \<times> string) res" where
  "compileRuleHeader rr capNS lim =
     (if rw_ID rr = [] \<or> int (length (rw_ID rr)) > MaxStringBytes lim then
        Inl (ruleErr ''missing or over-long rule id'')
      else if rw_Priority rr \<le> 0 then Inl (ruleErr ''rule priority must be positive'')
      else case ParseAction (rw_Action rr) of
        None \<Rightarrow> Inl (ruleErr ''malformed or unknown action'')
      | Some a \<Rightarrow>
          if capNS = CapManagement \<and> \<not> managementLegalAction a then
            Inl (ruleErr ''action not legal for a Management rule (V1: ALLOW/DENY/REQUIRE_APPROVAL)'')
          else if \<not> ReasonCode_Valid (rw_Reason rr) then Inl (ruleErr ''malformed reason code'')
          else if \<not> Remediation_Valid (rw_Remediation rr) then
            Inl (ruleErr ''malformed or unknown remediation code'')
          else Inr (a, rw_Reason rr, rw_Remediation rr))"

definition sortedCopy :: "string list \<Rightarrow> string list" where
  "sortedCopy xs = sort xs"

definition canonicalCondKey :: "raw_condition \<Rightarrow> string" where
  "canonicalCondKey c = rc_Field c @ ''/'' @ rc_Op c @ ''/'' @ rc_Value c @ ''/''
     @ join '','' (sortedCopy (rc_Values c)) @ ''/'' @ rc_Start c @ ''-'' @ rc_End c"

definition canonicalObligations :: "obligations \<Rightarrow> string" where
  "canonicalObligations o' =
     ''log='' @ LoggingClass_String (ob_Logging o')
     @ '';obs='' @ ObservationLevel_String (ob_Observation o')
     @ '';rate='' @ ob_RateLimitProfile o'
     @ '';dest='' @ Destination_String (ob_Destination o')
     @ '';cred='' @ ob_CredentialProfile o'
     @ '';once='' @ FormatBool (ob_OnceCall o')
     @ '';conf='' @ FormatBool (ob_Confirmation o')
     @ '';appr='' @ FormatBool (ob_Approval o')
     @ '';tick='' @ FormatBool (ob_TicketRequired o')
     @ (case ob_Session o' of None \<Rightarrow> [] | Some s \<Rightarrow>
          '';sess='' @ FormatBool (sg_SessionBound s) @ ''/'' @ Itoa (sg_TTLSeconds s) @ ''/''
          @ Itoa (sg_MaxCalls s) @ ''/'' @ FormatBool (sg_RevokeRequired s))
     @ (case ob_Redaction o' of None \<Rightarrow> [] | Some r \<Rightarrow>
          '';red='' @ rr_ProfileRef r @ ''/'' @ FormatBool (rr_TransformedHashRequired r))"

definition rule_enabled :: "raw_rule \<Rightarrow> bool" where
  "rule_enabled rr = (case rw_Enabled rr of None \<Rightarrow> True | Some b \<Rightarrow> b)"

definition canonicalRuleKey ::
    "raw_rule \<Rightarrow> action \<Rightarrow> string \<Rightarrow> string \<Rightarrow> obligations \<Rightarrow> string" where
  "canonicalRuleKey rr a reason rem obl =
     ''id='' @ rw_ID rr
     @ '';pri='' @ Itoa (rw_Priority rr)
     @ '';en='' @ FormatBool (rule_enabled rr)
     @ '';act='' @ Action_String a
     @ '';rsn='' @ reason
     @ '';rem='' @ rem
     @ '';exp='' @ Itoa (rw_ExpiryUnix rr)
     @ '';dst='' @ FormatBool (rw_AllowDestructive rr)
     @ '';obl='' @ canonicalObligations obl
     @ '';cnd=['' @ join ''|'' (sort (map canonicalCondKey (rw_Conditions rr))) @ '']''"

definition compileRule :: "raw_rule \<Rightarrow> capability \<Rightarrow> limits \<Rightarrow> rule res" where
  "compileRule rr capNS lim =
     bindR (compileRuleHeader rr capNS lim) (\<lambda>(a, reason, rem).
     bindR (guardR (err_if (int (length (rw_Conditions rr)) > MaxConditions lim)
              (ruleErr ''too many conditions''))) (\<lambda>_.
     bindR (mapR (\<lambda>rc. compileCondition rc lim) (rw_Conditions rr)) (\<lambda>conds.
     let obl = buildObligations (rw_Obligations rr) in
     bindR (guardR (first_err [
         err_if (int (length (Obligations_IDs obl)) > MaxObligations lim)
           (ruleErr ''too many obligations''),
         err_if (rw_AllowDestructive rr \<and> a \<noteq> ActionAllowOnce \<and> a \<noteq> ActionAllowForSession)
           (ruleErr ''allow_destructive requires a bounded action (ALLOW_ONCE or ALLOW_FOR_SESSION)''),
         validateFor obl a capNS (rw_AllowDestructive rr)])) (\<lambda>_.
     Inr \<lparr>rl_id = rw_ID rr, rl_priority = rw_Priority rr, rl_enabled = rule_enabled rr,
          rl_conditions = conds, rl_action = a, rl_reason = reason, rl_remediation = rem,
          rl_obligations = obl, rl_owner = rw_Owner rr, rl_expiryUnix = rw_ExpiryUnix rr,
          rl_allowDestructive = rw_AllowDestructive rr,
          rl_rawKey = canonicalRuleKey rr a reason rem obl\<rparr>))))"

primrec compileRules_from ::
    "string list \<Rightarrow> int list \<Rightarrow> raw_rule list \<Rightarrow> capability \<Rightarrow> limits \<Rightarrow> rule list res" where
  "compileRules_from seenID seenPri [] capNS lim = Inr []"
| "compileRules_from seenID seenPri (rr # rrs) capNS lim =
     bindR (compileRule rr capNS lim) (\<lambda>r.
     if rl_id r \<in> set seenID then Inl (ruleErr ''duplicate rule id'')
     else if rl_priority r \<in> set seenPri then
       Inl (ruleErr ''duplicate rule priority in this namespace'')
     else bindR (compileRules_from (rl_id r # seenID) (rl_priority r # seenPri) rrs capNS lim)
            (\<lambda>rs. Inr (r # rs)))"

definition compileRules :: "raw_rule list \<Rightarrow> capability \<Rightarrow> limits \<Rightarrow> rule list res" where
  "compileRules rrs capNS lim = compileRules_from [] [] rrs capNS lim"

text \<open>The bytes \<open>computeHash\<close> feeds to SHA-256: length-prefixed segments.\<close>

definition snapshotPreimage :: "snapshot \<Rightarrow> string" where
  "snapshotPreimage s =
     lp_seg (''v'' @ Itoa (sn_schemaVersion s))
     @ lp_seg (''cap:'' @ Capability_String (sn_capability s))
     @ lp_seg (''rev:'' @ FormatUint (sn_revision s))
     @ lp_seg (''default:'' @ Action_String (sn_defaultAction s))
     @ concat (map (\<lambda>r. lp_seg (rl_rawKey r)) (sn_rules s))"

definition computeHash :: "snapshot \<Rightarrow> string" where
  "computeHash s = hex_encode (sha256 (snapshotPreimage s))"

text \<open>\<open>Compile\<close> after \<open>parseDocument\<close> has returned the decoded document.\<close>

definition compileDocument :: "raw_snapshot \<Rightarrow> created_meta \<Rightarrow> limits \<Rightarrow> snapshot res" where
  "compileDocument rs meta lim =
     (if rs_SchemaVersion rs \<noteq> 1 then Inl (snapshotErr ''unsupported policy schema version'')
      else case parseCapability (rs_Capability rs) of
        None \<Rightarrow> Inl (snapshotErr ''missing or invalid capability'')
      | Some capNS \<Rightarrow>
          if rs_PolicyRevision rs = 0 then Inl (snapshotErr ''policy revision must be positive'')
          else if ParseAction (rs_DefaultAction rs) \<noteq> Some ActionDeny then
            Inl (snapshotErr ''default_action must be DENY'')
          else if int (length (rs_Rules rs)) > MaxRulesPerSnap lim then
            Inl (snapshotErr ''too many rules'')
          else bindR (compileRules (rs_Rules rs) capNS lim) (\<lambda>rules.
            let snap = \<lparr>sn_schemaVersion = rs_SchemaVersion rs, sn_capability = capNS,
                 sn_revision = rs_PolicyRevision rs, sn_hash = [],
                 sn_description = rs_Description rs,
                 sn_rules = sort_key rl_priority rules,
                 sn_defaultAction = ActionDeny, sn_lim = lim, sn_meta = meta\<rparr>
            in Inr (snap\<lparr>sn_hash := computeHash snap\<rparr>)))"

definition RuleIDs :: "snapshot \<Rightarrow> string list" where
  "RuleIDs s = map rl_id (sn_rules s)"

section \<open>Obligations: what acceptance means\<close>

lemma validateFor_None_iff [policy_simps]:
  "validateFor o' a capNS d = None \<longleftrightarrow>
     validateShape o' = None \<and> validateCredentialProfile o' a capNS = None \<and>
     validateActionObligations o' a = None \<and> validateDestructive o' a d = None"
  by (simp add: validateFor_def)

lemma validateShape_None_iff [policy_simps]:
  "validateShape o' = None \<longleftrightarrow>
     (\<forall>s. ob_Session o' = Some s \<longrightarrow> 0 < sg_TTLSeconds s \<and> 0 < sg_MaxCalls s) \<and>
     (\<forall>r. ob_Redaction o' = Some r \<longrightarrow> rr_ProfileRef r \<noteq> [])"
  by (auto simp: validateShape_def split: option.splits)

lemma validateCredentialProfile_None_iff [policy_simps]:
  "validateCredentialProfile o' a capNS = None \<longleftrightarrow>
     (ob_CredentialProfile o' = [] \<or> Action_IsAllowClass a \<and> capNS = CapGateway)"
  by (auto simp: validateCredentialProfile_def)

lemma validateSessionGrant_None_iff [policy_simps]:
  "validateSessionGrant o' = None \<longleftrightarrow>
     (\<exists>s. ob_Session o' = Some s \<and> sg_SessionBound s \<and> sg_RevokeRequired s)"
  by (auto simp: validateSessionGrant_def split: option.splits)

lemma validateRedaction_None_iff [policy_simps]:
  "validateRedaction o' = None \<longleftrightarrow>
     (\<exists>r. ob_Redaction o' = Some r \<and> rr_ProfileRef r \<noteq> [] \<and> rr_TransformedHashRequired r)"
  by (auto simp: validateRedaction_def split: option.splits)

lemma validateActionObligations_simps [policy_simps]:
  "validateActionObligations o' ActionAllow = None \<longleftrightarrow> \<not> ob_Approval o'"
  "validateActionObligations o' ActionAllowOnce = None \<longleftrightarrow> ob_OnceCall o'"
  "validateActionObligations o' ActionAllowForSession = validateSessionGrant o'"
  "validateActionObligations o' ActionAllowWithRedaction = validateRedaction o'"
  "validateActionObligations o' ActionMonitor = None \<longleftrightarrow> ob_Logging o' \<noteq> LogUnset"
  "validateActionObligations o' ActionRequireApproval = None \<longleftrightarrow> ob_Approval o'"
  "validateActionObligations o' ActionRequireConfirmation = None \<longleftrightarrow> ob_Confirmation o'"
  by (simp_all add: validateActionObligations_def)

lemma validateDestructive_None_iff [policy_simps]:
  "validateDestructive o' a d = None \<longleftrightarrow>
     (d \<and> Action_IsAllowClass a \<longrightarrow>
       (ob_OnceCall o' \<or> ob_Session o' \<noteq> None) \<and> ob_Logging o' = LogAudit)"
  by (auto simp: validateDestructive_def)

lemma Obligations_Equal_iff: "Obligations_Equal o' x \<longleftrightarrow> o' = x"
  by (cases o'; cases x)
    (auto simp: Obligations_Equal_def scalarsEqual_def sessionGrantEqual_def redactionReqEqual_def
      split: option.splits)

lemma length_Obligations_IDs: "length (Obligations_IDs o') \<le> 11"
  by (simp add: Obligations_IDs_def split: option.splits)

section \<open>Rules\<close>

lemma conditions_match_iff: "fst (conditions_match cs i) \<longleftrightarrow> (\<forall>c \<in> set cs. cc_match c i)"
  by (induction cs) auto

lemma conditions_match_fail:
  "\<not> fst (conditions_match cs i) \<Longrightarrow>
   \<exists>us c vs. cs = us @ c # vs \<and> (\<forall>u \<in> set us. cc_match u i) \<and> \<not> cc_match c i \<and>
     snd (conditions_match cs i) = cc_id c"
proof (induction cs)
  case Nil
  then show ?case by simp
next
  case (Cons c cs)
  show ?case
  proof (cases "cc_match c i")
    case True
    with Cons obtain us d vs where "cs = us @ d # vs" "\<forall>u \<in> set us. cc_match u i" "\<not> cc_match d i"
      "snd (conditions_match cs i) = cc_id d" by auto
    with True show ?thesis by (intro exI[of _ "c # us"] exI[of _ d] exI[of _ vs]) auto
  next
    case False
    then show ?thesis by (intro exI[of _ "[]"] exI[of _ c] exI[of _ cs]) auto
  qed
qed

definition rule_expired :: "rule \<Rightarrow> decision_input \<Rightarrow> bool" where
  "rule_expired r i \<longleftrightarrow> rl_expiryUnix r \<noteq> 0 \<and> rl_expiryUnix r \<le> Time_Unix (di_EvalTime i)"

lemma Rule_matches_iff:
  "fst (Rule_matches r i) \<longleftrightarrow> \<not> rule_expired r i \<and> (\<forall>c \<in> set (rl_conditions r). cc_match c i)"
  by (auto simp: Rule_matches_def rule_expired_def conditions_match_iff)

section \<open>The compiler\<close>

definition rule_wf :: "capability \<Rightarrow> limits \<Rightarrow> rule \<Rightarrow> bool" where
  "rule_wf capNS lim r \<longleftrightarrow>
     rl_id r \<noteq> [] \<and> int (length (rl_id r)) \<le> MaxStringBytes lim \<and> 0 < rl_priority r \<and>
     Action_Valid (rl_action r) \<and>
     (capNS = CapManagement \<longrightarrow> managementLegalAction (rl_action r)) \<and>
     ReasonCode_Valid (rl_reason r) \<and> Remediation_Valid (rl_remediation r) \<and>
     int (length (rl_conditions r)) \<le> MaxConditions lim \<and>
     int (length (Obligations_IDs (rl_obligations r))) \<le> MaxObligations lim \<and>
     (rl_allowDestructive r \<longrightarrow> rl_action r = ActionAllowOnce \<or> rl_action r = ActionAllowForSession) \<and>
     validateFor (rl_obligations r) (rl_action r) capNS (rl_allowDestructive r) = None"

lemma compileRuleHeader_Inr:
  assumes "compileRuleHeader rr capNS lim = Inr (a, reason, rem)"
  shows "rw_ID rr \<noteq> []" "int (length (rw_ID rr)) \<le> MaxStringBytes lim" "0 < rw_Priority rr"
    "ParseAction (rw_Action rr) = Some a" "capNS = CapManagement \<longrightarrow> managementLegalAction a"
    "reason = rw_Reason rr" "ReasonCode_Valid (rw_Reason rr)"
    "rem = rw_Remediation rr" "Remediation_Valid (rw_Remediation rr)"
  using assms by (auto simp: compileRuleHeader_def split: if_splits option.splits)

lemma compileRule_InrE:
  assumes "compileRule rr capNS lim = Inr r"
  obtains a conds obl where
    "compileRuleHeader rr capNS lim = Inr (a, rw_Reason rr, rw_Remediation rr)"
    "list_all2 (\<lambda>rc c. compileCondition rc lim = Inr c) (rw_Conditions rr) conds"
    "obl = buildObligations (rw_Obligations rr)"
    "int (length (rw_Conditions rr)) \<le> MaxConditions lim"
    "int (length (Obligations_IDs obl)) \<le> MaxObligations lim"
    "rw_AllowDestructive rr \<longrightarrow> a = ActionAllowOnce \<or> a = ActionAllowForSession"
    "validateFor obl a capNS (rw_AllowDestructive rr) = None"
    "r = \<lparr>rl_id = rw_ID rr, rl_priority = rw_Priority rr, rl_enabled = rule_enabled rr,
          rl_conditions = conds, rl_action = a, rl_reason = rw_Reason rr,
          rl_remediation = rw_Remediation rr, rl_obligations = obl, rl_owner = rw_Owner rr,
          rl_expiryUnix = rw_ExpiryUnix rr, rl_allowDestructive = rw_AllowDestructive rr,
          rl_rawKey = canonicalRuleKey rr a (rw_Reason rr) (rw_Remediation rr) obl\<rparr>"
proof -
  from assms obtain a reason rem conds where
    hd: "compileRuleHeader rr capNS lim = Inr (a, reason, rem)" and
    cs: "mapR (\<lambda>rc. compileCondition rc lim) (rw_Conditions rr) = Inr conds"
    by (auto simp: compileRule_def bindR_eq_Inr Let_def)
  from compileRuleHeader_Inr[OF hd] have eq: "reason = rw_Reason rr" "rem = rw_Remediation rr"
    by simp_all
  show ?thesis
    by (rule that[of a conds "buildObligations (rw_Obligations rr)"])
      (use assms hd cs eq in
        \<open>auto simp: compileRule_def bindR_eq_Inr Let_def mapR_eq_Inr simp flip: validateFor_None_iff\<close>)
qed

lemma compileRule_wf:
  assumes "compileRule rr capNS lim = Inr r"
  shows "rule_wf capNS lim r"
  using assms
proof (rule compileRule_InrE)
  fix a conds obl
  assume hd: "compileRuleHeader rr capNS lim = Inr (a, rw_Reason rr, rw_Remediation rr)"
    and cs: "list_all2 (\<lambda>rc c. compileCondition rc lim = Inr c) (rw_Conditions rr) conds"
  have "Action_Valid a"
    using ParseAction_valid[OF compileRuleHeader_Inr(4)[OF hd]] by (simp add: Action_Valid_iff_AllActions)
  moreover have "length conds = length (rw_Conditions rr)"
    using cs by (simp add: list_all2_lengthD)
  moreover note compileRuleHeader_Inr[OF hd]
  moreover assume "obl = buildObligations (rw_Obligations rr)"
    "int (length (rw_Conditions rr)) \<le> MaxConditions lim"
    "int (length (Obligations_IDs obl)) \<le> MaxObligations lim"
    "rw_AllowDestructive rr \<longrightarrow> a = ActionAllowOnce \<or> a = ActionAllowForSession"
    "validateFor obl a capNS (rw_AllowDestructive rr) = None"
    "r = \<lparr>rl_id = rw_ID rr, rl_priority = rw_Priority rr, rl_enabled = rule_enabled rr,
          rl_conditions = conds, rl_action = a, rl_reason = rw_Reason rr,
          rl_remediation = rw_Remediation rr, rl_obligations = obl, rl_owner = rw_Owner rr,
          rl_expiryUnix = rw_ExpiryUnix rr, rl_allowDestructive = rw_AllowDestructive rr,
          rl_rawKey = canonicalRuleKey rr a (rw_Reason rr) (rw_Remediation rr) obl\<rparr>"
  ultimately show ?thesis by (simp add: rule_wf_def)
qed

lemma compileRules_from_eq_Inr:
  "compileRules_from ids pris rrs capNS lim = Inr rs \<longleftrightarrow>
     list_all2 (\<lambda>rr r. compileRule rr capNS lim = Inr r) rrs rs \<and>
     distinct (map rl_id rs) \<and> set (map rl_id rs) \<inter> set ids = {} \<and>
     distinct (map rl_priority rs) \<and> set (map rl_priority rs) \<inter> set pris = {}"
proof (induction rrs arbitrary: ids pris rs)
  case Nil
  then show ?case by auto
next
  case (Cons rr rrs)
  show ?case
    by (cases rs) (auto simp: bindR_eq_Inr Cons.IH split: if_splits)
qed

lemma compileRules_eq_Inr:
  "compileRules rrs capNS lim = Inr rs \<longleftrightarrow>
     list_all2 (\<lambda>rr r. compileRule rr capNS lim = Inr r) rrs rs \<and>
     distinct (map rl_id rs) \<and> distinct (map rl_priority rs)"
  by (simp add: compileRules_def compileRules_from_eq_Inr)

lemma compileDocument_InrE:
  assumes "compileDocument doc meta lim = Inr s"
  obtains rules where
    "rs_SchemaVersion doc = 1" "parseCapability (rs_Capability doc) = Some (sn_capability s)"
    "rs_PolicyRevision doc \<noteq> 0" "ParseAction (rs_DefaultAction doc) = Some ActionDeny"
    "int (length (rs_Rules doc)) \<le> MaxRulesPerSnap lim"
    "compileRules (rs_Rules doc) (sn_capability s) lim = Inr rules"
    "sn_schemaVersion s = 1" "sn_revision s = rs_PolicyRevision doc"
    "sn_description s = rs_Description doc" "sn_rules s = sort_key rl_priority rules"
    "sn_defaultAction s = ActionDeny" "sn_lim s = lim" "sn_meta s = meta"
    "sn_hash s = computeHash s"
  using assms
  by (auto simp: compileDocument_def bindR_eq_Inr Let_def computeHash_def snapshotPreimage_def
      split: if_splits option.splits)

definition snapshot_wf :: "snapshot \<Rightarrow> bool" where
  "snapshot_wf s \<longleftrightarrow>
     (sn_capability s = CapGateway \<or> sn_capability s = CapManagement) \<and> 0 < sn_revision s \<and>
     sn_defaultAction s = ActionDeny \<and> int (length (sn_rules s)) \<le> MaxRulesPerSnap (sn_lim s) \<and>
     (\<forall>r \<in> set (sn_rules s). rule_wf (sn_capability s) (sn_lim s) r) \<and>
     distinct (map rl_id (sn_rules s)) \<and> sorted_wrt (\<lambda>r r'. rl_priority r < rl_priority r') (sn_rules s)"

lemma compileRules_rule_wf:
  "compileRules rrs capNS lim = Inr rs \<Longrightarrow> r \<in> set rs \<Longrightarrow> rule_wf capNS lim r"
  by (auto simp: compileRules_eq_Inr list_all2_conv_all_nth in_set_conv_nth intro: compileRule_wf)

lemma compileDocument_snapshot_wf:
  assumes "compileDocument doc meta lim = Inr s"
  shows "snapshot_wf s"
  using assms
proof (rule compileDocument_InrE)
  fix rules
  assume cap: "parseCapability (rs_Capability doc) = Some (sn_capability s)"
    and rev: "rs_PolicyRevision doc \<noteq> 0"
    and len: "int (length (rs_Rules doc)) \<le> MaxRulesPerSnap lim"
    and rules: "compileRules (rs_Rules doc) (sn_capability s) lim = Inr rules"
    and s: "sn_revision s = rs_PolicyRevision doc" "sn_rules s = sort_key rl_priority rules"
      "sn_defaultAction s = ActionDeny" "sn_lim s = lim"
  have "length rules = length (rs_Rules doc)"
    using rules by (auto simp: compileRules_eq_Inr dest: list_all2_lengthD)
  moreover have "distinct (map rl_id (sort_key rl_priority rules))"
    "distinct (map rl_priority (sort_key rl_priority rules))"
    using rules by (simp_all add: compileRules_eq_Inr distinct_map_perm[of "sort_key rl_priority rules" rules])
  moreover have "sn_capability s = CapGateway \<or> sn_capability s = CapManagement"
    using cap by (auto simp: parseCapability_def split: if_splits)
  ultimately show ?thesis
    using rev len s compileRules_rule_wf[OF rules]
      sorted_distinct_key_strict[of rl_priority "sort_key rl_priority rules"]
    by (simp add: snapshot_wf_def)
qed

text \<open>Neither the order of the rules in a document nor the sort that orders them matters.\<close>

lemma compileRules_perm:
  assumes "compileRules rrs capNS lim = Inr rs" and "mset rrs' = mset rrs"
  shows "\<exists>rs'. compileRules rrs' capNS lim = Inr rs' \<and> mset rs' = mset rs"
proof -
  have all2: "list_all2 (\<lambda>rr r. compileRule rr capNS lim = Inr r) rrs rs"
    using assms by (simp add: compileRules_eq_Inr)
  then obtain rs' where rs': "list_all2 (\<lambda>rr r. compileRule rr capNS lim = Inr r) rrs' rs'"
    and m: "mset rs' = mset rs"
    using list_all2_reorder_left_invariance[OF all2 assms(2)] by blast
  from assms rs' show ?thesis
    by (intro exI[of _ rs']) (simp add: compileRules_eq_Inr distinct_map_perm[OF m] m)
qed

lemma compileDocument_perm_helper:
  assumes "compileDocument doc meta lim = Inr s" and "mset rrs = mset (rs_Rules doc)"
  shows "compileDocument (doc\<lparr>rs_Rules := rrs\<rparr>) meta lim = Inr s"
proof -
  from assms(1) obtain capNS rules where
    cap: "parseCapability (rs_Capability doc) = Some capNS" and
    rules: "compileRules (rs_Rules doc) capNS lim = Inr rules"
    by (auto simp: compileDocument_def bindR_eq_Inr split: if_splits option.splits)
  obtain rules' where rules': "compileRules rrs capNS lim = Inr rules'" and m: "mset rules' = mset rules"
    using compileRules_perm[OF rules assms(2)] by blast
  have "sort_key rl_priority rules' = sort_key rl_priority rules"
    using rules' m by (intro sort_key_perm_eq) (simp_all add: compileRules_eq_Inr)
  moreover have "length rrs = length (rs_Rules doc)"
    using assms(2) by (rule mset_eq_length)
  ultimately show ?thesis
    using assms(1) cap rules rules' by (simp add: compileDocument_def split: if_splits)
qed

section \<open>Canonical keys\<close>

text \<open>Two conditions that differ at most in the order of their value list.\<close>

definition same_condition :: "raw_condition \<Rightarrow> raw_condition \<Rightarrow> bool" where
  "same_condition c d \<longleftrightarrow> mset (rc_Values c) = mset (rc_Values d) \<and> c\<lparr>rc_Values := []\<rparr> = d\<lparr>rc_Values := []\<rparr>"

lemma sort_perm_eq: "mset xs = mset ys \<Longrightarrow> sort xs = sort (ys :: 'a::linorder list)"
  by (rule properties_for_sort) simp_all

lemma same_condition_key:
  assumes "same_condition c d"
  shows "canonicalCondKey c = canonicalCondKey d"
proof -
  have "sort (rc_Values c) = sort (rc_Values d)"
    using assms by (intro sort_perm_eq) (simp add: same_condition_def)
  moreover have "rc_Field c = rc_Field d" "rc_Op c = rc_Op d" "rc_Value c = rc_Value d"
    "rc_Start c = rc_Start d" "rc_End c = rc_End d"
    using assms by (cases c; cases d; simp add: same_condition_def)+
  ultimately show ?thesis by (simp add: canonicalCondKey_def sortedCopy_def)
qed

lemma canonicalRuleKey_reorder:
  assumes "list_all2 same_condition (rw_Conditions rr) cs" and "mset cs' = mset cs"
  shows "canonicalRuleKey (rr\<lparr>rw_Conditions := cs'\<rparr>) a reason rem obl
       = canonicalRuleKey rr a reason rem obl"
proof -
  have "map canonicalCondKey (rw_Conditions rr) = map canonicalCondKey cs"
    using assms(1) by (induction rule: list_all2_induct) (simp_all add: same_condition_key)
  moreover have "sort (map canonicalCondKey cs') = sort (map canonicalCondKey cs)"
    using assms(2) by (intro sort_perm_eq) simp
  ultimately show ?thesis by (simp add: canonicalRuleKey_def rule_enabled_def)
qed

section \<open>The hash preimage\<close>

lemma lp_seg_not_Nil [simp]: "lp_seg a \<noteq> []"
  by (simp add: lp_seg_def flip: length_0_conv)

definition fits_uint64 :: "string \<Rightarrow> bool" where
  "fits_uint64 s \<longleftrightarrow> length s < 2 ^ 64"

lemma lp_seg_append_eq:
  "fits_uint64 a \<Longrightarrow> fits_uint64 b \<Longrightarrow> lp_seg a @ x = lp_seg b @ y \<longleftrightarrow> a = b \<and> x = y"
  unfolding fits_uint64_def by (rule lp_seg_append_inject)

lemma concat_lp_seg_inject:
  "list_all fits_uint64 xs \<Longrightarrow> list_all fits_uint64 ys \<Longrightarrow>
   concat (map lp_seg xs) = concat (map lp_seg ys) \<Longrightarrow> xs = ys"
proof (induction xs arbitrary: ys)
  case Nil
  then show ?case by (cases ys) auto
next
  case (Cons x xs)
  from Cons.prems obtain y ys' where "ys = y # ys'" by (cases ys) auto
  with Cons.prems Cons.IH[of ys'] show ?case by (simp add: lp_seg_append_eq)
qed

definition hash_segments :: "snapshot \<Rightarrow> string list" where
  "hash_segments s = [''v'' @ Itoa (sn_schemaVersion s), ''cap:'' @ Capability_String (sn_capability s),
     ''rev:'' @ FormatUint (sn_revision s), ''default:'' @ Action_String (sn_defaultAction s)]
     @ map rl_rawKey (sn_rules s)"

lemma snapshotPreimage_segments: "snapshotPreimage s = concat (map lp_seg (hash_segments s))"
  by (simp add: snapshotPreimage_def hash_segments_def comp_def)

section \<open>Reason codes\<close>

definition reason_grammar :: "string \<Rightarrow> bool" where
  "reason_grammar s \<longleftrightarrow> length s \<le> 128 \<and>
     (\<exists>p \<in> set acceptedPrefixes. \<exists>ts. s = p @ ''.'' @ join ''.'' ts \<and> ts \<noteq> [] \<and> length ts \<le> 8 \<and>
        list_all validCodeToken ts)"

lemma acceptedPrefixes_shape:
  "p \<in> set acceptedPrefixes \<Longrightarrow> \<exists>d. p = ''MCP.'' @ d \<and> CHR ''.'' \<notin> set d"
  by (auto simp: acceptedPrefixes_def)

lemma IndexByte_append: "b \<notin> set u \<Longrightarrow> IndexByte (u @ b # v) b = Some (length u)"
  by (induction u) auto

lemma validCodeToken_no_dot: "validCodeToken t \<Longrightarrow> CHR ''.'' \<notin> set t"
  by (auto simp: validCodeToken_def list_all_iff less_eq_char_def)

lemma ReasonCode_Valid_sound:
  assumes "ReasonCode_Valid s"
  shows "reason_grammar s"
proof -
  from assms obtain i j where ij: "IndexByte s (CHR ''.'') = Some i"
      "IndexByte (drop (i + 1) s) (CHR ''.'') = Some j" and len: "length s \<le> 128"
    and pre: "take (i + 1 + j) s \<in> set acceptedPrefixes"
    and ts: "length (split_on (CHR ''.'') (drop (i + 1 + j + 1) s)) \<le> 8"
      "list_all validCodeToken (split_on (CHR ''.'') (drop (i + 1 + j + 1) s))"
    by (auto simp: ReasonCode_Valid_def Let_def split: if_splits option.splits)
  let ?r = "drop (i + 1 + j + 1) s"
  have "i + 1 + j < length s" "s ! (i + 1 + j) = CHR ''.''"
    using IndexByte_SomeD[OF ij(1)] IndexByte_SomeD[OF ij(2)] by (auto simp: less_diff_conv ac_simps)
  then have "s = take (i + 1 + j) s @ ''.'' @ ?r"
    using id_take_nth_drop[of "i + 1 + j" s] by simp
  then have "s = take (i + 1 + j) s @ ''.'' @ join ''.'' (split_on (CHR ''.'') ?r)"
    by (simp add: join_split_on)
  with pre ts len show ?thesis
    unfolding reason_grammar_def by (metis split_on_nonempty)
qed

lemma ReasonCode_Valid_complete:
  assumes "reason_grammar s"
  shows "ReasonCode_Valid s"
proof -
  from assms obtain p ts where p: "p \<in> set acceptedPrefixes" and s: "s = p @ ''.'' @ join ''.'' ts"
    and ts: "ts \<noteq> []" "length ts \<le> 8" "list_all validCodeToken ts" and len: "length s \<le> 128"
    by (auto simp: reason_grammar_def)
  from acceptedPrefixes_shape[OF p] obtain d where d: "p = ''MCP.'' @ d" "CHR ''.'' \<notin> set d" by blast
  let ?t = "join ''.'' ts"
  have "IndexByte (d @ CHR ''.'' # ?t) (CHR ''.'') = Some (length d)"
    using d(2) by (rule IndexByte_append)
  moreover have "split_on (CHR ''.'') ?t = ts"
    using ts by (intro split_on_join) (auto simp: list_all_iff dest: validCodeToken_no_dot)
  ultimately show ?thesis
    using p ts len unfolding s d(1) by (simp add: ReasonCode_Valid_def Let_def)
qed

lemma ReasonCode_Valid_grammar: "ReasonCode_Valid s \<longleftrightarrow> reason_grammar s"
  using ReasonCode_Valid_sound ReasonCode_Valid_complete by blast

end
