(* ===== verification/PolicyEngine.thy ===== *)
theory PolicyEngine
  imports PolicyRules
begin

text \<open>
  The evaluator: decisions and traces (\<open>internal/mcp/policy/decision.go\<close>), the bounded
  trace builder (\<open>trace.go\<close>) and \<open>Engine.Evaluate\<close> with its hard overrides and
  ordered first match (\<open>engine.go\<close>). The nil arguments \<open>Evaluate\<close> guards against
  are \<open>None\<close>; the trace builder, which the helpers mutate, is threaded explicitly.
\<close>

section \<open>Reason codes the engine stamps\<close>

abbreviation RC_NoMatchDefaultDeny :: string where
  "RC_NoMatchDefaultDeny \<equiv> ''MCP.POLICY.NO_MATCH_DEFAULT_DENY''"
abbreviation RC_SnapshotUnavailable :: string where
  "RC_SnapshotUnavailable \<equiv> ''MCP.POLICY.SNAPSHOT_UNAVAILABLE''"
abbreviation RC_ApprovalRequired :: string where
  "RC_ApprovalRequired \<equiv> ''MCP.POLICY.APPROVAL_REQUIRED''"
abbreviation RC_ToolUnknown :: string where
  "RC_ToolUnknown \<equiv> ''MCP.TOOL.UNKNOWN''"
abbreviation RC_ToolPrivilegeExpansion :: string where
  "RC_ToolPrivilegeExpansion \<equiv> ''MCP.TOOL.PRIVILEGE_EXPANSION''"
abbreviation RC_ServerIdentityChanged :: string where
  "RC_ServerIdentityChanged \<equiv> ''MCP.SERVER.IDENTITY_CHANGED''"
abbreviation RC_ServerDisabled :: string where
  "RC_ServerDisabled \<equiv> ''MCP.SERVER.DISABLED''"
abbreviation RC_IdentityAmbiguous :: string where
  "RC_IdentityAmbiguous \<equiv> ''MCP.AUTH.IDENTITY_AMBIGUOUS''"
abbreviation RC_TenantMismatch :: string where
  "RC_TenantMismatch \<equiv> ''MCP.AUTH.TENANT_MISMATCH''"
abbreviation RC_CapabilityMismatch :: string where
  "RC_CapabilityMismatch \<equiv> ''MCP.AUTH.CAPABILITY_MISMATCH''"
abbreviation RC_ManagementMutationNotApproved :: string where
  "RC_ManagementMutationNotApproved \<equiv> ''MCP.MANAGEMENT.MUTATION_NOT_APPROVED''"
abbreviation RC_InvalidInput :: string where
  "RC_InvalidInput \<equiv> ''MCP.SYSTEM.INVALID_INPUT''"

text \<open>All codes the constant block of \<open>reason.go\<close> declares.\<close>

definition engineReasonCodes :: "string list" where
  "engineReasonCodes = [
     RC_NoMatchDefaultDeny, RC_SnapshotUnavailable, ''MCP.SYSTEM.SNAPSHOT_INVALID'',
     ''MCP.POLICY.RESOURCE_SCOPE'', ''MCP.POLICY.TIME_WINDOW'', RC_ApprovalRequired,
     RC_ToolUnknown, RC_ToolPrivilegeExpansion, ''MCP.TOOL.SCHEMA_CHANGED'',
     ''MCP.TOOL.SEMANTIC_DRIFT'', RC_ServerIdentityChanged, RC_ServerDisabled,
     ''MCP.SERVER.UNREGISTERED'', RC_IdentityAmbiguous, RC_TenantMismatch,
     RC_CapabilityMismatch, RC_ManagementMutationNotApproved, RC_InvalidInput,
     ''MCP.SYSTEM.MISSING_OPERAND'', ''MCP.INSPECTION.UNAVAILABLE'']"

section \<open>Decisions and traces\<close>

datatype event_class =
    EventError
  | EventAllow
  | EventDeny
  | EventQuarantine
  | EventApprovalRequired
  | EventConfirmationRequired
  | EventMonitor

fun EventClass_String :: "event_class \<Rightarrow> string" where
  "EventClass_String EventAllow = ''allow''"
| "EventClass_String EventDeny = ''deny''"
| "EventClass_String EventQuarantine = ''quarantine''"
| "EventClass_String EventApprovalRequired = ''approval_required''"
| "EventClass_String EventConfirmationRequired = ''confirmation_required''"
| "EventClass_String EventMonitor = ''monitor''"
| "EventClass_String EventError = ''error''"

fun eventClassFor :: "action \<Rightarrow> event_class" where
  "eventClassFor ActionAllow = EventAllow"
| "eventClassFor ActionAllowOnce = EventAllow"
| "eventClassFor ActionAllowForSession = EventAllow"
| "eventClassFor ActionAllowWithRedaction = EventAllow"
| "eventClassFor ActionMonitor = EventMonitor"
| "eventClassFor ActionQuarantine = EventQuarantine"
| "eventClassFor ActionRequireApproval = EventApprovalRequired"
| "eventClassFor ActionRequireConfirmation = EventConfirmationRequired"
| "eventClassFor _ = EventDeny"

record decision =
  de_Action :: action
  de_Effect :: effect
  de_Reason :: string
  de_Remediation :: string
  de_MatchedRule :: string
  de_Capability :: capability
  de_PolicyRevision :: nat
  de_CatalogRevision :: nat
  de_EventClass :: event_class
  de_Obligations :: obligations
  de_HardOverride :: bool

definition ObligationIDs :: "decision \<Rightarrow> string list" where
  "ObligationIDs d = Obligations_IDs (de_Obligations d)"

definition Decision_IsAllowClass :: "decision \<Rightarrow> bool" where
  "Decision_IsAllowClass d = Action_IsAllowClass (de_Action d)"

datatype trace_kind =
    TraceHardOverride
  | TraceRuleConsidered
  | TraceWinner
  | TraceDefaultDeny
  | TraceInputInvalid

fun TraceKind_String :: "trace_kind \<Rightarrow> string" where
  "TraceKind_String TraceHardOverride = ''hard_override''"
| "TraceKind_String TraceRuleConsidered = ''rule_considered''"
| "TraceKind_String TraceWinner = ''winner''"
| "TraceKind_String TraceDefaultDeny = ''default_deny''"
| "TraceKind_String TraceInputInvalid = ''input_invalid''"

record trace_entry =
  te_Kind :: trace_kind
  te_RuleID :: string
  te_ConditionID :: string
  te_Matched :: bool
  te_Label :: string

record explain_trace =
  et_Entries :: "trace_entry list"
  et_Winner :: string
  et_Decisive :: string
  et_Final :: string
  et_Action :: action
  et_Capability :: capability
  et_PolicyRevision :: nat
  et_CatalogRevision :: nat

record trace_builder =
  tb_limit :: int
  tb_entries :: "trace_entry list"
  tb_truncated :: bool

definition newTraceBuilder :: "int \<Rightarrow> trace_builder" where
  "newTraceBuilder limit = \<lparr>
     tb_limit = (if limit < 1 then 1 else limit), tb_entries = [], tb_truncated = False\<rparr>"

definition tb_add ::
    "trace_builder \<Rightarrow> trace_kind \<Rightarrow> string \<Rightarrow> string \<Rightarrow> bool \<Rightarrow> string \<Rightarrow> trace_builder" where
  "tb_add tb kind ruleID condID matched label =
     (if int (length (tb_entries tb)) \<ge> tb_limit tb then tb\<lparr>tb_truncated := True\<rparr>
      else tb\<lparr>tb_entries := tb_entries tb @ [\<lparr>te_Kind = kind, te_RuleID = ruleID,
             te_ConditionID = condID, te_Matched = matched, te_Label = label\<rparr>]\<rparr>)"

definition tb_assemble :: "trace_builder \<Rightarrow> decision \<Rightarrow> string \<Rightarrow> string \<Rightarrow> explain_trace" where
  "tb_assemble tb d winner decisive = \<lparr>
     et_Entries = tb_entries tb, et_Winner = winner, et_Decisive = decisive,
     et_Final = de_Reason d, et_Action = de_Action d, et_Capability = de_Capability d,
     et_PolicyRevision = de_PolicyRevision d, et_CatalogRevision = de_CatalogRevision d\<rparr>"

definition lastCondition :: "trace_builder \<Rightarrow> string" where
  "lastCondition tb = (if tb_entries tb = [] then [] else te_ConditionID (last (tb_entries tb)))"

definition tb_finish :: "trace_builder \<Rightarrow> decision \<Rightarrow> string \<Rightarrow> explain_trace" where
  "tb_finish tb d decisive = tb_assemble tb d [] decisive"

definition finishOverride :: "trace_builder \<Rightarrow> decision \<Rightarrow> explain_trace" where
  "finishOverride tb d = tb_assemble tb d [] (lastCondition tb)"

definition finishWinner :: "trace_builder \<Rightarrow> decision \<Rightarrow> string \<Rightarrow> explain_trace" where
  "finishWinner tb d winner = tb_assemble tb d winner winner"

section \<open>Decision constructors\<close>

definition decisionFromRule :: "rule \<Rightarrow> decision_input \<Rightarrow> snapshot \<Rightarrow> decision" where
  "decisionFromRule r i snap = \<lparr>
     de_Action = rl_action r, de_Effect = Action_Effect (rl_action r), de_Reason = rl_reason r,
     de_Remediation = rl_remediation r, de_MatchedRule = rl_id r,
     de_Capability = di_Capability i, de_PolicyRevision = sn_revision snap,
     de_CatalogRevision = di_CatalogRevision i, de_EventClass = eventClassFor (rl_action r),
     de_Obligations = rl_obligations r, de_HardOverride = False\<rparr>"

definition decisionFromReason ::
    "action \<Rightarrow> string \<Rightarrow> string \<Rightarrow> decision_input \<Rightarrow> snapshot \<Rightarrow> string \<Rightarrow> obligations \<Rightarrow> decision" where
  "decisionFromReason a reason rem i snap ruleID obl = \<lparr>
     de_Action = a, de_Effect = Action_Effect a, de_Reason = reason, de_Remediation = rem,
     de_MatchedRule = ruleID, de_Capability = di_Capability i,
     de_PolicyRevision = sn_revision snap, de_CatalogRevision = di_CatalogRevision i,
     de_EventClass = eventClassFor a, de_Obligations = obl, de_HardOverride = False\<rparr>"

definition hard ::
    "action \<Rightarrow> string \<Rightarrow> string \<Rightarrow> decision_input \<Rightarrow> snapshot option \<Rightarrow> decision" where
  "hard a reason rem i snap = \<lparr>
     de_Action = a, de_Effect = Action_Effect a, de_Reason = reason, de_Remediation = rem,
     de_MatchedRule = [], de_Capability = di_Capability i,
     de_PolicyRevision = (case snap of None \<Rightarrow> 0 | Some s \<Rightarrow> sn_revision s),
     de_CatalogRevision = di_CatalogRevision i, de_EventClass = eventClassFor a,
     de_Obligations = no_obligations, de_HardOverride = True\<rparr>"

definition failClosed ::
    "action \<Rightarrow> string \<Rightarrow> string \<Rightarrow> decision_input \<Rightarrow> nat \<Rightarrow> decision" where
  "failClosed a reason rem i policyRev = \<lparr>
     de_Action = a, de_Effect = Action_Effect a, de_Reason = reason, de_Remediation = rem,
     de_MatchedRule = [], de_Capability = di_Capability i, de_PolicyRevision = policyRev,
     de_CatalogRevision = di_CatalogRevision i, de_EventClass = eventClassFor a,
     de_Obligations = no_obligations,
     de_HardOverride = (reason \<noteq> RC_NoMatchDefaultDeny)\<rparr>"

section \<open>Overrides and matching\<close>

definition writeOrHigher :: "operation_class \<Rightarrow> bool" where
  "writeOrHigher c \<longleftrightarrow> c = OpWrite \<or> c = OpDestructive \<or> c = OpControl"

definition isMutationClass :: "operation_class \<Rightarrow> bool" where
  "isMutationClass c \<longleftrightarrow> c = OpWrite \<or> c = OpDestructive \<or> c = OpControl"

definition subjectOverride ::
    "snapshot \<Rightarrow> decision_input \<Rightarrow> trace_builder \<Rightarrow> (decision \<times> trace_builder) option" where
  "subjectOverride snap i tb =
     (if (case di_Resource i of None \<Rightarrow> False
          | Some r \<Rightarrow> rs_Tenant r \<noteq> [] \<and> rs_Tenant r \<noteq> pr_Tenant (di_Principal i)) then
        Some (hard ActionDeny RC_TenantMismatch ''use_correct_resource'' i (Some snap),
          tb_add tb TraceHardOverride [] ''resource.tenant'' False ''cross-tenant resource reference'')
      else if writeOrHigher (op_Class (di_Operation i))
              \<and> pr_Assurance (di_Principal i) = AssuranceUnknown then
        Some (hard ActionDeny RC_IdentityAmbiguous ''increase_assurance'' i (Some snap),
          tb_add tb TraceHardOverride [] ''principal.assurance'' False
            ''ambiguous identity on a write/high-risk operation'')
      else if di_Capability i = CapManagement \<and> isMutationClass (op_Class (di_Operation i)) then
        Some (hard ActionDeny RC_ManagementMutationNotApproved ''not_permitted'' i (Some snap),
          tb_add tb TraceHardOverride [] ''operation.class'' False
            ''Management mutation/activation is not permitted in V1'')
      else None)"

definition serverOverride ::
    "server \<Rightarrow> snapshot \<Rightarrow> decision_input \<Rightarrow> trace_builder \<Rightarrow> (decision \<times> trace_builder) option" where
  "serverOverride sv snap i tb =
     (if sv_Owner sv = [] \<or> sv_Owner sv \<noteq> pr_Tenant (di_Principal i) then
        Some (hard ActionDeny RC_TenantMismatch ''use_correct_resource'' i (Some snap),
          tb_add tb TraceHardOverride [] ''server.owner'' False
            ''authenticated tenant does not own the addressed server'')
      else if sv_Verification sv = ServerIdentityMismatch
              \<or> (case di_Tool i of None \<Rightarrow> False | Some t \<Rightarrow> tl_Drift t = DriftIdentityChange) then
        Some (hard ActionDeny RC_ServerIdentityChanged ''verify_server_identity'' i (Some snap),
          tb_add tb TraceHardOverride [] ''server.verification'' False ''server identity changed'')
      else if \<not> sv_Enabled sv then
        Some (hard ActionDeny RC_ServerDisabled ''verify_server_identity'' i (Some snap),
          tb_add tb TraceHardOverride [] ''server.enabled'' False ''server is disabled'')
      else None)"

definition toolOverride ::
    "tool \<Rightarrow> snapshot \<Rightarrow> decision_input \<Rightarrow> trace_builder \<Rightarrow> (decision \<times> trace_builder) option" where
  "toolOverride t snap i tb =
     (if tl_Drift t = DriftUnknownTool \<or> tl_Disposition t = DispQuarantined then
        Some (hard ActionQuarantine RC_ToolUnknown ''review_tool_drift'' i (Some snap),
          tb_add tb TraceHardOverride [] ''tool.drift'' False ''unknown or quarantined tool'')
      else if tl_Drift t = DriftPrivilegeExpansion then
        Some (hard ActionQuarantine RC_ToolPrivilegeExpansion ''review_tool_drift'' i (Some snap),
          tb_add tb TraceHardOverride [] ''tool.drift'' False ''privilege expansion'')
      else None)"

definition serverToolOverride ::
    "snapshot \<Rightarrow> decision_input \<Rightarrow> trace_builder \<Rightarrow> (decision \<times> trace_builder) option" where
  "serverToolOverride snap i tb =
     first_err [
       (case di_Server i of None \<Rightarrow> None | Some sv \<Rightarrow> serverOverride sv snap i tb),
       (case di_Tool i of None \<Rightarrow> None | Some t \<Rightarrow> toolOverride t snap i tb)]"

definition hardOverride ::
    "snapshot \<Rightarrow> decision_input \<Rightarrow> trace_builder \<Rightarrow> (decision \<times> trace_builder) option" where
  "hardOverride snap i tb = first_err [subjectOverride snap i tb, serverToolOverride snap i tb]"

primrec matchRules_from ::
    "rule list \<Rightarrow> snapshot \<Rightarrow> decision_input \<Rightarrow> trace_builder \<Rightarrow> decision \<times> explain_trace" where
  "matchRules_from [] snap i tb =
     (let tb' = tb_add tb TraceDefaultDeny [] [] False ''no enabled rule matched'';
          d = failClosed ActionDeny RC_NoMatchDefaultDeny ''contact_policy_owner'' i (sn_revision snap);
          d' = d\<lparr>de_Capability := di_Capability i, de_CatalogRevision := di_CatalogRevision i\<rparr>
      in (d', tb_finish tb' d' ''default_deny''))"
| "matchRules_from (r # rs) snap i tb =
     (if \<not> rl_enabled r then matchRules_from rs snap i tb
      else let (ok, failCond) = Rule_matches r i in
        if \<not> ok then
          matchRules_from rs snap i
            (tb_add tb TraceRuleConsidered (rl_id r) failCond False ''condition did not match'')
        else if op_Class (di_Operation i) = OpDestructive \<and> Action_IsAllowClass (rl_action r)
                \<and> \<not> rl_allowDestructive r then
          let tb' = tb_add tb TraceWinner (rl_id r) [] True
                ''matched but not authorized for a destructive operation'';
              d = decisionFromReason ActionRequireApproval RC_ApprovalRequired ''request_approval''
                    i snap (rl_id r) (no_obligations\<lparr>ob_Approval := True\<rparr>)
          in (d, finishWinner tb' d (rl_id r))
        else
          let tb' = tb_add tb TraceWinner (rl_id r) [] True ''all conditions matched'';
              d = decisionFromRule r i snap
          in (d, finishWinner tb' d (rl_id r)))"

definition matchRules ::
    "snapshot \<Rightarrow> decision_input \<Rightarrow> trace_builder \<Rightarrow> decision \<times> explain_trace" where
  "matchRules snap i tb = matchRules_from (sn_rules snap) snap i tb"

text \<open>The zero value of the tuple, which \<open>Evaluate\<close> builds when it is given nil.\<close>

definition zero_input :: decision_input where
  "zero_input = \<lparr>
     di_Capability = CapabilityUnset, di_PolicyRevision = 0, di_CatalogRevision = 0,
     di_RegistryRevision = 0, di_RuntimeRevision = 0, di_EvalTime = 0,
     di_Principal = \<lparr>pr_Kind = SubjectUnset, pr_SubjectID = [], pr_Tenant = [], pr_Groups = [],
       pr_Assurance = AssuranceUnknown, pr_SenderBinding = SenderBindingNone, pr_Issuer = []\<rparr>,
     di_Agent = None,
     di_Client = \<lparr>cl_ClientID = [], cl_AppID = [], cl_Tenant = [], cl_Trust = TrustUnknown,
       cl_Capability = CapabilityUnset\<rparr>,
     di_Server = None, di_Tool = None,
     di_Operation = \<lparr>op_Method = [], op_Class = OpUnset, op_Namespace = NamespaceUnset,
       op_Operand = [], op_DecisionPoint = []\<rparr>,
     di_Resource = None,
     di_Destination = \<lparr>ds_Class = DestinationUnknown, ds_Environment = [],
       ds_ApprovedBreadth = DestinationUnknown\<rparr>,
     di_Credential = None,
     di_Session = \<lparr>se_Fingerprint = [], se_Assurance = AssuranceUnknown,
       se_SenderBinding = SenderBindingNone, se_PriorConfirmation = False,
       se_PriorApproval = False, se_PriorGrant = False\<rparr>,
     di_Inspection = \<lparr>ip_DLPAvailable = False, ip_RedactionAvailable = False,
       ip_DestInspectAvailable = False, ip_SecretScanAvailable = False, ip_SecretFound = False,
       ip_PIIFound = False, ip_InjectionSuspected = False, ip_SchemaInvalid = False\<rparr>\<rparr>"

definition Evaluate ::
    "limits \<Rightarrow> snapshot option \<Rightarrow> decision_input option \<Rightarrow>
     decision \<times> explain_trace \<times> go_error option" where
  "Evaluate lim snap inp =
     (let tb = newTraceBuilder (MaxTraceEntries lim) in
      case inp of
        None \<Rightarrow>
          let d = hard ActionDeny RC_InvalidInput ''not_permitted'' zero_input None;
              tb' = tb_add tb TraceInputInvalid [] [] False ''nil decision input''
          in (d, finishOverride tb' d, Some (inputErr ''nil decision input''))
      | Some i \<Rightarrow> (case snap of
          None \<Rightarrow>
            let d = failClosed ActionDeny RC_SnapshotUnavailable ''wait_for_policy_publication'' i 0
            in (d, tb_finish tb d [],
                Some (New ReasonPolicySnapshotInvalid ''policy.evaluate'' ''no policy snapshot''))
        | Some s \<Rightarrow>
            if di_Capability i \<noteq> sn_capability s then
              let d = hard ActionDeny RC_CapabilityMismatch ''not_permitted'' i (Some s);
                  tb' = tb_add tb TraceHardOverride [] ''capability'' False
                          ''input/snapshot capability mismatch''
              in (d, finishOverride tb' d,
                  Some (New ReasonPolicyNamespaceMismatch ''policy.evaluate''
                    ''input capability does not match the snapshot''))
            else (case Validate i lim of
              Some e \<Rightarrow>
                let d = hard ActionDeny RC_InvalidInput ''not_permitted'' i (Some s);
                    tb' = tb_add tb TraceInputInvalid [] [] False
                            ''decision tuple failed structural validation''
                in (d, finishOverride tb' d, Some e)
            | None \<Rightarrow> (case hardOverride s i tb of
                Some (d, tb') \<Rightarrow> (d, finishOverride tb' d, None)
              | None \<Rightarrow> (let (d, tr) = matchRules s i tb in (d, tr, None))))))"

abbreviation decide :: "limits \<Rightarrow> snapshot option \<Rightarrow> decision_input option \<Rightarrow> decision" where
  "decide lim snap inp \<equiv> fst (Evaluate lim snap inp)"

section \<open>A declarative reading of the evaluator\<close>

text \<open>
  What the source's precedence comment promises, without traces: which hard override applies
  to a tuple (the first one in the list), and which rule is effective (the first enabled rule
  whose conditions all hold and that has not expired).
\<close>

definition foreign_resource :: "decision_input \<Rightarrow> bool" where
  "foreign_resource i \<longleftrightarrow> (\<exists>r. di_Resource i = Some r \<and> rs_Tenant r \<noteq> [] \<and>
     rs_Tenant r \<noteq> pr_Tenant (di_Principal i))"

definition ambiguous_writer :: "decision_input \<Rightarrow> bool" where
  "ambiguous_writer i \<longleftrightarrow> op_Class (di_Operation i) \<in> {OpWrite, OpDestructive, OpControl} \<and>
     pr_Assurance (di_Principal i) = AssuranceUnknown"

definition management_mutation :: "decision_input \<Rightarrow> bool" where
  "management_mutation i \<longleftrightarrow> di_Capability i = CapManagement \<and>
     op_Class (di_Operation i) \<in> {OpWrite, OpDestructive, OpControl}"

definition foreign_server :: "decision_input \<Rightarrow> bool" where
  "foreign_server i \<longleftrightarrow> (\<exists>sv. di_Server i = Some sv \<and>
     (sv_Owner sv = [] \<or> sv_Owner sv \<noteq> pr_Tenant (di_Principal i)))"

definition identity_changed :: "decision_input \<Rightarrow> bool" where
  "identity_changed i \<longleftrightarrow> (\<exists>sv. di_Server i = Some sv \<and>
     (sv_Verification sv = ServerIdentityMismatch \<or>
      (\<exists>t. di_Tool i = Some t \<and> tl_Drift t = DriftIdentityChange)))"

definition server_disabled :: "decision_input \<Rightarrow> bool" where
  "server_disabled i \<longleftrightarrow> (\<exists>sv. di_Server i = Some sv \<and> \<not> sv_Enabled sv)"

definition tool_quarantined :: "decision_input \<Rightarrow> bool" where
  "tool_quarantined i \<longleftrightarrow> (\<exists>t. di_Tool i = Some t \<and>
     (tl_Drift t = DriftUnknownTool \<or> tl_Disposition t = DispQuarantined))"

definition tool_expanded :: "decision_input \<Rightarrow> bool" where
  "tool_expanded i \<longleftrightarrow> (\<exists>t. di_Tool i = Some t \<and> tl_Drift t = DriftPrivilegeExpansion)"

definition overrides :: "((decision_input \<Rightarrow> bool) \<times> action \<times> string \<times> string) list" where
  "overrides = [
     (foreign_resource, ActionDeny, RC_TenantMismatch, ''use_correct_resource''),
     (ambiguous_writer, ActionDeny, RC_IdentityAmbiguous, ''increase_assurance''),
     (management_mutation, ActionDeny, RC_ManagementMutationNotApproved, ''not_permitted''),
     (foreign_server, ActionDeny, RC_TenantMismatch, ''use_correct_resource''),
     (identity_changed, ActionDeny, RC_ServerIdentityChanged, ''verify_server_identity''),
     (server_disabled, ActionDeny, RC_ServerDisabled, ''verify_server_identity''),
     (tool_quarantined, ActionQuarantine, RC_ToolUnknown, ''review_tool_drift''),
     (tool_expanded, ActionQuarantine, RC_ToolPrivilegeExpansion, ''review_tool_drift'')]"

definition effective_rule :: "snapshot \<Rightarrow> decision_input \<Rightarrow> rule option" where
  "effective_rule s i = find (\<lambda>r. rl_enabled r \<and> \<not> rule_expired r i \<and>
     (\<forall>c \<in> set (rl_conditions r). cc_match c i)) (sn_rules s)"

definition rule_decision :: "snapshot \<Rightarrow> decision_input \<Rightarrow> rule \<Rightarrow> decision" where
  "rule_decision s i r =
     (if op_Class (di_Operation i) = OpDestructive \<and> Action_IsAllowClass (rl_action r)
         \<and> \<not> rl_allowDestructive r
      then decisionFromReason ActionRequireApproval RC_ApprovalRequired ''request_approval''
             i s (rl_id r) (no_obligations\<lparr>ob_Approval := True\<rparr>)
      else decisionFromRule r i s)"

definition policy_spec :: "snapshot \<Rightarrow> decision_input \<Rightarrow> decision" where
  "policy_spec s i = (case find (\<lambda>(applies, _). applies i) overrides of
     Some (_, a, reason, rem) \<Rightarrow> hard a reason rem i (Some s)
   | None \<Rightarrow> (case effective_rule s i of
       Some r \<Rightarrow> rule_decision s i r
     | None \<Rightarrow> failClosed ActionDeny RC_NoMatchDefaultDeny ''contact_policy_owner'' i (sn_revision s)))"

section \<open>The evaluator implements it\<close>

lemma matchRules_from_decision:
  "fst (matchRules_from rs s i tb) =
     (case find (\<lambda>r. rl_enabled r \<and> \<not> rule_expired r i \<and>
        (\<forall>c \<in> set (rl_conditions r). cc_match c i)) rs of
       Some r \<Rightarrow> rule_decision s i r
     | None \<Rightarrow> failClosed ActionDeny RC_NoMatchDefaultDeny ''contact_policy_owner'' i (sn_revision s))"
proof (induction rs arbitrary: tb)
  case Nil
  then show ?case by (simp add: Let_def failClosed_def)
next
  case (Cons r rs)
  have "fst (Rule_matches r i) \<longleftrightarrow> \<not> rule_expired r i \<and> (\<forall>c \<in> set (rl_conditions r). cc_match c i)"
    by (rule Rule_matches_iff)
  then show ?case
    by (cases "Rule_matches r i") (auto simp: Cons.IH Let_def rule_decision_def)
qed

lemma matchRules_decision:
  "fst (matchRules s i tb) = (case effective_rule s i of
       Some r \<Rightarrow> rule_decision s i r
     | None \<Rightarrow> failClosed ActionDeny RC_NoMatchDefaultDeny ''contact_policy_owner'' i (sn_revision s))"
  unfolding matchRules_def effective_rule_def by (rule matchRules_from_decision)

lemma subjectOverride_decision:
  "map_option fst (subjectOverride s i tb) =
     (if foreign_resource i then Some (hard ActionDeny RC_TenantMismatch ''use_correct_resource'' i (Some s))
      else if ambiguous_writer i then Some (hard ActionDeny RC_IdentityAmbiguous ''increase_assurance'' i (Some s))
      else if management_mutation i then
        Some (hard ActionDeny RC_ManagementMutationNotApproved ''not_permitted'' i (Some s))
      else None)"
proof -
  have "(case di_Resource i of None \<Rightarrow> False
      | Some r \<Rightarrow> rs_Tenant r \<noteq> [] \<and> rs_Tenant r \<noteq> pr_Tenant (di_Principal i)) = foreign_resource i"
    by (simp add: foreign_resource_def split: option.splits)
  moreover have "(writeOrHigher (op_Class (di_Operation i)) \<and>
      pr_Assurance (di_Principal i) = AssuranceUnknown) = ambiguous_writer i"
    by (simp add: ambiguous_writer_def writeOrHigher_def)
  moreover have "(di_Capability i = CapManagement \<and> isMutationClass (op_Class (di_Operation i)))
      = management_mutation i"
    by (simp add: management_mutation_def isMutationClass_def)
  ultimately show ?thesis by (simp only: subjectOverride_def) simp
qed

lemma serverToolOverride_decision:
  "map_option fst (serverToolOverride s i tb) =
     (if foreign_server i then Some (hard ActionDeny RC_TenantMismatch ''use_correct_resource'' i (Some s))
      else if identity_changed i then
        Some (hard ActionDeny RC_ServerIdentityChanged ''verify_server_identity'' i (Some s))
      else if server_disabled i then
        Some (hard ActionDeny RC_ServerDisabled ''verify_server_identity'' i (Some s))
      else if tool_quarantined i then
        Some (hard ActionQuarantine RC_ToolUnknown ''review_tool_drift'' i (Some s))
      else if tool_expanded i then
        Some (hard ActionQuarantine RC_ToolPrivilegeExpansion ''review_tool_drift'' i (Some s))
      else None)"
  by (simp add: serverToolOverride_def serverOverride_def toolOverride_def foreign_server_def
      identity_changed_def server_disabled_def tool_quarantined_def tool_expanded_def
      split: option.splits)

lemma hardOverride_decision:
  "map_option fst (hardOverride s i tb) =
     map_option (\<lambda>(_, a, reason, rem). hard a reason rem i (Some s))
       (find (\<lambda>(applies, _). applies i) overrides)"
proof -
  have "map_option fst (hardOverride s i tb) = (case map_option fst (subjectOverride s i tb) of
      Some d \<Rightarrow> Some d | None \<Rightarrow> map_option fst (serverToolOverride s i tb))"
    by (simp add: hardOverride_def split: option.splits)
  then show ?thesis
    by (simp add: subjectOverride_decision serverToolOverride_decision overrides_def)
qed

lemma Evaluate_valid:
  assumes "di_Capability i = sn_capability s" and "Validate i lim = None"
  shows "decide lim (Some s) (Some i) = policy_spec s i"
    and "snd (snd (Evaluate lim (Some s) (Some i))) = None"
proof -
  let ?tb = "newTraceBuilder (MaxTraceEntries lim)"
  note ho = hardOverride_decision[of s i ?tb]
  show "decide lim (Some s) (Some i) = policy_spec s i"
    using assms ho
    by (auto simp: Evaluate_def Let_def policy_spec_def matchRules_decision[of s i ?tb, symmetric]
        split: option.splits prod.splits)
  show "snd (snd (Evaluate lim (Some s) (Some i))) = None"
    using assms by (auto simp: Evaluate_def Let_def split: option.splits prod.splits)
qed

lemma Evaluate_error_shape:
  assumes "snd (snd (Evaluate lim snap inp)) = Some e"
  shows "(\<exists>reason rem i s. decide lim snap inp = hard ActionDeny reason rem i s) \<or>
    (\<exists>rem i. decide lim snap inp = failClosed ActionDeny RC_SnapshotUnavailable rem i 0)"
proof (cases "\<exists>i s. inp = Some i \<and> snap = Some s \<and> di_Capability i = sn_capability s \<and> Validate i lim = None")
  case True
  then show ?thesis
    using assms by (auto simp: Evaluate_def Let_def split: option.splits prod.splits)
next
  case False
  then show ?thesis
    by (cases inp; cases snap) (auto simp: Evaluate_def Let_def split: option.splits)
qed

lemma Evaluate_error_deny:
  "snd (snd (Evaluate lim snap inp)) = Some e \<Longrightarrow> de_Action (decide lim snap inp) = ActionDeny"
  by (drule Evaluate_error_shape) (auto simp: hard_def failClosed_def)

lemma Evaluate_error_iff:
  "snd (snd (Evaluate lim snap inp)) = None \<longleftrightarrow>
     (\<exists>s i. snap = Some s \<and> inp = Some i \<and> di_Capability i = sn_capability s \<and> Validate i lim = None)"
  by (auto simp: Evaluate_def Let_def split: option.splits prod.splits if_splits)

section \<open>When a decision permits\<close>

inductive permits :: "limits \<Rightarrow> snapshot \<Rightarrow> decision_input \<Rightarrow> rule \<Rightarrow> bool" for lim s i where
  permitsI:
    "\<lbrakk> di_Capability i = sn_capability s; Validate i lim = None;
       \<forall>(applies, _) \<in> set overrides. \<not> applies i;
       effective_rule s i = Some r; Action_IsAllowClass (rl_action r);
       op_Class (di_Operation i) = OpDestructive \<longrightarrow> rl_allowDestructive r \<rbrakk>
     \<Longrightarrow> permits lim s i r"

inductive_cases permitsE: "permits lim s i r"

lemma overrides_not_allow:
  "(applies, a, reason, rem) \<in> set overrides \<Longrightarrow> \<not> Action_IsAllowClass a"
  by (auto simp: overrides_def)

lemma policy_spec_allow_iff:
  "Action_IsAllowClass (de_Action (policy_spec s i)) \<longleftrightarrow>
     (\<forall>(applies, _) \<in> set overrides. \<not> applies i) \<and>
     (\<exists>r. effective_rule s i = Some r \<and> Action_IsAllowClass (rl_action r) \<and>
        (op_Class (di_Operation i) = OpDestructive \<longrightarrow> rl_allowDestructive r))"
proof (cases "find (\<lambda>(applies, _). applies i) overrides")
  case None
  then have "\<forall>(applies, _) \<in> set overrides. \<not> applies i"
    by (auto simp: find_None_iff)
  with None show ?thesis
    by (auto simp: policy_spec_def rule_decision_def decisionFromReason_def decisionFromRule_def
        failClosed_def split: option.splits)
next
  case (Some e)
  obtain applies a reason rem where e: "e = (applies, a, reason, rem)" by (cases e)
  from Some have "applies i" "(applies, a, reason, rem) \<in> set overrides"
    by (auto simp: find_Some_iff e in_set_conv_nth)
  with Some e show ?thesis
    by (auto simp: policy_spec_def hard_def dest: overrides_not_allow)
qed

lemma allow_imp_permits:
  assumes "Decision_IsAllowClass (decide lim snap inp)"
  obtains s i r where "snap = Some s" "inp = Some i" "permits lim s i r"
    "decide lim snap inp = decisionFromRule r i s"
proof -
  have "snd (snd (Evaluate lim snap inp)) = None"
  proof (rule ccontr)
    assume "snd (snd (Evaluate lim snap inp)) \<noteq> None"
    then obtain e where "snd (snd (Evaluate lim snap inp)) = Some e" by blast
    from Evaluate_error_deny[OF this] assms show False by (simp add: Decision_IsAllowClass_def)
  qed
  then obtain s i where si: "snap = Some s" "inp = Some i" "di_Capability i = sn_capability s"
      "Validate i lim = None"
    unfolding Evaluate_error_iff by blast
  then have dec: "decide lim snap inp = policy_spec s i" by (simp add: Evaluate_valid(1))
  with assms have "Action_IsAllowClass (de_Action (policy_spec s i))"
    by (simp add: Decision_IsAllowClass_def)
  then obtain r where r: "\<forall>(applies, _) \<in> set overrides. \<not> applies i" "effective_rule s i = Some r"
      "Action_IsAllowClass (rl_action r)"
      "op_Class (di_Operation i) = OpDestructive \<longrightarrow> rl_allowDestructive r"
    unfolding policy_spec_allow_iff by blast
  from r(1) have "find (\<lambda>(applies, _). applies i) overrides = None"
    by (auto simp: find_None_iff)
  with r have "policy_spec s i = decisionFromRule r i s"
    by (auto simp: policy_spec_def rule_decision_def)
  with si r dec show ?thesis by (intro that[of s i r] permits.intros) auto
qed

lemma permits_imp_allow:
  assumes "permits lim s i r"
  shows "Decision_IsAllowClass (decide lim (Some s) (Some i))"
  using assms
  by (auto elim!: permitsE simp: Decision_IsAllowClass_def Evaluate_valid(1) policy_spec_allow_iff)

lemma permits_no_override:
  assumes "permits lim s i r"
  shows "\<not> foreign_resource i" "\<not> ambiguous_writer i" "\<not> management_mutation i" "\<not> foreign_server i"
    "\<not> identity_changed i" "\<not> server_disabled i" "\<not> tool_quarantined i" "\<not> tool_expanded i"
  using assms by (auto elim!: permitsE simp: overrides_def)

lemma permits_gateway_server:
  assumes "permits lim s i r" and "di_Capability i = CapGateway"
  obtains sv where "di_Server i = Some sv" "sv_Owner sv = pr_Tenant (di_Principal i)"
    "sv_Owner sv \<noteq> []" "sv_Verification sv = ServerVerified" "sv_Enabled sv"
proof -
  from assms(1) have "Validate i lim = None" by (auto elim: permitsE)
  from Validate_gateway_server[OF this assms(2)] obtain sv where
    sv: "di_Server i = Some sv" "sv_Verification sv \<in> {ServerVerified, ServerIdentityMismatch}"
    by blast
  with permits_no_override(4-6)[OF assms(1)] show ?thesis
    by (intro that[of sv]) (auto simp: foreign_server_def identity_changed_def server_disabled_def)
qed

lemma effective_rule_SomeD:
  assumes "effective_rule s i = Some r"
  shows "r \<in> set (sn_rules s)" "rl_enabled r" "\<not> rule_expired r i" "\<forall>c \<in> set (rl_conditions r). cc_match c i"
  using assms by (auto simp: effective_rule_def find_Some_iff)

lemma effective_rule_first:
  assumes "effective_rule s i = Some r" and "sorted_wrt (\<lambda>r r'. rl_priority r < rl_priority r') (sn_rules s)"
    and "q \<in> set (sn_rules s)" "rl_enabled q" "\<not> rule_expired q i" "\<forall>c \<in> set (rl_conditions q). cc_match c i"
  shows "rl_priority r \<le> rl_priority q"
proof -
  from assms(1) obtain us vs where sp: "sn_rules s = us @ r # vs"
    and us: "\<forall>u \<in> set us. \<not> (rl_enabled u \<and> \<not> rule_expired u i \<and> (\<forall>c \<in> set (rl_conditions u). cc_match c i))"
    by (auto simp: effective_rule_def find_eq_first)
  with assms(3-6) have "q = r \<or> q \<in> set vs" by auto
  with assms(2) sp show ?thesis by (auto simp: sorted_wrt_append)
qed

section \<open>Traces\<close>

lemma tb_add_limit [simp]: "tb_limit (tb_add tb k r c m l) = tb_limit tb"
  by (simp add: tb_add_def)

lemma tb_add_entries:
  assumes "tb_entries tb = take (nat (tb_limit tb)) es" and "0 < tb_limit tb"
  shows "tb_entries (tb_add tb k r c m l) = take (nat (tb_limit tb))
    (es @ [\<lparr>te_Kind = k, te_RuleID = r, te_ConditionID = c, te_Matched = m, te_Label = l\<rparr>])"
  using assms by (auto simp: tb_add_def take_Cons' min_def)

definition considered_entry :: "rule \<Rightarrow> decision_input \<Rightarrow> trace_entry" where
  "considered_entry r i = \<lparr>te_Kind = TraceRuleConsidered, te_RuleID = rl_id r,
     te_ConditionID = snd (Rule_matches r i), te_Matched = False,
     te_Label = ''condition did not match''\<rparr>"

definition winner_entry :: "rule \<Rightarrow> decision_input \<Rightarrow> trace_entry" where
  "winner_entry r i = \<lparr>te_Kind = TraceWinner, te_RuleID = rl_id r, te_ConditionID = [],
     te_Matched = True,
     te_Label = (if op_Class (di_Operation i) = OpDestructive \<and> Action_IsAllowClass (rl_action r)
                   \<and> \<not> rl_allowDestructive r
                 then ''matched but not authorized for a destructive operation''
                 else ''all conditions matched'')\<rparr>"

definition default_entry :: trace_entry where
  "default_entry = \<lparr>te_Kind = TraceDefaultDeny, te_RuleID = [], te_ConditionID = [],
     te_Matched = False, te_Label = ''no enabled rule matched''\<rparr>"

definition rule_trace :: "rule list \<Rightarrow> decision_input \<Rightarrow> trace_entry list" where
  "rule_trace rs i =
     (let live = filter rl_enabled rs in
      map (\<lambda>r. considered_entry r i) (takeWhile (\<lambda>r. \<not> fst (Rule_matches r i)) live)
      @ [case find (\<lambda>r. fst (Rule_matches r i)) live of
           Some r \<Rightarrow> winner_entry r i | None \<Rightarrow> default_entry])"

lemma rule_trace_simps:
  "rule_trace [] i = [default_entry]"
  "rule_trace (r # rs) i =
     (if \<not> rl_enabled r then rule_trace rs i
      else if fst (Rule_matches r i) then [winner_entry r i]
      else considered_entry r i # rule_trace rs i)"
  by (simp_all add: rule_trace_def Let_def)

lemma matchRules_from_trace:
  assumes "tb_entries tb = take (nat (tb_limit tb)) es" and "0 < tb_limit tb"
  shows "et_Entries (snd (matchRules_from rs s i tb)) = take (nat (tb_limit tb)) (es @ rule_trace rs i)"
  using assms
proof (induction rs arbitrary: tb es)
  case Nil
  then show ?case
    by (simp add: Let_def tb_finish_def tb_assemble_def rule_trace_simps default_entry_def tb_add_entries)
next
  case (Cons r rs)
  obtain ok fc where m: "Rule_matches r i = (ok, fc)" by fastforce
  show ?case
  proof (cases "rl_enabled r \<and> \<not> ok")
    case True
    let ?tb = "tb_add tb TraceRuleConsidered (rl_id r) fc False ''condition did not match''"
    have "et_Entries (snd (matchRules_from rs s i ?tb))
        = take (nat (tb_limit ?tb)) ((es @ [considered_entry r i]) @ rule_trace rs i)"
      using Cons.prems by (intro Cons.IH) (simp_all add: tb_add_entries considered_entry_def m)
    with True m show ?thesis by (simp add: rule_trace_simps)
  next
    case False
    with m Cons.prems Cons.IH show ?thesis
      by (auto simp: Let_def rule_trace_simps winner_entry_def finishWinner_def tb_assemble_def tb_add_entries)
  qed
qed

lemma matchRules_trace:
  "et_Entries (snd (matchRules s i (newTraceBuilder n))) = take (nat (max 1 n)) (rule_trace (sn_rules s) i)"
  using matchRules_from_trace[of "newTraceBuilder n" "[]" "sn_rules s" s i]
  by (simp add: matchRules_def newTraceBuilder_def max_def split: if_splits)

definition one_entry_more :: "trace_builder \<Rightarrow> trace_builder \<Rightarrow> bool" where
  "one_entry_more tb tb' \<longleftrightarrow> (\<exists>k r c m l. tb' = tb_add tb k r c m l)"

lemma one_entry_moreI [simp]: "one_entry_more tb (tb_add tb k r c m l)"
  unfolding one_entry_more_def by blast

lemma override_adds_one_entry:
  "subjectOverride s i tb = Some (d, tb') \<Longrightarrow> one_entry_more tb tb'"
  "serverOverride sv s i tb = Some (d, tb') \<Longrightarrow> one_entry_more tb tb'"
  "toolOverride t s i tb = Some (d, tb') \<Longrightarrow> one_entry_more tb tb'"
  unfolding subjectOverride_def serverOverride_def toolOverride_def
  by (auto split: if_split_asm)

lemma serverToolOverride_adds_one_entry:
  "serverToolOverride s i tb = Some (d, tb') \<Longrightarrow> one_entry_more tb tb'"
  by (auto simp: serverToolOverride_def dest: override_adds_one_entry split: option.splits)

lemma hardOverride_adds_one_entry:
  "hardOverride s i tb = Some (d, tb') \<Longrightarrow> one_entry_more tb tb'"
  by (auto simp: hardOverride_def dest: override_adds_one_entry serverToolOverride_adds_one_entry
      split: option.splits)

lemma hardOverride_trace_length:
  assumes "hardOverride s i (newTraceBuilder n) = Some (d, tb)"
  shows "length (tb_entries tb) = 1"
  using hardOverride_adds_one_entry[OF assms]
  by (auto simp: one_entry_more_def tb_add_def newTraceBuilder_def)

section \<open>Labels of decisions\<close>

lemma engineReasonCodes_valid: "list_all ReasonCode_Valid engineReasonCodes"
  by code_simp

lemma failClosed_sel [simp]:
  "de_Reason (failClosed a reason rem i n) = reason" "de_Remediation (failClosed a reason rem i n) = rem"
  "de_Action (failClosed a reason rem i n) = a" "de_Effect (failClosed a reason rem i n) = Action_Effect a"
  "de_EventClass (failClosed a reason rem i n) = eventClassFor a"
  by (simp_all add: failClosed_def)

lemma hard_sel [simp]:
  "de_Reason (hard a reason rem i s) = reason" "de_Remediation (hard a reason rem i s) = rem"
  "de_Action (hard a reason rem i s) = a" "de_Effect (hard a reason rem i s) = Action_Effect a"
  "de_EventClass (hard a reason rem i s) = eventClassFor a"
  by (simp_all add: hard_def)

definition well_labelled :: "decision \<Rightarrow> bool" where
  "well_labelled d \<longleftrightarrow> ReasonCode_Valid (de_Reason d) \<and> Remediation_Valid (de_Remediation d) \<and>
     de_Effect d = Action_Effect (de_Action d) \<and> de_EventClass d = eventClassFor (de_Action d)"

lemma well_labelled_hard:
  "reason \<in> set engineReasonCodes \<Longrightarrow> rem \<in> set remediations \<Longrightarrow> well_labelled (hard a reason rem i s)"
  "reason \<in> set engineReasonCodes \<Longrightarrow> rem \<in> set remediations \<Longrightarrow> well_labelled (failClosed a reason rem i n)"
  using engineReasonCodes_valid by (simp_all add: well_labelled_def list_all_iff Remediation_Valid_def)

lemma overrides_labels:
  "(applies, a, reason, rem) \<in> set overrides \<Longrightarrow> reason \<in> set engineReasonCodes \<and> rem \<in> set remediations"
  by (auto simp: overrides_def engineReasonCodes_def remediations_def)

lemma rule_decision_well_labelled:
  assumes "rule_wf c lim r"
  shows "well_labelled (rule_decision s i r)"
  using assms engineReasonCodes_valid
  by (auto simp: rule_decision_def decisionFromReason_def decisionFromRule_def well_labelled_def
      rule_wf_def Remediation_Valid_def remediations_def engineReasonCodes_def)

lemma policy_spec_well_labelled:
  assumes "snapshot_wf s"
  shows "well_labelled (policy_spec s i)"
proof (cases "find (\<lambda>(applies, _). applies i) overrides")
  case None
  show ?thesis
  proof (cases "effective_rule s i")
    case None
    with \<open>find _ _ = None\<close> show ?thesis
      by (auto simp: policy_spec_def engineReasonCodes_def remediations_def intro!: well_labelled_hard)
  next
    case (Some r)
    then have "rule_wf (sn_capability s) (sn_lim s) r"
      using assms effective_rule_SomeD(1) by (auto simp: snapshot_wf_def)
    with None Some show ?thesis by (simp add: policy_spec_def rule_decision_well_labelled)
  qed
next
  case (Some e)
  obtain applies a reason rem where e: "e = (applies, a, reason, rem)" by (cases e)
  from Some have "e \<in> set overrides" by (metis find_Some_iff nth_mem)
  with Some e overrides_labels show ?thesis
    by (auto simp: policy_spec_def intro!: well_labelled_hard)
qed

lemma Evaluate_error_well_labelled:
  assumes "snd (snd (Evaluate lim snap inp)) = Some e"
  shows "well_labelled (decide lim snap inp)"
proof -
  have lab: "well_labelled (hard ActionDeny RC_InvalidInput ''not_permitted'' j q)"
    "well_labelled (hard ActionDeny RC_CapabilityMismatch ''not_permitted'' j q)"
    "well_labelled (failClosed ActionDeny RC_SnapshotUnavailable ''wait_for_policy_publication'' j 0)"
    for j q
    by (auto intro!: well_labelled_hard simp: engineReasonCodes_def remediations_def)
  show ?thesis
  proof (cases "\<exists>i s. inp = Some i \<and> snap = Some s \<and> di_Capability i = sn_capability s \<and> Validate i lim = None")
    case True
    then show ?thesis using assms Evaluate_valid(2) by fastforce
  next
    case False
    then show ?thesis
      by (cases inp; cases snap) (auto simp: Evaluate_def Let_def lab split: option.splits)
  qed
qed

section \<open>The trace of a whole evaluation\<close>

lemma Evaluate_rule_trace:
  assumes "di_Capability i = sn_capability s" and "Validate i lim = None"
    and "find (\<lambda>(applies, _). applies i) overrides = None"
  shows "et_Entries (fst (snd (Evaluate lim (Some s) (Some i)))) =
    take (nat (max 1 (MaxTraceEntries lim))) (rule_trace (sn_rules s) i)"
proof -
  have "hardOverride s i (newTraceBuilder (MaxTraceEntries lim)) = None"
    using hardOverride_decision[of s i "newTraceBuilder (MaxTraceEntries lim)"] assms(3) by simp
  with assms(1,2) show ?thesis
    by (simp add: Evaluate_def Let_def split_beta matchRules_trace)
qed

lemma length_tb_add_new: "length (tb_entries (tb_add (newTraceBuilder n) k r c m l)) = 1"
  by (simp add: tb_add_def newTraceBuilder_def)

lemma Evaluate_trace_bounded:
  "int (length (et_Entries (fst (snd (Evaluate lim snap inp))))) \<le> max 1 (MaxTraceEntries lim)"
proof (cases "\<exists>i s. inp = Some i \<and> snap = Some s \<and> di_Capability i = sn_capability s \<and> Validate i lim = None")
  case True
  then obtain i s where si: "inp = Some i" "snap = Some s" "di_Capability i = sn_capability s"
    "Validate i lim = None" by blast
  show ?thesis
  proof (cases "hardOverride s i (newTraceBuilder (MaxTraceEntries lim))")
    case None
    with si show ?thesis by (simp add: Evaluate_def Let_def split_beta matchRules_trace)
  next
    case (Some dt)
    with si hardOverride_trace_length[of s i "MaxTraceEntries lim" "fst dt" "snd dt"] show ?thesis
      by (simp add: Evaluate_def Let_def split_beta finishOverride_def tb_assemble_def)
  qed
next
  case False
  have "int 1 \<le> max 1 (MaxTraceEntries lim)" "(0::int) \<le> max 1 (MaxTraceEntries lim)" by simp_all
  with False show ?thesis
    by (cases inp; cases snap)
      (auto simp: Evaluate_def Let_def finishOverride_def tb_finish_def tb_assemble_def
        length_tb_add_new newTraceBuilder_def[of "MaxTraceEntries lim"] tb_add_def split: option.splits)
qed

end
