(* ===== verification/PolicySimulate.thy ===== *)
theory PolicySimulate
  imports PolicyEngine
begin

text \<open>
  The simulator (\<open>internal/mcp/policy/simulate/simulate.go\<close>). It calls the runtime's
  evaluator, so its functions take the evaluator as an argument and the locale
  \<open>fail_closed_evaluator\<close> states what the evaluator promises; \<open>Evaluate\<close> is the
  instance. A Go map of counters is a map; the set of affected rules is a duplicate-free list.
\<close>

type_synonym evaluator =
  "snapshot option \<Rightarrow> decision_input option \<Rightarrow> decision \<times> explain_trace \<times> go_error option"

record sim_case =
  sc_ID :: string
  sc_Input :: decision_input

record sim_result =
  sr_Decision :: decision
  sr_Trace :: explain_trace

definition Single :: "evaluator \<Rightarrow> snapshot option \<Rightarrow> decision_input option \<Rightarrow> sim_result" where
  "Single eval snap inp = (let (d, tr, _) = eval snap inp in \<lparr>sr_Decision = d, sr_Trace = tr\<rparr>)"

record case_result =
  cres_ID :: string
  cres_Decision :: decision

definition simErr :: "string \<Rightarrow> go_error" where
  "simErr detail = New ReasonPolicyLimitExceeded ''policy.simulate'' detail"

definition Corpus ::
    "evaluator \<Rightarrow> limits \<Rightarrow> snapshot option \<Rightarrow> sim_case list \<Rightarrow> case_result list res" where
  "Corpus eval lim snap cases =
     (if int (length cases) > MaxSimCases lim then
        Inl (simErr ''simulator corpus exceeds the case bound'')
      else Inr (map (\<lambda>c. \<lparr>cres_ID = sc_ID c, cres_Decision = fst (eval snap (Some (sc_Input c)))\<rparr>) cases))"

record changed_case =
  cg_ID :: string
  cg_OldAction :: action
  cg_NewAction :: action
  cg_OldReason :: string
  cg_NewReason :: string
  cg_OldRule :: string
  cg_NewRule :: string
  cg_NewAllowClass :: bool

record comparison =
  cp_Total :: nat
  cp_Unchanged :: nat
  cp_ActionChanges :: nat
  cp_ReasonChanges :: nat
  cp_RuleChanges :: nat
  cp_ObligationChanges :: nat
  cp_NewAllow :: nat
  cp_NewDeny :: nat
  cp_NewQuarantine :: nat
  cp_NewApprovalRequired :: nat
  cp_AffectedRules :: "string list"
  cp_Samples :: "changed_case list"
  cp_ByTenant :: "string \<rightharpoonup> nat"
  cp_ByServer :: "string \<rightharpoonup> nat"
  cp_ByTool :: "string \<rightharpoonup> nat"

text \<open>A Go \<open>map[string]int\<close>: reading an absent key gives zero, \<open>++\<close> stores the successor.\<close>

definition count_at :: "(string \<rightharpoonup> nat) \<Rightarrow> string \<Rightarrow> nat" where
  "count_at counts key = (case counts key of Some n \<Rightarrow> n | None \<Rightarrow> 0)"

definition increment :: "(string \<rightharpoonup> nat) \<Rightarrow> string \<Rightarrow> (string \<rightharpoonup> nat)" where
  "increment counts key = counts(key := Some (Suc (count_at counts key)))"

definition tallyNewClasses :: "comparison \<Rightarrow> decision \<Rightarrow> decision \<Rightarrow> bool \<times> comparison" where
  "tallyNewClasses cmp oldD newD =
     (let newAllow = Decision_IsAllowClass newD \<and> \<not> Decision_IsAllowClass oldD;
          cmp1 = (if newAllow then cmp\<lparr>cp_NewAllow := cp_NewAllow cmp + 1\<rparr> else cmp);
          cmp2 = (if de_Action newD = ActionDeny \<and> de_Action oldD \<noteq> ActionDeny
                  then cmp1\<lparr>cp_NewDeny := cp_NewDeny cmp1 + 1\<rparr> else cmp1);
          cmp3 = (if de_Action newD = ActionQuarantine \<and> de_Action oldD \<noteq> ActionQuarantine
                  then cmp2\<lparr>cp_NewQuarantine := cp_NewQuarantine cmp2 + 1\<rparr> else cmp2);
          cmp4 = (if de_Action newD = ActionRequireApproval \<and> de_Action oldD \<noteq> ActionRequireApproval
                  then cmp3\<lparr>cp_NewApprovalRequired := cp_NewApprovalRequired cmp3 + 1\<rparr> else cmp3)
      in (newAllow, cmp4))"

definition aggregate :: "comparison \<Rightarrow> decision_input \<Rightarrow> comparison" where
  "aggregate cmp i =
     (let t = pr_Tenant (di_Principal i);
          cmp1 = (if t \<noteq> [] then cmp\<lparr>cp_ByTenant := increment (cp_ByTenant cmp) t\<rparr> else cmp);
          cmp2 = (case di_Server i of
                    Some sv \<Rightarrow> if sv_ServerID sv \<noteq> []
                      then cmp1\<lparr>cp_ByServer := increment (cp_ByServer cmp1) (sv_ServerID sv)\<rparr> else cmp1
                  | None \<Rightarrow> cmp1)
      in (case di_Tool i of
            Some tool \<Rightarrow> if tl_Name tool \<noteq> []
              then cmp2\<lparr>cp_ByTool := increment (cp_ByTool cmp2) (tl_Name tool)\<rparr> else cmp2
          | None \<Rightarrow> cmp2))"

definition decision_changed :: "decision \<Rightarrow> decision \<Rightarrow> bool" where
  "decision_changed oldD newD \<longleftrightarrow>
     de_Action oldD \<noteq> de_Action newD \<or> de_Reason oldD \<noteq> de_Reason newD \<or>
     de_MatchedRule oldD \<noteq> de_MatchedRule newD \<or>
     \<not> Obligations_Equal (de_Obligations oldD) (de_Obligations newD)"

definition note_rule :: "string list \<Rightarrow> string \<Rightarrow> string list" where
  "note_rule affected r = (if r \<noteq> [] then List.insert r affected else affected)"

definition tally ::
    "limits \<Rightarrow> comparison \<times> string list \<Rightarrow> sim_case \<Rightarrow> decision \<Rightarrow> decision \<Rightarrow> comparison \<times> string list" where
  "tally lim st c oldD newD =
     (let (cmp, affected) = st in
      if \<not> decision_changed oldD newD then
        (cmp\<lparr>cp_Unchanged := cp_Unchanged cmp + 1\<rparr>, affected)
      else
        let cmp1 = (if de_Action oldD \<noteq> de_Action newD
                    then cmp\<lparr>cp_ActionChanges := cp_ActionChanges cmp + 1\<rparr> else cmp);
            cmp2 = (if de_Reason oldD \<noteq> de_Reason newD
                    then cmp1\<lparr>cp_ReasonChanges := cp_ReasonChanges cmp1 + 1\<rparr> else cmp1);
            cmp3 = (if de_MatchedRule oldD \<noteq> de_MatchedRule newD
                    then cmp2\<lparr>cp_RuleChanges := cp_RuleChanges cmp2 + 1\<rparr> else cmp2);
            cmp4 = (if \<not> Obligations_Equal (de_Obligations oldD) (de_Obligations newD)
                    then cmp3\<lparr>cp_ObligationChanges := cp_ObligationChanges cmp3 + 1\<rparr> else cmp3);
            (newAllow, cmp5) = tallyNewClasses cmp4 oldD newD;
            affected' = note_rule (note_rule affected (de_MatchedRule newD)) (de_MatchedRule oldD);
            cmp6 = aggregate cmp5 (sc_Input c);
            cmp7 = (if int (length (cp_Samples cmp6)) < MaxCompareSamples lim then
                cmp6\<lparr>cp_Samples := cp_Samples cmp6 @ [\<lparr>
                  cg_ID = sc_ID c, cg_OldAction = de_Action oldD, cg_NewAction = de_Action newD,
                  cg_OldReason = de_Reason oldD, cg_NewReason = de_Reason newD,
                  cg_OldRule = de_MatchedRule oldD, cg_NewRule = de_MatchedRule newD,
                  cg_NewAllowClass = newAllow\<rparr>]\<rparr>
              else cmp6)
        in (cmp7, affected'))"

definition sortedRuleIDs :: "string list \<Rightarrow> string list" where
  "sortedRuleIDs m = sort m"

definition empty_comparison :: "nat \<Rightarrow> comparison" where
  "empty_comparison n = \<lparr>
     cp_Total = n, cp_Unchanged = 0, cp_ActionChanges = 0, cp_ReasonChanges = 0,
     cp_RuleChanges = 0, cp_ObligationChanges = 0, cp_NewAllow = 0, cp_NewDeny = 0,
     cp_NewQuarantine = 0, cp_NewApprovalRequired = 0, cp_AffectedRules = [], cp_Samples = [],
     cp_ByTenant = Map.empty, cp_ByServer = Map.empty, cp_ByTool = Map.empty\<rparr>"

primrec compare_loop ::
    "evaluator \<Rightarrow> limits \<Rightarrow> snapshot option \<Rightarrow> snapshot option \<Rightarrow> sim_case list \<Rightarrow>
     comparison \<times> string list \<Rightarrow> comparison \<times> string list" where
  "compare_loop eval lim oldS newS [] st = st"
| "compare_loop eval lim oldS newS (c # cs) st =
     compare_loop eval lim oldS newS cs
       (tally lim st c (fst (eval oldS (Some (sc_Input c)))) (fst (eval newS (Some (sc_Input c)))))"

definition Compare ::
    "evaluator \<Rightarrow> limits \<Rightarrow> snapshot option \<Rightarrow> snapshot option \<Rightarrow> sim_case list \<Rightarrow> comparison res" where
  "Compare eval lim oldS newS cases =
     (if int (length cases) > MaxSimCases lim then
        Inl (simErr ''simulator corpus exceeds the case bound'')
      else
        let (cmp, affected) =
              compare_loop eval lim oldS newS cases (empty_comparison (length cases), [])
        in Inr (cmp\<lparr>cp_AffectedRules := sortedRuleIDs affected\<rparr>))"

datatype relation = RelEqual | RelBroader | RelNarrower | RelIncomparable

fun Relation_String :: "relation \<Rightarrow> string" where
  "Relation_String RelBroader = ''broader''"
| "Relation_String RelNarrower = ''narrower''"
| "Relation_String RelIncomparable = ''incomparable''"
| "Relation_String RelEqual = ''equal''"

definition permRank :: "action \<Rightarrow> int" where
  "permRank a =
     (if Action_IsAllowClass a then 2
      else if a = ActionRequireApproval \<or> a = ActionRequireConfirmation then 1
      else 0)"

definition relate :: "decision \<Rightarrow> decision \<Rightarrow> relation" where
  "relate active candidate =
     (if de_Action active = de_Action candidate then RelEqual
      else let ra = permRank (de_Action active); rc = permRank (de_Action candidate) in
        if rc > ra then RelBroader else if rc < ra then RelNarrower else RelIncomparable)"

record shadow_result =
  sh_Active :: decision
  sh_Candidate :: decision
  sh_Relation :: relation
  sh_Changed :: bool

definition Shadow ::
    "evaluator \<Rightarrow> snapshot option \<Rightarrow> snapshot option \<Rightarrow> decision_input option \<Rightarrow> shadow_result" where
  "Shadow eval active candidate inp =
     (let a = fst (eval active inp); c = fst (eval candidate inp) in \<lparr>
        sh_Active = a, sh_Candidate = c, sh_Relation = relate a c,
        sh_Changed = (de_Action a \<noteq> de_Action c \<or> de_Reason a \<noteq> de_Reason c \<or>
                      de_MatchedRule a \<noteq> de_MatchedRule c)\<rparr>)"

section \<open>What one tally step does\<close>

lemmas tally_defs = tally_def tallyNewClasses_def aggregate_def Let_def split_beta

lemma aggregate_counters [simp]:
  "cp_Total (aggregate cmp i) = cp_Total cmp" "cp_Unchanged (aggregate cmp i) = cp_Unchanged cmp"
  "cp_ActionChanges (aggregate cmp i) = cp_ActionChanges cmp"
  "cp_NewAllow (aggregate cmp i) = cp_NewAllow cmp" "cp_Samples (aggregate cmp i) = cp_Samples cmp"
  by (simp_all add: aggregate_def Let_def split: option.splits)

lemma aggregate_ByTenant [simp]:
  "cp_ByTenant (aggregate cmp i) =
     (if pr_Tenant (di_Principal i) = [] then cp_ByTenant cmp
      else increment (cp_ByTenant cmp) (pr_Tenant (di_Principal i)))"
  by (simp add: aggregate_def Let_def split: option.splits)

lemma tallyNewClasses_counters [simp]:
  "cp_Total (snd (tallyNewClasses cmp a b)) = cp_Total cmp"
  "cp_Unchanged (snd (tallyNewClasses cmp a b)) = cp_Unchanged cmp"
  "cp_ActionChanges (snd (tallyNewClasses cmp a b)) = cp_ActionChanges cmp"
  "cp_Samples (snd (tallyNewClasses cmp a b)) = cp_Samples cmp"
  "cp_ByTenant (snd (tallyNewClasses cmp a b)) = cp_ByTenant cmp"
  "cp_NewAllow (snd (tallyNewClasses cmp a b)) =
     cp_NewAllow cmp + of_bool (Decision_IsAllowClass b \<and> \<not> Decision_IsAllowClass a)"
  "fst (tallyNewClasses cmp a b) = (Decision_IsAllowClass b \<and> \<not> Decision_IsAllowClass a)"
  by (simp_all add: tallyNewClasses_def Let_def)

definition sample_of :: "sim_case \<Rightarrow> decision \<Rightarrow> decision \<Rightarrow> changed_case" where
  "sample_of c oldD newD = \<lparr>
     cg_ID = sc_ID c, cg_OldAction = de_Action oldD, cg_NewAction = de_Action newD,
     cg_OldReason = de_Reason oldD, cg_NewReason = de_Reason newD,
     cg_OldRule = de_MatchedRule oldD, cg_NewRule = de_MatchedRule newD,
     cg_NewAllowClass = (Decision_IsAllowClass newD \<and> \<not> Decision_IsAllowClass oldD)\<rparr>"

lemma tally_unchanged:
  "\<not> decision_changed a b \<Longrightarrow>
     tally lim st c a b = ((fst st)\<lparr>cp_Unchanged := cp_Unchanged (fst st) + 1\<rparr>, snd st)"
  by (simp add: tally_def split_beta)

lemma tally_changed:
  assumes "decision_changed a b"
  shows "cp_Unchanged (fst (tally lim st c a b)) = cp_Unchanged (fst st)"
    and "cp_Total (fst (tally lim st c a b)) = cp_Total (fst st)"
    and "cp_ActionChanges (fst (tally lim st c a b)) =
      cp_ActionChanges (fst st) + of_bool (de_Action a \<noteq> de_Action b)"
    and "cp_NewAllow (fst (tally lim st c a b)) =
      cp_NewAllow (fst st) + of_bool (Decision_IsAllowClass b \<and> \<not> Decision_IsAllowClass a)"
    and "cp_Samples (fst (tally lim st c a b)) =
      (if int (length (cp_Samples (fst st))) < MaxCompareSamples lim
       then cp_Samples (fst st) @ [sample_of c a b] else cp_Samples (fst st))"
    and "snd (tally lim st c a b) = note_rule (note_rule (snd st) (de_MatchedRule b)) (de_MatchedRule a)"
  using assms by (simp_all add: tally_def Let_def split_beta sample_of_def)

lemma allow_change: "Decision_IsAllowClass b \<Longrightarrow> \<not> Decision_IsAllowClass a \<Longrightarrow> decision_changed a b"
  by (auto simp: Decision_IsAllowClass_def decision_changed_def)

section \<open>The whole comparison\<close>

abbreviation case_changed ::
    "evaluator \<Rightarrow> snapshot option \<Rightarrow> snapshot option \<Rightarrow> sim_case \<Rightarrow> bool" where
  "case_changed eval oldS newS c \<equiv>
     decision_changed (fst (eval oldS (Some (sc_Input c)))) (fst (eval newS (Some (sc_Input c))))"

abbreviation case_new_allow ::
    "evaluator \<Rightarrow> snapshot option \<Rightarrow> snapshot option \<Rightarrow> sim_case \<Rightarrow> bool" where
  "case_new_allow eval oldS newS c \<equiv>
     Decision_IsAllowClass (fst (eval newS (Some (sc_Input c)))) \<and>
     \<not> Decision_IsAllowClass (fst (eval oldS (Some (sc_Input c))))"

lemma compare_loop_Total:
  "cp_Total (fst (compare_loop eval lim oldS newS cs st)) = cp_Total (fst st)"
proof (induction cs arbitrary: st)
  case (Cons c cs)
  then show ?case
    by (cases "case_changed eval oldS newS c") (simp_all add: tally_unchanged tally_changed)
qed simp

lemma compare_loop_Unchanged:
  "cp_Unchanged (fst (compare_loop eval lim oldS newS cs st)) =
     cp_Unchanged (fst st) + length (filter (\<lambda>c. \<not> case_changed eval oldS newS c) cs)"
proof (induction cs arbitrary: st)
  case (Cons c cs)
  then show ?case
    by (cases "case_changed eval oldS newS c") (simp_all add: tally_unchanged tally_changed)
qed simp

lemma compare_loop_NewAllow:
  "cp_NewAllow (fst (compare_loop eval lim oldS newS cs st)) =
     cp_NewAllow (fst st) + length (filter (case_new_allow eval oldS newS) cs)"
proof (induction cs arbitrary: st)
  case (Cons c cs)
  then show ?case
    by (cases "case_changed eval oldS newS c")
      (auto simp: tally_unchanged tally_changed dest: allow_change)
qed simp

lemma compare_loop_samples:
  assumes "int (length (cp_Samples (fst st))) \<le> MaxCompareSamples lim"
  shows "cp_Samples (fst (compare_loop eval lim oldS newS cs st)) =
    take (nat (MaxCompareSamples lim)) (cp_Samples (fst st) @
      map (\<lambda>c. sample_of c (fst (eval oldS (Some (sc_Input c)))) (fst (eval newS (Some (sc_Input c)))))
        (filter (case_changed eval oldS newS) cs))"
  using assms
proof (induction cs arbitrary: st)
  case Nil
  then show ?case by simp
next
  case (Cons c cs)
  let ?a = "fst (eval oldS (Some (sc_Input c)))" and ?b = "fst (eval newS (Some (sc_Input c)))"
  show ?case
  proof (cases "decision_changed ?a ?b")
    case True
    have "int (length (cp_Samples (fst (tally lim st c ?a ?b)))) \<le> MaxCompareSamples lim"
      using True Cons.prems by (auto simp: tally_changed)
    from Cons.IH[OF this] True Cons.prems show ?thesis
      by (auto simp: tally_changed take_Cons')
  next
    case False
    with Cons show ?thesis by (simp add: tally_unchanged)
  qed
qed

section \<open>The evaluator's contract\<close>

locale fail_closed_evaluator =
  fixes eval :: evaluator
  assumes error_denies: "snd (snd (eval snap inp)) = Some e \<Longrightarrow> \<not> Decision_IsAllowClass (fst (eval snap inp))"
begin

text \<open>Discarding the error, as every simulator entry point does, never turns it into a permit.\<close>

lemma Single_allow_no_error:
  "Decision_IsAllowClass (sr_Decision (Single eval snap inp)) \<Longrightarrow> snd (snd (eval snap inp)) = None"
  using error_denies[of snap inp]
  by (cases "snd (snd (eval snap inp))") (auto simp: Single_def Let_def split_beta)

lemma Corpus_allow_no_error:
  assumes "Corpus eval lim snap cases = Inr out" and "r \<in> set out"
    and "Decision_IsAllowClass (cres_Decision r)"
  shows "\<exists>c \<in> set cases. cres_ID r = sc_ID c \<and> snd (snd (eval snap (Some (sc_Input c)))) = None"
proof -
  from assms obtain c where "c \<in> set cases" "r = \<lparr>cres_ID = sc_ID c,
      cres_Decision = fst (eval snap (Some (sc_Input c)))\<rparr>"
    by (auto simp: Corpus_def split: if_splits)
  with assms(3) error_denies[of snap "Some (sc_Input c)"] show ?thesis
    by (cases "snd (snd (eval snap (Some (sc_Input c))))") auto
qed

lemma Compare_new_allow_no_error:
  assumes "case_new_allow eval oldS newS c"
  shows "snd (snd (eval newS (Some (sc_Input c)))) = None"
  using assms error_denies by (cases "snd (snd (eval newS (Some (sc_Input c))))") auto

end

interpretation engine: fail_closed_evaluator "Evaluate lim" for lim
  by unfold_locales (simp add: Decision_IsAllowClass_def Evaluate_error_deny)

section \<open>Permissiveness\<close>

lemma relate_broader_iff:
  "relate a c = RelBroader \<longleftrightarrow> permRank (de_Action a) < permRank (de_Action c)"
  by (auto simp: relate_def Let_def)

lemma relate_converse: "relate a c = RelBroader \<longleftrightarrow> relate c a = RelNarrower"
  by (auto simp: relate_def Let_def)

end
