(* ===== verification/PolicyStore.thy ===== *)
theory PolicyStore
  imports PolicyRules
begin

text \<open>
  The holder of the current snapshot (\<open>internal/mcp/policy/store.go\<close>): one atomic
  pointer, written by \<open>Publish\<close> under a mutex, so a concurrent run is a sequence of
  \<open>Publish\<close> calls and a read sees the state between two of them. The locale states the
  contract of an optimistically versioned register; the store is an instance of it.
\<close>

section \<open>The store\<close>

record store =
  st_capability :: capability
  st_cur :: "snapshot option"

definition NewStore :: "capability \<Rightarrow> store" where
  "NewStore c = \<lparr>st_capability = c, st_cur = None\<rparr>"

definition Current :: "store \<Rightarrow> snapshot option" where
  "Current s = st_cur s"

definition CurrentRevision :: "store \<Rightarrow> nat" where
  "CurrentRevision s = (case st_cur s of Some c \<Rightarrow> sn_revision c | None \<Rightarrow> 0)"

definition storeErr :: "reason \<Rightarrow> string \<Rightarrow> go_error" where
  "storeErr r detail = New r ''policy.store'' detail"

definition Publish :: "nat \<Rightarrow> snapshot option \<Rightarrow> store \<Rightarrow> go_error option \<times> store" where
  "Publish base snap s = (case snap of
     None \<Rightarrow> (Some (storeErr ReasonPolicySnapshotInvalid ''cannot publish a nil snapshot''), s)
   | Some n \<Rightarrow>
       if sn_capability n \<noteq> st_capability s then
         (Some (storeErr ReasonPolicyNamespaceMismatch
            ''snapshot capability does not match the store''), s)
       else
         let curRev = (case st_cur s of Some c \<Rightarrow> sn_revision c | None \<Rightarrow> 0) in
         if base \<noteq> curRev then
           (Some (storeErr ReasonPolicyStaleRevision ''publish base revision is stale''), s)
         else if sn_revision n \<le> curRev then
           (Some (storeErr ReasonPolicyStaleRevision
              ''new revision must exceed the current revision''), s)
         else (None, s\<lparr>st_cur := Some n\<rparr>))"

section \<open>Runs of publications\<close>

text \<open>The states a register goes through, and which calls returned nil.\<close>

primrec run_publishes ::
    "(nat \<Rightarrow> 'v \<Rightarrow> 's \<Rightarrow> 'e option \<times> 's) \<Rightarrow> (nat \<times> 'v) list \<Rightarrow> 's \<Rightarrow> ('v \<times> 's) list \<times> 's" where
  "run_publishes pub [] s = ([], s)"
| "run_publishes pub (c # cs) s =
     (case pub (fst c) (snd c) s of
        (Some e, s') \<Rightarrow> run_publishes pub cs s'
      | (None, s') \<Rightarrow> (let (log, t) = run_publishes pub cs s' in ((snd c, s') # log, t)))"

locale versioned_register =
  fixes rev_of :: "'s \<Rightarrow> nat" and pub :: "nat \<Rightarrow> 'v \<Rightarrow> 's \<Rightarrow> 'e option \<times> 's"
  assumes rejected_unchanged: "pub b v s = (Some e, s') \<Longrightarrow> s' = s"
    and accepted_fresh: "pub b v s = (None, s') \<Longrightarrow> b = rev_of s \<and> rev_of s < rev_of s'"
begin

lemma run_log_increasing:
  assumes "run_publishes pub cs s = (log, t)"
  shows "sorted_wrt (<) (rev_of s # map (rev_of \<circ> snd) log) \<and>
    t = (if log = [] then s else snd (last log))"
  using assms
proof (induction cs arbitrary: s log)
  case Nil
  then show ?case by simp
next
  case (Cons c cs)
  obtain r s' where p: "pub (fst c) (snd c) s = (r, s')" by fastforce
  show ?case
  proof (cases r)
    case None
    obtain log' where log': "run_publishes pub cs s' = (log', t)" "log = (snd c, s') # log'"
      using Cons.prems p None by (auto split: prod.splits)
    from accepted_fresh p None have "rev_of s < rev_of s'" by blast
    with Cons.IH[OF log'(1)] log'(2) show ?thesis by auto
  next
    case (Some e)
    with p rejected_unchanged have "s' = s" by blast
    with Cons.IH[of s log] Cons.prems p Some show ?thesis by simp
  qed
qed

lemma run_rev_mono:
  assumes "run_publishes pub cs s = (log, t)"
  shows "rev_of s \<le> rev_of t"
  using run_log_increasing[OF assms] by (auto simp: less_imp_le split: if_splits)

text \<open>A caller that read revision \<open>b\<close> loses against any publication made in between.\<close>

lemma stale_publish_rejected:
  assumes "pub (rev_of s) v s = (None, s')" and "run_publishes pub cs s' = (log, t)"
  shows "\<exists>e. pub (rev_of s) w t = (Some e, t)"
proof -
  have "rev_of s < rev_of s'" using accepted_fresh assms(1) by blast
  also have "\<dots> \<le> rev_of t" using assms(2) by (rule run_rev_mono)
  finally have "rev_of s \<noteq> rev_of t" by simp
  obtain r t' where p: "pub (rev_of s) w t = (r, t')" by fastforce
  with accepted_fresh \<open>rev_of s \<noteq> rev_of t\<close> obtain e where "r = Some e"
    by (cases r) blast+
  with p rejected_unchanged show ?thesis by blast
qed

end

lemma Publish_rejected: "Publish b v s = (Some e, s') \<Longrightarrow> s' = s"
  by (auto simp: Publish_def Let_def split: option.splits if_splits)

lemma Publish_accepted:
  "Publish b v s = (None, s') \<longleftrightarrow>
     (\<exists>n. v = Some n \<and> sn_capability n = st_capability s \<and> b = CurrentRevision s \<and>
        CurrentRevision s < sn_revision n \<and> s' = s\<lparr>st_cur := Some n\<rparr>)"
  by (auto simp: Publish_def Let_def CurrentRevision_def split: option.splits if_splits)

interpretation pstore: versioned_register CurrentRevision Publish
  by unfold_locales
    (auto simp: Publish_rejected Publish_accepted, simp add: CurrentRevision_def)

section \<open>Reachable stores\<close>

definition store_wf :: "store \<Rightarrow> bool" where
  "store_wf s \<longleftrightarrow> (case st_cur s of None \<Rightarrow> True
     | Some c \<Rightarrow> sn_capability c = st_capability s \<and> 0 < sn_revision c)"

lemma store_wf_New: "store_wf (NewStore c)"
  by (simp add: store_wf_def NewStore_def)

lemma store_wf_Publish:
  assumes "store_wf s" and "Publish b v s = (r, s')"
  shows "store_wf s' \<and> st_capability s' = st_capability s"
  using assms Publish_rejected[of b v s] Publish_accepted[of b v s s']
  by (cases r) (auto simp: store_wf_def)

lemma run_publishes_store_wf:
  assumes "store_wf s" and "run_publishes Publish cs s = (log, t)"
  shows "store_wf t \<and> st_capability t = st_capability s"
  using assms
proof (induction cs arbitrary: s log)
  case Nil
  then show ?case by simp
next
  case (Cons c cs)
  obtain r s' where p: "Publish (fst c) (snd c) s = (r, s')" by fastforce
  from store_wf_Publish[OF Cons.prems(1) p]
  have s': "store_wf s'" "st_capability s' = st_capability s" by simp_all
  from Cons.prems(2) p obtain log' where "run_publishes Publish cs s' = (log', t)"
    by (auto split: option.splits prod.splits)
  from Cons.IH[OF s'(1) this] s'(2) show ?case by simp
qed

lemma run_publishes_snapshots:
  assumes "run_publishes Publish cs s = (log, t)" and "(v, s') \<in> set log"
  shows "st_cur s' = v \<and> v \<noteq> None"
  using assms
proof (induction cs arbitrary: s log)
  case Nil
  then show ?case by simp
next
  case (Cons c cs)
  obtain r u where p: "Publish (fst c) (snd c) s = (r, u)" by fastforce
  show ?case
  proof (cases r)
    case None
    with p Publish_accepted[of "fst c" "snd c" s u] have u: "st_cur u = snd c" "snd c \<noteq> None" by auto
    from Cons.prems(1) p None obtain log' where
      "run_publishes Publish cs u = (log', t)" "log = (snd c, u) # log'"
      by (auto split: prod.splits)
    with Cons.IH Cons.prems(2) u show ?thesis by auto
  next
    case (Some e)
    with Cons p show ?thesis by simp
  qed
qed

end
