(* ===== verification/PolicyExample.thy ===== *)
theory PolicyExample
  imports PolicySimulate PolicyStore
begin

text \<open>
  A worked policy: a Gateway document with one bounded, audited destructive grant, the snapshot
  it compiles to, and the tuple it is meant for. The witnesses of the development evaluate the
  model on them.
\<close>

definition ex_obligations :: raw_obligations where
  "ex_obligations = \<lparr>
     ro_Logging = ''audit'', ro_Observation = [], ro_RateLimitProfile = [], ro_Destination = [],
     ro_CredentialProfile = [], ro_OnceCall = True, ro_Session = None, ro_Redaction = None,
     ro_Confirmation = False, ro_Approval = False, ro_TicketRequired = False\<rparr>"

definition ex_rule :: raw_rule where
  "ex_rule = \<lparr>
     rw_ID = ''r1'', rw_Priority = 10, rw_Enabled = None, rw_Conditions = [],
     rw_Action = ''ALLOW_ONCE'', rw_Reason = ''MCP.POLICY.DROP_OK'', rw_Remediation = ''none'',
     rw_Obligations = Some ex_obligations, rw_Owner = ''ops'', rw_ExpiryUnix = 0,
     rw_AllowDestructive = True\<rparr>"

definition ex_doc :: raw_snapshot where
  "ex_doc = \<lparr>
     rs_SchemaVersion = 1, rs_Capability = ''gateway'', rs_PolicyRevision = 7,
     rs_DefaultAction = ''DENY'', rs_Description = [], rs_Rules = [ex_rule]\<rparr>"

definition ex_meta :: created_meta where
  "ex_meta = \<lparr>cm_Author = [], cm_CreatedAt = [], cm_Note = []\<rparr>"

definition ex_compiled_rule :: rule where
  "ex_compiled_rule = \<lparr>
     rl_id = ''r1'', rl_priority = 10, rl_enabled = True, rl_conditions = [],
     rl_action = ActionAllowOnce, rl_reason = ''MCP.POLICY.DROP_OK'', rl_remediation = ''none'',
     rl_obligations = no_obligations\<lparr>ob_Logging := LogAudit, ob_OnceCall := True\<rparr>,
     rl_owner = ''ops'', rl_expiryUnix = 0, rl_allowDestructive = True,
     rl_rawKey = canonicalRuleKey ex_rule ActionAllowOnce ''MCP.POLICY.DROP_OK'' ''none''
       (no_obligations\<lparr>ob_Logging := LogAudit, ob_OnceCall := True\<rparr>)\<rparr>"

definition ex_snap :: snapshot where
  "ex_snap = (let s = \<lparr>
     sn_schemaVersion = 1, sn_capability = CapGateway, sn_revision = 7, sn_hash = [],
     sn_description = [], sn_rules = [ex_compiled_rule], sn_defaultAction = ActionDeny,
     sn_lim = defaultLimitConfig, sn_meta = ex_meta\<rparr> in s\<lparr>sn_hash := computeHash s\<rparr>)"

definition ex_server :: server where
  "ex_server = \<lparr>sv_ServerID = ''db'', sv_Owner = ''acme'', sv_Environment = ''prod'',
     sv_Enabled = True, sv_Verification = ServerVerified\<rparr>"

definition ex_tool :: tool where
  "ex_tool = \<lparr>
     tl_Name = ''drop'', tl_ServerID = ''db'', tl_FingerprintHash = ''f'',
     tl_Disposition = DispUsable, tl_Drift = DriftNoMaterialChange,
     tl_Destination = DestinationInternal, tl_CredentialPower = PowerAdmin,
     tl_Reversibility = Irreversible, tl_InputSchemaHash = [], tl_OutputSchemaHash = [],
     tl_DescriptionHash = [], tl_RiskSignals = []\<rparr>"

definition ex_input :: decision_input where
  "ex_input = zero_input\<lparr>
     di_Capability := CapGateway, di_PolicyRevision := 7, di_CatalogRevision := 3,
     di_EvalTime := 63900000000000000000,
     di_Principal := \<lparr>pr_Kind = SubjectHuman, pr_SubjectID = ''u1'', pr_Tenant = ''acme'',
       pr_Groups = [], pr_Assurance = AssuranceHigh, pr_SenderBinding = SenderBindingDPoP,
       pr_Issuer = []\<rparr>,
     di_Client := \<lparr>cl_ClientID = ''c'', cl_AppID = [], cl_Tenant = ''acme'', cl_Trust = TrustHigh,
       cl_Capability = CapGateway\<rparr>,
     di_Server := Some ex_server, di_Tool := Some ex_tool,
     di_Operation := \<lparr>op_Method = ''tools/call'', op_Class = OpDestructive,
       op_Namespace = NamespaceGatewayTool, op_Operand = [], op_DecisionPoint = []\<rparr>\<rparr>"

lemmas ex_defs = ex_obligations_def ex_rule_def ex_doc_def ex_meta_def ex_server_def ex_tool_def
  ex_input_def zero_input_def no_obligations_def

lemma ex_reason_valid: "ReasonCode_Valid ''MCP.POLICY.DROP_OK''"
  by code_simp

lemma ex_compileRule: "compileRule ex_rule CapGateway defaultLimitConfig = Inr ex_compiled_rule"
  by (simp add: compileRule_def compileRuleHeader_def ex_reason_valid ex_rule_def
      ex_compiled_rule_def ex_obligations_def no_obligations_def defaultLimitConfig_def ParseAction_def codeAction_def actionCode_def
      Remediation_Valid_def remediations_def buildObligations_def parseLogging_def
      parseObservation_def parseDestination_def Obligations_IDs_def rule_enabled_def Let_def
      validateFor_def validateShape_def validateCredentialProfile_def validateActionObligations_def
      validateDestructive_def)

lemma ex_compile: "compileDocument ex_doc ex_meta defaultLimitConfig = Inr ex_snap"
  by (simp add: compileDocument_def ex_doc_def parseCapability_def ParseAction_def codeAction_def
      actionCode_def compileRules_def ex_compileRule ex_snap_def Let_def)
    (simp add: defaultLimitConfig_def)

lemma ex_valid: "Validate ex_input defaultLimitConfig = None"
  by (simp add: input_validation_defs ex_defs defaultLimitConfig_def enum_simps Time_IsZero_def
      less_assurance_def)

lemma ex_capability: "di_Capability ex_input = sn_capability ex_snap"
  by (simp add: ex_input_def ex_snap_def Let_def)

lemma ex_snap_sel [simp]:
  "sn_rules ex_snap = [ex_compiled_rule]" "sn_capability ex_snap = CapGateway"
  "sn_revision ex_snap = 7"
  by (simp_all add: ex_snap_def Let_def)

lemma ex_effective: "effective_rule ex_snap ex_input = Some ex_compiled_rule"
  by (simp add: effective_rule_def rule_expired_def) (simp add: ex_compiled_rule_def)

lemma ex_no_override: "(applies, a, reason, rem) \<in> set overrides \<Longrightarrow> \<not> applies ex_input"
  by (auto simp: overrides_def foreign_resource_def ambiguous_writer_def management_mutation_def
      foreign_server_def identity_changed_def server_disabled_def tool_quarantined_def
      tool_expanded_def ex_defs)

lemma ex_permits: "permits defaultLimitConfig ex_snap ex_input ex_compiled_rule"
  using ex_capability ex_valid ex_effective ex_no_override
  by (intro permits.intros) (auto simp: ex_compiled_rule_def)

lemma ex_allow: "Decision_IsAllowClass (decide defaultLimitConfig (Some ex_snap) (Some ex_input))"
  using ex_permits by (rule permits_imp_allow)

text \<open>The same policy with a later catch-all DENY rule.\<close>

definition ex_rule2 :: raw_rule where
  "ex_rule2 = ex_rule\<lparr>rw_ID := ''r2'', rw_Priority := 20, rw_Action := ''DENY'',
     rw_Reason := ''MCP.POLICY.REST'', rw_Obligations := None, rw_AllowDestructive := False\<rparr>"

definition ex_doc2 :: raw_snapshot where
  "ex_doc2 = ex_doc\<lparr>rs_Rules := [ex_rule, ex_rule2]\<rparr>"

definition ex_compiled_rule2 :: rule where
  "ex_compiled_rule2 = ex_compiled_rule\<lparr>
     rl_id := ''r2'', rl_priority := 20, rl_action := ActionDeny, rl_reason := ''MCP.POLICY.REST'',
     rl_obligations := no_obligations, rl_allowDestructive := False,
     rl_rawKey := canonicalRuleKey ex_rule2 ActionDeny ''MCP.POLICY.REST'' ''none'' no_obligations\<rparr>"

definition ex_snap2 :: snapshot where
  "ex_snap2 = (let s = ex_snap\<lparr>sn_hash := [], sn_rules := [ex_compiled_rule, ex_compiled_rule2]\<rparr>
     in s\<lparr>sn_hash := computeHash s\<rparr>)"

lemma ex_reason_valid2: "ReasonCode_Valid ''MCP.POLICY.REST''"
  by code_simp

lemma ex_compileRule2: "compileRule ex_rule2 CapGateway defaultLimitConfig = Inr ex_compiled_rule2"
  by (simp add: compileRule_def compileRuleHeader_def ex_reason_valid2 ex_rule_def ex_rule2_def
      ex_compiled_rule_def ex_compiled_rule2_def no_obligations_def defaultLimitConfig_def
      ParseAction_def codeAction_def actionCode_def Remediation_Valid_def remediations_def
      buildObligations_def Obligations_IDs_def rule_enabled_def Let_def
      validateFor_def validateShape_def validateCredentialProfile_def validateActionObligations_def
      validateDestructive_def)

lemma ex_compile2: "compileDocument ex_doc2 ex_meta defaultLimitConfig = Inr ex_snap2"
  by (simp add: compileDocument_def ex_doc_def ex_doc2_def parseCapability_def ParseAction_def
      codeAction_def actionCode_def compileRules_def ex_compileRule ex_compileRule2 ex_snap_def
      ex_snap2_def Let_def)
    (simp add: defaultLimitConfig_def ex_compiled_rule_def ex_compiled_rule2_def)

lemma ex_snap2_sel [simp]:
  "sn_rules ex_snap2 = [ex_compiled_rule, ex_compiled_rule2]" "sn_capability ex_snap2 = CapGateway"
  by (simp_all add: ex_snap2_def Let_def)

lemma ex_effective2: "effective_rule ex_snap2 ex_input = Some ex_compiled_rule"
  by (simp add: effective_rule_def rule_expired_def) (simp add: ex_compiled_rule_def)

lemma ex_permits2: "permits defaultLimitConfig ex_snap2 ex_input ex_compiled_rule"
  using ex_capability ex_valid ex_effective2 ex_no_override
  by (intro permits.intros) (auto simp: ex_compiled_rule_def)

text \<open>One rule with a \<open>one_of\<close> condition on the subject, for the two readings of its key.\<close>

definition subject_cond :: "string list \<Rightarrow> raw_condition" where
  "subject_cond vs = \<lparr>rc_Field = ''principal.subject'', rc_Op = ''one_of'', rc_Value = [],
     rc_Values = vs, rc_Start = [], rc_End = []\<rparr>"

definition subject_match :: "string list \<Rightarrow> compiled_cond" where
  "subject_match vs = \<lparr>cc_id = ''principal.subject|one_of'', cc_match = \<lambda>i.
     case stringGetter ''principal.subject'' [] i of None \<Rightarrow> False | Some v \<Rightarrow> v \<in> set vs\<rparr>"

definition subject_rule :: "string list \<Rightarrow> raw_rule" where
  "subject_rule vs = ex_rule\<lparr>rw_Conditions := [subject_cond vs]\<rparr>"

definition subject_doc :: "string list \<Rightarrow> raw_snapshot" where
  "subject_doc vs = ex_doc\<lparr>rs_Rules := [subject_rule vs]\<rparr>"

definition subject_compiled :: "string list \<Rightarrow> rule" where
  "subject_compiled vs = ex_compiled_rule\<lparr>rl_conditions := [subject_match vs],
     rl_rawKey := canonicalRuleKey (subject_rule vs) ActionAllowOnce ''MCP.POLICY.DROP_OK'' ''none''
       (no_obligations\<lparr>ob_Logging := LogAudit, ob_OnceCall := True\<rparr>)\<rparr>"

definition subject_snap :: "limits \<Rightarrow> string list \<Rightarrow> snapshot" where
  "subject_snap lim vs =
     (let s = ex_snap\<lparr>sn_hash := [], sn_lim := lim, sn_rules := [subject_compiled vs]\<rparr>
      in s\<lparr>sn_hash := computeHash s\<rparr>)"

definition small_limits :: limits where
  "small_limits = defaultLimitConfig\<lparr>MaxRulesPerSnap := 1, MaxTraceEntries := 1\<rparr>"

lemma subject_cond_compile:
  assumes "boundSet vs lim = Inr vs"
  shows "compileCondition (subject_cond vs) lim = Inr (subject_match vs)"
  using assms
  by (simp add: compileCondition_def compileStringCond_def subject_cond_def subject_match_def
      fieldKinds_def)

lemma subject_rule_compile:
  assumes "boundSet vs lim = Inr vs" and "lim \<in> {defaultLimitConfig, small_limits}"
  shows "compileRule (subject_rule vs) CapGateway lim = Inr (subject_compiled vs)"
  using assms(2)
  by (auto simp: compileRule_def compileRuleHeader_def ex_reason_valid subject_rule_def ex_rule_def
      subject_compiled_def ex_compiled_rule_def ex_obligations_def no_obligations_def
      subject_cond_compile[OF assms(1)] defaultLimitConfig_def small_limits_def
      ParseAction_def codeAction_def actionCode_def Remediation_Valid_def remediations_def
      buildObligations_def parseLogging_def parseObservation_def parseDestination_def
      Obligations_IDs_def rule_enabled_def Let_def validateFor_def validateShape_def
      validateCredentialProfile_def validateActionObligations_def validateDestructive_def)

lemma subject_compile:
  assumes "boundSet vs lim = Inr vs" and "lim \<in> {defaultLimitConfig, small_limits}"
  shows "compileDocument (subject_doc vs) ex_meta lim = Inr (subject_snap lim vs)"
  using assms(2) subject_rule_compile[OF assms]
  by (auto simp: compileDocument_def ex_doc_def subject_doc_def parseCapability_def ParseAction_def
      codeAction_def actionCode_def compileRules_def ex_snap_def subject_snap_def Let_def
      small_limits_def defaultLimitConfig_def)

lemma subject_snap_sel [simp]:
  "sn_rules (subject_snap lim vs) = [subject_compiled vs]"
  "sn_capability (subject_snap lim vs) = CapGateway"
  by (simp_all add: subject_snap_def Let_def)

lemma subject_live:
  "rl_enabled (subject_compiled vs)" "\<not> rule_expired (subject_compiled vs) i"
  "rl_conditions (subject_compiled vs) = [subject_match vs]"
  "rl_action (subject_compiled vs) = ActionAllowOnce" "rl_allowDestructive (subject_compiled vs)"
  by (simp_all add: subject_compiled_def ex_compiled_rule_def rule_expired_def)

lemma subject_match_ex: "cc_match (subject_match vs) ex_input \<longleftrightarrow> ''u1'' \<in> set vs"
  by (simp add: subject_match_def stringGetter_def stringFields_def present_def ex_input_def)

lemma subject_effective:
  "effective_rule (subject_snap lim vs) ex_input =
     (if ''u1'' \<in> set vs then Some (subject_compiled vs) else None)"
  by (simp add: effective_rule_def subject_live subject_match_ex)

lemma ex_find_override: "find (\<lambda>(applies, _). applies ex_input) overrides = None"
  using ex_no_override by (auto simp: find_None_iff)

lemma subject_decide:
  assumes "Validate ex_input lim' = None"
  shows "decide lim' (Some (subject_snap lim vs)) (Some ex_input) =
     (if ''u1'' \<in> set vs then decisionFromRule (subject_compiled vs) ex_input (subject_snap lim vs)
      else failClosed ActionDeny RC_NoMatchDefaultDeny ''contact_policy_owner'' ex_input
        (sn_revision (subject_snap lim vs)))"
proof -
  have "di_Capability ex_input = sn_capability (subject_snap lim vs)" by (simp add: ex_input_def)
  from Evaluate_valid(1)[OF this assms] show ?thesis
    by (simp add: policy_spec_def ex_find_override subject_effective rule_decision_def subject_live)
qed

lemma ex_valid_small: "Validate ex_input small_limits = None"
  by (simp add: input_validation_defs ex_defs small_limits_def defaultLimitConfig_def enum_simps
      Time_IsZero_def less_assurance_def)

lemma subject_key_collision:
  "rl_rawKey (subject_compiled [''u1,u2'']) = rl_rawKey (subject_compiled [''u1'', ''u2''])"
  by (simp add: subject_compiled_def canonicalRuleKey_def subject_rule_def subject_cond_def
      canonicalCondKey_def sortedCopy_def rule_enabled_def)

lemma subject_hash_collision:
  "sn_hash (subject_snap lim [''u1,u2'']) = sn_hash (subject_snap lim [''u1'', ''u2''])"
  by (simp add: subject_snap_def computeHash_def snapshotPreimage_def subject_key_collision Let_def)

end
