(* ===== verification/PolicyClaims.thy ===== *)
theory PolicyClaims
  imports PolicyExample
begin

text \<open>
  The properties of the policy engine: what \<open>Evaluate\<close> decides, what the compiler
  guarantees, what the trace, the store and the simulator promise.
\<close>

section \<open>Evaluation\<close>

text \<open>
  C1. Refinement: on a structurally valid tuple of the snapshot's capability, \<open>Evaluate\<close>
  returns no error and exactly the decision of the declarative specification: the first hard
  override that applies, otherwise the first live matching rule (downgraded to approval when it
  is not authorised for a destructive operation), otherwise default deny.
\<close>

theorem evaluate_refines_spec:
  assumes "di_Capability i = sn_capability s" and "Validate i lim = None"
  shows "decide lim (Some s) (Some i) = policy_spec s i \<and>
    snd (snd (Evaluate lim (Some s) (Some i))) = None"
  using Evaluate_valid[OF assms] by simp

theorem evaluate_refines_spec_witness:
  "decide defaultLimitConfig (Some ex_snap) (Some ex_input) = policy_spec ex_snap ex_input \<and>
    snd (snd (Evaluate defaultLimitConfig (Some ex_snap) (Some ex_input))) = None"
  by (rule evaluate_refines_spec[OF ex_capability ex_valid])

text \<open>
  C2. Permission is characterised: an evaluation permits exactly when there is a snapshot and a
  tuple, the tuple is valid for the snapshot's capability, no hard override applies, and the
  first live matching rule is ALLOW-class and, for a destructive operation, explicitly
  authorised for it.
\<close>

theorem permit_iff:
  "Decision_IsAllowClass (decide lim snap inp) \<longleftrightarrow>
     (\<exists>s i r. snap = Some s \<and> inp = Some i \<and> permits lim s i r)"
  by (metis allow_imp_permits permits_imp_allow)



text \<open>
  C4. The V1 Management boundary: whatever the published snapshot and its rules say, a Management
  tuple whose operation writes, destroys or controls is denied.
\<close>

theorem management_mutation_denied:
  assumes "di_Capability i = CapManagement"
    and "op_Class (di_Operation i) \<in> {OpWrite, OpDestructive, OpControl}"
  shows "de_Action (decide lim snap (Some i)) = ActionDeny"
proof (cases "snd (snd (Evaluate lim snap (Some i)))")
  case None
  then obtain s where s: "snap = Some s" "di_Capability i = sn_capability s" "Validate i lim = None"
    unfolding Evaluate_error_iff by blast
  have "management_mutation i" using assms by (simp add: management_mutation_def)
  then have "de_Action (policy_spec s i) = ActionDeny"
    by (simp add: policy_spec_def overrides_def hard_def)
  with s show ?thesis by (simp add: Evaluate_valid(1))
next
  case (Some e)
  then show ?thesis by (rule Evaluate_error_deny)
qed

definition ex_management_input :: decision_input where
  "ex_management_input = ex_input\<lparr>di_Capability := CapManagement\<rparr>"

theorem management_mutation_denied_witness:
  "de_Action (decide defaultLimitConfig (Some (ex_snap\<lparr>sn_capability := CapManagement\<rparr>))
     (Some ex_management_input)) = ActionDeny"
  by (rule management_mutation_denied) (simp_all add: ex_management_input_def ex_input_def)

text \<open>
  C5. Errors fail closed: whenever \<open>Evaluate\<close> returns an error, the decision that comes
  with it is a hard DENY without a matched rule and without obligations.
\<close>

theorem evaluation_error_fails_closed:
  assumes "snd (snd (Evaluate lim snap inp)) = Some e"
  shows "de_Action (decide lim snap inp) = ActionDeny \<and>
    de_Effect (decide lim snap inp) = EffectDenied \<and> de_HardOverride (decide lim snap inp) \<and>
    de_MatchedRule (decide lim snap inp) = [] \<and> ObligationIDs (decide lim snap inp) = []"
proof -
  have "Obligations_IDs no_obligations = []"
    by (simp add: Obligations_IDs_def no_obligations_def)
  with Evaluate_error_shape[OF assms] show ?thesis
    by (elim disjE exE) (simp_all add: hard_def failClosed_def ObligationIDs_def)
qed

theorem evaluation_error_fails_closed_witness:
  "de_Action (decide defaultLimitConfig None (Some ex_input)) = ActionDeny"
  using evaluation_error_fails_closed[of defaultLimitConfig None "Some ex_input"]
  by (simp add: Evaluate_def Let_def)

section \<open>Compilation\<close>

text \<open>
  C6. A destructive permission under a compiled policy is always bounded and audited: the decision
  is ALLOW_ONCE with the one-call obligation or ALLOW_FOR_SESSION with a bound, revocable session
  grant of positive lifetime and call count, and audit logging is mandated.
\<close>

theorem destructive_permit_contract:
  assumes "compileDocument doc meta lim = Inr s"
    and "Decision_IsAllowClass (decide lim' (Some s) (Some i))"
    and "op_Class (di_Operation i) = OpDestructive"
  shows "let d = decide lim' (Some s) (Some i); o' = de_Obligations d in
    ob_Logging o' = LogAudit \<and>
    (de_Action d = ActionAllowOnce \<and> ob_OnceCall o' \<or>
     de_Action d = ActionAllowForSession \<and> (\<exists>g. ob_Session o' = Some g \<and> sg_SessionBound g \<and>
       sg_RevokeRequired g \<and> 0 < sg_TTLSeconds g \<and> 0 < sg_MaxCalls g))"
proof -
  from assms(2) obtain r where p: "permits lim' s i r"
    and d: "decide lim' (Some s) (Some i) = decisionFromRule r i s"
    by (auto elim: allow_imp_permits)
  from p assms(3) have eff: "effective_rule s i = Some r" and ad: "rl_allowDestructive r"
    by (auto elim: permitsE)
  have wf: "rule_wf (sn_capability s) (sn_lim s) r"
    using compileDocument_snapshot_wf[OF assms(1)] effective_rule_SomeD(1)[OF eff]
    by (simp add: snapshot_wf_def)
  with ad have act: "rl_action r = ActionAllowOnce \<or> rl_action r = ActionAllowForSession"
    and ob: "validateFor (rl_obligations r) (rl_action r) (sn_capability s) True = None"
    by (auto simp: rule_wf_def)
  from act ob show ?thesis
    by (auto simp: d decisionFromRule_def policy_simps)
qed

theorem destructive_permit_contract_witness:
  "compileDocument ex_doc ex_meta defaultLimitConfig = Inr ex_snap \<and>
    op_Class (di_Operation ex_input) = OpDestructive \<and>
    ob_Logging (de_Obligations (decide defaultLimitConfig (Some ex_snap) (Some ex_input))) = LogAudit"
  using destructive_permit_contract[OF ex_compile ex_allow] ex_compile
  by (simp add: ex_input_def Let_def)

text \<open>
  C7. Every snapshot the compiler accepts is well formed: Gateway or Management, positive revision,
  default DENY, at most the allowed number of rules, pairwise distinct rule ids, strictly increasing
  priorities, and every rule has a legal action, a grammatical reason, a known remediation and
  obligations that satisfy the matrix of its action.
\<close>

theorem compiled_snapshot_wf:
  "compileDocument doc meta lim = Inr s \<Longrightarrow> snapshot_wf s"
  by (rule compileDocument_snapshot_wf)

theorem compiled_snapshot_wf_witness: "snapshot_wf ex_snap"
  by (rule compiled_snapshot_wf[OF ex_compile])

text \<open>
  C8. The order in which a document lists its rules is irrelevant: a permuted document compiles to
  the identical snapshot, hash included.
\<close>

theorem compile_rule_order_irrelevant:
  assumes "compileDocument doc meta lim = Inr s" and "mset rrs = mset (rs_Rules doc)"
  shows "compileDocument (doc\<lparr>rs_Rules := rrs\<rparr>) meta lim = Inr s"
  using assms by (rule compileDocument_perm_helper)

theorem compile_rule_order_irrelevant_witness:
  "compileDocument (ex_doc2\<lparr>rs_Rules := [ex_rule2, ex_rule]\<rparr>) ex_meta defaultLimitConfig = Inr ex_snap2"
  by (rule compile_rule_order_irrelevant[OF ex_compile2]) (simp add: ex_doc2_def)

text \<open>
  First match is least priority: the rule that permits is, among all enabled, unexpired rules of
  a compiled snapshot whose conditions hold, the one with the smallest priority number.
\<close>

theorem permitting_rule_least_priority:
  assumes "compileDocument doc meta lim = Inr s" and "permits lim' s i r"
    and "q \<in> set (sn_rules s)" and "rl_enabled q" and "fst (Rule_matches q i)"
  shows "rl_priority r \<le> rl_priority q"
proof -
  have "sorted_wrt (\<lambda>r r'. rl_priority r < rl_priority r') (sn_rules s)"
    using compileDocument_snapshot_wf[OF assms(1)] by (simp add: snapshot_wf_def)
  moreover have "effective_rule s i = Some r" using assms(2) by (auto elim: permitsE)
  ultimately show ?thesis
    using assms(3-5) by (intro effective_rule_first[of s i r q]) (simp_all add: Rule_matches_iff)
qed

theorem permitting_rule_least_priority_witness:
  "rl_priority ex_compiled_rule \<le> rl_priority ex_compiled_rule2"
  by (rule permitting_rule_least_priority[OF ex_compile2 ex_permits2])
    (simp_all add: ex_compiled_rule2_def ex_compiled_rule_def Rule_matches_def)

text \<open>
  The hand-written scanner of reason codes accepts exactly the documented grammar: an accepted
  MCP domain followed by one to eight dotted UPPER\<open>_\<close>SNAKE tokens, at most 128 bytes.
\<close>

theorem reason_code_grammar: "ReasonCode_Valid s \<longleftrightarrow> reason_grammar s"
  by (rule ReasonCode_Valid_grammar)

text \<open>
  Every decision under a compiled snapshot, on every path, carries a grammatical reason code and
  a remediation of the closed vocabulary, and its event class and effect are those of its action.
\<close>

theorem decision_well_labelled:
  assumes "compileDocument doc meta lim = Inr s"
  shows "well_labelled (decide lim' (Some s) inp)"
proof (cases "snd (snd (Evaluate lim' (Some s) inp))")
  case None
  then obtain i where "inp = Some i" "di_Capability i = sn_capability s" "Validate i lim' = None"
    unfolding Evaluate_error_iff by blast
  then show ?thesis
    using policy_spec_well_labelled[OF compileDocument_snapshot_wf[OF assms]]
    by (simp add: Evaluate_valid(1))
next
  case (Some e)
  then show ?thesis by (rule Evaluate_error_well_labelled)
qed

theorem decision_well_labelled_witness:
  "well_labelled (decide defaultLimitConfig (Some ex_snap) (Some ex_input))"
  by (rule decision_well_labelled[OF ex_compile])

section \<open>Hashing\<close>

text \<open>
  C12. The snapshot hash is taken over an uniquely decodable byte string: two snapshots with the
  same hash preimage agree on schema version, capability label, revision and, rule by rule, on the
  canonical keys (sizes below 2 to the 64, as the 8-byte length prefix requires).
\<close>

theorem hash_preimage_injective:
  assumes "snapshotPreimage s = snapshotPreimage t"
    and "list_all fits_uint64 (hash_segments s)" and "list_all fits_uint64 (hash_segments t)"
  shows "sn_schemaVersion s = sn_schemaVersion t \<and> sn_revision s = sn_revision t \<and>
    Capability_String (sn_capability s) = Capability_String (sn_capability t) \<and>
    map rl_rawKey (sn_rules s) = map rl_rawKey (sn_rules t)"
proof -
  have "hash_segments s = hash_segments t"
    using assms by (intro concat_lp_seg_inject) (simp_all add: snapshotPreimage_segments)
  then show ?thesis by (simp add: hash_segments_def)
qed

theorem hash_preimage_injective_witness:
  "sn_revision (ex_snap\<lparr>sn_rules := []\<rparr>) = sn_revision (ex_snap\<lparr>sn_rules := [], sn_hash := []\<rparr>)"
  using hash_preimage_injective[of "ex_snap\<lparr>sn_rules := []\<rparr>" "ex_snap\<lparr>sn_rules := [], sn_hash := []\<rparr>"]
  by (simp add: ex_snap_def Let_def snapshotPreimage_def hash_segments_def fits_uint64_def
      Itoa_def FormatUint.simps Action_String_def actionCode_def)

text \<open>
  The canonical key of a rule does not depend on the order of its conditions or on the order of
  the values inside a condition.
\<close>

theorem rule_key_order_independent:
  assumes "list_all2 same_condition (rw_Conditions rr) cs" and "mset cs' = mset cs"
  shows "canonicalRuleKey (rr\<lparr>rw_Conditions := cs'\<rparr>) a reason rem obl = canonicalRuleKey rr a reason rem obl"
  using assms by (rule canonicalRuleKey_reorder)

theorem rule_key_order_independent_witness:
  "canonicalRuleKey (ex_rule\<lparr>rw_Conditions := [subject_cond [''b''], subject_cond [''y'', ''x'']]\<rparr>)
     ActionDeny [] [] no_obligations =
   canonicalRuleKey (ex_rule\<lparr>rw_Conditions := [subject_cond [''x'', ''y''], subject_cond [''b'']]\<rparr>)
     ActionDeny [] [] no_obligations"
  using rule_key_order_independent[of "ex_rule\<lparr>rw_Conditions := [subject_cond [''x'', ''y''], subject_cond [''b'']]\<rparr>"
      "[subject_cond [''y'', ''x''], subject_cond [''b'']]" "[subject_cond [''b''], subject_cond [''y'', ''x'']]"]
  by (simp add: same_condition_def subject_cond_def)

text \<open>
  C14. The canonical key does not separate all materially different rules: because values are
  joined with an unescaped comma, there are two accepted documents with the same snapshot hash of
  which one permits and the other denies the same valid tuple.
\<close>

theorem snapshot_hash_not_injective:
  "\<exists>docA docB sA sB i.
     compileDocument docA ex_meta defaultLimitConfig = Inr sA \<and>
     compileDocument docB ex_meta defaultLimitConfig = Inr sB \<and>
     sn_hash sA = sn_hash sB \<and> Validate i defaultLimitConfig = None \<and>
     de_Action (decide defaultLimitConfig (Some sA) (Some i)) = ActionDeny \<and>
     Decision_IsAllowClass (decide defaultLimitConfig (Some sB) (Some i))"
proof -
  let ?L = defaultLimitConfig
  have b: "boundSet [''u1,u2''] ?L = Inr [''u1,u2'']" "boundSet [''u1'', ''u2''] ?L = Inr [''u1'', ''u2'']"
    by (simp_all add: boundSet_def defaultLimitConfig_def)
  have "compileDocument (subject_doc [''u1,u2'']) ex_meta ?L = Inr (subject_snap ?L [''u1,u2''])"
    "compileDocument (subject_doc [''u1'', ''u2'']) ex_meta ?L = Inr (subject_snap ?L [''u1'', ''u2''])"
    using subject_compile[OF b(1)] subject_compile[OF b(2)] by simp_all
  moreover have "de_Action (decide ?L (Some (subject_snap ?L [''u1,u2''])) (Some ex_input)) = ActionDeny"
    "Decision_IsAllowClass (decide ?L (Some (subject_snap ?L [''u1'', ''u2''])) (Some ex_input))"
    by (simp_all add: subject_decide[OF ex_valid] Decision_IsAllowClass_def decisionFromRule_def subject_live)
  ultimately show ?thesis using subject_hash_collision ex_valid by blast
qed

section \<open>Conditions\<close>

text \<open>
  C15. The backtracking glob matcher, which always terminates, agrees with the declarative meaning
  of \<open>*\<close> and \<open>?\<close> on every value without a literal star byte, and never accepts
  more than that meaning on any value.
\<close>

theorem glob_matcher_correct:
  "(glob_match p s \<longrightarrow> glob_spec p s) \<and> (CHR ''*'' \<notin> set s \<longrightarrow> glob_match p s = glob_spec p s)"
  using glob_match_sound glob_match_complete by blast

theorem glob_matcher_correct_witness:
  "glob_match ''a*c'' ''abbc'' = glob_spec ''a*c'' ''abbc''"
  using glob_matcher_correct[of "''a*c''" "''abbc''"] by simp

text \<open>
  A value byte that is itself a star defeats the matcher: the pattern \<open>*\<close>, which means
  every value, rejects the value \<open>*a\<close>.
\<close>

theorem glob_star_value_rejected: "glob_spec ''*'' ''*a'' \<and> \<not> glob_match ''*'' ''*a''"
proof
  show "glob_spec ''*'' ''*a''" by (auto intro!: exI[of _ 2])
  show "\<not> glob_match ''*'' ''*a''" by code_simp
qed

text \<open>
  The field vocabulary is closed and complete: every field of the vocabulary has an accessor in
  the table of its kind, so a compiled condition never calls a missing accessor, and no field is
  listed twice.
\<close>

theorem field_tables_complete:
  "list_all field_tables_agree fieldKinds \<and> distinct (map fst fieldKinds)"
  by code_simp

text \<open>
  An absent value never satisfies a string condition, whatever the operator: a rule cannot match
  because a field is missing.
\<close>

theorem absent_string_never_matches:
  assumes "compileCondition rc lim = Inr c" and "map_of fieldKinds (rc_Field rc) = Some kindString"
    and "stringGetter (rc_Field rc) [] i = None"
  shows "\<not> cc_match c i"
proof -
  from assms(1,2) have "compileStringCond rc lim (rc_Field rc @ ''|'' @ rc_Op rc) [] = Inr c"
    by (simp add: compileCondition_def)
  then show ?thesis using assms(3) by (rule compileStringCond_absent)
qed

theorem absent_string_never_matches_witness:
  "\<not> cc_match (subject_match [''u1'']) zero_input"
  using absent_string_never_matches[of "subject_cond [''u1'']" defaultLimitConfig "subject_match [''u1'']" zero_input]
    subject_cond_compile[of "[''u1'']" defaultLimitConfig]
  by (simp add: boundSet_def defaultLimitConfig_def subject_cond_def fieldKinds_def stringGetter_def
      stringFields_def present_def zero_input_def)

section \<open>Traces\<close>

text \<open>
  The explain trace is bounded on every path by the configured limit, and when the rules
  decide it is exactly the rules considered, in priority order and each with its first failing
  condition, closed by the winner or the default deny, cut at that limit.
\<close>

theorem trace_bounded_and_faithful:
  "int (length (et_Entries (fst (snd (Evaluate lim snap inp))))) \<le> max 1 (MaxTraceEntries lim) \<and>
   (di_Capability i = sn_capability s \<and> Validate i lim = None \<and>
      find (\<lambda>(applies, _). applies i) overrides = None \<longrightarrow>
    et_Entries (fst (snd (Evaluate lim (Some s) (Some i)))) =
      take (nat (max 1 (MaxTraceEntries lim))) (rule_trace (sn_rules s) i))"
  using Evaluate_trace_bounded Evaluate_rule_trace by blast

theorem trace_bounded_and_faithful_witness:
  "et_Entries (fst (snd (Evaluate defaultLimitConfig (Some ex_snap) (Some ex_input)))) =
     [winner_entry ex_compiled_rule ex_input]"
  using trace_bounded_and_faithful[of defaultLimitConfig None None ex_input ex_snap]
  by (simp add: ex_capability[symmetric] ex_valid ex_find_override rule_trace_def Rule_matches_def)
    (simp add: ex_input_def ex_compiled_rule_def defaultLimitConfig_def)

text \<open>
  The accepted limits do not leave room for the terminal entry: with as many trace entries as rules,
  a policy whose rules all fail to match loses its default-deny entry.
\<close>

theorem trace_may_lose_terminal_entry:
  "\<exists>lim doc s i. LimitConfig_Validate lim = None \<and> compileDocument doc ex_meta lim = Inr s \<and>
     Validate i lim = None \<and>
     de_Reason (decide lim (Some s) (Some i)) = RC_NoMatchDefaultDeny \<and>
     (\<forall>e \<in> set (et_Entries (fst (snd (Evaluate lim (Some s) (Some i))))). te_Kind e \<noteq> TraceDefaultDeny)"
proof -
  let ?s = "subject_snap small_limits [''x'']"
  have "boundSet [''x''] small_limits = Inr [''x'']"
    by (simp add: boundSet_def small_limits_def defaultLimitConfig_def)
  then have "compileDocument (subject_doc [''x'']) ex_meta small_limits = Inr ?s"
    by (rule subject_compile) simp
  moreover have "LimitConfig_Validate small_limits = None"
    by (simp add: LimitConfig_Validate_def limit_checks_def small_limits_def defaultLimitConfig_def)
  moreover have "de_Reason (decide small_limits (Some ?s) (Some ex_input)) = RC_NoMatchDefaultDeny"
    by (simp add: subject_decide[OF ex_valid_small])
  moreover have "et_Entries (fst (snd (Evaluate small_limits (Some ?s) (Some ex_input))))
      = [considered_entry (subject_compiled [''x'']) ex_input]"
    by (subst Evaluate_rule_trace[OF _ ex_valid_small ex_find_override])
      (simp_all add: ex_input_def[THEN arg_cong[where f = di_Capability]] small_limits_def
        rule_trace_def subject_live Rule_matches_iff subject_match_ex)
  ultimately show ?thesis using ex_valid_small
    by (intro exI[of _ small_limits] exI[of _ "subject_doc [''x'']"] exI[of _ ?s] exI[of _ ex_input])
      (simp add: considered_entry_def)
qed

section \<open>Publication\<close>

text \<open>
  C19. Whatever publications are attempted in whatever order on a new store, the accepted ones have
  strictly increasing positive revisions, each installs exactly its own snapshot, and the store ends
  with the last of them (or stays empty).
\<close>

theorem publications_monotone:
  assumes "run_publishes Publish cs (NewStore c) = (log, t)"
  shows "sorted_wrt (<) (0 # map (CurrentRevision \<circ> snd) log) \<and>
    (\<forall>(v, s) \<in> set log. Current s = v \<and> v \<noteq> None) \<and>
    t = (if log = [] then NewStore c else snd (last log)) \<and> store_wf t"
  using pstore.run_log_increasing[OF assms] run_publishes_snapshots[OF assms]
    run_publishes_store_wf[OF store_wf_New assms]
  by (auto simp: NewStore_def CurrentRevision_def Current_def)

theorem publications_monotone_witness:
  "CurrentRevision (snd (run_publishes Publish
     [(0, Some ex_snap), (0, Some ex_snap), (7, Some (ex_snap\<lparr>sn_revision := 9\<rparr>))] (NewStore CapGateway))) = 9 \<and>
   store_wf (snd (run_publishes Publish
     [(0, Some ex_snap), (0, Some ex_snap), (7, Some (ex_snap\<lparr>sn_revision := 9\<rparr>))] (NewStore CapGateway)))"
  using publications_monotone[of
      "[(0, Some ex_snap), (0, Some ex_snap), (7, Some (ex_snap\<lparr>sn_revision := 9\<rparr>))]" CapGateway]
  by (simp add: Publish_def NewStore_def Let_def CurrentRevision_def)

text \<open>
  C20. No lost update: once a publication based on the current revision has been accepted, every
  later publication that is still based on the old revision is rejected and changes nothing,
  however many other publications happened in between.
\<close>

theorem stale_base_rejected:
  assumes "Publish (CurrentRevision s) v s = (None, s')" and "run_publishes Publish cs s' = (log, t)"
  shows "\<exists>e. Publish (CurrentRevision s) w t = (Some e, t)"
  using assms by (rule pstore.stale_publish_rejected)

theorem stale_base_rejected_witness:
  "\<exists>e. Publish 0 (Some ex_snap2) ((NewStore CapGateway)\<lparr>st_cur := Some ex_snap\<rparr>)
     = (Some e, (NewStore CapGateway)\<lparr>st_cur := Some ex_snap\<rparr>)"
  using stale_base_rejected[of "NewStore CapGateway" "Some ex_snap"
      "(NewStore CapGateway)\<lparr>st_cur := Some ex_snap\<rparr>" "[]" "[]"
      "(NewStore CapGateway)\<lparr>st_cur := Some ex_snap\<rparr>" "Some ex_snap2"]
  by (simp add: Publish_def NewStore_def Let_def CurrentRevision_def)

section \<open>Simulation\<close>

text \<open>
  C21. A clean blast-radius report is sound: when \<open>Compare\<close> reports no new ALLOW-class
  decision, every corpus case the candidate snapshot permits was already permitted by the old one.
\<close>

theorem no_new_allow_sound:
  assumes "Compare (Evaluate lim) lim oldS newS cases = Inr cmp" and "cp_NewAllow cmp = 0"
    and "c \<in> set cases" and "Decision_IsAllowClass (decide lim newS (Some (sc_Input c)))"
  shows "Decision_IsAllowClass (decide lim oldS (Some (sc_Input c)))"
proof (rule ccontr)
  assume "\<not> Decision_IsAllowClass (decide lim oldS (Some (sc_Input c)))"
  with assms(3,4) have "filter (case_new_allow (Evaluate lim) oldS newS) cases \<noteq> []"
    by (auto simp: filter_empty_conv)
  moreover from assms(1,2) have "length (filter (case_new_allow (Evaluate lim) oldS newS) cases) = 0"
    by (auto simp: Compare_def Let_def split_beta compare_loop_NewAllow empty_comparison_def split: if_splits)
  ultimately show False by simp
qed

definition ex_case :: sim_case where
  "ex_case = \<lparr>sc_ID = ''k'', sc_Input = ex_input\<rparr>"

theorem no_new_allow_sound_witness:
  "Decision_IsAllowClass (decide defaultLimitConfig (Some ex_snap) (Some (sc_Input ex_case)))"
proof (rule no_new_allow_sound)
  let ?cmp = "(fst (compare_loop (Evaluate defaultLimitConfig) defaultLimitConfig (Some ex_snap)
      (Some ex_snap2) [ex_case] (empty_comparison 1, [])))"
  show "Compare (Evaluate defaultLimitConfig) defaultLimitConfig (Some ex_snap) (Some ex_snap2) [ex_case]
      = Inr (?cmp\<lparr>cp_AffectedRules := sortedRuleIDs (snd (compare_loop (Evaluate defaultLimitConfig)
          defaultLimitConfig (Some ex_snap) (Some ex_snap2) [ex_case] (empty_comparison 1, [])))\<rparr>)"
    by (simp add: Compare_def Let_def split_beta defaultLimitConfig_def del: compare_loop.simps)
  show "cp_NewAllow (?cmp\<lparr>cp_AffectedRules := sortedRuleIDs (snd (compare_loop (Evaluate defaultLimitConfig)
          defaultLimitConfig (Some ex_snap) (Some ex_snap2) [ex_case] (empty_comparison 1, [])))\<rparr>) = 0"
    using ex_allow
    by (simp add: compare_loop_NewAllow empty_comparison_def ex_case_def del: compare_loop.simps)
  show "ex_case \<in> set [ex_case]" by simp
  show "Decision_IsAllowClass (decide defaultLimitConfig (Some ex_snap2) (Some (sc_Input ex_case)))"
    using permits_imp_allow[OF ex_permits2] by (simp add: ex_case_def)
qed

text \<open>
  The counters of a comparison are exact: the total is the corpus size, the unchanged and new
  ALLOW counts are the numbers of such cases, and the samples are the changed cases in corpus order,
  cut at the sample bound and no earlier. Comparing a snapshot with itself reports no change.
\<close>

theorem compare_counts_exact:
  assumes "Compare eval lim oldS newS cases = Inr cmp" and "0 \<le> MaxCompareSamples lim"
  shows "cp_Total cmp = length cases \<and>
    cp_Unchanged cmp + length (filter (case_changed eval oldS newS) cases) = cp_Total cmp \<and>
    cp_NewAllow cmp = length (filter (case_new_allow eval oldS newS) cases) \<and>
    cp_Samples cmp = take (nat (MaxCompareSamples lim))
      (map (\<lambda>c. sample_of c (fst (eval oldS (Some (sc_Input c)))) (fst (eval newS (Some (sc_Input c)))))
        (filter (case_changed eval oldS newS) cases)) \<and>
    (oldS = newS \<longrightarrow> cp_Unchanged cmp = length cases \<and> cp_Samples cmp = [])"
proof -
  let ?st = "compare_loop eval lim oldS newS cases (empty_comparison (length cases), [])"
  from assms(1) have cmp: "cmp = (fst ?st)\<lparr>cp_AffectedRules := sortedRuleIDs (snd ?st)\<rparr>"
    by (auto simp: Compare_def Let_def split_beta split: if_splits)
  have smp: "cp_Samples (fst ?st) = take (nat (MaxCompareSamples lim))
      (map (\<lambda>c. sample_of c (fst (eval oldS (Some (sc_Input c)))) (fst (eval newS (Some (sc_Input c)))))
        (filter (case_changed eval oldS newS) cases))"
    using assms(2) by (subst compare_loop_samples) (simp_all add: empty_comparison_def)
  have self: "\<not> case_changed eval oldS oldS c" for c
    by (simp add: decision_changed_def Obligations_Equal_iff)
  show ?thesis
    using smp self sum_length_filter_compl[of "case_changed eval oldS newS" cases]
    by (auto simp: cmp compare_loop_Total compare_loop_Unchanged compare_loop_NewAllow empty_comparison_def)
qed

theorem compare_counts_exact_witness:
  "\<exists>cmp. Compare (Evaluate defaultLimitConfig) defaultLimitConfig (Some ex_snap) (Some ex_snap) [ex_case] = Inr cmp \<and>
     cp_Total cmp = 1 \<and> cp_Unchanged cmp = 1 \<and> cp_Samples cmp = []"
proof -
  have "\<exists>cmp. Compare (Evaluate defaultLimitConfig) defaultLimitConfig (Some ex_snap) (Some ex_snap) [ex_case] = Inr cmp"
    by (simp add: Compare_def Let_def split_beta defaultLimitConfig_def del: compare_loop.simps)
  then obtain cmp where c: "Compare (Evaluate defaultLimitConfig) defaultLimitConfig (Some ex_snap)
      (Some ex_snap) [ex_case] = Inr cmp" by blast
  have "0 \<le> MaxCompareSamples defaultLimitConfig" by (simp add: defaultLimitConfig_def)
  from compare_counts_exact[OF c this] c show ?thesis by auto
qed

text \<open>
  The shadow comparison does not see what \<open>Compare\<close> counts: two decisions that differ only in
  their obligations are reported as unchanged.
\<close>

lemma ex_decide_single_rule:
  assumes "rl_enabled r" "rl_expiryUnix r = 0" "rl_conditions r = []" "rl_allowDestructive r"
  shows "decide defaultLimitConfig (Some (ex_snap\<lparr>sn_rules := [r]\<rparr>)) (Some ex_input)
    = decisionFromRule r ex_input (ex_snap\<lparr>sn_rules := [r]\<rparr>)"
proof -
  have "di_Capability ex_input = sn_capability (ex_snap\<lparr>sn_rules := [r]\<rparr>)" by (simp add: ex_input_def)
  from Evaluate_valid(1)[OF this ex_valid] assms show ?thesis
    by (simp add: policy_spec_def ex_find_override effective_rule_def rule_expired_def rule_decision_def)
qed

theorem shadow_misses_obligations:
  "\<exists>a b i. decision_changed (decide defaultLimitConfig (Some a) (Some i)) (decide defaultLimitConfig (Some b) (Some i)) \<and>
     \<not> sh_Changed (Shadow (Evaluate defaultLimitConfig) (Some a) (Some b) (Some i))"
proof (intro exI)
  let ?r = "ex_compiled_rule\<lparr>rl_obligations := no_obligations\<rparr>"
  have live: "rl_enabled ex_compiled_rule" "rl_expiryUnix ex_compiled_rule = 0"
    "rl_conditions ex_compiled_rule = []" "rl_allowDestructive ex_compiled_rule"
    by (simp_all add: ex_compiled_rule_def)
  have "no_obligations \<noteq> rl_obligations ex_compiled_rule"
    by (simp add: ex_compiled_rule_def no_obligations_def)
  with live show "decision_changed
      (decide defaultLimitConfig (Some (ex_snap\<lparr>sn_rules := [?r]\<rparr>)) (Some ex_input))
      (decide defaultLimitConfig (Some (ex_snap\<lparr>sn_rules := [ex_compiled_rule]\<rparr>)) (Some ex_input)) \<and>
    \<not> sh_Changed (Shadow (Evaluate defaultLimitConfig) (Some (ex_snap\<lparr>sn_rules := [?r]\<rparr>))
      (Some (ex_snap\<lparr>sn_rules := [ex_compiled_rule]\<rparr>)) (Some ex_input))"
    by (simp add: ex_decide_single_rule decision_changed_def Obligations_Equal_iff Shadow_def
        decisionFromRule_def Let_def)
qed

section \<open>Termination\<close>

text \<open>
  C30. The matching loop of the glob matcher ends: for a pattern of \<open>m\<close> bytes and a value of
  \<open>n\<close> bytes it returns its result within \<open>n * (m + 1) + m + 1\<close> iterations.
\<close>

theorem glob_loop_terminates:
  "glob_iter (length s * (length p + 1) + length p + 1) p s 0 0 None 0 = Some (glob_loop p s 0 0 None 0)"
  by (rule glob_iter_enough) simp_all

end
