(* ===== verification/RolloutMode.thy ===== *)
theory RolloutMode
  imports Mcperr
begin

text \<open>
  The mode ladder and its transition gate (\<open>internal/mcp/rollout/rollout.go\<close>,
  \<open>transition.go\<close>), and the resolution of a request under a mode
  (\<open>resolve.go\<close>). As in the policy theories an enumeration has one extra constructor for
  the \<open>uint8\<close> values without a name. The Production qualification verifier is an injected
  interface without an implementation in the repository: it is a function argument, \<open>None\<close>
  when it is not configured.
\<close>

section \<open>Capabilities and modes\<close>

datatype rollout_capability =
    CapabilityUnknown
  | CapabilityGateway
  | CapabilityManagement
  | RolloutCapabilityRaw nat

definition RolloutCapability_Valid :: "rollout_capability \<Rightarrow> bool" where
  "RolloutCapability_Valid c \<longleftrightarrow> c = CapabilityGateway \<or> c = CapabilityManagement"

fun RolloutCapability_String :: "rollout_capability \<Rightarrow> string" where
  "RolloutCapability_String CapabilityGateway = ''gateway''"
| "RolloutCapability_String CapabilityManagement = ''management''"
| "RolloutCapability_String _ = ''unknown''"

fun RolloutCapability_raw :: "rollout_capability \<Rightarrow> nat" where
  "RolloutCapability_raw CapabilityUnknown = 0"
| "RolloutCapability_raw CapabilityGateway = 1"
| "RolloutCapability_raw CapabilityManagement = 2"
| "RolloutCapability_raw (RolloutCapabilityRaw k) = 3 + k"

definition ParseCapability :: "string \<Rightarrow> rollout_capability res" where
  "ParseCapability s =
     (if s = ''gateway'' then Inr CapabilityGateway
      else if s = ''management'' then Inr CapabilityManagement
      else Inl (New ReasonSnapshotCapabilityMismatch ''rollout'' ''unknown capability''))"

datatype mode =
    ModeDisabled
  | ModeObserve
  | ModeShadow
  | ModeCanary
  | ModeProduction
  | ModeRaw nat

definition modeToken :: "(mode \<times> string) list" where
  "modeToken = [
     (ModeDisabled, ''disabled''), (ModeObserve, ''observe''), (ModeShadow, ''shadow''),
     (ModeCanary, ''canary''), (ModeProduction, ''production'')]"

definition Mode_Valid :: "mode \<Rightarrow> bool" where
  "Mode_Valid m \<longleftrightarrow> map_of modeToken m \<noteq> None"

definition Mode_String :: "mode \<Rightarrow> string" where
  "Mode_String m = (case map_of modeToken m of Some s \<Rightarrow> s | None \<Rightarrow> ''invalid'')"

fun Rank :: "mode \<Rightarrow> int" where
  "Rank ModeDisabled = 0"
| "Rank ModeObserve = 1"
| "Rank ModeShadow = 2"
| "Rank ModeCanary = 3"
| "Rank ModeProduction = 4"
| "Rank (ModeRaw k) = 5 + int k"

definition mode_of_rank :: "int \<Rightarrow> mode" where
  "mode_of_rank n =
     (if n \<le> 0 then ModeDisabled else if n = 1 then ModeObserve else if n = 2 then ModeShadow
      else if n = 3 then ModeCanary else if n = 4 then ModeProduction else ModeRaw (nat (n - 5)))"

definition RequiresExecutionPlane :: "mode \<Rightarrow> bool" where
  "RequiresExecutionPlane m \<longleftrightarrow> m = ModeShadow \<or> m = ModeCanary \<or> m = ModeProduction"

definition FullyEnforces :: "mode \<Rightarrow> bool" where
  "FullyEnforces m \<longleftrightarrow> m = ModeCanary \<or> m = ModeProduction"

definition RequiresLiveExecution :: "mode \<Rightarrow> bool" where
  "RequiresLiveExecution m \<longleftrightarrow> m = ModeCanary \<or> m = ModeProduction"

definition ParseMode :: "string \<Rightarrow> mode res" where
  "ParseMode s = (case find (\<lambda>(m, tok). tok = s) modeToken of
     Some (m, tok) \<Rightarrow> Inr m
   | None \<Rightarrow> Inl (New ReasonRolloutModeInvalid ''rollout'' ''unknown mode''))"

section \<open>Transitions\<close>

datatype transition_kind = TransitionNone | TransitionPromotion | TransitionDemotion

record qualification_binding =
  qb_Capability :: rollout_capability
  qb_FromMode :: mode
  qb_ToMode :: mode
  qb_TargetScopeHash :: string
  qb_SnapshotHash :: string

type_synonym qualification_verifier = "qualification_binding \<Rightarrow> go_error option"

record transition_input =
  ti_Capability :: rollout_capability
  ti_From :: mode
  ti_To :: mode
  ti_Qualification :: "qualification_verifier option"
  ti_Binding :: qualification_binding

definition Promotable :: "mode \<Rightarrow> mode \<Rightarrow> bool" where
  "Promotable from to \<longleftrightarrow> Mode_Valid from \<and> Mode_Valid to \<and> Rank to = Rank from + 1"

definition Demotable :: "mode \<Rightarrow> mode \<Rightarrow> bool" where
  "Demotable from to \<longleftrightarrow> Mode_Valid from \<and> Mode_Valid to \<and> Rank to < Rank from"

definition checkProductionQualification :: "transition_input \<Rightarrow> go_error option" where
  "checkProductionQualification i = (case ti_Qualification i of
     None \<Rightarrow> Some (New ReasonRolloutProductionLocked ''rollout.transition''
       ''production requires a qualification receipt (none configured)'')
   | Some verify \<Rightarrow>
       let b = ti_Binding i in
       if qb_Capability b \<noteq> ti_Capability i \<or> qb_ToMode b \<noteq> ModeProduction
          \<or> qb_FromMode b \<noteq> ti_From i then
         Some (New ReasonRolloutQualificationInvalid ''rollout.transition''
           ''qualification binding does not match this promotion'')
       else if qb_TargetScopeHash b = [] \<or> qb_SnapshotHash b = [] then
         Some (New ReasonRolloutQualificationInvalid ''rollout.transition''
           ''qualification binding missing scope/snapshot hash'')
       else (case verify b of
           Some err \<Rightarrow>
             if ReasonOf err = ReasonNone then
               Some (Wrap ReasonRolloutQualificationInvalid ''rollout.transition''
                 ''qualification receipt rejected'' (Some err))
             else Some err
         | None \<Rightarrow> None))"

definition CheckTransition :: "transition_input \<Rightarrow> transition_kind \<times> go_error option" where
  "CheckTransition i =
     (if \<not> Mode_Valid (ti_From i) \<or> \<not> Mode_Valid (ti_To i) then
        (TransitionNone, Some (New ReasonRolloutModeInvalid ''rollout.transition''
           ''unknown mode in transition''))
      else if ti_To i = ti_From i then
        (TransitionNone, Some (New ReasonRolloutTransitionInvalid ''rollout.transition''
           ''mode unchanged; use a scope update, not a transition''))
      else if Rank (ti_To i) < Rank (ti_From i) then (TransitionDemotion, None)
      else if Rank (ti_To i) \<noteq> Rank (ti_From i) + 1 then
        (TransitionNone, Some (New ReasonRolloutTransitionInvalid ''rollout.transition''
           ''promotion must advance exactly one stage''))
      else if ti_To i = ModeProduction then
        (case checkProductionQualification i of
           Some err \<Rightarrow> (TransitionNone, Some err)
         | None \<Rightarrow> (TransitionPromotion, None))
      else (TransitionPromotion, None))"

definition EmergencyTarget :: "mode \<Rightarrow> bool \<Rightarrow> mode" where
  "EmergencyTarget from disable =
     (if disable \<or> \<not> Mode_Valid from \<or> from = ModeDisabled then ModeDisabled
      else mode_of_rank (Rank from - 1))"

section \<open>Resolution\<close>

datatype action_kind =
    ActionKindDenied
  | ActionKindAllow
  | ActionKindConfirm
  | ActionKindApproval
  | ActionKindAllowOnce
  | ActionKindAllowSession
  | ActionKindRedaction
  | ActionKindRaw nat

fun ActionKind_IsAllowClass :: "action_kind \<Rightarrow> bool" where
  "ActionKind_IsAllowClass ActionKindAllow = True"
| "ActionKind_IsAllowClass ActionKindAllowOnce = True"
| "ActionKind_IsAllowClass ActionKindAllowSession = True"
| "ActionKind_IsAllowClass ActionKindRedaction = True"
| "ActionKind_IsAllowClass _ = False"

datatype effective_disposition =
    EffectRecordOnly
  | EffectExecute
  | EffectBlock
  | EffectShadowEvaluate

fun EffectiveDisposition_String :: "effective_disposition \<Rightarrow> string" where
  "EffectiveDisposition_String EffectRecordOnly = ''record_only''"
| "EffectiveDisposition_String EffectExecute = ''execute''"
| "EffectiveDisposition_String EffectBlock = ''block''"
| "EffectiveDisposition_String EffectShadowEvaluate = ''shadow_evaluate''"

record resolve_input =
  ri_Mode :: mode
  ri_InScope :: bool
  ri_ShadowEnabled :: bool
  ri_ShadowInScope :: bool
  ri_Action :: action_kind
  ri_HardFailure :: bool
  ri_HardReason :: reason
  ri_ObligationsSatisfied :: bool

record resolution =
  re_Disposition :: effective_disposition
  re_EvaluatedAction :: action_kind
  re_EffectiveAction :: action_kind
  re_InScope :: bool
  re_HardFailure :: bool
  re_ShadowOverride :: bool
  re_Executed :: bool
  re_BlockReason :: reason
  re_ScopeHash :: string

definition new_resolution :: "action_kind \<Rightarrow> bool \<Rightarrow> bool \<Rightarrow> resolution" where
  "new_resolution a inScope hardFailure = \<lparr>
     re_Disposition = EffectRecordOnly, re_EvaluatedAction = a, re_EffectiveAction = a,
     re_InScope = inScope, re_HardFailure = hardFailure, re_ShadowOverride = False,
     re_Executed = False, re_BlockReason = ReasonNone, re_ScopeHash = []\<rparr>"

definition blockReasonForAction :: "action_kind \<Rightarrow> reason" where
  "blockReasonForAction a = (case a of
     ActionKindConfirm \<Rightarrow> ReasonConfirmationRequired
   | ActionKindApproval \<Rightarrow> ReasonApprovalRequired
   | _ \<Rightarrow> ReasonExecutionNotPermitted)"

definition resolveShadow :: "resolve_input \<Rightarrow> resolution \<Rightarrow> resolution" where
  "resolveShadow i r =
     (if \<not> ri_InScope i then r\<lparr>re_Disposition := EffectRecordOnly\<rparr>
      else
        let r1 = r\<lparr>re_Disposition := EffectShadowEvaluate, re_Executed := False,
                   re_EffectiveAction := ActionKindAllow\<rparr>;
            r2 = (if ri_HardFailure i then r1\<lparr>re_BlockReason := ri_HardReason i\<rparr> else r1)
        in (if \<not> ActionKind_IsAllowClass (ri_Action i) then r2\<lparr>re_ShadowOverride := True\<rparr> else r2))"

definition resolveEnforcing :: "resolve_input \<Rightarrow> resolution \<Rightarrow> resolution" where
  "resolveEnforcing i r =
     (if \<not> ri_InScope i then
        (if ri_ShadowEnabled i \<and> ri_ShadowInScope i then
           resolveShadow (i\<lparr>ri_Mode := ModeShadow, ri_InScope := True\<rparr>)
             (new_resolution (ri_Action i) True (ri_HardFailure i))
         else r\<lparr>re_Disposition := EffectRecordOnly\<rparr>)
      else if ri_HardFailure i then
        r\<lparr>re_Disposition := EffectBlock, re_EffectiveAction := ActionKindDenied,
          re_BlockReason := ri_HardReason i\<rparr>
      else if \<not> ActionKind_IsAllowClass (ri_Action i) then
        r\<lparr>re_Disposition := EffectBlock, re_BlockReason := blockReasonForAction (ri_Action i)\<rparr>
      else if \<not> ri_ObligationsSatisfied i then
        r\<lparr>re_Disposition := EffectBlock, re_EffectiveAction := ActionKindDenied,
          re_BlockReason := ReasonAllowanceConsumed\<rparr>
      else r\<lparr>re_Disposition := EffectExecute, re_Executed := True\<rparr>)"

definition Resolve :: "resolve_input \<Rightarrow> resolution" where
  "Resolve i =
     (let r = new_resolution (ri_Action i) (ri_InScope i) (ri_HardFailure i) in
      case ri_Mode i of
        ModeDisabled \<Rightarrow> r\<lparr>re_Disposition := EffectRecordOnly\<rparr>
      | ModeObserve \<Rightarrow> r\<lparr>re_Disposition := EffectRecordOnly\<rparr>
      | ModeShadow \<Rightarrow> resolveShadow i r
      | ModeCanary \<Rightarrow> resolveEnforcing i r
      | ModeProduction \<Rightarrow> resolveEnforcing i r
      | ModeRaw k \<Rightarrow> r\<lparr>re_Disposition := EffectBlock, re_BlockReason := ReasonRolloutModeInvalid\<rparr>)"

section \<open>The ladder\<close>

lemma Mode_Valid_iff [rollout_simps]:
  "Mode_Valid m \<longleftrightarrow> m \<in> {ModeDisabled, ModeObserve, ModeShadow, ModeCanary, ModeProduction}"
  by (cases m) (simp_all add: Mode_Valid_def modeToken_def)

lemma Rank_inject [simp]: "Rank m = Rank n \<longleftrightarrow> m = n"
  by (cases m; cases n) simp_all

instantiation mode :: linorder
begin

definition less_eq_mode :: "mode \<Rightarrow> mode \<Rightarrow> bool" where
  "less_eq_mode m n \<longleftrightarrow> Rank m \<le> Rank n"

definition less_mode :: "mode \<Rightarrow> mode \<Rightarrow> bool" where
  "less_mode m n \<longleftrightarrow> Rank m < Rank n"

instance
  by standard (auto simp: less_eq_mode_def less_mode_def)

end

lemma ParseMode_String: "Mode_Valid m \<Longrightarrow> ParseMode (Mode_String m) = Inr m"
  by (cases m) (simp_all add: Mode_Valid_def ParseMode_def Mode_String_def modeToken_def)

lemma ParseMode_sound: "ParseMode s = Inr m \<Longrightarrow> Mode_Valid m \<and> Mode_String m = s"
  by (auto simp: ParseMode_def modeToken_def Mode_Valid_def Mode_String_def split: if_splits)

lemma CheckTransition_ok_iff:
  "CheckTransition i = (k, None) \<longleftrightarrow>
     (Demotable (ti_From i) (ti_To i) \<and> k = TransitionDemotion) \<or>
     (Promotable (ti_From i) (ti_To i) \<and> k = TransitionPromotion \<and>
       (ti_To i = ModeProduction \<longrightarrow> checkProductionQualification i = None))"
  by (auto simp: CheckTransition_def Demotable_def Promotable_def split: option.splits)

lemma checkProductionQualification_None:
  "checkProductionQualification i = None \<longleftrightarrow>
     (\<exists>verify. ti_Qualification i = Some verify \<and> verify (ti_Binding i) = None \<and>
        qb_Capability (ti_Binding i) = ti_Capability i \<and> qb_ToMode (ti_Binding i) = ModeProduction \<and>
        qb_FromMode (ti_Binding i) = ti_From i \<and> qb_TargetScopeHash (ti_Binding i) \<noteq> [] \<and>
        qb_SnapshotHash (ti_Binding i) \<noteq> [])"
  by (auto simp: checkProductionQualification_def Let_def split: option.splits if_splits)

lemma EmergencyTarget_below: "EmergencyTarget m d \<le> m \<and> Mode_Valid (EmergencyTarget m d)"
  by (cases m) (auto simp: EmergencyTarget_def mode_of_rank_def less_eq_mode_def rollout_simps)

lemma EmergencyTarget_demotes:
  "Mode_Valid m \<Longrightarrow> m \<noteq> ModeDisabled \<Longrightarrow> Demotable m (EmergencyTarget m d)"
  by (cases m) (auto simp: EmergencyTarget_def mode_of_rank_def Demotable_def rollout_simps)

section \<open>Ladder walks\<close>

text \<open>A walk is a sequence of mode changes that the gate allowed, each with its own request.\<close>

inductive ladder_step :: "(qualification_binding \<Rightarrow> bool) \<Rightarrow> mode \<Rightarrow> mode \<Rightarrow> bool" for receipt_ok where
  ladder_stepI:
    "\<lbrakk> CheckTransition i = (k, None); ti_From i = m; ti_To i = m';
       \<And>verify b. \<lbrakk>ti_Qualification i = Some verify; verify b = None\<rbrakk> \<Longrightarrow> receipt_ok b \<rbrakk>
     \<Longrightarrow> ladder_step receipt_ok m m'"

inductive_cases ladder_stepE: "ladder_step receipt_ok m m'"

lemma ladder_step_cases:
  assumes "ladder_step receipt_ok m m'"
  shows "Demotable m m' \<or> Promotable m m' \<and> (m' = ModeProduction \<longrightarrow> m = ModeCanary \<and>
    (\<exists>b. receipt_ok b \<and> qb_ToMode b = ModeProduction \<and> qb_FromMode b = ModeCanary))"
  using assms
proof (rule ladder_stepE)
  fix i k
  assume ok: "CheckTransition i = (k, None)" and ends: "ti_From i = m" "ti_To i = m'"
    and q: "\<And>verify b. ti_Qualification i = Some verify \<Longrightarrow> verify b = None \<Longrightarrow> receipt_ok b"
  have canary: "m = ModeCanary" if "Promotable m ModeProduction"
    using that by (cases m) (auto simp: Promotable_def rollout_simps)
  from ok show ?thesis
    unfolding CheckTransition_ok_iff checkProductionQualification_None ends
    using q canary ends by blast
qed

lemma ladder_walk_enters_production:
  assumes "(ladder_step receipt_ok)\<^sup>*\<^sup>* m ModeProduction" and "m \<noteq> ModeProduction"
  shows "\<exists>b. receipt_ok b \<and> qb_ToMode b = ModeProduction \<and> qb_FromMode b = ModeCanary"
  using assms
proof (induction rule: converse_rtranclp_induct)
  case base
  then show ?case by simp
next
  case (step y z)
  show ?case
  proof (cases "z = ModeProduction")
    case True
    from ladder_step_cases[OF step.hyps(1)] True step.prems show ?thesis
      by (cases y) (auto simp: Demotable_def rollout_simps)
  next
    case False
    with step.IH show ?thesis by blast
  qed
qed

section \<open>Resolution\<close>

lemma Resolve_execute_iff:
  "re_Disposition (Resolve i) = EffectExecute \<longleftrightarrow>
     FullyEnforces (ri_Mode i) \<and> ri_InScope i \<and> \<not> ri_HardFailure i \<and>
     ActionKind_IsAllowClass (ri_Action i) \<and> ri_ObligationsSatisfied i"
  by (simp add: Resolve_def resolveShadow_def resolveEnforcing_def new_resolution_def
      FullyEnforces_def Let_def split: mode.splits)

lemma Resolve_executed_iff: "re_Executed (Resolve i) \<longleftrightarrow> re_Disposition (Resolve i) = EffectExecute"
  by (simp add: Resolve_def resolveShadow_def resolveEnforcing_def new_resolution_def Let_def
      split: mode.splits)

lemma Resolve_preserves_action: "re_EvaluatedAction (Resolve i) = ri_Action i"
  by (simp add: Resolve_def resolveShadow_def resolveEnforcing_def new_resolution_def Let_def
      split: mode.splits)

end
