(* ===== verification/RolloutScope.thy ===== *)
theory RolloutScope
  imports RolloutMode Hashing
begin

text \<open>
  Rollout scopes (\<open>internal/mcp/rollout/scope.go\<close>) and the bounds they are compiled under
  (\<open>limits.go\<close>). A Go set (\<open>map[K]struct{}\<close>) is a HOL set built from the slice it
  is filled from; its size is the cardinality. The stable bucket and the content hash are SHA-256
  over explicit byte strings.
\<close>

section \<open>Limits\<close>

record rollout_limits =
  rlm_MaxSelectors :: int
  rlm_MaxSelectorValues :: int
  rlm_MaxExclusions :: int
  rlm_MaxResolvedMembers :: int
  rlm_MaxValueBytes :: int
  rlm_MaxTransitions :: int
  rlm_MaxHistory :: int
  rlm_MaxEvidenceItems :: int
  rlm_MaxReviewEntries :: int
  rlm_valid :: bool

definition fill :: "int \<Rightarrow> int \<Rightarrow> int \<times> bool" where
  "fill v dflt = (if v < 0 then (0, False) else if v = 0 then (dflt, True) else (v, True))"

definition Rollout_NewLimits :: "rollout_limits \<Rightarrow> rollout_limits res" where
  "Rollout_NewLimits c =
     (let a = fill (rlm_MaxSelectors c) 256; b = fill (rlm_MaxSelectorValues c) 1024;
          d = fill (rlm_MaxExclusions c) 512; e = fill (rlm_MaxResolvedMembers c) 65536;
          f = fill (rlm_MaxValueBytes c) 512; g = fill (rlm_MaxTransitions c) 32;
          h = fill (rlm_MaxHistory c) 128; i = fill (rlm_MaxEvidenceItems c) 256;
          j = fill (rlm_MaxReviewEntries c) 1024
      in if \<not> (snd a \<and> snd b \<and> snd d \<and> snd e \<and> snd f \<and> snd g \<and> snd h \<and> snd i \<and> snd j) then
           Inl (New ReasonRolloutScopeInvalid ''rollout.limits'' ''negative limit value'')
         else Inr \<lparr>rlm_MaxSelectors = fst a, rlm_MaxSelectorValues = fst b,
           rlm_MaxExclusions = fst d, rlm_MaxResolvedMembers = fst e, rlm_MaxValueBytes = fst f,
           rlm_MaxTransitions = fst g, rlm_MaxHistory = fst h, rlm_MaxEvidenceItems = fst i,
           rlm_MaxReviewEntries = fst j, rlm_valid = True\<rparr>)"

definition zero_rollout_limits :: rollout_limits where
  "zero_rollout_limits = \<lparr>rlm_MaxSelectors = 0, rlm_MaxSelectorValues = 0, rlm_MaxExclusions = 0,
     rlm_MaxResolvedMembers = 0, rlm_MaxValueBytes = 0, rlm_MaxTransitions = 0, rlm_MaxHistory = 0,
     rlm_MaxEvidenceItems = 0, rlm_MaxReviewEntries = 0, rlm_valid = False\<rparr>"

definition Rollout_DefaultLimits :: rollout_limits where
  "Rollout_DefaultLimits = (case Rollout_NewLimits zero_rollout_limits of
     Inl e \<Rightarrow> zero_rollout_limits | Inr l \<Rightarrow> l)"

section \<open>Scope specifications and scopes\<close>

datatype risk_class = RiskUnknown | RiskRead | RiskWrite | RiskDestructive | RiskRaw nat

definition riskToken :: "(risk_class \<times> string) list" where
  "riskToken = [(RiskRead, ''read''), (RiskWrite, ''write''), (RiskDestructive, ''destructive'')]"

definition RiskClass_Valid :: "risk_class \<Rightarrow> bool" where
  "RiskClass_Valid r \<longleftrightarrow> map_of riskToken r \<noteq> None"

definition RiskClass_String :: "risk_class \<Rightarrow> string" where
  "RiskClass_String r = (case map_of riskToken r of Some s \<Rightarrow> s | None \<Rightarrow> ''unknown'')"

definition RiskClass_HighRisk :: "risk_class \<Rightarrow> bool" where
  "RiskClass_HighRisk r \<longleftrightarrow> r = RiskWrite \<or> r = RiskDestructive"

datatype bucket_key_kind =
    BucketByPrincipal
  | BucketByTenant
  | BucketByAgent
  | BucketByClient
  | BucketKeyRaw nat

fun BucketKey_raw :: "bucket_key_kind \<Rightarrow> nat" where
  "BucketKey_raw BucketByPrincipal = 0"
| "BucketKey_raw BucketByTenant = 1"
| "BucketKey_raw BucketByAgent = 2"
| "BucketKey_raw BucketByClient = 3"
| "BucketKey_raw (BucketKeyRaw k) = 4 + k"

record subject =
  sj_Capability :: rollout_capability
  sj_Tenant :: string
  sj_ServerID :: string
  sj_ToolFingerprint :: string
  sj_ToolName :: string
  sj_PrincipalID :: string
  sj_AgentID :: string
  sj_ClientID :: string
  sj_Groups :: "string list"
  sj_Environment :: string
  sj_Operation :: risk_class

record tool_sel =
  ts_Server :: string
  ts_Name :: string
  ts_Fingerprint :: string

record scope_spec =
  sp_Capability :: rollout_capability
  sp_Tenants :: "string list"
  sp_Servers :: "string list"
  sp_ToolFingerprints :: "string list"
  sp_Tools :: "tool_sel list"
  sp_Principals :: "string list"
  sp_Agents :: "string list"
  sp_Clients :: "string list"
  sp_Groups :: "string list"
  sp_Environments :: "string list"
  sp_Operations :: "risk_class list"
  sp_Percent :: int
  sp_BucketSalt :: string
  sp_BucketKey :: bucket_key_kind
  sp_ExcludeTenants :: "string list"
  sp_ExcludeServers :: "string list"
  sp_ExcludeTools :: "tool_sel list"
  sp_ExcludePrincipals :: "string list"
  sp_HighRisk :: bool

record scope =
  so_schema :: int
  so_capability :: rollout_capability
  so_revision :: nat
  so_tenants :: "string set"
  so_servers :: "string set"
  so_fingerprints :: "string set"
  so_tools :: "tool_sel set"
  so_principals :: "string set"
  so_agents :: "string set"
  so_clients :: "string set"
  so_groups :: "string set"
  so_environments :: "string set"
  so_operations :: "risk_class set"
  so_percent :: int
  so_bucketSalt :: string
  so_bucketKey :: bucket_key_kind
  so_exTenants :: "string set"
  so_exServers :: "string set"
  so_exTools :: "tool_sel set"
  so_exPrincipals :: "string set"
  so_highRisk :: bool
  so_hash :: string
  so_built :: bool

section \<open>The content hash\<close>

definition writeInt :: "int \<Rightarrow> string" where
  "writeInt v = putUint64 (nat (v mod 2 ^ 64))"

definition writeUint64 :: "nat \<Rightarrow> string" where
  "writeUint64 v = putUint64 v"

definition writeByte :: "nat \<Rightarrow> string" where
  "writeByte v = [char_of v]"

definition writeBool :: "bool \<Rightarrow> string" where
  "writeBool v = [if v then CHR 0x01 else CHR 0x00]"

definition writeField :: "string \<Rightarrow> string list \<Rightarrow> string" where
  "writeField label vals = label @ [CHR 0x1E] @ writeInt (int (length vals))
     @ concat (map (\<lambda>v. writeInt (int (length v)) @ v) vals)"

definition sortedKeys :: "string set \<Rightarrow> string list" where
  "sortedKeys s = sorted_list_of_set s"

definition tool_key :: "tool_sel \<Rightarrow> string" where
  "tool_key t = ts_Server t @ [CHR 0x1F] @ ts_Name t @ [CHR 0x1F] @ ts_Fingerprint t"

text \<open>
  One string per set element, sorted, as in the source: two elements with the same string give the
  string twice, so the list is the sorted list of the multiset of strings.
\<close>

definition sortedTools :: "tool_sel set \<Rightarrow> string list" where
  "sortedTools s = sorted_list_of_multiset (image_mset tool_key (mset_set s))"

definition sortedOps :: "risk_class set \<Rightarrow> string list" where
  "sortedOps s = sorted_list_of_multiset (image_mset RiskClass_String (mset_set s))"

definition scopePreimage :: "scope \<Rightarrow> string" where
  "scopePreimage s =
     ''culvert-mcp-rollout-scope-v1''
     @ writeByte (nat (so_schema s mod 256))
     @ writeByte (RolloutCapability_raw (so_capability s))
     @ writeUint64 (so_revision s)
     @ writeBool (so_highRisk s)
     @ writeInt (so_percent s)
     @ writeField ''salt'' [so_bucketSalt s]
     @ writeByte (BucketKey_raw (so_bucketKey s))
     @ writeField ''tenants'' (sortedKeys (so_tenants s))
     @ writeField ''servers'' (sortedKeys (so_servers s))
     @ writeField ''fingerprints'' (sortedKeys (so_fingerprints s))
     @ writeField ''principals'' (sortedKeys (so_principals s))
     @ writeField ''agents'' (sortedKeys (so_agents s))
     @ writeField ''clients'' (sortedKeys (so_clients s))
     @ writeField ''groups'' (sortedKeys (so_groups s))
     @ writeField ''environments'' (sortedKeys (so_environments s))
     @ writeField ''extenants'' (sortedKeys (so_exTenants s))
     @ writeField ''exservers'' (sortedKeys (so_exServers s))
     @ writeField ''exprincipals'' (sortedKeys (so_exPrincipals s))
     @ writeField ''tools'' (sortedTools (so_tools s))
     @ writeField ''extools'' (sortedTools (so_exTools s))
     @ writeField ''operations'' (sortedOps (so_operations s))"

definition Scope_computeHash :: "scope \<Rightarrow> string" where
  "Scope_computeHash s = hex_encode (sha256 (scopePreimage s))"

definition StableBucket :: "string \<Rightarrow> string \<Rightarrow> nat" where
  "StableBucket salt key =
     be_val (take 8 (sha256 (''culvert-mcp-rollout-bucket-v1'' @ [CHR 0x00] @ salt @ [CHR 0x00] @ key)))
       mod 100"

section \<open>Compilation\<close>

definition scopeErr :: "string \<Rightarrow> go_error" where
  "scopeErr detail = New ReasonRolloutScopeInvalid ''rollout.scope'' detail"

definition mkSet :: "rollout_limits \<Rightarrow> string list \<Rightarrow> string set res" where
  "mkSet lim vals =
     bindR (guardR (first_err (map (\<lambda>v. first_err [
         err_if (v = []) (scopeErr ''empty selector value''),
         err_if (int (length v) > rlm_MaxValueBytes lim) (scopeErr ''selector value too long'')]) vals)))
       (\<lambda>_. if int (card (set vals)) > rlm_MaxSelectorValues lim
            then Inl (scopeErr ''selector value count over limit'')
            else Inr (set vals))"

definition mkToolSet :: "tool_sel list \<Rightarrow> nat \<Rightarrow> rollout_limits \<Rightarrow> (tool_sel set \<times> nat) res" where
  "mkToolSet vals total0 lim =
     bindR (guardR (first_err (map (\<lambda>v. first_err [
         err_if (ts_Server v = [] \<or> ts_Name v = [] \<or> ts_Fingerprint v = [])
           (scopeErr ''tool selector requires server+name+fingerprint''),
         err_if (int (length (ts_Server v)) > rlm_MaxValueBytes lim
                 \<or> int (length (ts_Name v)) > rlm_MaxValueBytes lim
                 \<or> int (length (ts_Fingerprint v)) > rlm_MaxValueBytes lim)
           (scopeErr ''tool selector value too long'')]) vals)))
       (\<lambda>_. Inr (set vals, total0 + card (set vals)))"

definition compileToolsAndBounds ::
    "scope \<Rightarrow> scope_spec \<Rightarrow> nat \<Rightarrow> rollout_limits \<Rightarrow> scope res" where
  "compileToolsAndBounds sc spec total0 lim =
     bindR (mkToolSet (sp_Tools spec) total0 lim) (\<lambda>(tools, total1).
     bindR (mkToolSet (sp_ExcludeTools spec) total1 lim) (\<lambda>(exTools, total2).
     if int total2 > rlm_MaxSelectors lim then
       Inl (scopeErr ''total selector count over limit'')
     else if int (card (so_exTenants sc) + card (so_exServers sc) + card exTools
                  + card (so_exPrincipals sc)) > rlm_MaxExclusions lim then
       Inl (scopeErr ''exclusion count over limit'')
     else Inr (sc\<lparr>so_tools := tools, so_exTools := exTools\<rparr>)))"

definition compileOps :: "risk_class list \<Rightarrow> bool \<Rightarrow> risk_class set res" where
  "compileOps ops highRisk =
     bindR (guardR (first_err (map (\<lambda>op. first_err [
         err_if (\<not> RiskClass_Valid op) (scopeErr ''invalid operation class in scope''),
         err_if (RiskClass_HighRisk op \<and> \<not> highRisk)
           (scopeErr ''write/destructive op requires an explicit high-risk scope'')]) ops)))
       (\<lambda>_. Inr (if set ops = {} then {RiskRead} else set ops))"

definition validatePercent :: "scope_spec \<Rightarrow> go_error option" where
  "validatePercent spec = first_err [
     err_if (sp_Percent spec < 0 \<or> sp_Percent spec > 100) (scopeErr ''percent out of range''),
     err_if (sp_Percent spec > 0 \<and> sp_Percent spec < 100 \<and> sp_BucketSalt spec = [])
       (scopeErr ''percentage bucket requires a bound salt'')]"

definition Scope_Compile :: "scope_spec \<Rightarrow> nat \<Rightarrow> rollout_limits \<Rightarrow> scope res" where
  "Scope_Compile spec revision lim =
     (if \<not> rlm_valid lim then Inl (scopeErr ''invalid limits'')
      else if \<not> RolloutCapability_Valid (sp_Capability spec) then
        Inl (New ReasonSnapshotCapabilityMismatch ''rollout.scope'' ''scope capability invalid'')
      else
        bindR (mkSet lim (sp_Tenants spec)) (\<lambda>tenants.
        bindR (mkSet lim (sp_Servers spec)) (\<lambda>servers.
        bindR (mkSet lim (sp_ToolFingerprints spec)) (\<lambda>fingerprints.
        bindR (mkSet lim (sp_Principals spec)) (\<lambda>principals.
        bindR (mkSet lim (sp_Agents spec)) (\<lambda>agents.
        bindR (mkSet lim (sp_Clients spec)) (\<lambda>clients.
        bindR (mkSet lim (sp_Groups spec)) (\<lambda>groups.
        bindR (mkSet lim (sp_Environments spec)) (\<lambda>environments.
        bindR (mkSet lim (sp_ExcludeTenants spec)) (\<lambda>exTenants.
        bindR (mkSet lim (sp_ExcludeServers spec)) (\<lambda>exServers.
        bindR (mkSet lim (sp_ExcludePrincipals spec)) (\<lambda>exPrincipals.
        let total0 = card tenants + card servers + card fingerprints + card principals + card agents
              + card clients + card groups + card environments + card exTenants + card exServers
              + card exPrincipals;
            sc = \<lparr>so_schema = 1, so_capability = sp_Capability spec, so_revision = revision,
              so_tenants = tenants, so_servers = servers, so_fingerprints = fingerprints,
              so_tools = {}, so_principals = principals, so_agents = agents, so_clients = clients,
              so_groups = groups, so_environments = environments, so_operations = {},
              so_percent = sp_Percent spec, so_bucketSalt = sp_BucketSalt spec,
              so_bucketKey = sp_BucketKey spec, so_exTenants = exTenants, so_exServers = exServers,
              so_exTools = {}, so_exPrincipals = exPrincipals, so_highRisk = sp_HighRisk spec,
              so_hash = [], so_built = False\<rparr>
        in
        bindR (compileToolsAndBounds sc spec total0 lim) (\<lambda>sc1.
        bindR (compileOps (sp_Operations spec) (sp_HighRisk spec)) (\<lambda>ops.
        bindR (guardR (validatePercent spec)) (\<lambda>_.
        let sc2 = sc1\<lparr>so_operations := ops\<rparr>
        in Inr (sc2\<lparr>so_hash := Scope_computeHash sc2, so_built := True\<rparr>))))))))))))))))"

definition empty_spec :: "rollout_capability \<Rightarrow> scope_spec" where
  "empty_spec c = \<lparr>sp_Capability = c, sp_Tenants = [], sp_Servers = [], sp_ToolFingerprints = [],
     sp_Tools = [], sp_Principals = [], sp_Agents = [], sp_Clients = [], sp_Groups = [],
     sp_Environments = [], sp_Operations = [], sp_Percent = 0, sp_BucketSalt = [],
     sp_BucketKey = BucketByPrincipal, sp_ExcludeTenants = [], sp_ExcludeServers = [],
     sp_ExcludeTools = [], sp_ExcludePrincipals = [], sp_HighRisk = False\<rparr>"

text \<open>The zero \<open>Scope\<close>, which \<open>Compile\<close> returns beside an error.\<close>

definition zero_scope :: scope where
  "zero_scope = \<lparr>so_schema = 0, so_capability = CapabilityUnknown, so_revision = 0, so_tenants = {},
     so_servers = {}, so_fingerprints = {}, so_tools = {}, so_principals = {}, so_agents = {},
     so_clients = {}, so_groups = {}, so_environments = {}, so_operations = {}, so_percent = 0,
     so_bucketSalt = [], so_bucketKey = BucketByPrincipal, so_exTenants = {}, so_exServers = {},
     so_exTools = {}, so_exPrincipals = {}, so_highRisk = False, so_hash = [], so_built = False\<rparr>"

definition EmptyScope :: "rollout_capability \<Rightarrow> scope" where
  "EmptyScope c = (case Scope_Compile (empty_spec c) 0 Rollout_DefaultLimits of
     Inl e \<Rightarrow> zero_scope | Inr sc \<Rightarrow> sc)"

section \<open>Membership\<close>

definition hasInclusion :: "scope \<Rightarrow> bool" where
  "hasInclusion s \<longleftrightarrow> so_tenants s \<noteq> {} \<or> so_servers s \<noteq> {} \<or> so_fingerprints s \<noteq> {} \<or>
     so_tools s \<noteq> {} \<or> so_principals s \<noteq> {} \<or> so_agents s \<noteq> {} \<or> so_clients s \<noteq> {} \<or>
     so_groups s \<noteq> {} \<or> so_environments s \<noteq> {}"

definition Enumerable :: "scope \<Rightarrow> bool" where
  "Enumerable s \<longleftrightarrow> so_built s \<and> hasInclusion s"

definition MatchesNothing :: "scope \<Rightarrow> bool" where
  "MatchesNothing s \<longleftrightarrow> \<not> so_built s \<or> (\<not> hasInclusion s \<and> so_percent s = 0)"

definition dimOK :: "'a set \<Rightarrow> 'a \<Rightarrow> bool" where
  "dimOK s v \<longleftrightarrow> s = {} \<or> v \<in> s"

definition matchGroup :: "scope \<Rightarrow> subject \<Rightarrow> bool" where
  "matchGroup s subj \<longleftrightarrow> list_ex (\<lambda>g. g \<in> so_groups s) (sj_Groups subj)"

definition subject_tool :: "subject \<Rightarrow> tool_sel" where
  "subject_tool subj = \<lparr>ts_Server = sj_ServerID subj, ts_Name = sj_ToolName subj,
     ts_Fingerprint = sj_ToolFingerprint subj\<rparr>"

definition matchDimensions :: "scope \<Rightarrow> subject \<Rightarrow> bool" where
  "matchDimensions s subj \<longleftrightarrow> list_all (\<lambda>b. b) [
     dimOK (so_tenants s) (sj_Tenant subj),
     dimOK (so_servers s) (sj_ServerID subj),
     dimOK (so_fingerprints s) (sj_ToolFingerprint subj),
     so_tools s = {} \<or> subject_tool subj \<in> so_tools s,
     dimOK (so_principals s) (sj_PrincipalID subj),
     dimOK (so_agents s) (sj_AgentID subj),
     dimOK (so_clients s) (sj_ClientID subj),
     dimOK (so_environments s) (sj_Environment subj),
     so_groups s = {} \<or> matchGroup s subj]"

fun bucketKeyValue :: "bucket_key_kind \<Rightarrow> subject \<Rightarrow> string" where
  "bucketKeyValue BucketByTenant subj = sj_Tenant subj"
| "bucketKeyValue BucketByAgent subj = sj_AgentID subj"
| "bucketKeyValue BucketByClient subj = sj_ClientID subj"
| "bucketKeyValue _ subj = sj_PrincipalID subj"

definition inBucket :: "scope \<Rightarrow> subject \<Rightarrow> bool" where
  "inBucket s subj =
     (if so_percent s \<le> 0 then True
      else if so_percent s \<ge> 100 then True
      else int (StableBucket (so_bucketSalt s) (bucketKeyValue (so_bucketKey s) subj)) < so_percent s)"

definition Contains :: "scope \<Rightarrow> subject \<Rightarrow> bool" where
  "Contains s subj =
     (if \<not> so_built s \<or> so_capability s \<noteq> sj_Capability subj then False
      else if MatchesNothing s then False
      else if sj_Tenant subj \<in> so_exTenants s \<or> sj_ServerID subj \<in> so_exServers s
              \<or> sj_PrincipalID subj \<in> so_exPrincipals s then False
      else if so_exTools s \<noteq> {} \<and> subject_tool subj \<in> so_exTools s then False
      else if \<not> RiskClass_Valid (sj_Operation subj) then False
      else if sj_Operation subj \<notin> so_operations s then False
      else if \<not> matchDimensions s subj then False
      else inBucket s subj)"

definition fullyExcluded :: "string set \<Rightarrow> string set \<Rightarrow> bool" where
  "fullyExcluded incl excl \<longleftrightarrow> incl \<noteq> {} \<and> (\<forall>v \<in> incl. v \<in> excl)"

fun bucketKeyInclusionSet :: "bucket_key_kind \<Rightarrow> scope \<Rightarrow> string set" where
  "bucketKeyInclusionSet BucketByTenant s = so_tenants s"
| "bucketKeyInclusionSet BucketByAgent s = so_agents s"
| "bucketKeyInclusionSet BucketByClient s = so_clients s"
| "bucketKeyInclusionSet _ s = so_principals s"

fun bucketKeyExclusionSet :: "bucket_key_kind \<Rightarrow> scope \<Rightarrow> string set" where
  "bucketKeyExclusionSet BucketByTenant s = so_exTenants s"
| "bucketKeyExclusionSet BucketByAgent s = {}"
| "bucketKeyExclusionSet BucketByClient s = {}"
| "bucketKeyExclusionSet _ s = so_exPrincipals s"

definition bucketHasSurvivingKey :: "scope \<Rightarrow> bool" where
  "bucketHasSurvivingKey s =
     (if so_percent s \<le> 0 \<or> so_percent s \<ge> 100 then True
      else let keys = bucketKeyInclusionSet (so_bucketKey s) s in
        if keys = {} then True
        else \<exists>k \<in> keys. k \<notin> bucketKeyExclusionSet (so_bucketKey s) s \<and>
               int (StableBucket (so_bucketSalt s) k) < so_percent s)"

definition AdmitsToolForEvaluation :: "scope \<Rightarrow> string \<Rightarrow> string \<Rightarrow> string \<Rightarrow> bool" where
  "AdmitsToolForEvaluation s serverID toolName fingerprint =
     (let sel = \<lparr>ts_Server = serverID, ts_Name = toolName, ts_Fingerprint = fingerprint\<rparr> in
      if \<not> so_built s \<or> MatchesNothing s then False
      else if fullyExcluded (so_tenants s) (so_exTenants s)
              \<or> fullyExcluded (so_principals s) (so_exPrincipals s) then False
      else if so_environments s \<noteq> {} then False
      else if \<not> bucketHasSurvivingKey s then False
      else if serverID \<in> so_exServers s then False
      else if so_exTools s \<noteq> {} \<and> sel \<in> so_exTools s then False
      else if RiskWrite \<notin> so_operations s then False
      else if \<not> dimOK (so_servers s) serverID then False
      else if \<not> dimOK (so_fingerprints s) fingerprint then False
      else so_tools s = {} \<or> sel \<in> so_tools s)"

definition SupportsSelectorSchema :: "int \<Rightarrow> bool" where
  "SupportsSelectorSchema v \<longleftrightarrow> v \<ge> 1 \<and> v \<le> 1"

section \<open>What compilation produces\<close>

lemma mkSet_eq_Inr:
  "mkSet lim vals = Inr S \<longleftrightarrow>
     S = set vals \<and> [] \<notin> set vals \<and> (\<forall>v \<in> set vals. int (length v) \<le> rlm_MaxValueBytes lim) \<and>
     int (card (set vals)) \<le> rlm_MaxSelectorValues lim"
  by (auto simp: mkSet_def bindR_eq_Inr not_less)

lemma mkToolSet_eq_Inr:
  "mkToolSet vals n lim = Inr (S, k) \<Longrightarrow> S = set vals \<and> k = n + card (set vals)"
  by (auto simp: mkToolSet_def bindR_eq_Inr)

lemma compileToolsAndBounds_Inr:
  assumes "compileToolsAndBounds sc spec n lim = Inr sc'"
  shows "sc' = sc\<lparr>so_tools := set (sp_Tools spec), so_exTools := set (sp_ExcludeTools spec)\<rparr>"
  using assms
  by (auto simp: compileToolsAndBounds_def bindR_eq_Inr dest!: mkToolSet_eq_Inr split: if_splits)

lemma compileOps_eq_Inr:
  "compileOps ops hr = Inr S \<longleftrightarrow>
     S = (if set ops = {} then {RiskRead} else set ops) \<and>
     (\<forall>op \<in> set ops. RiskClass_Valid op \<and> (RiskClass_HighRisk op \<longrightarrow> hr))"
  by (auto simp: compileOps_def bindR_eq_Inr)

lemma validatePercent_None:
  "validatePercent spec = None \<longleftrightarrow> 0 \<le> sp_Percent spec \<and> sp_Percent spec \<le> 100 \<and>
     (0 < sp_Percent spec \<and> sp_Percent spec < 100 \<longrightarrow> sp_BucketSalt spec \<noteq> [])"
  by (auto simp: validatePercent_def)

definition scope_of :: "scope_spec \<Rightarrow> nat \<Rightarrow> scope" where
  "scope_of spec revision = \<lparr>
     so_schema = 1, so_capability = sp_Capability spec, so_revision = revision,
     so_tenants = set (sp_Tenants spec), so_servers = set (sp_Servers spec),
     so_fingerprints = set (sp_ToolFingerprints spec), so_tools = set (sp_Tools spec),
     so_principals = set (sp_Principals spec), so_agents = set (sp_Agents spec),
     so_clients = set (sp_Clients spec), so_groups = set (sp_Groups spec),
     so_environments = set (sp_Environments spec),
     so_operations = (if set (sp_Operations spec) = {} then {RiskRead} else set (sp_Operations spec)),
     so_percent = sp_Percent spec, so_bucketSalt = sp_BucketSalt spec,
     so_bucketKey = sp_BucketKey spec, so_exTenants = set (sp_ExcludeTenants spec),
     so_exServers = set (sp_ExcludeServers spec), so_exTools = set (sp_ExcludeTools spec),
     so_exPrincipals = set (sp_ExcludePrincipals spec), so_highRisk = sp_HighRisk spec,
     so_hash = [], so_built = False\<rparr>"

text \<open>A successful compilation is a function of the sets of the specification.\<close>

lemma Scope_Compile_Inr:
  assumes "Scope_Compile spec revision lim = Inr sc"
  shows "sc = (scope_of spec revision)\<lparr>so_hash := Scope_computeHash (scope_of spec revision), so_built := True\<rparr>"
proof -
  from assms obtain sc1 n where
    c: "compileToolsAndBounds \<lparr>so_schema = 1, so_capability = sp_Capability spec, so_revision = revision,
              so_tenants = set (sp_Tenants spec), so_servers = set (sp_Servers spec),
              so_fingerprints = set (sp_ToolFingerprints spec),
              so_tools = {}, so_principals = set (sp_Principals spec), so_agents = set (sp_Agents spec),
              so_clients = set (sp_Clients spec), so_groups = set (sp_Groups spec),
              so_environments = set (sp_Environments spec), so_operations = {},
              so_percent = sp_Percent spec, so_bucketSalt = sp_BucketSalt spec,
              so_bucketKey = sp_BucketKey spec, so_exTenants = set (sp_ExcludeTenants spec),
              so_exServers = set (sp_ExcludeServers spec),
              so_exTools = {}, so_exPrincipals = set (sp_ExcludePrincipals spec),
              so_highRisk = sp_HighRisk spec, so_hash = [], so_built = False\<rparr> spec n lim = Inr sc1" and
    s: "sc = sc1\<lparr>so_operations := (if set (sp_Operations spec) = {} then {RiskRead} else set (sp_Operations spec)),
         so_hash := Scope_computeHash (sc1\<lparr>so_operations :=
           (if set (sp_Operations spec) = {} then {RiskRead} else set (sp_Operations spec))\<rparr>),
         so_built := True\<rparr>"
    unfolding Scope_Compile_def Let_def
    by (auto simp: bindR_eq_Inr mkSet_eq_Inr compileOps_eq_Inr split: if_split_asm)
  show ?thesis
    unfolding s compileToolsAndBounds_Inr[OF c] by (simp add: scope_of_def)
qed

lemma Scope_Compile_checks:
  assumes "Scope_Compile spec revision lim = Inr sc"
  shows "RolloutCapability_Valid (sp_Capability spec)" "validatePercent spec = None"
    "\<forall>op \<in> set (sp_Operations spec). RiskClass_Valid op \<and> (RiskClass_HighRisk op \<longrightarrow> sp_HighRisk spec)"
  using assms unfolding Scope_Compile_def Let_def
  by (auto simp: bindR_eq_Inr compileOps_eq_Inr split: if_split_asm)

section \<open>Membership\<close>

lemma Contains_iff:
  "Contains s subj \<longleftrightarrow> so_built s \<and> so_capability s = sj_Capability subj \<and>
     (hasInclusion s \<or> so_percent s \<noteq> 0) \<and>
     sj_Tenant subj \<notin> so_exTenants s \<and> sj_ServerID subj \<notin> so_exServers s \<and>
     sj_PrincipalID subj \<notin> so_exPrincipals s \<and> subject_tool subj \<notin> so_exTools s \<and>
     RiskClass_Valid (sj_Operation subj) \<and> sj_Operation subj \<in> so_operations s \<and>
     matchDimensions s subj \<and> inBucket s subj"
  by (auto simp: Contains_def MatchesNothing_def)

lemma RiskClass_Valid_iff: "RiskClass_Valid r \<longleftrightarrow> r \<in> {RiskRead, RiskWrite, RiskDestructive}"
  by (cases r) (simp_all add: RiskClass_Valid_def riskToken_def)

lemma compiled_sel:
  assumes "Scope_Compile spec rv lim = Inr sc"
  shows "so_built sc" "so_capability sc = sp_Capability spec" "so_percent sc = sp_Percent spec"
    "so_operations sc = (if set (sp_Operations spec) = {} then {RiskRead} else set (sp_Operations spec))"
    "so_exTenants sc = set (sp_ExcludeTenants spec)" "so_exServers sc = set (sp_ExcludeServers spec)"
    "so_exTools sc = set (sp_ExcludeTools spec)" "so_exPrincipals sc = set (sp_ExcludePrincipals spec)"
    "so_tenants sc = set (sp_Tenants spec)" "so_principals sc = set (sp_Principals spec)"
    "so_environments sc = set (sp_Environments spec)"
  by (simp_all add: Scope_Compile_Inr[OF assms] scope_of_def)

lemma hasInclusion_compiled:
  assumes "Scope_Compile spec rv lim = Inr sc"
  shows "hasInclusion sc \<longleftrightarrow> sp_Tenants spec \<noteq> [] \<or> sp_Servers spec \<noteq> [] \<or> sp_ToolFingerprints spec \<noteq> [] \<or>
    sp_Tools spec \<noteq> [] \<or> sp_Principals spec \<noteq> [] \<or> sp_Agents spec \<noteq> [] \<or> sp_Clients spec \<noteq> [] \<or>
    sp_Groups spec \<noteq> [] \<or> sp_Environments spec \<noteq> []"
  by (simp add: Scope_Compile_Inr[OF assms] scope_of_def hasInclusion_def)

lemma compiled_high_risk:
  assumes "Scope_Compile spec rv lim = Inr sc" and "Contains sc subj" and "RiskClass_HighRisk (sj_Operation subj)"
  shows "sp_HighRisk spec"
proof -
  have "sj_Operation subj \<in> so_operations sc" using assms(2) by (simp add: Contains_iff)
  with assms(3) have "sj_Operation subj \<in> set (sp_Operations spec)"
    by (auto simp: compiled_sel[OF assms(1)] RiskClass_HighRisk_def split: if_splits)
  with Scope_Compile_checks(3)[OF assms(1)] assms(3) show ?thesis by blast
qed

lemma empty_spec_contains_nothing:
  assumes "Scope_Compile spec rv lim = Inr sc"
    and "spec = (empty_spec c)\<lparr>sp_Operations := ops, sp_ExcludeTenants := a, sp_ExcludeServers := b,
      sp_ExcludeTools := d, sp_ExcludePrincipals := e, sp_HighRisk := hr\<rparr>"
  shows "\<not> Contains sc subj"
  using hasInclusion_compiled[OF assms(1)] compiled_sel(3)[OF assms(1)]
  by (simp add: Contains_iff assms(2) empty_spec_def)

text \<open>Fields on which membership depends, apart from the exclusions and the percentage.\<close>

lemma same_dimensions:
  assumes "so_tenants s' = so_tenants s" "so_servers s' = so_servers s" "so_fingerprints s' = so_fingerprints s"
    "so_tools s' = so_tools s" "so_principals s' = so_principals s" "so_agents s' = so_agents s"
    "so_clients s' = so_clients s" "so_groups s' = so_groups s" "so_environments s' = so_environments s"
  shows "hasInclusion s' = hasInclusion s" "matchDimensions s' subj = matchDimensions s subj"
  by (simp_all add: hasInclusion_def matchDimensions_def matchGroup_def assms)

text \<open>Widening the exclusions, everything else equal, only removes subjects.\<close>

lemma exclusions_narrow:
  assumes "Scope_Compile spec rv lim = Inr sc"
    and "Scope_Compile (spec\<lparr>sp_ExcludeTenants := a, sp_ExcludeServers := b, sp_ExcludeTools := c,
      sp_ExcludePrincipals := d\<rparr>) rv' lim' = Inr sc'"
    and "set (sp_ExcludeTenants spec) \<subseteq> set a" "set (sp_ExcludeServers spec) \<subseteq> set b"
    and "set (sp_ExcludeTools spec) \<subseteq> set c" "set (sp_ExcludePrincipals spec) \<subseteq> set d"
    and "Contains sc' subj"
  shows "Contains sc subj"
proof -
  note sel = compiled_sel[OF assms(1)] and sel' = compiled_sel[OF assms(2)]
  have ops: "so_operations sc' = so_operations sc" by (simp add: sel(4) sel'(4))
  note ds = Scope_Compile_Inr[OF assms(1)] Scope_Compile_Inr[OF assms(2)] scope_of_def
  have "hasInclusion sc' = hasInclusion sc" "matchDimensions sc' subj = matchDimensions sc subj"
    by (rule same_dimensions; simp add: ds)+
  moreover have "inBucket sc' subj = inBucket sc subj" by (simp add: inBucket_def ds)
  ultimately show ?thesis
    using assms(3-7) by (auto simp: Contains_iff ops sel(1-3,5-8) sel'(1-3,5-8) dest: subsetD)
qed

lemma percent_monotone:
  assumes "Scope_Compile spec rv lim = Inr sc"
    and "Scope_Compile (spec\<lparr>sp_Percent := q\<rparr>) rv' lim' = Inr sc'"
    and "0 < sp_Percent spec" "sp_Percent spec \<le> q"
    and "Contains sc subj"
  shows "Contains sc' subj"
proof -
  note sel = compiled_sel[OF assms(1)] and sel' = compiled_sel[OF assms(2)]
  have ops: "so_operations sc' = so_operations sc" by (simp add: sel(4) sel'(4))
  note ds = Scope_Compile_Inr[OF assms(1)] Scope_Compile_Inr[OF assms(2)] scope_of_def
  have "hasInclusion sc' = hasInclusion sc" "matchDimensions sc' subj = matchDimensions sc subj"
    by (rule same_dimensions; simp add: ds)+
  moreover have "inBucket sc' subj" if "inBucket sc subj"
    using that assms(3,4) by (simp add: inBucket_def ds split: if_split_asm)
  ultimately show ?thesis
    using assms(3-5) by (simp add: Contains_iff ops sel(1-3,5-8) sel'(1-3,5-8))
qed

section \<open>Targeted tools\<close>

text \<open>The request that would call a given tool: a write by some identity, with no environment.\<close>

definition calls_tool :: "subject \<Rightarrow> string \<Rightarrow> string \<Rightarrow> string \<Rightarrow> bool" where
  "calls_tool subj serverID toolName fingerprint \<longleftrightarrow>
     sj_ServerID subj = serverID \<and> sj_ToolName subj = toolName \<and>
     sj_ToolFingerprint subj = fingerprint \<and> sj_Operation subj = RiskWrite \<and> sj_Environment subj = []"

lemma bucketKey_included:
  "matchDimensions s subj \<Longrightarrow> dimOK (bucketKeyInclusionSet k s) (bucketKeyValue k subj)"
  by (cases k) (simp_all add: matchDimensions_def)

lemma bucketKey_not_excluded:
  "Contains s subj \<Longrightarrow> bucketKeyValue k subj \<notin> bucketKeyExclusionSet k s"
  by (cases k) (simp_all add: Contains_iff)

lemma Contains_surviving_key:
  assumes "Contains s subj"
  shows "bucketHasSurvivingKey s"
proof (cases "so_percent s \<le> 0 \<or> so_percent s \<ge> 100 \<or> bucketKeyInclusionSet (so_bucketKey s) s = {}")
  case True
  then show ?thesis by (auto simp: bucketHasSurvivingKey_def)
next
  case False
  let ?k = "bucketKeyValue (so_bucketKey s) subj"
  from assms have "matchDimensions s subj" "inBucket s subj" by (simp_all add: Contains_iff)
  with False bucketKey_included[of s subj "so_bucketKey s"] bucketKey_not_excluded[OF assms]
  have "?k \<in> bucketKeyInclusionSet (so_bucketKey s) s" "?k \<notin> bucketKeyExclusionSet (so_bucketKey s) s"
    "int (StableBucket (so_bucketSalt s) ?k) < so_percent s"
    by (auto simp: dimOK_def inBucket_def)
  then show ?thesis by (auto simp: bucketHasSurvivingKey_def Let_def)
qed

lemma dim_not_fullyExcluded:
  "dimOK incl v \<Longrightarrow> v \<notin> excl \<Longrightarrow> \<not> fullyExcluded incl excl"
  by (auto simp: dimOK_def fullyExcluded_def)

lemma Contains_imp_Admits:
  assumes "Contains s subj" and "calls_tool subj serverID toolName fingerprint" and "[] \<notin> so_environments s"
  shows "AdmitsToolForEvaluation s serverID toolName fingerprint"
proof -
  have sel: "\<lparr>ts_Server = serverID, ts_Name = toolName, ts_Fingerprint = fingerprint\<rparr> = subject_tool subj"
    using assms(2) by (simp add: calls_tool_def subject_tool_def)
  from assms(1) have "\<not> fullyExcluded (so_tenants s) (so_exTenants s)"
    "\<not> fullyExcluded (so_principals s) (so_exPrincipals s)"
    using dim_not_fullyExcluded[of "so_tenants s" "sj_Tenant subj" "so_exTenants s"]
      dim_not_fullyExcluded[of "so_principals s" "sj_PrincipalID subj" "so_exPrincipals s"]
    by (simp_all add: Contains_iff matchDimensions_def)
  then show ?thesis
    using assms Contains_surviving_key[OF assms(1)]
    by (auto simp: AdmitsToolForEvaluation_def Let_def sel Contains_iff MatchesNothing_def
        matchDimensions_def calls_tool_def dimOK_def)
qed

lemma ex_unexcluded:
  assumes "finite excl" and "\<not> fullyExcluded incl (excl :: string set)"
  shows "\<exists>v. dimOK incl v \<and> v \<notin> excl"
proof (cases "incl = {}")
  case True
  have "infinite (UNIV :: string set)" by (rule infinite_UNIV_listI)
  with assms(1) obtain v where "v \<notin> excl" using ex_new_if_finite by blast
  with True show ?thesis by (auto simp: dimOK_def)
next
  case False
  with assms(2) show ?thesis by (auto simp: fullyExcluded_def dimOK_def)
qed

lemma ex_dimOK: "\<exists>v. dimOK incl v"
  by (auto simp: dimOK_def)

text \<open>Identities that pass every identity dimension and the percentage gate.\<close>

lemma ex_identity:
  assumes fin: "finite (so_exTenants s)" "finite (so_exPrincipals s)"
    and ten: "\<not> fullyExcluded (so_tenants s) (so_exTenants s)"
    and pri: "\<not> fullyExcluded (so_principals s) (so_exPrincipals s)"
    and key: "bucketHasSurvivingKey s"
    and bounded: "so_percent s \<le> 0 \<or> so_percent s \<ge> 100 \<or> bucketKeyInclusionSet (so_bucketKey s) s \<noteq> {}"
  shows "\<exists>subj0. sj_Tenant subj0 \<notin> so_exTenants s \<and> sj_PrincipalID subj0 \<notin> so_exPrincipals s \<and>
    dimOK (so_tenants s) (sj_Tenant subj0) \<and> dimOK (so_principals s) (sj_PrincipalID subj0) \<and>
    dimOK (so_agents s) (sj_AgentID subj0) \<and> dimOK (so_clients s) (sj_ClientID subj0) \<and>
    inBucket s (subj0 :: subject)"
proof -
  obtain tn where tn: "dimOK (so_tenants s) tn" "tn \<notin> so_exTenants s"
    using ex_unexcluded[OF fin(1) ten] by blast
  obtain pn where pn: "dimOK (so_principals s) pn" "pn \<notin> so_exPrincipals s"
    using ex_unexcluded[OF fin(2) pri] by blast
  obtain ag cl where ac: "dimOK (so_agents s) ag" "dimOK (so_clients s) cl"
    using ex_dimOK by metis
  define base where "base = \<lparr>sj_Capability = so_capability s, sj_Tenant = tn, sj_ServerID = [],
    sj_ToolFingerprint = [], sj_ToolName = [], sj_PrincipalID = pn, sj_AgentID = ag, sj_ClientID = cl,
    sj_Groups = [], sj_Environment = [], sj_Operation = RiskWrite\<rparr>"
  show ?thesis
  proof (cases "so_percent s \<le> 0 \<or> so_percent s \<ge> 100")
    case True
    with tn pn ac show ?thesis
      by (intro exI[of _ base]) (auto simp: base_def inBucket_def)
  next
    case False
    with key bounded obtain k where k: "k \<in> bucketKeyInclusionSet (so_bucketKey s) s"
      "k \<notin> bucketKeyExclusionSet (so_bucketKey s) s" "int (StableBucket (so_bucketSalt s) k) < so_percent s"
      by (auto simp: bucketHasSurvivingKey_def Let_def split: if_splits)
    define subj0 where "subj0 = (case so_bucketKey s of
        BucketByTenant \<Rightarrow> base\<lparr>sj_Tenant := k\<rparr> | BucketByAgent \<Rightarrow> base\<lparr>sj_AgentID := k\<rparr>
      | BucketByClient \<Rightarrow> base\<lparr>sj_ClientID := k\<rparr> | _ \<Rightarrow> base\<lparr>sj_PrincipalID := k\<rparr>)"
    show ?thesis
      using tn pn ac k
      by (intro exI[of _ subj0], cases "so_bucketKey s")
        (auto simp: subj0_def base_def inBucket_def dimOK_def)
  qed
qed

lemma Admits_imp_Contains:
  assumes adm: "AdmitsToolForEvaluation s serverID toolName fingerprint"
    and fin: "finite (so_exTenants s)" "finite (so_exPrincipals s)"
    and bounded: "so_percent s \<le> 0 \<or> so_percent s \<ge> 100 \<or> bucketKeyInclusionSet (so_bucketKey s) s \<noteq> {}"
  shows "\<exists>subj. calls_tool subj serverID toolName fingerprint \<and> Contains s subj"
proof -
  have facts: "so_built s" "\<not> MatchesNothing s" "\<not> fullyExcluded (so_tenants s) (so_exTenants s)"
    "\<not> fullyExcluded (so_principals s) (so_exPrincipals s)" "so_environments s = {}"
    "bucketHasSurvivingKey s" "serverID \<notin> so_exServers s" "RiskWrite \<in> so_operations s"
    "dimOK (so_servers s) serverID" "dimOK (so_fingerprints s) fingerprint"
    "\<lparr>ts_Server = serverID, ts_Name = toolName, ts_Fingerprint = fingerprint\<rparr> \<notin> so_exTools s"
    "so_tools s = {} \<or> \<lparr>ts_Server = serverID, ts_Name = toolName, ts_Fingerprint = fingerprint\<rparr> \<in> so_tools s"
    using adm by (auto simp: AdmitsToolForEvaluation_def Let_def split: if_splits)
  obtain subj0 where s0: "sj_Tenant subj0 \<notin> so_exTenants s" "sj_PrincipalID subj0 \<notin> so_exPrincipals s"
    "dimOK (so_tenants s) (sj_Tenant subj0)" "dimOK (so_principals s) (sj_PrincipalID subj0)"
    "dimOK (so_agents s) (sj_AgentID subj0)" "dimOK (so_clients s) (sj_ClientID subj0)"
    "inBucket s subj0"
    using ex_identity[OF fin facts(3,4,6) bounded] by blast
  define subj where "subj = (subj0 :: subject)\<lparr>sj_Capability := so_capability s, sj_ServerID := serverID,
    sj_ToolName := toolName, sj_ToolFingerprint := fingerprint, sj_Operation := RiskWrite,
    sj_Environment := [], sj_Groups := (if so_groups s = {} then [] else [SOME g. g \<in> so_groups s])\<rparr>"
  have key: "bucketKeyValue k subj = bucketKeyValue k subj0" for k
    by (cases k) (simp_all add: subj_def)
  have grp: "so_groups s = {} \<or> matchGroup s subj"
    by (auto simp: subj_def matchGroup_def some_in_eq)
  have "inBucket s subj" using s0(7) by (simp add: inBucket_def key)
  moreover have "subject_tool subj = \<lparr>ts_Server = serverID, ts_Name = toolName, ts_Fingerprint = fingerprint\<rparr>"
    by (simp add: subject_tool_def subj_def)
  ultimately have "Contains s subj"
    using facts s0 grp
    by (auto simp: Contains_iff MatchesNothing_def matchDimensions_def subj_def RiskClass_Valid_iff dimOK_def)
  moreover have "calls_tool subj serverID toolName fingerprint" by (simp add: calls_tool_def subj_def)
  ultimately show ?thesis by blast
qed

lemma compiled_environment_nonempty:
  assumes "Scope_Compile spec rv lim = Inr sc"
  shows "[] \<notin> so_environments sc"
  using assms compiled_sel(11)[OF assms] unfolding Scope_Compile_def Let_def
  by (auto simp: bindR_eq_Inr mkSet_eq_Inr split: if_split_asm)

section \<open>The hash preimage of tools\<close>

lemma tool_key_collision:
  "tool_key \<lparr>ts_Server = ''a'' @ [CHR 0x1F] @ ''b'', ts_Name = ''c'', ts_Fingerprint = ''d''\<rparr> =
   tool_key \<lparr>ts_Server = ''a'', ts_Name = ''b'' @ [CHR 0x1F] @ ''c'', ts_Fingerprint = ''d''\<rparr>"
  by (simp add: tool_key_def)

lemma tool_key_inject:
  assumes "tool_key t = tool_key u"
    and "CHR 0x1F \<notin> set (ts_Server t)" "CHR 0x1F \<notin> set (ts_Name t)"
    and "CHR 0x1F \<notin> set (ts_Server u)" "CHR 0x1F \<notin> set (ts_Name u)"
  shows "t = u"
proof -
  have "split_on (CHR 0x1F) (tool_key v) = ts_Server v # ts_Name v # split_on (CHR 0x1F) (ts_Fingerprint v)"
    if "CHR 0x1F \<notin> set (ts_Server v)" "CHR 0x1F \<notin> set (ts_Name v)" for v
    using that by (simp add: tool_key_def split_on_append_sep)
  with assms have "ts_Server t = ts_Server u" "ts_Name t = ts_Name u" by (metis list.inject)+
  with assms(1) show ?thesis by (cases t; cases u) (simp add: tool_key_def)
qed

end
