(* ===== verification/RolloutHardFail.thy ===== *)
theory RolloutHardFail
  imports Mcperr
begin

text \<open>
  The fixed hard-failure taxonomy (\<open>internal/mcp/rollout/hardfail.go\<close>): the table of
  reasons that block in every rollout mode, the table of reasons deliberately classified as not
  hard, and the lookups over them. A Go map read of an absent key gives the zero value
  \<open>HardNone\<close>.
\<close>

section \<open>Classes and tables\<close>

datatype hard_class =
    HardNone
  | HardAuthIdentity
  | HardServerTrust
  | HardCredentialSafety
  | HardAvailabilityBounds
  | HardDestinationSafety
  | HardToolTrust
  | HardManagementSafety
  | HardInspectionPrivacy
  | HardClassRaw nat

definition hardClassLabel :: "(hard_class \<times> string) list" where
  "hardClassLabel = [
     (HardNone, ''none''), (HardAuthIdentity, ''auth_identity''), (HardServerTrust, ''server_trust''),
     (HardCredentialSafety, ''credential_safety''), (HardAvailabilityBounds, ''availability_bounds''),
     (HardDestinationSafety, ''destination_safety''), (HardToolTrust, ''tool_trust''),
     (HardManagementSafety, ''management_safety''), (HardInspectionPrivacy, ''inspection_privacy'')]"

definition HardClass_String :: "hard_class \<Rightarrow> string" where
  "HardClass_String h = (case map_of hardClassLabel h of Some s \<Rightarrow> s | None \<Rightarrow> ''unknown'')"

definition hardClass :: "(reason \<times> hard_class) list" where
  "hardClass = [
     (ReasonMalformedJSON, HardAvailabilityBounds), (ReasonInvalidJSONRPC, HardAvailabilityBounds),
     (ReasonUnsupportedBatch, HardAvailabilityBounds),
     (ReasonUnsupportedVersion, HardAvailabilityBounds),
     (ReasonUnsupportedMethod, HardAvailabilityBounds),
     (ReasonResourceLimit, HardAvailabilityBounds),
     (ReasonInvalidLifecycle, HardAvailabilityBounds),
     (ReasonUncorrelatedResponse, HardAvailabilityBounds),
     (ReasonDuplicateCompletion, HardAvailabilityBounds),
     (ReasonInvalidRegistration, HardServerTrust), (ReasonUnregisteredServer, HardServerTrust),
     (ReasonServerIdentityMismatch, HardServerTrust), (ReasonMalformedDiscovery, HardToolTrust),
     (ReasonDuplicateTool, HardToolTrust), (ReasonCanonicalizationFailed, HardToolTrust),
     (ReasonCapacityExceeded, HardAvailabilityBounds), (ReasonUnknownTool, HardToolTrust),
     (ReasonPrivilegeExpansion, HardToolTrust), (ReasonSemanticDrift, HardToolTrust),
     (ReasonCredentialMissing, HardAuthIdentity), (ReasonCredentialInQuery, HardAuthIdentity),
     (ReasonMalformedToken, HardAuthIdentity), (ReasonUnsupportedTokenType, HardAuthIdentity),
     (ReasonUnsupportedAlgorithm, HardAuthIdentity), (ReasonSignatureInvalid, HardAuthIdentity),
     (ReasonIssuerRejected, HardAuthIdentity), (ReasonAudienceMissing, HardAuthIdentity),
     (ReasonAudienceRejected, HardAuthIdentity), (ReasonResourceMismatch, HardAuthIdentity),
     (ReasonTokenExpired, HardAuthIdentity), (ReasonTokenNotYetValid, HardAuthIdentity),
     (ReasonTokenTTLExceeded, HardAuthIdentity), (ReasonScopeMissing, HardAuthIdentity),
     (ReasonCapabilityMismatch, HardAuthIdentity), (ReasonTenantMismatch, HardAuthIdentity),
     (ReasonDelegationChainInvalid, HardAuthIdentity),
     (ReasonSenderConstraintRequired, HardAuthIdentity), (ReasonDPoPMalformed, HardAuthIdentity),
     (ReasonDPoPBindingMismatch, HardAuthIdentity), (ReasonDPoPReplay, HardAuthIdentity),
     (ReasonDPoPNonce, HardAuthIdentity), (ReasonMTLSBindingMismatch, HardAuthIdentity),
     (ReasonInactiveToken, HardAuthIdentity), (ReasonSessionIdentityBound, HardAuthIdentity),
     (ReasonSessionIdentityRebind, HardAuthIdentity),
     (ReasonRegistryServerUnavailable, HardServerTrust),
     (ReasonCredentialProfileMissing, HardCredentialSafety),
     (ReasonCredentialProfileDisabled, HardCredentialSafety),
     (ReasonCredentialProfileAmbiguous, HardCredentialSafety),
     (ReasonProviderUnavailable, HardCredentialSafety),
     (ReasonProviderUnsupportedOperation, HardCredentialSafety),
     (ReasonProviderInvalidMaterial, HardCredentialSafety),
     (ReasonCredentialScopeMismatch, HardCredentialSafety),
     (ReasonCredentialPowerExceeded, HardCredentialSafety),
     (ReasonCredentialExpired, HardCredentialSafety),
     (ReasonCredentialRevoked, HardCredentialSafety),
     (ReasonCredentialVersionStale, HardCredentialSafety),
     (ReasonCacheFull, HardAvailabilityBounds), (ReasonCacheIntegrityFailure, HardCredentialSafety),
     (ReasonRotationFailed, HardCredentialSafety), (ReasonRevocationFailed, HardCredentialSafety),
     (ReasonMaterializationGateDenied, HardCredentialSafety),
     (ReasonMaterializationGateUnavailable, HardCredentialSafety),
     (ReasonMaterialAlreadyConsumed, HardCredentialSafety),
     (ReasonCredentialKindUnsupported, HardCredentialSafety),
     (ReasonHTTPMethodRejected, HardAvailabilityBounds),
     (ReasonHostRejected, HardDestinationSafety), (ReasonOriginRejected, HardDestinationSafety),
     (ReasonAdmissionRejected, HardAvailabilityBounds), (ReasonTLSRequired, HardAuthIdentity),
     (ReasonRequestDeadlineExceeded, HardAvailabilityBounds),
     (ReasonSchemaInvalid, HardInspectionPrivacy), (ReasonSchemaUnsupported, HardInspectionPrivacy),
     (ReasonSchemaLimitExceeded, HardInspectionPrivacy),
     (ReasonOutputTooLarge, HardInspectionPrivacy),
     (ReasonOutputSchemaInvalid, HardInspectionPrivacy),
     (ReasonSecretDetected, HardInspectionPrivacy), (ReasonPIIDetected, HardInspectionPrivacy),
     (ReasonRedactionFailed, HardInspectionPrivacy),
     (ReasonDestinationMalformed, HardDestinationSafety),
     (ReasonDestinationSchemeRejected, HardDestinationSafety),
     (ReasonSSRFBlocked, HardDestinationSafety), (ReasonDNSResolutionFailed, HardDestinationSafety),
     (ReasonDNSAnswerMixed, HardDestinationSafety), (ReasonDNSPinMismatch, HardDestinationSafety),
     (ReasonRedirectRejected, HardDestinationSafety),
     (ReasonRedirectLimitExceeded, HardDestinationSafety),
     (ReasonInjectionSuspected, HardInspectionPrivacy),
     (ReasonInspectionUnavailable, HardInspectionPrivacy),
     (ReasonInspectionLimitExceeded, HardInspectionPrivacy),
     (ReasonEventSecretPresent, HardInspectionPrivacy),
     (ReasonManagementToolUnknown, HardManagementSafety),
     (ReasonManagementToolUnauthorized, HardManagementSafety),
     (ReasonManagementResultTooLarge, HardAvailabilityBounds),
     (ReasonUpstreamEndpointInvalid, HardDestinationSafety),
     (ReasonUpstreamServerUnusable, HardServerTrust),
     (ReasonUpstreamVersionUnsupported, HardServerTrust),
     (ReasonUpstreamTransportRejected, HardAvailabilityBounds),
     (ReasonUpstreamResponseInvalid, HardAvailabilityBounds),
     (ReasonUpstreamResponseTooLarge, HardAvailabilityBounds),
     (ReasonUpstreamTLSIdentity, HardServerTrust), (ReasonUpstreamTimeout, HardAvailabilityBounds),
     (ReasonUpstreamPoolExhausted, HardAvailabilityBounds)]"

definition explicitlyNotHard :: "reason list" where
  "explicitlyNotHard = [
     ReasonNone, ReasonInvalidCancellation, ReasonLateCancellation, ReasonStaleSnapshot,
     ReasonCacheMiss, ReasonRotationInProgress, ReasonListenerDisabled, ReasonObserveOnly,
     ReasonListenerConfigInvalid, ReasonPolicySnapshotInvalid, ReasonPolicyRuleInvalid,
     ReasonPolicyConditionInvalid, ReasonPolicyObligationInvalid, ReasonPolicyInputInvalid,
     ReasonPolicyNamespaceMismatch, ReasonPolicyStaleRevision, ReasonPolicyLimitExceeded,
     ReasonEventInvalid, ReasonEventSchemaVersion, ReasonEventPartitionMismatch,
     ReasonEventTenantConflict, ReasonEventEvidenceMissing, ReasonEventTooLarge,
     ReasonEventCorrelationMalformed, ReasonEventReplayConflict, ReasonEventQueueSaturated,
     ReasonEventCommitFailed, ReasonEventEncryptionUnavailable, ReasonEventEncryptionFailed,
     ReasonEventStorageFull, ReasonEventSpoolCorrupt, ReasonEventDurabilityDegraded,
     ReasonEventDenialLaneDegraded, ReasonEventReceiptInvalid, ReasonEventExportUnauthorized,
     ReasonEventExportRangeExceeded, ReasonAdminRequestInvalid, ReasonAdminRangeExceeded,
     ReasonAdminUnknownField, ReasonAdminNotFound, ReasonAdminForbidden, ReasonAdminTenantScope,
     ReasonApprovalNotFound, ReasonApprovalSelfApproval, ReasonApprovalExpired,
     ReasonApprovalStaleRevision, ReasonApprovalTerminalState, ReasonApprovalBindingMismatch,
     ReasonPublicationValidationFailed, ReasonPublicationStaleBase, ReasonPublicationNotApproved,
     ReasonPublicationDurabilityRequired, ReasonConfigInvalid, ReasonConfigApplyFailed,
     ReasonSnapshotMalformed, ReasonSnapshotSchemaUnknown, ReasonSnapshotCapabilityMismatch,
     ReasonSnapshotAlgUnknown, ReasonSnapshotKeyUntrusted, ReasonSnapshotHashMismatch,
     ReasonSnapshotSignatureInvalid, ReasonSnapshotTooLarge, ReasonSnapshotRevisionInvalid,
     ReasonSnapshotRevisionRegression, ReasonSnapshotEpochStale, ReasonSnapshotEpochInvalid,
     ReasonSnapshotMinVersionUnmet, ReasonSnapshotMinVersionMalformed,
     ReasonSnapshotValidationFailed, ReasonSnapshotPersistFailed, ReasonSnapshotSignerUnavailable,
     ReasonDistributionWriteAuthority, ReasonAckInvalid, ReasonAckUnauthenticated,
     ReasonRollbackTargetMissing, ReasonRollbackTargetCorrupt, ReasonRollbackDirectiveInvalid,
     ReasonRolloutModeInvalid, ReasonRolloutTransitionInvalid, ReasonRolloutProductionLocked,
     ReasonRolloutQualificationInvalid, ReasonRolloutScopeInvalid, ReasonRolloutScopeStaleBase,
     ReasonRolloutConnectorModeRejected, ReasonRolloutEvidenceInsufficient,
     ReasonRolloutEmergencyActive, ReasonRolloutOutOfScope, ReasonExecutionNotPermitted,
     ReasonConfirmationRequired, ReasonApprovalRequired, ReasonObligationReceiptInvalid,
     ReasonAllowanceConsumed, ReasonAllowanceInvalid, ReasonUpstreamConnectFailed,
     ReasonUpstreamCancelled, ReasonUpstreamRetryDenied, ReasonUpstreamCallFailed,
     ReasonUpstreamDiscoveryFailed]"

definition Classify :: "reason \<Rightarrow> hard_class" where
  "Classify r = (case map_of hardClass r of Some h \<Rightarrow> h | None \<Rightarrow> HardNone)"

definition IsHardFailure :: "reason \<Rightarrow> bool" where
  "IsHardFailure r \<longleftrightarrow> Classify r \<noteq> HardNone"

definition classified :: "reason \<Rightarrow> bool" where
  "classified r \<longleftrightarrow> map_of hardClass r \<noteq> None \<or> r \<in> set explicitlyNotHard"

section \<open>The tables\<close>

lemma tables_sorted: "sort (map fst hardClass @ explicitlyNotHard) = [0..200]"
  by code_simp

lemma tables_cover: "set (map fst hardClass) \<union> set explicitlyNotHard = {0..200}"
  using arg_cong[OF tables_sorted, of set] by simp

lemma tables_disjoint:
  "set (map fst hardClass) \<inter> set explicitlyNotHard = {}" "distinct (map fst hardClass)"
  "distinct explicitlyNotHard"
proof -
  have "distinct (sort (map fst hardClass @ explicitlyNotHard))"
    unfolding tables_sorted by simp
  then have "distinct (map fst hardClass @ explicitlyNotHard)" by (simp only: distinct_sort)
  then show "set (map fst hardClass) \<inter> set explicitlyNotHard = {}" "distinct (map fst hardClass)"
    "distinct explicitlyNotHard" by simp_all
qed

lemma hardClass_no_HardNone: "HardNone \<notin> set (map snd hardClass)"
  by code_simp

lemma IsHardFailure_iff: "IsHardFailure r \<longleftrightarrow> r \<in> set (map fst hardClass)"
proof -
  have "map_of hardClass r \<noteq> Some HardNone"
    using hardClass_no_HardNone by (force dest: map_of_SomeD)
  then show ?thesis
    using map_of_eq_None_iff[of hardClass r]
    by (cases "map_of hardClass r") (auto simp: IsHardFailure_def Classify_def)
qed

lemma classified_iff: "classified r \<longleftrightarrow> 0 \<le> r \<and> r \<le> 200"
  using tables_cover by (auto simp: classified_def map_of_eq_None_iff set_eq_iff)

end
