(* ===== verification/RolloutState.thy ===== *)
theory RolloutState
  imports RolloutScope RolloutHardFail PolicyInput
begin

text \<open>
  The capability-local rollout state (\<open>internal/mcp/rollout/state.go\<close>), the signed
  configuration it installs (\<open>config.go\<close>, \<open>connector.go\<close>) and the evidence
  summary (\<open>evidence.go\<close>). The active bundle is published by one atomic pointer store
  under \<open>swapMu\<close> and the bookkeeping is guarded by \<open>mu\<close>, so every method is one
  step on the state record. The kill generation is a \<open>uint64\<close> and wraps.
\<close>

section \<open>Evidence\<close>

definition ShadowWindowTarget :: int where
  "ShadowWindowTarget = 14 * 24 * 3600 * nanosPerSecond"

definition CanaryWindowTarget :: int where
  "CanaryWindowTarget = 7 * 24 * 3600 * nanosPerSecond"

definition SoakTarget :: int where
  "SoakTarget = 24 * 3600 * nanosPerSecond"

datatype evidence_origin = OriginUnset | OriginProduction | OriginSynthetic | OriginRaw nat

fun EvidenceOrigin_String :: "evidence_origin \<Rightarrow> string" where
  "EvidenceOrigin_String OriginProduction = ''production''"
| "EvidenceOrigin_String OriginSynthetic = ''synthetic''"
| "EvidenceOrigin_String _ = ''unset''"

record evidence_summary =
  ev_Version :: int
  ev_Origin :: evidence_origin
  ev_ShadowStartUnix :: int
  ev_CanaryStartUnix :: int
  ev_SoakStartUnix :: int
  ev_OpenCriticalHighDefects :: int
  ev_RollbackRehearsed :: bool
  ev_FalsePositiveReviews :: int

definition newEvidenceSummary :: evidence_summary where
  "newEvidenceSummary = \<lparr>ev_Version = 1, ev_Origin = OriginProduction, ev_ShadowStartUnix = 0,
     ev_CanaryStartUnix = 0, ev_SoakStartUnix = 0, ev_OpenCriticalHighDefects = 0,
     ev_RollbackRehearsed = False, ev_FalsePositiveReviews = 0\<rparr>"

definition evidence_valid :: "evidence_summary \<Rightarrow> bool" where
  "evidence_valid e \<longleftrightarrow> ev_Version e = 1"

definition BeginWindow :: "mode \<Rightarrow> int \<Rightarrow> evidence_origin \<Rightarrow> evidence_summary \<Rightarrow> evidence_summary" where
  "BeginWindow m nowUnix origin e0 =
     (let e = (if origin \<noteq> OriginUnset then e0\<lparr>ev_Origin := origin\<rparr> else e0);
          e' = (case m of
              ModeShadow \<Rightarrow>
                (if ev_ShadowStartUnix e = 0 then e\<lparr>ev_ShadowStartUnix := nowUnix\<rparr> else e)
                  \<lparr>ev_CanaryStartUnix := 0\<rparr>
            | ModeCanary \<Rightarrow> if ev_CanaryStartUnix e = 0 then e\<lparr>ev_CanaryStartUnix := nowUnix\<rparr> else e
            | ModeProduction \<Rightarrow> if ev_CanaryStartUnix e = 0 then e\<lparr>ev_CanaryStartUnix := nowUnix\<rparr> else e
            | _ \<Rightarrow> e\<lparr>ev_ShadowStartUnix := 0, ev_CanaryStartUnix := 0\<rparr>)
      in e'\<lparr>ev_SoakStartUnix := nowUnix\<rparr>)"

definition unix_time :: "int \<Rightarrow> gotime" where
  "unix_time s = (s + unixToInternal) * nanosPerSecond"

definition elapsed :: "int \<Rightarrow> gotime \<Rightarrow> int" where
  "elapsed startUnix now =
     (if startUnix = 0 then 0
      else let d = Time_Sub now (unix_time startUnix) in if d < 0 then 0 else d)"

definition ShadowElapsed :: "evidence_summary \<Rightarrow> gotime \<Rightarrow> int" where
  "ShadowElapsed e now = elapsed (ev_ShadowStartUnix e) now"

definition CanaryElapsed :: "evidence_summary \<Rightarrow> gotime \<Rightarrow> int" where
  "CanaryElapsed e now = elapsed (ev_CanaryStartUnix e) now"

definition SoakElapsed :: "evidence_summary \<Rightarrow> gotime \<Rightarrow> int" where
  "SoakElapsed e now = elapsed (ev_SoakStartUnix e) now"

definition PromotionEvidenceMet :: "evidence_summary \<Rightarrow> mode \<Rightarrow> mode \<Rightarrow> gotime \<Rightarrow> bool \<times> string" where
  "PromotionEvidenceMet e source target now =
     (if ev_OpenCriticalHighDefects e > 0 then (False, ''open critical/high defects'')
      else if SoakElapsed e now < SoakTarget then (False, ''soak window not met'')
      else if source = ModeShadow \<and> target = ModeCanary then
        (if ShadowElapsed e now < ShadowWindowTarget then (False, ''shadow window not met'')
         else if \<not> ev_RollbackRehearsed e then (False, ''rollback not rehearsed'')
         else (True, []))
      else if source = ModeCanary \<and> target = ModeProduction then
        (if CanaryElapsed e now < CanaryWindowTarget then (False, ''canary window not met'')
         else (True, []))
      else (True, []))"

definition AddFalsePositiveReview :: "rollout_limits \<Rightarrow> evidence_summary \<Rightarrow> evidence_summary" where
  "AddFalsePositiveReview lim e =
     (if ev_FalsePositiveReviews e < rlm_MaxReviewEntries lim
      then e\<lparr>ev_FalsePositiveReviews := ev_FalsePositiveReviews e + 1\<rparr> else e)"

section \<open>Signed configuration\<close>

definition ValidateConnectorMode :: "string \<Rightarrow> go_error option" where
  "ValidateConnectorMode m =
     (if m = [] \<or> m = ''local-client'' then None
      else Some (New ReasonRolloutConnectorModeRejected ''rollout.connector''
        ''only local-client is supported in V1''))"

definition NormalizeConnectorMode :: "string \<Rightarrow> string" where
  "NormalizeConnectorMode m = (if m = [] then ''local-client'' else m)"

record signed_config =
  cf_SelectorSchema :: int
  cf_Capability :: rollout_capability
  cf_Mode :: mode
  cf_Scope :: scope_spec
  cf_ScopeRevision :: nat
  cf_ShadowScope :: scope_spec
  cf_ShadowScopeRevision :: nat
  cf_ConnectorMode :: string

definition hasShadowScope :: "signed_config \<Rightarrow> bool" where
  "hasShadowScope c =
     (let s = cf_ShadowScope c in
      length (sp_Tenants s) + length (sp_Servers s) + length (sp_ToolFingerprints s)
        + length (sp_Tools s) + length (sp_Principals s) + length (sp_Agents s)
        + length (sp_Clients s) + length (sp_Groups s) + length (sp_Environments s) > 0
      \<or> sp_Percent s > 0)"

definition CompileScope :: "signed_config \<Rightarrow> rollout_limits \<Rightarrow> scope res" where
  "CompileScope c lim = Scope_Compile (cf_Scope c) (cf_ScopeRevision c) lim"

definition CompileShadowScope :: "signed_config \<Rightarrow> rollout_limits \<Rightarrow> scope res" where
  "CompileShadowScope c lim =
     (if \<not> hasShadowScope c then Inr (EmptyScope (cf_Capability c))
      else Scope_Compile (cf_ShadowScope c) (cf_ShadowScopeRevision c) lim)"

definition configErr :: "reason \<Rightarrow> string \<Rightarrow> go_error" where
  "configErr r detail = New r ''rollout.config'' detail"

definition err_of :: "'a res \<Rightarrow> go_error option" where
  "err_of r = (case r of Inl e \<Rightarrow> Some e | Inr _ \<Rightarrow> None)"

definition SignedConfig_Validate :: "signed_config \<Rightarrow> rollout_capability \<Rightarrow> rollout_limits \<Rightarrow> go_error option" where
  "SignedConfig_Validate c capb lim =
     (if \<not> SupportsSelectorSchema (cf_SelectorSchema c) then
        Some (configErr ReasonRolloutScopeInvalid ''unsupported selector schema (fail closed)'')
      else if cf_Capability c \<noteq> capb then
        Some (configErr ReasonSnapshotCapabilityMismatch ''config capability mismatch'')
      else if \<not> Mode_Valid (cf_Mode c) then Some (configErr ReasonRolloutModeInvalid ''invalid mode'')
      else if sp_Capability (cf_Scope c) \<noteq> capb then
        Some (configErr ReasonSnapshotCapabilityMismatch ''scope capability mismatch'')
      else first_err [
        if capb = CapabilityGateway then ValidateConnectorMode (cf_ConnectorMode c)
        else err_if (cf_ConnectorMode c \<noteq> [])
          (configErr ReasonRolloutConnectorModeRejected ''management has no connector mode''),
        err_of (CompileScope c lim),
        if hasShadowScope c then
          (if sp_Capability (cf_ShadowScope c) \<noteq> capb then
             Some (configErr ReasonSnapshotCapabilityMismatch ''shadow scope capability mismatch'')
           else err_of (CompileShadowScope c lim))
        else None,
        if cf_Mode c = ModeShadow \<or> cf_Mode c = ModeCanary \<or> cf_Mode c = ModeProduction then
          err_if (\<not> (case CompileScope c lim of Inr sc \<Rightarrow> Enumerable sc | Inl _ \<Rightarrow> Enumerable zero_scope))
            (configErr ReasonRolloutScopeInvalid
              ''shadow/canary/production requires an enumerable scope (no empty or percentage-only scope)'')
        else None])"

definition Config_ScopeHash :: "signed_config \<Rightarrow> rollout_limits \<Rightarrow> string" where
  "Config_ScopeHash c lim = (case CompileScope c lim of Inl _ \<Rightarrow> [] | Inr sc \<Rightarrow> so_hash sc)"

definition DisabledConfig :: "rollout_capability \<Rightarrow> signed_config" where
  "DisabledConfig capb = \<lparr>cf_SelectorSchema = 1, cf_Capability = capb, cf_Mode = ModeDisabled,
     cf_Scope = empty_spec capb, cf_ScopeRevision = 0, cf_ShadowScope = empty_spec CapabilityUnknown,
     cf_ShadowScopeRevision = 0,
     cf_ConnectorMode = (if capb = CapabilityGateway then ''local-client'' else [])\<rparr>"

section \<open>State\<close>

record active_state =
  as_config :: signed_config
  as_mode :: mode
  as_scope :: scope
  as_shadowScope :: scope
  as_hasShadow :: bool
  as_killed :: bool
  as_killGen :: "64 word"

record transition_record =
  tr_From :: mode
  tr_To :: mode
  tr_Kind :: transition_kind
  tr_ScopeHash :: string
  tr_Actor :: string
  tr_AtUnixNano :: int
  tr_Emergency :: bool
  tr_Note :: string

record rollback_state =
  rb_LastTargetHash :: string
  rb_LastCommandID :: string
  rb_AtUnixNano :: int

record rstate =
  ro_capability :: rollout_capability
  ro_lim :: rollout_limits
  ro_cur :: active_state
  ro_desired :: mode
  ro_history :: "transition_record list"
  ro_rollback :: rollback_state
  ro_evidence :: evidence_summary

definition zero_rollback :: rollback_state where
  "zero_rollback = \<lparr>rb_LastTargetHash = [], rb_LastCommandID = [], rb_AtUnixNano = 0\<rparr>"

definition NewState :: "rollout_capability \<Rightarrow> rollout_limits \<Rightarrow> rstate" where
  "NewState capb lim = \<lparr>ro_capability = capb, ro_lim = lim,
     ro_cur = \<lparr>as_config = DisabledConfig capb, as_mode = ModeDisabled, as_scope = EmptyScope capb,
       as_shadowScope = EmptyScope capb, as_hasShadow = False, as_killed = False, as_killGen = 0\<rparr>,
     ro_desired = ModeDisabled, ro_history = [], ro_rollback = zero_rollback,
     ro_evidence = newEvidenceSummary\<rparr>"

definition CurrentMode :: "rstate \<Rightarrow> mode" where "CurrentMode s = as_mode (ro_cur s)"
definition CurrentConfig :: "rstate \<Rightarrow> signed_config" where "CurrentConfig s = as_config (ro_cur s)"
definition Killed :: "rstate \<Rightarrow> bool" where "Killed s = as_killed (ro_cur s)"
definition KillGeneration :: "rstate \<Rightarrow> 64 word" where "KillGeneration s = as_killGen (ro_cur s)"
definition ScopeHash :: "rstate \<Rightarrow> string" where "ScopeHash s = so_hash (as_scope (ro_cur s))"

definition InScope :: "rstate \<Rightarrow> subject \<Rightarrow> bool" where
  "InScope s subj = Contains (as_scope (ro_cur s)) subj"

definition ShadowInScope :: "rstate \<Rightarrow> subject \<Rightarrow> bool" where
  "ShadowInScope s subj \<longleftrightarrow> as_hasShadow (ro_cur s) \<and> Contains (as_shadowScope (ro_cur s)) subj"

definition ResolveFor :: "rstate \<Rightarrow> subject \<Rightarrow> action_kind \<Rightarrow> bool \<Rightarrow> reason \<Rightarrow> bool \<Rightarrow> resolution" where
  "ResolveFor s subj act hardFailure hardReason obligationsSatisfied =
     (let a = ro_cur s;
          r = Resolve \<lparr>ri_Mode = as_mode a, ri_InScope = Contains (as_scope a) subj,
            ri_ShadowEnabled = as_hasShadow a,
            ri_ShadowInScope = (as_hasShadow a \<and> Contains (as_shadowScope a) subj),
            ri_Action = act, ri_HardFailure = hardFailure, ri_HardReason = hardReason,
            ri_ObligationsSatisfied = obligationsSatisfied\<rparr>
      in r\<lparr>re_ScopeHash := so_hash (as_scope a)\<rparr>)"

definition appendHistory :: "transition_record \<Rightarrow> rstate \<Rightarrow> rstate" where
  "appendHistory r s =
     (let h = ro_history s @ [r]; maxHist = rlm_MaxHistory (ro_lim s) in
      s\<lparr>ro_history := if int (length h) > maxHist then drop (nat (int (length h) - maxHist)) h else h\<rparr>)"

definition SetConfig :: "signed_config \<Rightarrow> string \<Rightarrow> int \<Rightarrow> rstate \<Rightarrow> go_error option \<times> rstate" where
  "SetConfig cfg actor at s =
     (case SignedConfig_Validate cfg (ro_capability s) (ro_lim s) of
        Some err \<Rightarrow> (Some err, s)
      | None \<Rightarrow> (case CompileScope cfg (ro_lim s) of
          Inl err \<Rightarrow> (Some err, s)
        | Inr scp \<Rightarrow> (case CompileShadowScope cfg (ro_lim s) of
            Inl err \<Rightarrow> (Some err, s)
          | Inr shadow \<Rightarrow>
              let prev = ro_cur s;
                  s1 = s\<lparr>ro_cur := \<lparr>as_config = cfg, as_mode = cf_Mode cfg, as_scope = scp,
                    as_shadowScope = shadow, as_hasShadow = hasShadowScope cfg,
                    as_killed = as_killed prev, as_killGen = as_killGen prev\<rparr>\<rparr>
              in if as_mode prev \<noteq> cf_Mode cfg then
                   (None, appendHistory \<lparr>tr_From = as_mode prev, tr_To = cf_Mode cfg,
                      tr_Kind = (if Rank (cf_Mode cfg) > Rank (as_mode prev)
                                 then TransitionPromotion else TransitionDemotion),
                      tr_ScopeHash = so_hash scp, tr_Actor = Sanitize actor 128,
                      tr_AtUnixNano = at, tr_Emergency = False, tr_Note = []\<rparr> s1)
                 else (None, s1))))"

definition EngageKillSwitch :: "string \<Rightarrow> int \<Rightarrow> rstate \<Rightarrow> rstate" where
  "EngageKillSwitch actor at s =
     (let prev = ro_cur s in
      if as_killed prev then s
      else appendHistory \<lparr>tr_From = as_mode prev, tr_To = as_mode prev, tr_Kind = TransitionDemotion,
             tr_ScopeHash = so_hash (as_scope prev), tr_Actor = Sanitize actor 128,
             tr_AtUnixNano = at, tr_Emergency = True, tr_Note = ''kill-switch engaged''\<rparr>
           (s\<lparr>ro_cur := prev\<lparr>as_killed := True, as_killGen := as_killGen prev + 1\<rparr>\<rparr>))"

definition ClearKillSwitch :: "rstate \<Rightarrow> rstate" where
  "ClearKillSwitch s =
     (if \<not> as_killed (ro_cur s) then s else s\<lparr>ro_cur := (ro_cur s)\<lparr>as_killed := False\<rparr>\<rparr>)"

definition RecordRollback :: "string \<Rightarrow> string \<Rightarrow> int \<Rightarrow> rstate \<Rightarrow> rstate" where
  "RecordRollback targetHash commandID at s = s\<lparr>ro_rollback :=
     \<lparr>rb_LastTargetHash = targetHash, rb_LastCommandID = commandID, rb_AtUnixNano = at\<rparr>\<rparr>"

definition SetDesired :: "mode \<Rightarrow> rstate \<Rightarrow> rstate" where
  "SetDesired m s = s\<lparr>ro_desired := m\<rparr>"

definition UpdateEvidence :: "(evidence_summary \<Rightarrow> evidence_summary) \<Rightarrow> rstate \<Rightarrow> rstate" where
  "UpdateEvidence fn s = s\<lparr>ro_evidence := fn (ro_evidence s)\<rparr>"

section \<open>Persistence\<close>

record state_persist =
  pe_Version :: int
  pe_Capability :: rollout_capability
  pe_Config :: signed_config
  pe_Killed :: bool
  pe_Desired :: mode
  pe_History :: "transition_record list"
  pe_Rollback :: rollback_state
  pe_Evidence :: evidence_summary

definition ToPersist :: "rstate \<Rightarrow> state_persist" where
  "ToPersist s = \<lparr>pe_Version = 1, pe_Capability = ro_capability s, pe_Config = as_config (ro_cur s),
     pe_Killed = as_killed (ro_cur s), pe_Desired = ro_desired s, pe_History = ro_history s,
     pe_Rollback = ro_rollback s, pe_Evidence = ro_evidence s\<rparr>"

definition LoadPersist :: "state_persist \<Rightarrow> rstate \<Rightarrow> go_error option \<times> rstate" where
  "LoadPersist p s =
     (if pe_Version p \<noteq> 1 then
        (Some (New ReasonRolloutModeInvalid ''rollout.state'' ''unknown persisted-state version''), s)
      else if pe_Capability p \<noteq> ro_capability s then
        (Some (New ReasonSnapshotCapabilityMismatch ''rollout.state'' ''persisted capability mismatch''), s)
      else
        let cfg0 = (if SignedConfig_Validate (pe_Config p) (ro_capability s) (ro_lim s) \<noteq> None
                    then DisabledConfig (ro_capability s) else pe_Config p);
            (cfg, scp) = (case CompileScope cfg0 (ro_lim s) of
                Inl _ \<Rightarrow> (DisabledConfig (ro_capability s), EmptyScope (ro_capability s))
              | Inr sc \<Rightarrow> (cfg0, sc));
            shadow = (case CompileShadowScope cfg (ro_lim s) of Inl _ \<Rightarrow> zero_scope | Inr sc \<Rightarrow> sc)
        in (None, s\<lparr>ro_cur := \<lparr>as_config = cfg, as_mode = cf_Mode cfg, as_scope = scp,
                      as_shadowScope = shadow, as_hasShadow = hasShadowScope cfg,
                      as_killed = pe_Killed p, as_killGen = 0\<rparr>,
                    ro_desired := pe_Desired p, ro_history := pe_History p,
                    ro_rollback := pe_Rollback p,
                    ro_evidence := if evidence_valid (pe_Evidence p) then pe_Evidence p
                                   else ro_evidence s\<rparr>))"

section \<open>The invariant of the state\<close>

text \<open>
  Limits are opaque in the source: besides the zero value, whose \<open>Valid\<close> is false, the only
  ones are those \<open>NewLimits\<close> returns.
\<close>

definition limits_ok :: "rollout_limits \<Rightarrow> bool" where
  "limits_ok lim \<longleftrightarrow> (\<exists>c. Rollout_NewLimits c = Inr lim)"

lemma fill_pos: "snd (fill v dflt) \<Longrightarrow> 0 < dflt \<Longrightarrow> 0 < fst (fill v dflt)"
  by (simp add: fill_def split: if_splits)

lemma limits_okD:
  assumes "limits_ok lim"
  shows "rlm_valid lim" "0 < rlm_MaxSelectors lim" "0 < rlm_MaxSelectorValues lim"
    "0 < rlm_MaxExclusions lim" "0 < rlm_MaxValueBytes lim" "0 < rlm_MaxHistory lim"
    "0 < rlm_MaxReviewEntries lim"
  using assms
  by (clarsimp simp: limits_ok_def Rollout_NewLimits_def Let_def fill_pos split: if_split_asm)+

lemma limits_ok_default: "limits_ok Rollout_DefaultLimits"
  unfolding limits_ok_def
  by (rule exI[of _ zero_rollout_limits])
    (simp add: Rollout_DefaultLimits_def Rollout_NewLimits_def zero_rollout_limits_def fill_def)

lemma empty_spec_compiles:
  assumes "limits_ok lim" and "RolloutCapability_Valid c"
  shows "\<exists>sc. Scope_Compile (empty_spec c) rv lim = Inr sc"
  using limits_okD[OF assms(1)] assms(2)
  by (simp add: Scope_Compile_def mkSet_def mkToolSet_def compileToolsAndBounds_def compileOps_def
      validatePercent_def empty_spec_def Let_def)

lemma Scope_Compile_lim_irrelevant:
  "Scope_Compile spec rv lim = Inr a \<Longrightarrow> Scope_Compile spec rv lim' = Inr b \<Longrightarrow> a = b"
  using Scope_Compile_Inr by metis

lemma EmptyScope_compiled:
  assumes "limits_ok lim" and "RolloutCapability_Valid c"
  shows "Scope_Compile (empty_spec c) 0 lim = Inr (EmptyScope c)"
proof -
  obtain a where a: "Scope_Compile (empty_spec c) 0 lim = Inr a" using empty_spec_compiles[OF assms] by blast
  obtain b where b: "Scope_Compile (empty_spec c) 0 Rollout_DefaultLimits = Inr b"
    using empty_spec_compiles[OF limits_ok_default assms(2)] by blast
  with Scope_Compile_lim_irrelevant[OF a b] a show ?thesis by (simp add: EmptyScope_def)
qed

definition bundle_wf :: "rollout_capability \<Rightarrow> rollout_limits \<Rightarrow> active_state \<Rightarrow> bool" where
  "bundle_wf capb lim a \<longleftrightarrow>
     SignedConfig_Validate (as_config a) capb lim = None \<and> as_mode a = cf_Mode (as_config a) \<and>
     CompileScope (as_config a) lim = Inr (as_scope a) \<and>
     CompileShadowScope (as_config a) lim = Inr (as_shadowScope a) \<and>
     as_hasShadow a = hasShadowScope (as_config a)"

definition rstate_wf :: "rstate \<Rightarrow> bool" where
  "rstate_wf s \<longleftrightarrow> RolloutCapability_Valid (ro_capability s) \<and> limits_ok (ro_lim s) \<and>
     bundle_wf (ro_capability s) (ro_lim s) (ro_cur s) \<and>
     int (length (ro_history s)) \<le> rlm_MaxHistory (ro_lim s)"

lemma disabled_no_shadow [simp]: "\<not> hasShadowScope (DisabledConfig capb)"
  by (simp add: hasShadowScope_def DisabledConfig_def empty_spec_def)

lemma DisabledConfig_fields [simp]:
  "cf_Mode (DisabledConfig capb) = ModeDisabled" "cf_Capability (DisabledConfig capb) = capb"
  by (simp_all add: DisabledConfig_def)

lemma CompileScope_disabled:
  assumes "limits_ok lim" and "RolloutCapability_Valid capb"
  shows "CompileScope (DisabledConfig capb) lim = Inr (EmptyScope capb)"
  using EmptyScope_compiled[OF assms] by (simp add: CompileScope_def DisabledConfig_def)

lemma CompileShadow_disabled [simp]:
  "CompileShadowScope (DisabledConfig capb) lim = Inr (EmptyScope capb)"
  by (simp add: CompileShadowScope_def)

lemma DisabledConfig_valid:
  assumes "limits_ok lim" and "RolloutCapability_Valid capb"
  shows "SignedConfig_Validate (DisabledConfig capb) capb lim = None"
  using CompileScope_disabled[OF assms]
  by (simp add: SignedConfig_Validate_def err_of_def SupportsSelectorSchema_def Mode_Valid_iff)
    (simp add: DisabledConfig_def empty_spec_def ValidateConnectorMode_def)

lemma NewState_wf:
  assumes "limits_ok lim" and "RolloutCapability_Valid capb"
  shows "rstate_wf (NewState capb lim)"
  using assms DisabledConfig_valid[OF assms] CompileScope_disabled[OF assms] limits_okD(6)[OF assms(1)]
  by (simp add: rstate_wf_def NewState_def bundle_wf_def)

section \<open>Effects of the operations\<close>

lemma appendHistory_sel [simp]:
  "ro_capability (appendHistory r s) = ro_capability s" "ro_lim (appendHistory r s) = ro_lim s"
  "ro_cur (appendHistory r s) = ro_cur s" "ro_desired (appendHistory r s) = ro_desired s"
  "ro_rollback (appendHistory r s) = ro_rollback s" "ro_evidence (appendHistory r s) = ro_evidence s"
  by (simp_all add: appendHistory_def Let_def)

lemma appendHistory_cur [simp]:
  "ro_history (appendHistory r (s\<lparr>ro_cur := a\<rparr>)) = ro_history (appendHistory r s)"
  by (simp add: appendHistory_def Let_def)

lemma length_drop_excess: "0 \<le> m \<Longrightarrow> int (length (drop (nat (int (length h) - m)) h)) \<le> m"
  by simp

lemma appendHistory_bounded:
  assumes "limits_ok (ro_lim s)"
  shows "int (length (ro_history (appendHistory r s))) \<le> rlm_MaxHistory (ro_lim s)"
  using limits_okD(6)[OF assms]
  by (auto simp: appendHistory_def Let_def not_less length_drop_excess simp del: length_drop drop_append length_append)

lemma SetConfig_cases:
  obtains (rejected) err where "SetConfig cfg actor at s = (Some err, s)"
      "SignedConfig_Validate cfg (ro_capability s) (ro_lim s) = Some err"
  | (installed) s' where "SetConfig cfg actor at s = (None, s')"
      "SignedConfig_Validate cfg (ro_capability s) (ro_lim s) = None"
      "as_config (ro_cur s') = cfg" "as_mode (ro_cur s') = cf_Mode cfg"
      "as_hasShadow (ro_cur s') = hasShadowScope cfg"
      "as_killed (ro_cur s') = as_killed (ro_cur s)" "as_killGen (ro_cur s') = as_killGen (ro_cur s)"
      "CompileScope cfg (ro_lim s) = Inr (as_scope (ro_cur s'))"
      "CompileShadowScope cfg (ro_lim s) = Inr (as_shadowScope (ro_cur s'))"
      "ro_capability s' = ro_capability s" "ro_lim s' = ro_lim s" "ro_desired s' = ro_desired s"
      "ro_rollback s' = ro_rollback s" "ro_evidence s' = ro_evidence s"
      "as_mode (ro_cur s) = cf_Mode cfg \<and> ro_history s' = ro_history s \<or>
       as_mode (ro_cur s) \<noteq> cf_Mode cfg \<and> (\<exists>r. ro_history s' = ro_history (appendHistory r s))"
proof (cases "SignedConfig_Validate cfg (ro_capability s) (ro_lim s)")
  case (Some err)
  then show ?thesis using rejected by (simp add: SetConfig_def)
next
  case None
  then have "err_of (CompileScope cfg (ro_lim s)) = None"
    "hasShadowScope cfg \<Longrightarrow> err_of (CompileShadowScope cfg (ro_lim s)) = None"
    by (auto simp: SignedConfig_Validate_def split: if_split_asm)
  then obtain sc sh where c: "CompileScope cfg (ro_lim s) = Inr sc"
    "CompileShadowScope cfg (ro_lim s) = Inr sh"
    by (cases "hasShadowScope cfg") (auto simp: err_of_def CompileShadowScope_def split: sum.splits)
  show ?thesis
  proof (cases "as_mode (ro_cur s) = cf_Mode cfg")
    case True
    with None c show ?thesis
      by (intro installed[of "snd (SetConfig cfg actor at s)"]) (auto simp: SetConfig_def Let_def)
  next
    case False
    with None c show ?thesis
      by (intro installed[of "snd (SetConfig cfg actor at s)"]) (auto simp: SetConfig_def Let_def)
  qed
qed

lemma SetConfig_wf:
  assumes "rstate_wf s"
  shows "rstate_wf (snd (SetConfig cfg actor at s))"
proof (cases rule: SetConfig_cases[of cfg actor at s])
  case (rejected err)
  with assms show ?thesis by simp
next
  case (installed s')
  have lim: "limits_ok (ro_lim s)" using assms by (simp add: rstate_wf_def)
  have "int (length (ro_history s')) \<le> rlm_MaxHistory (ro_lim s)"
    using installed(15)
    using assms appendHistory_bounded[OF lim] by (auto simp: rstate_wf_def)
  with installed assms show ?thesis by (simp add: rstate_wf_def bundle_wf_def)
qed

lemma Engage_wf: "rstate_wf s \<Longrightarrow> rstate_wf (EngageKillSwitch actor at s)"
  by (simp add: rstate_wf_def EngageKillSwitch_def Let_def bundle_wf_def)
    (rule impI, rule order_trans[OF appendHistory_bounded], simp_all)

lemma Clear_wf: "rstate_wf s \<Longrightarrow> rstate_wf (ClearKillSwitch s)"
  by (simp add: rstate_wf_def ClearKillSwitch_def bundle_wf_def)

lemma LoadPersist_bundle_wf:
  assumes "RolloutCapability_Valid (ro_capability s)" and "limits_ok (ro_lim s)"
    and "LoadPersist p s = (None, s')"
  shows "bundle_wf (ro_capability s) (ro_lim s) (ro_cur s')"
proof (cases "SignedConfig_Validate (pe_Config p) (ro_capability s) (ro_lim s)")
  case None
  then have "err_of (CompileScope (pe_Config p) (ro_lim s)) = None"
    "hasShadowScope (pe_Config p) \<Longrightarrow> err_of (CompileShadowScope (pe_Config p) (ro_lim s)) = None"
    by (auto simp: SignedConfig_Validate_def split: if_split_asm)
  then obtain sc sh where "CompileScope (pe_Config p) (ro_lim s) = Inr sc"
    "CompileShadowScope (pe_Config p) (ro_lim s) = Inr sh"
    by (cases "hasShadowScope (pe_Config p)") (auto simp: err_of_def CompileShadowScope_def split: sum.splits)
  with None assms(3) show ?thesis
    by (auto simp: LoadPersist_def Let_def bundle_wf_def split: if_split_asm)
next
  case (Some e)
  with assms(3) CompileScope_disabled[OF assms(2,1)] DisabledConfig_valid[OF assms(2,1)] show ?thesis
    by (auto simp: LoadPersist_def Let_def bundle_wf_def split: if_split_asm)
qed

lemma persist_round_trip:
  assumes "rstate_wf s" and "evidence_valid (ro_evidence s)"
    and "ro_capability t = ro_capability s" and "ro_lim t = ro_lim s"
  shows "LoadPersist (ToPersist s) t = (None, s\<lparr>ro_cur := (ro_cur s)\<lparr>as_killGen := 0\<rparr>\<rparr>)"
proof -
  have "SignedConfig_Validate (as_config (ro_cur s)) (ro_capability s) (ro_lim s) = None"
    "CompileScope (as_config (ro_cur s)) (ro_lim s) = Inr (as_scope (ro_cur s))"
    "CompileShadowScope (as_config (ro_cur s)) (ro_lim s) = Inr (as_shadowScope (ro_cur s))"
    "as_mode (ro_cur s) = cf_Mode (as_config (ro_cur s))"
    "as_hasShadow (ro_cur s) = hasShadowScope (as_config (ro_cur s))"
    using assms(1) by (simp_all add: rstate_wf_def bundle_wf_def)
  then show ?thesis
    using assms(2-4) by (cases s; cases t; cases "ro_cur s") (simp add: LoadPersist_def ToPersist_def Let_def)
qed

section \<open>The kill fence\<close>

text \<open>How many operations of a sequence turn the kill flag on.\<close>

fun engagements :: "('s \<Rightarrow> bool) \<Rightarrow> ('op \<Rightarrow> 's \<Rightarrow> 's) \<Rightarrow> 'op list \<Rightarrow> 's \<Rightarrow> nat" where
  "engagements killed step [] s = 0"
| "engagements killed step (oper # ops) s =
     (if \<not> killed s \<and> killed (step oper s) then 1 else 0) + engagements killed step ops (step oper s)"

text \<open>
  What the execution boundary relies on: a kill flag and a generation such that every step that
  turns the flag on adds one to the generation and no other step changes it. The generation is a
  64-bit counter.
\<close>

locale kill_fence =
  fixes killed :: "'s \<Rightarrow> bool"
    and gen :: "'s \<Rightarrow> 64 word"
    and step :: "'op \<Rightarrow> 's \<Rightarrow> 's"
  assumes step_gen: "gen (step oper s) = gen s + (if \<not> killed s \<and> killed (step oper s) then 1 else 0)"
begin

lemma gen_run: "gen (run_ops step ops s) = gen s + of_nat (engagements killed step ops s)"
  by (induction ops arbitrary: s) (simp_all add: step_gen)

lemma engagements_append: "engagements killed step (ops @ ops') s = engagements killed step ops s + engagements killed step ops' (run_ops step ops s)"
  by (induction ops arbitrary: s) simp_all

lemma engagements_le: "engagements killed step ops s \<le> length ops"
  by (induction ops arbitrary: s) (auto intro: le_SucI)

lemma killed_imp_engaged: "\<not> killed s \<Longrightarrow> killed (run_ops step ops s) \<Longrightarrow> 0 < engagements killed step ops s"
  by (induction ops arbitrary: s) auto

lemma same_generation_iff:
  assumes "length ops < 2 ^ 64"
  shows "gen (run_ops step ops s) = gen s \<longleftrightarrow> engagements killed step ops s = 0"
proof -
  have "engagements killed step ops s < 2 ^ 64" using assms engagements_le order.strict_trans1 by blast
  then have "(word_of_nat (engagements killed step ops s) :: 64 word) = 0 \<longleftrightarrow> engagements killed step ops s = 0"
    by (auto simp: word_of_nat_eq_0_iff dest: nat_dvd_not_less)
  then show ?thesis by (simp add: gen_run)
qed

text \<open>
  A request admitted while the flag was off that reads an unchanged generation at the boundary saw
  no kill at any moment in between.
\<close>

lemma fence_sound:
  assumes "length ops < 2 ^ 64" and "\<not> killed s" and "gen (run_ops step ops s) = gen s"
    and "ops = before @ after"
  shows "\<not> killed (run_ops step before s)"
proof
  assume "killed (run_ops step before s)"
  then have "0 < engagements killed step before s" by (rule killed_imp_engaged[OF assms(2)])
  then have "0 < engagements killed step ops s" by (simp add: assms(4) engagements_append)
  with same_generation_iff[OF assms(1)] assms(3) show False by simp
qed

end

text \<open>The runtime mutations of a rollout state, and the fence they form.\<close>

datatype rollout_op =
    OpSetConfig signed_config string int
  | OpEngage string int
  | OpClear
  | OpRecordRollback string string int
  | OpSetDesired mode
  | OpUpdateEvidence "evidence_summary \<Rightarrow> evidence_summary"

fun rollout_step :: "rollout_op \<Rightarrow> rstate \<Rightarrow> rstate" where
  "rollout_step (OpSetConfig cfg actor at) s = snd (SetConfig cfg actor at s)"
| "rollout_step (OpEngage actor at) s = EngageKillSwitch actor at s"
| "rollout_step OpClear s = ClearKillSwitch s"
| "rollout_step (OpRecordRollback h c at) s = RecordRollback h c at s"
| "rollout_step (OpSetDesired m) s = SetDesired m s"
| "rollout_step (OpUpdateEvidence fn) s = UpdateEvidence fn s"

lemma SetConfig_kill [simp]:
  "Killed (snd (SetConfig cfg actor at s)) = Killed s"
  "KillGeneration (snd (SetConfig cfg actor at s)) = KillGeneration s"
  by (cases rule: SetConfig_cases[of cfg actor at s]; simp add: Killed_def KillGeneration_def)+

lemma Engage_kill [simp]:
  "Killed (EngageKillSwitch actor at s)"
  "KillGeneration (EngageKillSwitch actor at s) = KillGeneration s + (if Killed s then 0 else 1)"
  by (simp_all add: EngageKillSwitch_def Let_def Killed_def KillGeneration_def)

lemma Clear_kill [simp]:
  "\<not> Killed (ClearKillSwitch s)" "KillGeneration (ClearKillSwitch s) = KillGeneration s"
  by (simp_all add: ClearKillSwitch_def Killed_def KillGeneration_def)

lemma bookkeeping_kill [simp]:
  "Killed (RecordRollback h c at s) = Killed s" "KillGeneration (RecordRollback h c at s) = KillGeneration s"
  "Killed (SetDesired m s) = Killed s" "KillGeneration (SetDesired m s) = KillGeneration s"
  "Killed (UpdateEvidence fn s) = Killed s" "KillGeneration (UpdateEvidence fn s) = KillGeneration s"
  by (simp_all add: RecordRollback_def SetDesired_def UpdateEvidence_def Killed_def KillGeneration_def)

interpretation fence: kill_fence Killed KillGeneration rollout_step
proof unfold_locales
  show "KillGeneration (rollout_step oper s) =
      KillGeneration s + (if \<not> Killed s \<and> Killed (rollout_step oper s) then 1 else 0)" for oper s
    by (cases oper) simp_all
qed

section \<open>Runs keep the invariant\<close>

lemma rollout_step_wf: "rstate_wf s \<Longrightarrow> rstate_wf (rollout_step oper s)"
  by (cases oper)
    (simp_all add: SetConfig_wf Engage_wf Clear_wf, simp_all add: rstate_wf_def RecordRollback_def
      SetDesired_def UpdateEvidence_def)

lemma rollout_step_capability [simp]: "ro_capability (rollout_step oper s) = ro_capability s"
proof (cases oper)
  case (OpSetConfig cfg actor at)
  then show ?thesis by (cases rule: SetConfig_cases[of cfg actor at s]) simp_all
qed (simp_all add: EngageKillSwitch_def ClearKillSwitch_def RecordRollback_def SetDesired_def
    UpdateEvidence_def Let_def)

lemma rollout_step_lim [simp]: "ro_lim (rollout_step oper s) = ro_lim s"
proof (cases oper)
  case (OpSetConfig cfg actor at)
  then show ?thesis by (cases rule: SetConfig_cases[of cfg actor at s]) simp_all
qed (simp_all add: EngageKillSwitch_def ClearKillSwitch_def RecordRollback_def SetDesired_def
    UpdateEvidence_def appendHistory_def Let_def)

lemma run_wf: "rstate_wf s \<Longrightarrow> rstate_wf (run_ops rollout_step ops s)"
  by (induction ops arbitrary: s) (simp_all add: rollout_step_wf)

lemma run_capability [simp]: "ro_capability (run_ops rollout_step ops s) = ro_capability s"
  by (induction ops arbitrary: s) simp_all

lemma run_lim [simp]: "ro_lim (run_ops rollout_step ops s) = ro_lim s"
  by (induction ops arbitrary: s) simp_all

lemma wf_enforcing_scope:
  assumes "rstate_wf s"
  shows "so_capability (as_scope (ro_cur s)) = ro_capability s" "so_built (as_scope (ro_cur s))"
    "RequiresExecutionPlane (CurrentMode s) \<Longrightarrow> Enumerable (as_scope (ro_cur s))"
    "Mode_Valid (CurrentMode s)"
proof -
  let ?a = "ro_cur s" and ?c = "as_config (ro_cur s)"
  have v: "SignedConfig_Validate ?c (ro_capability s) (ro_lim s) = None"
    and sc: "CompileScope ?c (ro_lim s) = Inr (as_scope ?a)" and m: "as_mode ?a = cf_Mode ?c"
    using assms by (simp_all add: rstate_wf_def bundle_wf_def)
  from v have "sp_Capability (cf_Scope ?c) = ro_capability s" "Mode_Valid (cf_Mode ?c)"
    by (auto simp: SignedConfig_Validate_def split: if_split_asm)
  with compiled_sel(1,2)[OF sc[unfolded CompileScope_def]] m
  show "so_capability (as_scope ?a) = ro_capability s" "so_built (as_scope ?a)" "Mode_Valid (CurrentMode s)"
    by (simp_all add: CurrentMode_def)
  show "Enumerable (as_scope ?a)" if "RequiresExecutionPlane (CurrentMode s)"
    using v sc m that
    by (auto simp: SignedConfig_Validate_def RequiresExecutionPlane_def CurrentMode_def split: if_split_asm)
qed

end
