(* ===== verification/RolloutExample.thy ===== *)
theory RolloutExample
  imports RolloutState
begin

text \<open>
  A Gateway scope of one tenant, server and tool and a configuration that uses it: the concrete
  values at which properties of scopes are instantiated. The hash of a compiled scope stays symbolic.
\<close>

section \<open>Small scopes compile\<close>

lemma default_limits:
  "rlm_valid Rollout_DefaultLimits" "rlm_MaxValueBytes Rollout_DefaultLimits = 512"
  "rlm_MaxSelectorValues Rollout_DefaultLimits = 1024" "rlm_MaxSelectors Rollout_DefaultLimits = 256"
  "rlm_MaxExclusions Rollout_DefaultLimits = 512"
  by code_simp+

definition small :: "string list \<Rightarrow> bool" where
  "small vals \<longleftrightarrow> length vals \<le> 4 \<and> list_all (\<lambda>v. v \<noteq> [] \<and> length v \<le> 64) vals"

definition small_tools :: "tool_sel list \<Rightarrow> bool" where
  "small_tools ts \<longleftrightarrow> length ts \<le> 4 \<and> list_all (\<lambda>t. small [ts_Server t, ts_Name t, ts_Fingerprint t]) ts"

definition small_scope :: "scope_spec \<Rightarrow> bool" where
  "small_scope spec \<longleftrightarrow> RolloutCapability_Valid (sp_Capability spec) \<and>
     list_all small [sp_Tenants spec, sp_Servers spec, sp_ToolFingerprints spec, sp_Principals spec, sp_Agents spec,
       sp_Clients spec, sp_Groups spec, sp_Environments spec, sp_ExcludeTenants spec, sp_ExcludeServers spec,
       sp_ExcludePrincipals spec] \<and> small_tools (sp_Tools spec) \<and> small_tools (sp_ExcludeTools spec) \<and>
     list_all (\<lambda>oper. RiskClass_Valid oper \<and> (RiskClass_HighRisk oper \<longrightarrow> sp_HighRisk spec)) (sp_Operations spec) \<and>
     validatePercent spec = None"

lemma small_card: "small vals \<Longrightarrow> card (set vals) \<le> 4" "small_tools ts \<Longrightarrow> card (set ts) \<le> 4"
  using card_length[of vals] card_length[of ts] by (auto simp: small_def small_tools_def)

lemma small_mkSet: "small vals \<Longrightarrow> mkSet Rollout_DefaultLimits vals = Inr (set vals)"
  using small_card(1)[of vals] by (auto simp: mkSet_eq_Inr default_limits small_def list_all_iff)

lemma small_mkToolSet:
  "small_tools ts \<Longrightarrow> mkToolSet ts n Rollout_DefaultLimits = Inr (set ts, n + card (set ts))"
  by (auto simp: mkToolSet_def small_tools_def small_def list_all_iff default_limits bindR_eq_Inr)

lemma bindR_returns: "\<exists>a. m = Inr a \<Longrightarrow> (\<And>a. m = Inr a \<Longrightarrow> \<exists>b. f a = Inr b) \<Longrightarrow> \<exists>b. bindR m f = Inr b"
  by auto

lemma small_tool_bounds:
  assumes "small_tools (sp_Tools spec)" "small_tools (sp_ExcludeTools spec)" "n \<le> 44"
    "card (so_exTenants sc) \<le> 4" "card (so_exServers sc) \<le> 4" "card (so_exPrincipals sc) \<le> 4"
  shows "\<exists>sc'. compileToolsAndBounds sc spec n Rollout_DefaultLimits = Inr sc'"
  using assms small_card(2)[of "sp_Tools spec"] small_card(2)[of "sp_ExcludeTools spec"]
  by (simp add: compileToolsAndBounds_def small_mkToolSet default_limits)

lemma small_compiles:
  assumes "small_scope spec"
  shows "\<exists>sc. Scope_Compile spec rv Rollout_DefaultLimits = Inr sc"
proof -
  note s = assms[unfolded small_scope_def, simplified]
  have ops: "\<exists>S. compileOps (sp_Operations spec) (sp_HighRisk spec) = Inr S"
    using s by (simp add: compileOps_eq_Inr list_all_iff)
  have c: "card (set (sp_Tenants spec)) \<le> 4" "card (set (sp_Servers spec)) \<le> 4" "card (set (sp_ToolFingerprints spec)) \<le> 4"
    "card (set (sp_Principals spec)) \<le> 4" "card (set (sp_Agents spec)) \<le> 4" "card (set (sp_Clients spec)) \<le> 4"
    "card (set (sp_Groups spec)) \<le> 4" "card (set (sp_Environments spec)) \<le> 4" "card (set (sp_ExcludeTenants spec)) \<le> 4"
    "card (set (sp_ExcludeServers spec)) \<le> 4" "card (set (sp_ExcludePrincipals spec)) \<le> 4"
    using s small_card(1) by blast+
  show ?thesis
    unfolding Scope_Compile_def Let_def
    using s ops c
    by (simp add: small_mkSet default_limits) (intro bindR_returns small_tool_bounds; auto)
qed

section \<open>Examples\<close>

definition rollout_tool :: tool_sel where
  "rollout_tool = \<lparr>ts_Server = ''srv'', ts_Name = ''read'', ts_Fingerprint = ''ab''\<rparr>"

definition ex_scope :: scope_spec where
  "ex_scope = (empty_spec CapabilityGateway)\<lparr>sp_Tenants := [''acme''], sp_Servers := [''srv''], sp_Tools := [rollout_tool],
     sp_Principals := [''alice'', ''bob'']\<rparr>"

definition ex_subject :: "string \<Rightarrow> risk_class \<Rightarrow> subject" where
  "ex_subject who oper = \<lparr>sj_Capability = CapabilityGateway, sj_Tenant = ''acme'', sj_ServerID = ''srv'',
     sj_ToolFingerprint = ''ab'', sj_ToolName = ''read'', sj_PrincipalID = who, sj_AgentID = [], sj_ClientID = [],
     sj_Groups = [], sj_Environment = [], sj_Operation = oper\<rparr>"

lemmas ex_scope_simps = ex_scope_def rollout_tool_def ex_subject_def empty_spec_def scope_of_def

lemma ex_scope_small: "small_scope ex_scope"
  "small_scope (ex_scope\<lparr>sp_ExcludePrincipals := [''bob'']\<rparr>)"
  "small_scope (ex_scope\<lparr>sp_Percent := 100\<rparr>)"
  "small_scope (ex_scope\<lparr>sp_HighRisk := True, sp_Operations := [RiskWrite]\<rparr>)"
  by (simp_all add: small_scope_def small_def small_tools_def validatePercent_def RolloutCapability_Valid_def
      RiskClass_Valid_iff RiskClass_HighRisk_def ex_scope_simps)

definition ex_sc :: "scope_spec \<Rightarrow> scope" where
  "ex_sc spec = (scope_of spec 1)\<lparr>so_hash := Scope_computeHash (scope_of spec 1), so_built := True\<rparr>"

lemma ex_compiles: "small_scope spec \<Longrightarrow> Scope_Compile spec 1 Rollout_DefaultLimits = Inr (ex_sc spec)"
  using small_compiles[of spec 1] Scope_Compile_Inr[of spec 1] by (auto simp: ex_sc_def)

definition ex_config :: signed_config where
  "ex_config = (DisabledConfig CapabilityGateway)\<lparr>cf_Mode := ModeCanary, cf_Scope := ex_scope, cf_ScopeRevision := 1\<rparr>"

lemma ex_config_valid: "SignedConfig_Validate ex_config CapabilityGateway Rollout_DefaultLimits = None"
proof -
  have "CompileScope ex_config Rollout_DefaultLimits = Inr (ex_sc ex_scope)"
    using ex_compiles[OF ex_scope_small(1)] by (simp add: CompileScope_def ex_config_def)
  then show ?thesis
    by (simp add: SignedConfig_Validate_def ex_config_def DisabledConfig_def hasShadowScope_def ex_sc_def
      err_of_def Enumerable_def hasInclusion_def ex_scope_simps SupportsSelectorSchema_def rollout_simps
      ValidateConnectorMode_def)
qed

end
