(* ===== verification/RolloutClaims.thy ===== *)
theory RolloutClaims
  imports RolloutExample RolloutHardFail
begin

text \<open>
  The properties of the rollout layer: the Production lockout, what a state lets execute, how scopes
  and their hashes behave, the kill fence and persistence.
\<close>

section \<open>Modes\<close>

text \<open>
  C23. The Production lockout: whatever sequence of allowed mode changes leads from another mode
  into Production, one of them was accepted by a verifier on a receipt that names the step from
  Canary to Production.
\<close>

theorem production_needs_receipt:
  assumes "(ladder_step receipt_ok)\<^sup>*\<^sup>* m ModeProduction" and "m \<noteq> ModeProduction"
  shows "\<exists>b. receipt_ok b \<and> qb_ToMode b = ModeProduction \<and> qb_FromMode b = ModeCanary"
  using assms by (rule ladder_walk_enters_production)

definition ex_binding :: qualification_binding where
  "ex_binding = \<lparr>qb_Capability = CapabilityGateway, qb_FromMode = ModeCanary, qb_ToMode = ModeProduction,
     qb_TargetScopeHash = ''h'', qb_SnapshotHash = ''s''\<rparr>"

definition ex_transition :: transition_input where
  "ex_transition = \<lparr>ti_Capability = CapabilityGateway, ti_From = ModeCanary, ti_To = ModeProduction,
     ti_Qualification = Some (\<lambda>b. if b = ex_binding then None else Some (PlainErr ''rejected'')),
     ti_Binding = ex_binding\<rparr>"

lemma ex_transition_allowed: "CheckTransition ex_transition = (TransitionPromotion, None)"
  by (simp add: CheckTransition_ok_iff checkProductionQualification_None ex_transition_def ex_binding_def
      Promotable_def rollout_simps)

lemma ex_ladder: "ladder_step (\<lambda>b. b = ex_binding) ModeCanary ModeProduction"
  by (rule ladder_stepI[OF ex_transition_allowed]) (auto simp: ex_transition_def split: if_split_asm)

theorem production_needs_receipt_witness:
  "\<exists>b. b = ex_binding \<and> qb_ToMode b = ModeProduction \<and> qb_FromMode b = ModeCanary"
  by (rule production_needs_receipt[of "\<lambda>b. b = ex_binding" ModeCanary]) (use ex_ladder in auto)

text \<open>
  C24. What a rollout state lets execute: after any operations on a fresh state, an action resolves
  to execution exactly when the mode enforces, the subject is in the active scope, there is no hard
  failure, the action is ALLOW-class and its obligations are satisfied; the scope is then the
  compilation of the active signed configuration, which is valid, of this capability and enumerable.
\<close>

theorem execution_confined:
  assumes "RolloutCapability_Valid capb" "limits_ok lim" "s = run_ops rollout_step ops (NewState capb lim)"
  shows "(re_Disposition (ResolveFor s subj act hardFailure hardReason satisfied) = EffectExecute \<longleftrightarrow>
      FullyEnforces (CurrentMode s) \<and> InScope s subj \<and> \<not> hardFailure \<and> ActionKind_IsAllowClass act \<and> satisfied) \<and>
    SignedConfig_Validate (CurrentConfig s) capb lim = None \<and>
    CompileScope (CurrentConfig s) lim = Inr (as_scope (ro_cur s)) \<and>
    (FullyEnforces (CurrentMode s) \<and> InScope s subj \<longrightarrow>
      Enumerable (as_scope (ro_cur s)) \<and> sj_Capability subj = capb)"
proof -
  have w: "rstate_wf s" using run_wf[OF NewState_wf] assms by simp
  have c: "ro_capability s = capb" "ro_lim s = lim" using assms(3) by simp_all (simp_all add: NewState_def)
  have "re_Disposition (ResolveFor s subj act hardFailure hardReason satisfied) = EffectExecute \<longleftrightarrow>
      FullyEnforces (CurrentMode s) \<and> InScope s subj \<and> \<not> hardFailure \<and> ActionKind_IsAllowClass act \<and> satisfied"
    by (simp add: ResolveFor_def Let_def Resolve_execute_iff InScope_def CurrentMode_def)
  moreover have "RequiresExecutionPlane (CurrentMode s)" if "FullyEnforces (CurrentMode s)"
    using that by (auto simp: FullyEnforces_def RequiresExecutionPlane_def)
  moreover have "sj_Capability subj = so_capability (as_scope (ro_cur s))" if "InScope s subj"
    using that by (auto simp: InScope_def Contains_def split: if_split_asm)
  ultimately show ?thesis
    using w wf_enforcing_scope[OF w] c by (auto simp: rstate_wf_def bundle_wf_def CurrentConfig_def)
qed

lemma ex_limits: "limits_ok Rollout_DefaultLimits" "RolloutCapability_Valid CapabilityGateway"
  by (rule limits_ok_default) (simp add: RolloutCapability_Valid_def)

definition ex_ops :: "rollout_op list" where
  "ex_ops = [OpSetConfig ex_config ''ops'' 1, OpEngage ''ops'' 2, OpClear]"

definition ex_state :: rstate where
  "ex_state = run_ops rollout_step ex_ops (NewState CapabilityGateway Rollout_DefaultLimits)"

theorem execution_confined_witness:
  "(re_Disposition (ResolveFor ex_state (ex_subject ''alice'' RiskRead) ActionKindAllow False 0 True) = EffectExecute \<longleftrightarrow>
      FullyEnforces (CurrentMode ex_state) \<and> InScope ex_state (ex_subject ''alice'' RiskRead) \<and>
      ActionKind_IsAllowClass ActionKindAllow) \<and>
    SignedConfig_Validate (CurrentConfig ex_state) CapabilityGateway Rollout_DefaultLimits = None \<and>
    CompileScope (CurrentConfig ex_state) Rollout_DefaultLimits = Inr (as_scope (ro_cur ex_state))"
  using execution_confined[OF ex_limits(2,1) ex_state_def, of "ex_subject ''alice'' RiskRead" ActionKindAllow False 0 True]
  by simp

section \<open>Scopes\<close>






definition collide_scope :: "string \<Rightarrow> string \<Rightarrow> scope_spec" where
  "collide_scope server name = (empty_spec CapabilityGateway)\<lparr>sp_Tools :=
     [\<lparr>ts_Server = server, ts_Name = name, ts_Fingerprint = ''d''\<rparr>]\<rparr>"

definition sep_join :: "string \<Rightarrow> string \<Rightarrow> string" where
  "sep_join x y = x @ [CHR 0x1F] @ y"

definition collide_subject :: subject where
  "collide_subject = (ex_subject ''alice'' RiskRead)\<lparr>sj_ServerID := sep_join ''a'' ''b'', sj_ToolName := ''c'',
     sj_ToolFingerprint := ''d''\<rparr>"

lemma collide_small: "small_scope (collide_scope (sep_join ''a'' ''b'') ''c'')"
  "small_scope (collide_scope ''a'' (sep_join ''b'' ''c''))"
  by (simp_all add: small_scope_def small_def small_tools_def validatePercent_def RolloutCapability_Valid_def
      collide_scope_def sep_join_def empty_spec_def)

lemma collide_keys: "sortedTools (set (sp_Tools (collide_scope (sep_join ''a'' ''b'') ''c''))) =
   sortedTools (set (sp_Tools (collide_scope ''a'' (sep_join ''b'' ''c''))))"
  by (simp add: collide_scope_def sortedTools_def tool_key_def sep_join_def)

lemma collide_hash:
  "so_hash (ex_sc (collide_scope (sep_join ''a'' ''b'') ''c'')) = so_hash (ex_sc (collide_scope ''a'' (sep_join ''b'' ''c'')))"
  using collide_keys by (simp add: ex_sc_def Scope_computeHash_def scopePreimage_def scope_of_def)
    (simp add: collide_scope_def)

text \<open>
  C27. The content hash of a scope does not determine it: two specifications that both compile and
  have the same hash admit different servers, because the three parts of a tool selector are joined
  by an unescaped separator.
\<close>

theorem scope_hash_not_injective:
  "\<exists>spec spec' sc sc' subj. Scope_Compile spec 1 Rollout_DefaultLimits = Inr sc \<and>
     Scope_Compile spec' 1 Rollout_DefaultLimits = Inr sc' \<and> so_hash sc = so_hash sc' \<and>
     Contains sc subj \<and> \<not> Contains sc' subj"
proof -
  have "Contains (ex_sc (collide_scope (sep_join ''a'' ''b'') ''c'')) collide_subject"
    "\<not> Contains (ex_sc (collide_scope ''a'' (sep_join ''b'' ''c''))) collide_subject"
    by (simp_all add: Contains_iff ex_sc_def collide_scope_def collide_subject_def sep_join_def ex_subject_def
        empty_spec_def scope_of_def hasInclusion_def matchDimensions_def dimOK_def inBucket_def
        subject_tool_def RiskClass_Valid_iff)
  then show ?thesis using ex_compiles[OF collide_small(1)] ex_compiles[OF collide_small(2)] collide_hash by blast
qed

section \<open>State\<close>

text \<open>
  C28. The kill fence: if a request was admitted while the kill switch was off and reads the same
  kill generation at the execution boundary, then no operation in between had engaged the switch at
  any moment, for every sequence of fewer than two to the 64 operations.
\<close>

theorem kill_fence_sound:
  assumes "length ops < 2 ^ 64" "\<not> Killed s" "KillGeneration (run_ops rollout_step ops s) = KillGeneration s"
    "ops = earlier @ later"
  shows "\<not> Killed (run_ops rollout_step earlier s)"
  using assms by (rule fence.fence_sound)

theorem kill_fence_sound_witness:
  "\<not> Killed (run_ops rollout_step [OpSetConfig ex_config ''ops'' 1] (NewState CapabilityGateway Rollout_DefaultLimits))"
proof (rule kill_fence_sound[where ops = "[OpSetConfig ex_config ''ops'' 1, OpSetDesired ModeCanary]" and later = "[OpSetDesired ModeCanary]"])
  show "\<not> Killed (NewState CapabilityGateway Rollout_DefaultLimits)" by (simp add: Killed_def NewState_def)
qed simp_all

text \<open>
  C29. Persistence round trip: reloading the persisted form of a state reached by any operations
  gives back exactly that state, with the kill flag kept; only the in-memory kill generation starts
  again at zero.
\<close>

theorem rollout_persist_round_trip:
  assumes "RolloutCapability_Valid capb" "limits_ok lim" "s = run_ops rollout_step ops (NewState capb lim)"
    "evidence_valid (ro_evidence s)"
  shows "LoadPersist (ToPersist s) (NewState capb lim) = (None, s\<lparr>ro_cur := (ro_cur s)\<lparr>as_killGen := 0\<rparr>\<rparr>)"
proof -
  have w: "rstate_wf s" using run_wf[OF NewState_wf] assms by simp
  have "ro_capability (NewState capb lim) = ro_capability s" "ro_lim (NewState capb lim) = ro_lim s"
    using assms(3) by simp_all
  with w assms(4) show ?thesis by (intro persist_round_trip)
qed

lemma ex_state_evidence: "ro_evidence ex_state = newEvidenceSummary"
proof -
  have "ro_evidence (snd (SetConfig ex_config ''ops'' 1 (NewState CapabilityGateway Rollout_DefaultLimits))) = newEvidenceSummary"
    by (cases rule: SetConfig_cases[of ex_config "''ops''" 1 "NewState CapabilityGateway Rollout_DefaultLimits"])
      (simp_all add: NewState_def)
  then show ?thesis
    by (simp add: ex_state_def ex_ops_def EngageKillSwitch_def ClearKillSwitch_def appendHistory_def Let_def)
qed

theorem rollout_persist_round_trip_witness:
  "LoadPersist (ToPersist ex_state) (NewState CapabilityGateway Rollout_DefaultLimits) =
     (None, ex_state\<lparr>ro_cur := (ro_cur ex_state)\<lparr>as_killGen := 0\<rparr>\<rparr>)"
  by (rule rollout_persist_round_trip[OF ex_limits(2,1) ex_state_def])
    (simp add: ex_state_evidence newEvidenceSummary_def evidence_valid_def)

end
