(* ===== verification/CanaryBudget.thy ===== *)
theory CanaryBudget
  imports PolicyInput "HOL-Library.Word"
begin

text \<open>
  The blast-radius budget of a Canary activation (\<open>internal/mcp/canary/budget.go\<close> and
  \<open>budget_enforce.go\<close>). The mutex of the enforcer makes every method one step. Counters
  are bounded by the caps and stay far below the machine range; instants are \<open>int64\<close>
  nanoseconds, whose subtraction wraps. A nil enforcer is \<open>None\<close>.
\<close>

section \<open>Budgets\<close>

definition MaxCanaryServers :: int where "MaxCanaryServers = 1"
definition MaxCanaryTools :: int where "MaxCanaryTools = 2"
definition MaxCanaryPrincipals :: int where "MaxCanaryPrincipals = 2"
definition MaxCanaryTenants :: int where "MaxCanaryTenants = 1"

record budget =
  bu_MaxTotalExecutions :: int
  bu_MaxExecutionsPerMinute :: int
  bu_MaxConcurrentExecutions :: int
  bu_MaxPrincipals :: int
  bu_MaxTools :: int
  bu_MaxServers :: int
  bu_Window :: int

definition FirstCanaryMaxTotalCeiling :: int where
  "FirstCanaryMaxTotalCeiling = 1000"

definition FirstCanaryMaxWindowCeiling :: int where
  "FirstCanaryMaxWindowCeiling = 7 * 24 * 3600 * nanosPerSecond"

definition ValidateBudget :: "budget \<Rightarrow> string" where
  "ValidateBudget b =
     (if bu_MaxTotalExecutions b \<le> 0 then ''budget_no_total_cap''
      else if bu_MaxExecutionsPerMinute b \<le> 0 then ''budget_no_rate_cap''
      else if bu_MaxConcurrentExecutions b \<le> 0 then ''budget_no_concurrency_cap''
      else if bu_MaxPrincipals b \<le> 0 then ''budget_no_principal_cap''
      else if bu_MaxTools b \<le> 0 then ''budget_no_tool_cap''
      else if bu_MaxServers b \<le> 0 then ''budget_no_server_cap''
      else if bu_Window b \<le> 0 then ''budget_no_window''
      else if bu_MaxTotalExecutions b > FirstCanaryMaxTotalCeiling then
        ''budget_total_exceeds_first_canary_ceiling''
      else if bu_Window b > FirstCanaryMaxWindowCeiling then
        ''budget_window_exceeds_first_canary_ceiling''
      else if bu_MaxTools b > MaxCanaryTools \<or> bu_MaxServers b > MaxCanaryServers
              \<or> bu_MaxPrincipals b > MaxCanaryPrincipals then
        ''budget_tool_or_server_cap_exceeds_scope_bounds''
      else [])"

definition zero_budget :: budget where
  "zero_budget = \<lparr>bu_MaxTotalExecutions = 0, bu_MaxExecutionsPerMinute = 0,
     bu_MaxConcurrentExecutions = 0, bu_MaxPrincipals = 0, bu_MaxTools = 0, bu_MaxServers = 0,
     bu_Window = 0\<rparr>"

section \<open>The enforcer\<close>

datatype budget_outcome =
    BudgetGranted
  | BudgetDeniedTotal
  | BudgetDeniedWindow
  | BudgetDeniedConcurrency
  | BudgetDeniedRate
  | BudgetDeniedGeneration
  | BudgetDeniedInvalid
  | BudgetDeniedPrincipalCap
  | BudgetDeniedToolCap
  | BudgetDeniedServerCap
  | BudgetDeniedIdentityIncomplete

fun BudgetOutcome_String :: "budget_outcome \<Rightarrow> string" where
  "BudgetOutcome_String BudgetGranted = ''granted''"
| "BudgetOutcome_String BudgetDeniedTotal = ''denied_total''"
| "BudgetOutcome_String BudgetDeniedWindow = ''denied_window''"
| "BudgetOutcome_String BudgetDeniedConcurrency = ''denied_concurrency''"
| "BudgetOutcome_String BudgetDeniedRate = ''denied_rate''"
| "BudgetOutcome_String BudgetDeniedGeneration = ''denied_generation''"
| "BudgetOutcome_String BudgetDeniedInvalid = ''denied_invalid''"
| "BudgetOutcome_String BudgetDeniedPrincipalCap = ''denied_principal_cap''"
| "BudgetOutcome_String BudgetDeniedToolCap = ''denied_tool_cap''"
| "BudgetOutcome_String BudgetDeniedServerCap = ''denied_server_cap''"
| "BudgetOutcome_String BudgetDeniedIdentityIncomplete = ''denied_identity_incomplete''"

definition IdentityCapExceeded :: "budget_outcome \<Rightarrow> bool" where
  "IdentityCapExceeded x \<longleftrightarrow>
     x = BudgetDeniedPrincipalCap \<or> x = BudgetDeniedToolCap \<or> x = BudgetDeniedServerCap"

definition WholeCanaryExhaustion :: "budget_outcome \<Rightarrow> bool" where
  "WholeCanaryExhaustion x \<longleftrightarrow> x = BudgetDeniedTotal \<or> x = BudgetDeniedWindow"

record execution_identity =
  ei_Principal :: string
  ei_Tool :: string
  ei_Server :: string

record budget_enforcer =
  be_budget :: budget
  be_generation :: "64 word"
  be_startNanos :: int
  be_total :: int
  be_inflight :: int
  be_rateWindowStart :: int
  be_rateCount :: int
  be_principals :: "string set"
  be_tools :: "string set"
  be_servers :: "string set"

definition wrap64 :: "int \<Rightarrow> int" where
  "wrap64 n = (n + 2 ^ 63) mod 2 ^ 64 - 2 ^ 63"

definition UnixNano :: "gotime \<Rightarrow> int" where
  "UnixNano t = wrap64 (t - unixToInternal * nanosPerSecond)"

definition NewBudgetEnforcer :: "budget \<Rightarrow> 64 word \<Rightarrow> gotime \<Rightarrow> budget_enforcer option" where
  "NewBudgetEnforcer b generation now =
     (if generation = 0 \<or> ValidateBudget b \<noteq> [] then None
      else Some \<lparr>be_budget = b, be_generation = generation, be_startNanos = UnixNano now,
        be_total = 0, be_inflight = 0, be_rateWindowStart = UnixNano now, be_rateCount = 0,
        be_principals = {}, be_tools = {}, be_servers = {}\<rparr>)"

definition isNewBeyondCap :: "string set \<Rightarrow> string \<Rightarrow> int \<Rightarrow> bool" where
  "isNewBeyondCap S v capLimit \<longleftrightarrow> v \<notin> S \<and> int (card S) \<ge> capLimit"

definition identityDenial :: "budget_enforcer \<Rightarrow> execution_identity \<Rightarrow> budget_outcome" where
  "identityDenial e ident =
     (if ei_Principal ident = [] \<or> ei_Tool ident = [] \<or> ei_Server ident = [] then
        BudgetDeniedIdentityIncomplete
      else if isNewBeyondCap (be_principals e) (ei_Principal ident) (bu_MaxPrincipals (be_budget e)) then
        BudgetDeniedPrincipalCap
      else if isNewBeyondCap (be_tools e) (ei_Tool ident) (bu_MaxTools (be_budget e)) then
        BudgetDeniedToolCap
      else if isNewBeyondCap (be_servers e) (ei_Server ident) (bu_MaxServers (be_budget e)) then
        BudgetDeniedServerCap
      else BudgetGranted)"

definition windowOpenLocked :: "budget_enforcer \<Rightarrow> gotime \<Rightarrow> bool" where
  "windowOpenLocked e now =
     (let d = wrap64 (UnixNano now - be_startNanos e) in d \<ge> 0 \<and> d < bu_Window (be_budget e))"

definition budgetRateWindow :: int where
  "budgetRateWindow = 60 * nanosPerSecond"

text \<open>The rollover of the fixed rate window.\<close>

definition roll_rate :: "gotime \<Rightarrow> budget_enforcer \<Rightarrow> budget_enforcer" where
  "roll_rate now e =
     (if wrap64 (UnixNano now - be_rateWindowStart e) \<ge> budgetRateWindow
      then e\<lparr>be_rateWindowStart := UnixNano now, be_rateCount := 0\<rparr> else e)"

definition reserve_slot ::
    "64 word \<Rightarrow> gotime \<Rightarrow> execution_identity \<Rightarrow> budget_enforcer \<Rightarrow> budget_outcome \<times> budget_enforcer" where
  "reserve_slot gen now ident e =
     (if ValidateBudget (be_budget e) \<noteq> [] then (BudgetDeniedInvalid, e)
      else if gen \<noteq> be_generation e then (BudgetDeniedGeneration, e)
      else
        let elapsed = wrap64 (UnixNano now - be_startNanos e) in
        if elapsed < 0 \<or> elapsed \<ge> bu_Window (be_budget e) then (BudgetDeniedWindow, e)
        else if be_total e \<ge> bu_MaxTotalExecutions (be_budget e) then (BudgetDeniedTotal, e)
        else if identityDenial e ident \<noteq> BudgetGranted then (identityDenial e ident, e)
        else if be_inflight e \<ge> bu_MaxConcurrentExecutions (be_budget e) then
          (BudgetDeniedConcurrency, e)
        else
          let e1 = roll_rate now e in
          if be_rateCount e1 \<ge> bu_MaxExecutionsPerMinute (be_budget e) then (BudgetDeniedRate, e1)
          else (BudgetGranted, e1\<lparr>be_total := be_total e1 + 1, be_inflight := be_inflight e1 + 1,
                 be_rateCount := be_rateCount e1 + 1,
                 be_principals := insert (ei_Principal ident) (be_principals e1),
                 be_tools := insert (ei_Tool ident) (be_tools e1),
                 be_servers := insert (ei_Server ident) (be_servers e1)\<rparr>))"

fun Reserve :: "64 word \<Rightarrow> gotime \<Rightarrow> execution_identity \<Rightarrow> budget_enforcer option \<Rightarrow>
    budget_outcome \<times> budget_enforcer option" where
  "Reserve gen now ident None = (BudgetDeniedInvalid, None)"
| "Reserve gen now ident (Some e) = map_prod id Some (reserve_slot gen now ident e)"

definition release_slot :: "budget_enforcer \<Rightarrow> budget_enforcer" where
  "release_slot e = (if be_inflight e > 0 then e\<lparr>be_inflight := be_inflight e - 1\<rparr> else e)"

fun Release :: "budget_enforcer option \<Rightarrow> budget_enforcer option" where
  "Release None = None"
| "Release (Some e) = Some (release_slot e)"

fun WindowOpen :: "budget_enforcer option \<Rightarrow> gotime \<Rightarrow> bool" where
  "WindowOpen None now = False"
| "WindowOpen (Some e) now = windowOpenLocked e now"

text \<open>\<open>time.Unix(0, ns)\<close>; the zero time stands for no deadline.\<close>

fun WindowDeadline :: "budget_enforcer option \<Rightarrow> gotime" where
  "WindowDeadline None = 0"
| "WindowDeadline (Some e) =
     (if bu_Window (be_budget e) \<le> 0 then 0
      else be_startNanos e + unixToInternal * nanosPerSecond + bu_Window (be_budget e))"

definition reservableLocked :: "budget_enforcer \<Rightarrow> gotime \<Rightarrow> bool" where
  "reservableLocked e now =
     (if ValidateBudget (be_budget e) \<noteq> [] then False
      else if \<not> windowOpenLocked e now then False
      else if be_total e \<ge> bu_MaxTotalExecutions (be_budget e) then False
      else if be_inflight e \<ge> bu_MaxConcurrentExecutions (be_budget e) then False
      else if wrap64 (UnixNano now - be_rateWindowStart e) < budgetRateWindow
              \<and> be_rateCount e \<ge> bu_MaxExecutionsPerMinute (be_budget e) then False
      else True)"

fun Reservable :: "budget_enforcer option \<Rightarrow> gotime \<Rightarrow> bool" where
  "Reservable None now = False"
| "Reservable (Some e) now = reservableLocked e now"

fun TotalReserved :: "budget_enforcer option \<Rightarrow> int" where
  "TotalReserved None = 0"
| "TotalReserved (Some e) = be_total e"

fun Inflight :: "budget_enforcer option \<Rightarrow> int" where
  "Inflight None = 0"
| "Inflight (Some e) = be_inflight e"

fun Remaining :: "budget_enforcer option \<Rightarrow> int" where
  "Remaining None = 0"
| "Remaining (Some e) =
     (let r = bu_MaxTotalExecutions (be_budget e) - be_total e in if r < 0 then 0 else r)"

section \<open>Snapshots\<close>

record budget_snapshot =
  bs_Generation :: "64 word"
  bs_TotalReserved :: int
  bs_StartUnixNano :: int
  bs_RateWindowStartNano :: int
  bs_RateCount :: int
  bs_Principals :: "string list"
  bs_Tools :: "string list"
  bs_Servers :: "string list"

definition sortedSetKeys :: "string set \<Rightarrow> string list" where
  "sortedSetKeys S = sorted_list_of_set S"

definition zero_budget_snapshot :: budget_snapshot where
  "zero_budget_snapshot = \<lparr>bs_Generation = 0, bs_TotalReserved = 0, bs_StartUnixNano = 0,
     bs_RateWindowStartNano = 0, bs_RateCount = 0, bs_Principals = [], bs_Tools = [], bs_Servers = []\<rparr>"

fun Budget_Snapshot :: "budget_enforcer option \<Rightarrow> budget_snapshot" where
  "Budget_Snapshot None = zero_budget_snapshot"
| "Budget_Snapshot (Some e) = \<lparr>bs_Generation = be_generation e, bs_TotalReserved = be_total e,
     bs_StartUnixNano = be_startNanos e, bs_RateWindowStartNano = be_rateWindowStart e,
     bs_RateCount = be_rateCount e, bs_Principals = sortedSetKeys (be_principals e),
     bs_Tools = sortedSetKeys (be_tools e), bs_Servers = sortedSetKeys (be_servers e)\<rparr>"

text \<open>The loop of \<open>setFromKeys\<close>: insert keys in order until the set has \<open>capLimit\<close> members.\<close>

fun fill_to_cap :: "int \<Rightarrow> string list \<Rightarrow> string set \<Rightarrow> string set" where
  "fill_to_cap capLimit [] S = S"
| "fill_to_cap capLimit (k # ks) S =
     (if int (card S) \<ge> capLimit then S else fill_to_cap capLimit ks (insert k S))"

definition setFromKeys :: "string list \<Rightarrow> int \<Rightarrow> string set" where
  "setFromKeys keys capLimit = fill_to_cap capLimit (sort keys) {}"

definition RestoreBudgetEnforcer :: "budget \<Rightarrow> 64 word \<Rightarrow> budget_snapshot \<Rightarrow> budget_enforcer option" where
  "RestoreBudgetEnforcer b generation snap =
     (if generation = 0 \<or> ValidateBudget b \<noteq> [] then None
      else if bs_Generation snap \<noteq> generation then None
      else if bs_TotalReserved snap < 0 \<or> bs_TotalReserved snap > bu_MaxTotalExecutions b then None
      else if bs_TotalReserved snap > 0 \<and>
              (bs_Principals snap = [] \<or> bs_Tools snap = [] \<or> bs_Servers snap = []) then None
      else if bs_StartUnixNano snap = 0 then None
      else
        let spent = bs_RateWindowStartNano snap = 0 \<or> bs_RateCount snap < 0
                    \<or> bs_RateCount snap > bu_MaxExecutionsPerMinute b
        in Some \<lparr>be_budget = b, be_generation = generation, be_startNanos = bs_StartUnixNano snap,
             be_total = bs_TotalReserved snap, be_inflight = 0,
             be_rateWindowStart = (if spent then bs_StartUnixNano snap else bs_RateWindowStartNano snap),
             be_rateCount = (if spent then bu_MaxExecutionsPerMinute b else bs_RateCount snap),
             be_principals = setFromKeys (bs_Principals snap) (bu_MaxPrincipals b),
             be_tools = setFromKeys (bs_Tools snap) (bu_MaxTools b),
             be_servers = setFromKeys (bs_Servers snap) (bu_MaxServers b)\<rparr>)"

section \<open>The invariant of an enforcer\<close>

definition enforcer_wf :: "budget_enforcer \<Rightarrow> bool" where
  "enforcer_wf e \<longleftrightarrow>
     ValidateBudget (be_budget e) = [] \<and> be_generation e \<noteq> 0 \<and>
     0 \<le> be_total e \<and> be_total e \<le> bu_MaxTotalExecutions (be_budget e) \<and>
     0 \<le> be_inflight e \<and> be_inflight e \<le> bu_MaxConcurrentExecutions (be_budget e) \<and>
     0 \<le> be_rateCount e \<and> be_rateCount e \<le> bu_MaxExecutionsPerMinute (be_budget e) \<and>
     finite (be_principals e) \<and> int (card (be_principals e)) \<le> bu_MaxPrincipals (be_budget e) \<and>
     finite (be_tools e) \<and> int (card (be_tools e)) \<le> bu_MaxTools (be_budget e) \<and>
     finite (be_servers e) \<and> int (card (be_servers e)) \<le> bu_MaxServers (be_budget e) \<and>
     [] \<notin> be_principals e \<and> [] \<notin> be_tools e \<and> [] \<notin> be_servers e \<and>
     (be_total e > 0 \<longrightarrow> be_principals e \<noteq> {} \<and> be_tools e \<noteq> {} \<and> be_servers e \<noteq> {}) \<and>
     (be_total e = 0 \<longrightarrow> be_principals e = {} \<and> be_tools e = {} \<and> be_servers e = {})"

lemma ValidateBudget_OK:
  assumes "ValidateBudget b = []"
  shows "0 < bu_MaxTotalExecutions b" "bu_MaxTotalExecutions b \<le> 1000"
    "0 < bu_MaxExecutionsPerMinute b" "0 < bu_MaxConcurrentExecutions b"
    "0 < bu_MaxPrincipals b" "bu_MaxPrincipals b \<le> 2" "0 < bu_MaxTools b" "bu_MaxTools b \<le> 2"
    "0 < bu_MaxServers b" "bu_MaxServers b \<le> 1" "0 < bu_Window b"
  using assms
  by (simp_all add: ValidateBudget_def FirstCanaryMaxTotalCeiling_def MaxCanaryTools_def
      MaxCanaryServers_def MaxCanaryPrincipals_def split: if_split_asm)

lemma NewBudgetEnforcer_wf: "NewBudgetEnforcer b g now = Some e \<Longrightarrow> enforcer_wf e"
  using ValidateBudget_OK[of b]
  by (auto simp: NewBudgetEnforcer_def enforcer_wf_def split: if_split_asm)

lemma identityDenial_Granted:
  "identityDenial e ident = BudgetGranted \<longleftrightarrow>
     ei_Principal ident \<noteq> [] \<and> ei_Tool ident \<noteq> [] \<and> ei_Server ident \<noteq> [] \<and>
     \<not> isNewBeyondCap (be_principals e) (ei_Principal ident) (bu_MaxPrincipals (be_budget e)) \<and>
     \<not> isNewBeyondCap (be_tools e) (ei_Tool ident) (bu_MaxTools (be_budget e)) \<and>
     \<not> isNewBeyondCap (be_servers e) (ei_Server ident) (bu_MaxServers (be_budget e))"
  by (simp add: identityDenial_def)

lemma card_insert_capped:
  "finite S \<Longrightarrow> int (card S) \<le> c \<Longrightarrow> \<not> isNewBeyondCap S v c \<Longrightarrow> int (card (insert v S)) \<le> c"
  by (auto simp: isNewBeyondCap_def card_insert_if)

lemma roll_rate_sel [simp]:
  "be_budget (roll_rate now e) = be_budget e" "be_generation (roll_rate now e) = be_generation e"
  "be_startNanos (roll_rate now e) = be_startNanos e" "be_total (roll_rate now e) = be_total e"
  "be_inflight (roll_rate now e) = be_inflight e" "be_principals (roll_rate now e) = be_principals e"
  "be_tools (roll_rate now e) = be_tools e" "be_servers (roll_rate now e) = be_servers e"
  by (simp_all add: roll_rate_def)

lemma roll_rate_wf: "enforcer_wf e \<Longrightarrow> enforcer_wf (roll_rate now e)"
  using ValidateBudget_OK(3)[of "be_budget e"] by (simp add: roll_rate_def enforcer_wf_def)

text \<open>The gates of a reservation apart from the rate, in the order of the code.\<close>

definition admissible :: "64 word \<Rightarrow> gotime \<Rightarrow> execution_identity \<Rightarrow> budget_enforcer \<Rightarrow> bool" where
  "admissible gen now ident e \<longleftrightarrow>
     ValidateBudget (be_budget e) = [] \<and> gen = be_generation e \<and> windowOpenLocked e now \<and>
     be_total e < bu_MaxTotalExecutions (be_budget e) \<and> identityDenial e ident = BudgetGranted \<and>
     be_inflight e < bu_MaxConcurrentExecutions (be_budget e)"

definition grant_slot :: "execution_identity \<Rightarrow> budget_enforcer \<Rightarrow> budget_enforcer" where
  "grant_slot ident e = e\<lparr>be_total := be_total e + 1, be_inflight := be_inflight e + 1,
     be_rateCount := be_rateCount e + 1,
     be_principals := insert (ei_Principal ident) (be_principals e),
     be_tools := insert (ei_Tool ident) (be_tools e),
     be_servers := insert (ei_Server ident) (be_servers e)\<rparr>"

lemma reserve_slot_admissible:
  assumes "admissible gen now ident e"
  shows "reserve_slot gen now ident e =
    (if be_rateCount (roll_rate now e) < bu_MaxExecutionsPerMinute (be_budget e)
     then (BudgetGranted, grant_slot ident (roll_rate now e)) else (BudgetDeniedRate, roll_rate now e))"
  using assms by (simp add: reserve_slot_def admissible_def windowOpenLocked_def grant_slot_def Let_def)

lemma reserve_slot_inadmissible:
  assumes "\<not> admissible gen now ident e"
  shows "fst (reserve_slot gen now ident e) \<noteq> BudgetGranted" "snd (reserve_slot gen now ident e) = e"
  using assms
  by (auto simp: reserve_slot_def admissible_def windowOpenLocked_def Let_def)

text \<open>A reservation either grants a slot or spends nothing.\<close>

lemma reserve_slot_granted:
  "fst (reserve_slot gen now ident e) = BudgetGranted \<longleftrightarrow>
     admissible gen now ident e \<and> be_rateCount (roll_rate now e) < bu_MaxExecutionsPerMinute (be_budget e)"
  using reserve_slot_inadmissible(1)[of gen now ident e]
  by (cases "admissible gen now ident e") (simp_all add: reserve_slot_admissible)

lemma reserve_slot_snd:
  "snd (reserve_slot gen now ident e) =
     (if fst (reserve_slot gen now ident e) = BudgetGranted then grant_slot ident (roll_rate now e)
      else if admissible gen now ident e then roll_rate now e else e)"
  using reserve_slot_inadmissible[of gen now ident e]
  by (cases "admissible gen now ident e") (simp_all add: reserve_slot_admissible)

lemma grant_slot_wf:
  assumes "enforcer_wf e" "identityDenial e ident = BudgetGranted"
    "be_total e < bu_MaxTotalExecutions (be_budget e)"
    "be_inflight e < bu_MaxConcurrentExecutions (be_budget e)"
    "be_rateCount e < bu_MaxExecutionsPerMinute (be_budget e)"
  shows "enforcer_wf (grant_slot ident e)"
  using assms
  by (auto simp: enforcer_wf_def grant_slot_def identityDenial_Granted card_insert_capped)

lemma identityDenial_roll [simp]: "identityDenial (roll_rate now e) ident = identityDenial e ident"
  by (simp add: identityDenial_def)

lemma reserve_slot_wf:
  assumes "enforcer_wf e"
  shows "enforcer_wf (snd (reserve_slot gen now ident e))"
  unfolding reserve_slot_snd reserve_slot_granted
  using assms by (auto simp: admissible_def intro!: grant_slot_wf roll_rate_wf)

lemma release_slot_wf: "enforcer_wf e \<Longrightarrow> enforcer_wf (release_slot e)"
  by (simp add: enforcer_wf_def release_slot_def)

section \<open>Snapshots survive a restart\<close>

lemma fill_to_cap_all:
  assumes "finite S" "int (card (S \<union> set ks)) \<le> c"
  shows "fill_to_cap c ks S = S \<union> set ks"
  using assms
proof (induction ks arbitrary: S)
  case (Cons k ks)
  show ?case
  proof (cases "int (card S) \<ge> c")
    case True
    have "S = S \<union> set (k # ks)"
      using Cons.prems True by (intro card_seteq) auto
    with True show ?thesis by simp
  next
    case False
    with Cons show ?thesis by simp
  qed
qed simp

lemma setFromKeys_sorted:
  "finite S \<Longrightarrow> int (card S) \<le> c \<Longrightarrow> setFromKeys (sortedSetKeys S) c = S"
  by (simp add: setFromKeys_def sortedSetKeys_def fill_to_cap_all)

lemma fill_to_cap_bounded:
  "finite S \<Longrightarrow> int (card S) \<le> c \<Longrightarrow> finite (fill_to_cap c ks S) \<and> int (card (fill_to_cap c ks S)) \<le> c"
  by (induction ks arbitrary: S) (auto simp: card_insert_if)

lemma restore_snapshot:
  assumes "enforcer_wf e" and "be_startNanos e \<noteq> 0"
  shows "RestoreBudgetEnforcer (be_budget e) (be_generation e) (Budget_Snapshot (Some e)) =
    Some (if be_rateWindowStart e = 0
      then e\<lparr>be_inflight := 0, be_rateWindowStart := be_startNanos e,
             be_rateCount := bu_MaxExecutionsPerMinute (be_budget e)\<rparr>
      else e\<lparr>be_inflight := 0\<rparr>)"
proof -
  have ne: "be_total e > 0 \<longrightarrow> sortedSetKeys (be_principals e) \<noteq> [] \<and> sortedSetKeys (be_tools e) \<noteq> [] \<and>
      sortedSetKeys (be_servers e) \<noteq> []"
    using assms(1) by (auto simp: enforcer_wf_def sortedSetKeys_def)
  show ?thesis
    using assms ne by (simp add: enforcer_wf_def RestoreBudgetEnforcer_def setFromKeys_sorted Let_def)
qed

section \<open>What an eligibility read says\<close>

lemma ex_recorded_identity:
  assumes "enforcer_wf e"
  shows "\<exists>ident. identityDenial e ident = BudgetGranted"
proof (cases "be_total e = 0")
  case True
  with assms ValidateBudget_OK[of "be_budget e"]
  have "identityDenial e \<lparr>ei_Principal = ''p'', ei_Tool = ''t'', ei_Server = ''s''\<rparr> = BudgetGranted"
    by (simp add: identityDenial_Granted enforcer_wf_def isNewBeyondCap_def)
  then show ?thesis by blast
next
  case False
  with assms obtain p t s where "p \<in> be_principals e" "t \<in> be_tools e" "s \<in> be_servers e"
    by (force simp: enforcer_wf_def)
  with assms have "identityDenial e \<lparr>ei_Principal = p, ei_Tool = t, ei_Server = s\<rparr> = BudgetGranted"
    by (auto simp: identityDenial_Granted enforcer_wf_def isNewBeyondCap_def)
  then show ?thesis by blast
qed

lemma reservable_iff:
  assumes "enforcer_wf e"
  shows "reservableLocked e now \<longleftrightarrow>
    (\<exists>ident. fst (reserve_slot (be_generation e) now ident e) = BudgetGranted)"
proof
  assume r: "reservableLocked e now"
  obtain ident where "identityDenial e ident = BudgetGranted" using ex_recorded_identity[OF assms] by blast
  with r ValidateBudget_OK(3)[of "be_budget e"]
  have "fst (reserve_slot (be_generation e) now ident e) = BudgetGranted"
    by (auto simp: reserve_slot_granted admissible_def reservableLocked_def roll_rate_def split: if_split_asm)
  then show "\<exists>ident. fst (reserve_slot (be_generation e) now ident e) = BudgetGranted" by blast
next
  assume "\<exists>ident. fst (reserve_slot (be_generation e) now ident e) = BudgetGranted"
  then show "reservableLocked e now"
    by (auto simp: reserve_slot_granted admissible_def reservableLocked_def roll_rate_def split: if_split_asm)
qed

end
