(* ===== verification/Fileutil.thy ===== *)
theory Fileutil
  imports Mcperr
begin

text \<open>
  Durable writes (\<open>internal/fileutil/fileutil.go\<close>). The system calls of
  \<open>AtomicWrite\<close> are its environment: \<open>fs_faults\<close> says which of them fail and how. A
  target file is the content it holds, \<open>None\<close> when it does not exist. The observers the
  function notifies only count and alert and are left out. \<open>fmt.Errorf\<close> with \<open>%w\<close>
  is \<open>WrapErr\<close>, with two \<open>%w\<close> it is \<open>JoinErr\<close>.
\<close>

fun errorsIs :: "go_error \<Rightarrow> go_error \<Rightarrow> bool" where
  "errorsIs (MErr r op d w) t \<longleftrightarrow> MErr r op d w = t \<or> (case w of Some e \<Rightarrow> errorsIs e t | None \<Rightarrow> False)"
| "errorsIs (WrapErr w) t \<longleftrightarrow> WrapErr w = t \<or> (case w of Some e \<Rightarrow> errorsIs e t | None \<Rightarrow> False)"
| "errorsIs (JoinErr es) t \<longleftrightarrow> JoinErr es = t \<or> list_ex (\<lambda>e. errorsIs e t) es"
| "errorsIs (PlainErr s) t \<longleftrightarrow> PlainErr s = t"

definition ErrReplacedNotSynced :: go_error where
  "ErrReplacedNotSynced = PlainErr ''atomic write: target replaced but parent directory not synced''"

definition EINVAL :: go_error where "EINVAL = PlainErr ''invalid argument''"
definition ENOTSUP :: go_error where "ENOTSUP = PlainErr ''operation not supported''"
definition EOPNOTSUPP :: go_error where "EOPNOTSUPP = PlainErr ''operation not supported''"

record fs_faults =
  create_fault :: "go_error option"
  write_fault :: "go_error option"
  chmod_fault :: "go_error option"
  fsync_fault :: "go_error option"
  close_fault :: "go_error option"
  rename_fault :: "go_error option"
  opendir_fault :: "go_error option"
  dirsync_fault :: "go_error option"
  dirclose_fault :: "go_error option"

definition no_faults :: fs_faults where
  "no_faults = \<lparr>create_fault = None, write_fault = None, chmod_fault = None, fsync_fault = None,
     close_fault = None, rename_fault = None, opendir_fault = None, dirsync_fault = None,
     dirclose_fault = None\<rparr>"

text \<open>The error of the steps up to the rename; none of them touches the target.\<close>

definition temp_file_err :: "fs_faults \<Rightarrow> go_error option" where
  "temp_file_err fs = first_err (map (map_option (\<lambda>e. WrapErr (Some e)))
     [create_fault fs, write_fault fs, chmod_fault fs, fsync_fault fs, close_fault fs, rename_fault fs])"

definition AtomicWrite :: "'a \<Rightarrow> fs_faults \<Rightarrow> 'a option \<Rightarrow> go_error option \<times> 'a option" where
  "AtomicWrite data fs file = (case temp_file_err fs of
     Some e \<Rightarrow> (Some e, file)
   | None \<Rightarrow>
       if opendir_fault fs \<noteq> None then (None, Some data)
       else (case dirsync_fault fs of
           Some se \<Rightarrow>
             if \<not> errorsIs se EINVAL \<and> \<not> errorsIs se ENOTSUP \<and> \<not> errorsIs se EOPNOTSUPP
             then (Some (JoinErr [se, ErrReplacedNotSynced]), Some data) else (None, Some data)
         | None \<Rightarrow> (case dirclose_fault fs of
               Some ce \<Rightarrow> (Some (JoinErr [ce, ErrReplacedNotSynced]), Some data)
             | None \<Rightarrow> (None, Some data))))"

lemma errorsIs_refl [simp]: "errorsIs e e"
  by (cases e) auto

lemma AtomicWrite_no_faults [simp]: "AtomicWrite data no_faults file = (None, Some data)"
  by (simp add: AtomicWrite_def no_faults_def temp_file_err_def)

lemma AtomicWrite_file: "snd (AtomicWrite data fs file) = file \<or> snd (AtomicWrite data fs file) = Some data"
  by (simp add: AtomicWrite_def split: option.splits)

lemma AtomicWrite_ok: "fst (AtomicWrite data fs file) = None \<Longrightarrow> snd (AtomicWrite data fs file) = Some data"
  by (simp add: AtomicWrite_def split: option.splits if_splits)

text \<open>The sentinel is exact: a failed write has replaced the target just when its error carries it.\<close>

definition replaced :: "fs_faults \<Rightarrow> bool" where
  "replaced fs \<longleftrightarrow> temp_file_err fs = None"

lemma AtomicWrite_replaced:
  "snd (AtomicWrite data fs file) = (if replaced fs then Some data else file)"
  by (simp add: AtomicWrite_def replaced_def split: option.splits)

lemma AtomicWrite_sentinel:
  assumes "fst (AtomicWrite data fs file) = Some e" and "\<not> errorsIs e ErrReplacedNotSynced"
  shows "snd (AtomicWrite data fs file) = file"
  using assms by (auto simp: AtomicWrite_def split: option.splits if_splits)

text \<open>
  Success is reported without a directory sync when the directory cannot be opened or its file
  system does not support the sync; \<open>reported\<close> excludes both.
\<close>

definition dir_synced :: "fs_faults \<Rightarrow> bool" where
  "dir_synced fs \<longleftrightarrow> opendir_fault fs = None \<and> dirsync_fault fs = None"

definition reported :: "fs_faults \<Rightarrow> bool" where
  "reported fs \<longleftrightarrow> opendir_fault fs = None \<and> (\<forall>e. dirsync_fault fs = Some e \<longrightarrow>
     \<not> errorsIs e EINVAL \<and> \<not> errorsIs e ENOTSUP \<and> \<not> errorsIs e EOPNOTSUPP)"

lemma AtomicWrite_synced:
  "fst (AtomicWrite data fs file) = None \<Longrightarrow> reported fs \<Longrightarrow> dir_synced fs"
  by (auto simp: AtomicWrite_def reported_def dir_synced_def split: option.splits if_splits)

lemma no_faults_reported [simp]: "reported no_faults" "dir_synced no_faults"
  by (simp_all add: reported_def dir_synced_def no_faults_def)

section \<open>A file and what a crash can bring back\<close>

text \<open>
  The content the directory entry shows, and the displaced contents that a crash can still bring back
  because the directory has not been synced since.
\<close>

record 'c disk =
  dk_visible :: "'c option"
  dk_revertible :: "'c option list"

definition write_disk :: "'c \<Rightarrow> fs_faults \<Rightarrow> 'c disk \<Rightarrow> go_error option \<times> 'c disk" where
  "write_disk c fs d = (case AtomicWrite c fs (dk_visible d) of
     (None, v) \<Rightarrow> (None, \<lparr>dk_visible = v,
       dk_revertible = (if dir_synced fs then [] else dk_visible d # dk_revertible d)\<rparr>)
   | (Some e, v) \<Rightarrow> (Some e, if replaced fs
       then \<lparr>dk_visible = v, dk_revertible = dk_visible d # dk_revertible d\<rparr> else d))"

definition crash_disk :: "nat \<Rightarrow> 'c disk \<Rightarrow> 'c disk" where
  "crash_disk k d =
     (let cs = dk_visible d # dk_revertible d in \<lparr>dk_visible = cs ! (k mod length cs), dk_revertible = []\<rparr>)"

definition contents :: "'c disk \<Rightarrow> 'c option set" where
  "contents d = insert (dk_visible d) (set (dk_revertible d))"

lemma write_disk_synced:
  "write_disk c fs d = (None, d') \<Longrightarrow> reported fs \<Longrightarrow> contents d' = {Some c}"
  using AtomicWrite_ok[of c fs "dk_visible d"] AtomicWrite_synced[of c fs "dk_visible d"]
  by (auto simp: write_disk_def contents_def split: prod.splits option.splits if_split_asm)

lemma write_disk_contents: "contents (snd (write_disk c fs d)) \<subseteq> insert (Some c) (contents d)"
  using AtomicWrite_replaced[of c fs "dk_visible d"]
  by (auto simp: write_disk_def contents_def split: prod.splits option.splits if_split_asm)

lemma crash_contents: "dk_visible (crash_disk k d) \<in> contents d"
proof -
  let ?cs = "dk_visible d # dk_revertible d"
  have "?cs ! (k mod length ?cs) \<in> set ?cs" by (rule nth_mem) simp
  then show ?thesis by (simp add: crash_disk_def contents_def Let_def del: length_Cons)
qed

end
