(* ===== verification/ToolTrust.thy ===== *)
theory ToolTrust
  imports PolicyInput Hashing Utf8 Fileutil
begin

text \<open>
  The tool-approval record of \<open>internal/mcp/tooltrust/tooltrust.go\<close> and
  \<open>reviewed_operation.go\<close>: purposes, the status lifecycle, and the validity predicates. An
  instant is a \<open>gotime\<close>, a nil \<open>*time.Time\<close> is \<open>None\<close>, a fingerprint digest is
  the string of its 32 bytes, and revisions are natural numbers.
\<close>

definition SchemaVersion :: nat where "SchemaVersion = 1"

definition MaxLiveExecutionApprovalTTL :: int where
  "MaxLiveExecutionApprovalTTL = 24 * 3600 * nanosPerSecond"

definition maxReasonBytes :: nat where "maxReasonBytes = 512"
definition maxTicketBytes :: nat where "maxTicketBytes = 128"
definition maxIDBytes :: nat where "maxIDBytes = 96"
definition maxTenantBytes :: nat where "maxTenantBytes = 512"
definition maxServerIDBytes :: nat where "maxServerIDBytes = 256"
definition maxToolNameBytes :: nat where "maxToolNameBytes = 256"
definition maxActorBytes :: nat where "maxActorBytes = 256"

section \<open>Purposes and reviewed operation classes\<close>

datatype purpose = PurposeUnset | PurposeShadowEvaluation | PurposeLiveExecution | PurposeRaw nat

fun Purpose_String :: "purpose \<Rightarrow> string" where
  "Purpose_String PurposeShadowEvaluation = ''shadow_evaluation''"
| "Purpose_String PurposeLiveExecution = ''live_execution''"
| "Purpose_String _ = ''unset''"

definition ParsePurpose :: "string \<Rightarrow> purpose \<times> bool" where
  "ParsePurpose s =
     (if s = ''shadow_evaluation'' then (PurposeShadowEvaluation, True)
      else if s = ''live_execution'' then (PurposeLiveExecution, True)
      else (PurposeUnset, False))"

definition Issuable :: "purpose \<Rightarrow> bool" where
  "Issuable p \<longleftrightarrow> p = PurposeShadowEvaluation \<or> p = PurposeLiveExecution"

definition PermitsShadowEvaluation :: "purpose \<Rightarrow> bool" where
  "PermitsShadowEvaluation p \<longleftrightarrow> p = PurposeShadowEvaluation"

definition PermitsLiveExecution :: "purpose \<Rightarrow> bool" where
  "PermitsLiveExecution p \<longleftrightarrow> p = PurposeLiveExecution"

datatype reviewed_operation_class =
    ReviewedOpUnset | ReviewedOpReadOnly | ReviewedOpMutating | ReviewedOpRaw nat

fun ReviewedOperationClass_String :: "reviewed_operation_class \<Rightarrow> string" where
  "ReviewedOperationClass_String ReviewedOpReadOnly = ''read_only''"
| "ReviewedOperationClass_String ReviewedOpMutating = ''mutating''"
| "ReviewedOperationClass_String _ = ''unset''"

definition ParseReviewedOperationClass :: "string \<Rightarrow> reviewed_operation_class \<times> bool" where
  "ParseReviewedOperationClass s =
     (if s = ''read_only'' then (ReviewedOpReadOnly, True)
      else if s = ''mutating'' then (ReviewedOpMutating, True)
      else (ReviewedOpUnset, False))"

definition Stated :: "reviewed_operation_class \<Rightarrow> bool" where
  "Stated c \<longleftrightarrow> c = ReviewedOpReadOnly \<or> c = ReviewedOpMutating"

definition ReadOnly :: "reviewed_operation_class \<Rightarrow> bool" where
  "ReadOnly c \<longleftrightarrow> c = ReviewedOpReadOnly"

section \<open>Approvals\<close>

datatype status =
    StatusUnset | StatusPending | StatusActive | StatusRejected | StatusRevoked | StatusExpired
  | StatusRaw nat

fun Status_String :: "status \<Rightarrow> string" where
  "Status_String StatusPending = ''pending''"
| "Status_String StatusActive = ''active''"
| "Status_String StatusRejected = ''rejected''"
| "Status_String StatusRevoked = ''revoked''"
| "Status_String StatusExpired = ''expired''"
| "Status_String _ = ''unset''"

definition status_terminal :: "status \<Rightarrow> bool" where
  "status_terminal s \<longleftrightarrow> s = StatusRejected \<or> s = StatusRevoked \<or> s = StatusExpired"

record tool_approval =
  ta_SchemaVersion :: nat
  ta_ApprovalID :: string
  ta_Tenant :: string
  ta_ServerID :: string
  ta_ToolName :: string
  ta_Fingerprint :: string
  ta_FingerprintFormatVersion :: nat
  ta_CatalogRevision :: nat
  ta_ServerRevision :: nat
  ta_Purpose :: purpose
  ta_ReviewedOperationClass :: reviewed_operation_class
  ta_Status :: status
  ta_RequestedBy :: string
  ta_RequestedAt :: gotime
  ta_ApprovedBy :: string
  ta_ApprovedAt :: gotime
  ta_Reason :: string
  ta_TicketRef :: string
  ta_ExpiresAt :: "gotime option"
  ta_RevokedBy :: string
  ta_RevokedAt :: "gotime option"
  ta_RevocationReason :: string
  ta_RejectedBy :: string
  ta_RejectedAt :: "gotime option"
  ta_RejectedReason :: string

definition activeAsOf :: "tool_approval \<Rightarrow> gotime \<Rightarrow> bool" where
  "activeAsOf a now =
     (if ta_Status a \<noteq> StatusActive \<or> \<not> PermitsShadowEvaluation (ta_Purpose a) then False
      else (case ta_ExpiresAt a of Some x \<Rightarrow> now < x | None \<Rightarrow> True))"

definition activeLiveAsOf :: "tool_approval \<Rightarrow> gotime \<Rightarrow> bool" where
  "activeLiveAsOf a now =
     (if ta_Status a \<noteq> StatusActive \<or> \<not> PermitsLiveExecution (ta_Purpose a) then False
      else (case ta_ExpiresAt a of Some x \<Rightarrow> now < x | None \<Rightarrow> False))"

definition pastExpiry :: "tool_approval \<Rightarrow> gotime \<Rightarrow> bool" where
  "pastExpiry a now = (case ta_ExpiresAt a of Some x \<Rightarrow> \<not> now < x | None \<Rightarrow> False)"

definition expiredAsOf :: "tool_approval \<Rightarrow> gotime \<Rightarrow> bool" where
  "expiredAsOf a now \<longleftrightarrow> ta_Status a = StatusActive \<and> pastExpiry a now"

definition MatchesTool :: "tool_approval \<Rightarrow> string \<Rightarrow> string \<Rightarrow> string \<Rightarrow> string \<Rightarrow> nat \<Rightarrow> bool" where
  "MatchesTool a tenant serverID toolName fp fpFormat \<longleftrightarrow>
     ta_Tenant a = tenant \<and> ta_ServerID a = serverID \<and> ta_ToolName a = toolName \<and>
     ta_FingerprintFormatVersion a = fpFormat \<and> ta_Fingerprint a = fp"

section \<open>Lemmas\<close>

lemma purposes_disjoint: "\<not> (PermitsShadowEvaluation p \<and> PermitsLiveExecution p)"
  by (simp add: PermitsShadowEvaluation_def PermitsLiveExecution_def)

lemma Time_Sub_le:
  "Time_Sub t u \<le> MaxLiveExecutionApprovalTTL \<longleftrightarrow> t - u \<le> MaxLiveExecutionApprovalTTL"
  by (auto simp: Time_Sub_def MaxLiveExecutionApprovalTTL_def nanosPerSecond_def)

lemma ParsePurpose_round_trip: "Issuable p \<Longrightarrow> ParsePurpose (Purpose_String p) = (p, True)"
  by (auto simp: Issuable_def ParsePurpose_def)

end
