(* ===== verification/CanaryGuards.thy ===== *)
theory CanaryGuards
  imports CanaryBudget ToolTrust "HOL-Library.Product_Lexorder"
begin

text \<open>
  The other guards of a Canary activation: the abort taxonomy and latch
  (\<open>internal/mcp/canary/abort.go\<close>, \<open>abort_control.go\<close>), the health detectors
  (\<open>health.go\<close>), the reviewed-target record (\<open>reviewed.go\<close>) and the read-first
  predicate (\<open>operation.go\<close>). A nil pointer is \<open>None\<close>. A fingerprint digest is the
  string of its 32 bytes.
\<close>

section \<open>Abort taxonomy and latch\<close>

datatype abort_scope = AbortScopeUnset | AbortRequest | AbortCanary | AbortScopeRaw nat

fun AbortScope_String :: "abort_scope \<Rightarrow> string" where
  "AbortScope_String AbortRequest = ''request''"
| "AbortScope_String AbortCanary = ''canary''"
| "AbortScope_String _ = ''unset''"

definition AbortConditions :: "(string \<times> abort_scope) list" where
  "AbortConditions = [
     (''out_of_scope_execution'', AbortCanary), (''scope_escape'', AbortCanary),
     (''tool_fingerprint_drift'', AbortCanary), (''server_identity_drift'', AbortCanary),
     (''reviewed_target_tenant_drift'', AbortCanary), (''outcome_evidence_loss'', AbortCanary),
     (''credential_safety_failure'', AbortCanary), (''budget_exhausted'', AbortCanary),
     (''elevated_error_rate'', AbortCanary), (''latency_pathology'', AbortCanary),
     (''unexpected_upstream_response'', AbortCanary), (''independent_witness_mismatch'', AbortCanary),
     (''window_expired'', AbortCanary),
     (''policy_deny'', AbortRequest), (''stale_decision'', AbortRequest),
     (''credential_not_ready'', AbortRequest), (''response_inspection_block'', AbortRequest),
     (''emergency_kill_for_request'', AbortRequest), (''allowance_consumed'', AbortRequest)]"

definition AbortScopeForCode :: "string \<Rightarrow> abort_scope" where
  "AbortScopeForCode code = (case map_of (rev AbortConditions) code of
     Some s \<Rightarrow> if s \<noteq> AbortScopeUnset then s else AbortCanary
   | None \<Rightarrow> AbortCanary)"

datatype trip_result = TripRequestScoped | TripCanaryLatched | TripGenerationMismatch

fun TripResult_String :: "trip_result \<Rightarrow> string" where
  "TripResult_String TripRequestScoped = ''request_scoped''"
| "TripResult_String TripCanaryLatched = ''canary_latched''"
| "TripResult_String TripGenerationMismatch = ''generation_mismatch''"

record abort_controller =
  ac_generation :: "64 word"
  ac_aborted :: bool
  ac_code :: string
  ac_atNanos :: int

definition NewAbortController :: "64 word \<Rightarrow> abort_controller option" where
  "NewAbortController g = (if g = 0 then None
     else Some \<lparr>ac_generation = g, ac_aborted = False, ac_code = [], ac_atNanos = 0\<rparr>)"

fun Trip :: "string \<Rightarrow> 64 word \<Rightarrow> gotime \<Rightarrow> abort_controller option \<Rightarrow> trip_result \<times> abort_controller option" where
  "Trip code gen now None = (TripCanaryLatched, None)"
| "Trip code gen now (Some c) =
     (if gen \<noteq> ac_generation c then (TripGenerationMismatch, Some c)
      else if AbortScopeForCode code = AbortRequest then (TripRequestScoped, Some c)
      else (TripCanaryLatched, Some (if \<not> ac_aborted c
              then c\<lparr>ac_aborted := True, ac_code := code, ac_atNanos := UnixNano now\<rparr> else c)))"

fun Aborted :: "abort_controller option \<Rightarrow> 64 word \<Rightarrow> bool" where
  "Aborted None gen = False"
| "Aborted (Some c) gen \<longleftrightarrow> gen = ac_generation c \<and> ac_aborted c"

fun ExecutionEligible :: "abort_controller option \<Rightarrow> 64 word \<Rightarrow> bool" where
  "ExecutionEligible None gen = False"
| "ExecutionEligible (Some c) gen \<longleftrightarrow> gen = ac_generation c \<and> \<not> ac_aborted c"

fun AbortCode :: "abort_controller option \<Rightarrow> string" where
  "AbortCode None = []"
| "AbortCode (Some c) = ac_code c"

record abort_snapshot =
  an_Generation :: "64 word"
  an_Aborted :: bool
  an_Code :: string
  an_AtUnixNano :: int

fun Abort_Snapshot :: "abort_controller option \<Rightarrow> abort_snapshot" where
  "Abort_Snapshot None = \<lparr>an_Generation = 0, an_Aborted = False, an_Code = [], an_AtUnixNano = 0\<rparr>"
| "Abort_Snapshot (Some c) = \<lparr>an_Generation = ac_generation c, an_Aborted = ac_aborted c,
     an_Code = ac_code c, an_AtUnixNano = ac_atNanos c\<rparr>"

definition RestoreAbortController :: "64 word \<Rightarrow> abort_snapshot \<Rightarrow> abort_controller option" where
  "RestoreAbortController gen snap =
     (if gen = 0 then None
      else if an_Generation snap \<noteq> gen then
        Some \<lparr>ac_generation = gen, ac_aborted = False, ac_code = [], ac_atNanos = 0\<rparr>
      else Some \<lparr>ac_generation = gen, ac_aborted = an_Aborted snap, ac_code = an_Code snap,
             ac_atNanos = an_AtUnixNano snap\<rparr>)"

section \<open>Health detectors\<close>

definition HealthSampleFloor :: int where "HealthSampleFloor = 2"

definition HealthLatencyHardLimit :: int where
  "HealthLatencyHardLimit = 15 * nanosPerSecond"

definition HealthLatencyMeanLimit :: int where
  "HealthLatencyMeanLimit = 10 * nanosPerSecond"

record health_snapshot =
  hs_Generation :: "64 word"
  hs_Samples :: int
  hs_Failures :: int
  hs_LatencySumNs :: int
  hs_HardLatencies :: int

definition HealthSnapshot_Valid :: "health_snapshot \<Rightarrow> bool" where
  "HealthSnapshot_Valid s =
     (if hs_Samples s < 0 \<or> hs_Failures s < 0 \<or> hs_LatencySumNs s < 0 \<or> hs_HardLatencies s < 0 then False
      else if hs_Failures s > hs_Samples s \<or> hs_HardLatencies s > hs_Samples s then False
      else if hs_Samples s = 0 \<and>
              (hs_LatencySumNs s \<noteq> 0 \<or> hs_Failures s \<noteq> 0 \<or> hs_HardLatencies s \<noteq> 0) then False
      else if hs_LatencySumNs s < wrap64 (hs_HardLatencies s * HealthLatencyHardLimit) then False
      else if hs_Samples s > 0 \<and> hs_HardLatencies s = 0
              \<and> hs_LatencySumNs s \<ge> wrap64 (hs_Samples s * HealthLatencyHardLimit) then False
      else True)"

record health_monitor =
  hm_generation :: "64 word"
  hm_samples :: int
  hm_failures :: int
  hm_latencySumNs :: int
  hm_hardLatencies :: int

definition NewHealthMonitor :: "64 word \<Rightarrow> health_monitor option" where
  "NewHealthMonitor g = (if g = 0 then None
     else Some \<lparr>hm_generation = g, hm_samples = 0, hm_failures = 0, hm_latencySumNs = 0,
            hm_hardLatencies = 0\<rparr>)"

text \<open>Integer division of Go truncates towards zero; the operands here are never negative.\<close>

definition rate_breach :: "health_monitor \<Rightarrow> string" where
  "rate_breach h =
     (if hm_samples h \<ge> HealthSampleFloor \<and> 2 * hm_failures h \<ge> 1 * hm_samples h then
        ''elevated_error_rate''
      else if hm_samples h \<ge> HealthSampleFloor
              \<and> hm_latencySumNs h div hm_samples h \<ge> HealthLatencyMeanLimit then ''latency_pathology''
      else [])"

definition observe_attempt :: "bool \<Rightarrow> int \<Rightarrow> health_monitor \<Rightarrow> string \<times> health_monitor" where
  "observe_attempt failed latency h =
     (let h1 = h\<lparr>hm_samples := hm_samples h + 1\<rparr>;
          h2 = (if failed then h1\<lparr>hm_failures := hm_failures h1 + 1\<rparr> else h1);
          h3 = (if latency > 0 then h2\<lparr>hm_latencySumNs := wrap64 (hm_latencySumNs h2 + latency)\<rparr> else h2)
      in if latency \<ge> HealthLatencyHardLimit then
           (''latency_pathology'', h3\<lparr>hm_hardLatencies := hm_hardLatencies h3 + 1\<rparr>)
         else (rate_breach h3, h3))"

fun Observe :: "64 word \<Rightarrow> bool \<Rightarrow> int \<Rightarrow> health_monitor option \<Rightarrow> string \<times> health_monitor option" where
  "Observe gen failed latency None = ([], None)"
| "Observe gen failed latency (Some h) =
     (if gen \<noteq> hm_generation h then ([], Some h)
      else map_prod id Some (observe_attempt failed latency h))"

fun Verdict :: "health_monitor option \<Rightarrow> string" where
  "Verdict None = []"
| "Verdict (Some h) = (if hm_hardLatencies h > 0 then ''latency_pathology'' else rate_breach h)"

fun Stats :: "health_monitor option \<Rightarrow> int \<times> int \<times> int" where
  "Stats None = (0, 0, 0)"
| "Stats (Some h) = (hm_samples h, hm_failures h,
     if hm_samples h > 0 then hm_latencySumNs h div hm_samples h else 0)"

fun Health_Snapshot :: "health_monitor option \<Rightarrow> health_snapshot" where
  "Health_Snapshot None = \<lparr>hs_Generation = 0, hs_Samples = 0, hs_Failures = 0, hs_LatencySumNs = 0,
     hs_HardLatencies = 0\<rparr>"
| "Health_Snapshot (Some h) = \<lparr>hs_Generation = hm_generation h, hs_Samples = hm_samples h,
     hs_Failures = hm_failures h, hs_LatencySumNs = hm_latencySumNs h,
     hs_HardLatencies = hm_hardLatencies h\<rparr>"

definition RestoreHealthMonitor :: "64 word \<Rightarrow> health_snapshot \<Rightarrow> health_monitor option \<times> bool" where
  "RestoreHealthMonitor gen snap =
     (if gen = 0 then (None, True)
      else if hs_Generation snap \<noteq> gen \<or> \<not> HealthSnapshot_Valid snap then (None, False)
      else (Some \<lparr>hm_generation = gen, hm_samples = hs_Samples snap, hm_failures = hs_Failures snap,
              hm_latencySumNs = hs_LatencySumNs snap, hm_hardLatencies = hs_HardLatencies snap\<rparr>, True))"

section \<open>Reviewed targets\<close>

definition IsReadFirstOperation :: "operation_class \<Rightarrow> bool" where
  "IsReadFirstOperation c \<longleftrightarrow> c = OpRead \<or> c = OpDiscovery"

definition MaxReviewedTargets :: int where
  "MaxReviewedTargets = MaxCanaryTenants * MaxCanaryTools"

record reviewed_target =
  rt_Tenant :: string
  rt_ServerID :: string
  rt_ToolName :: string
  rt_Fingerprint :: string
  rt_FingerprintFormat :: nat
  rt_ServerIdentity :: string
  rt_OperationClass :: operation_class

type_synonym reviewed_key = "string \<times> string \<times> string"

definition target_key :: "reviewed_target \<Rightarrow> reviewed_key" where
  "target_key t = (rt_Tenant t, rt_ServerID t, rt_ToolName t)"

definition zero_digest :: string where
  "zero_digest = replicate 32 (CHR 0x00)"

definition reviewableOperationClass :: "operation_class \<Rightarrow> bool" where
  "reviewableOperationClass c \<longleftrightarrow> c \<in> set [OpRead, OpWrite, OpDestructive]"

fun OperationClassFromReviewed :: "reviewed_operation_class \<Rightarrow> operation_class \<times> bool" where
  "OperationClassFromReviewed ReviewedOpReadOnly = (OpRead, True)"
| "OperationClassFromReviewed ReviewedOpMutating = (OpWrite, True)"
| "OperationClassFromReviewed _ = (OpUnset, False)"

text \<open>The checks of one entry, then the loop; \<open>seen\<close> is the map of the entries before it.\<close>

definition target_reason :: "reviewed_target \<Rightarrow> string" where
  "target_reason t =
     (if rt_Tenant t = [] \<or> rt_ServerID t = [] \<or> rt_ToolName t = [] then ''reviewed_target_incomplete_identity''
      else if rt_Fingerprint t = zero_digest then ''reviewed_target_zero_fingerprint''
      else if rt_FingerprintFormat t = 0 then ''reviewed_target_invalid_fingerprint_format''
      else if rt_ServerIdentity t = [] then ''reviewed_target_no_server_identity''
      else if rt_OperationClass t = OpUnset then ''reviewed_target_no_operation_class''
      else if \<not> reviewableOperationClass (rt_OperationClass t) then ''reviewed_target_invalid_operation_class''
      else [])"

fun review_loop :: "reviewed_target list \<Rightarrow> (reviewed_key \<rightharpoonup> reviewed_target) \<Rightarrow> string" where
  "review_loop [] seen = []"
| "review_loop (t # ts) seen =
     (if target_reason t \<noteq> [] then target_reason t
      else (case seen (target_key t) of
          Some prev \<Rightarrow> if prev = t then ''reviewed_target_duplicate'' else ''reviewed_target_ambiguous''
        | None \<Rightarrow> review_loop ts (seen(target_key t \<mapsto> t))))"

definition CanonicalizeReviewedTargets :: "reviewed_target list \<Rightarrow> reviewed_target list \<times> string" where
  "CanonicalizeReviewedTargets ts =
     (if ts = [] then ([], ''reviewed_targets_empty'')
      else if int (length ts) > MaxReviewedTargets then ([], ''reviewed_targets_too_many'')
      else if review_loop ts Map.empty \<noteq> [] then ([], review_loop ts Map.empty)
      else (sort_key target_key ts, []))"

datatype reviewed_verdict =
    ReviewedMatches
  | ReviewedFingerprintDrift
  | ReviewedServerIdentityDrift
  | ReviewedOutOfScope
  | ReviewedTenantDrift

fun ReviewedVerdict_String :: "reviewed_verdict \<Rightarrow> string" where
  "ReviewedVerdict_String ReviewedMatches = []"
| "ReviewedVerdict_String ReviewedFingerprintDrift = ''tool_fingerprint_drift''"
| "ReviewedVerdict_String ReviewedServerIdentityDrift = ''server_identity_drift''"
| "ReviewedVerdict_String ReviewedOutOfScope = ''reviewed_target_out_of_scope''"
| "ReviewedVerdict_String ReviewedTenantDrift = ''reviewed_target_tenant_drift''"

definition DriftVerdicts :: "reviewed_verdict list" where
  "DriftVerdicts = [ReviewedFingerprintDrift, ReviewedServerIdentityDrift, ReviewedTenantDrift]"

definition IsDriftVerdict :: "reviewed_verdict \<Rightarrow> bool" where
  "IsDriftVerdict v \<longleftrightarrow> list_ex (\<lambda>d. v = d) DriftVerdicts"

definition NonBreachVerdicts :: "reviewed_verdict list" where
  "NonBreachVerdicts = [ReviewedMatches, ReviewedOutOfScope]"

fun compare_loop_targets :: "reviewed_target list \<Rightarrow> reviewed_target \<Rightarrow> bool \<Rightarrow> reviewed_verdict" where
  "compare_loop_targets [] cur tenantMoved = (if tenantMoved then ReviewedTenantDrift else ReviewedOutOfScope)"
| "compare_loop_targets (r # rs) cur tenantMoved =
     (if target_key r \<noteq> target_key cur then
        compare_loop_targets rs cur
          (tenantMoved \<or> rt_ServerID r = rt_ServerID cur \<and> rt_ToolName r = rt_ToolName cur)
      else if rt_ServerIdentity r \<noteq> rt_ServerIdentity cur then ReviewedServerIdentityDrift
      else if rt_Fingerprint r \<noteq> rt_Fingerprint cur \<or> rt_FingerprintFormat r \<noteq> rt_FingerprintFormat cur then
        ReviewedFingerprintDrift
      else ReviewedMatches)"

definition Reviewed_Compare :: "reviewed_target list \<Rightarrow> reviewed_target \<Rightarrow> reviewed_verdict" where
  "Reviewed_Compare s cur = compare_loop_targets s cur False"

definition OperationClassFor :: "reviewed_target list \<Rightarrow> reviewed_target \<Rightarrow> operation_class \<times> bool" where
  "OperationClassFor s cur =
     (if Reviewed_Compare s cur \<noteq> ReviewedMatches then (OpUnset, False)
      else (case find (\<lambda>t. target_key t = target_key cur) s of
          Some t \<Rightarrow> (rt_OperationClass t, True) | None \<Rightarrow> (OpUnset, False)))"

definition ReviewedReadFirst :: "reviewed_target list \<Rightarrow> reviewed_target \<Rightarrow> bool" where
  "ReviewedReadFirst s cur \<longleftrightarrow> snd (OperationClassFor s cur) \<and> fst (OperationClassFor s cur) = OpRead"

section \<open>Aborts\<close>

lemma AbortScopeForCode_request:
  "AbortScopeForCode code = AbortRequest \<longleftrightarrow>
     code \<in> {''policy_deny'', ''stale_decision'', ''credential_not_ready'', ''response_inspection_block'',
       ''emergency_kill_for_request'', ''allowance_consumed''}"
proof (cases "code \<in> set (map fst AbortConditions)")
  case True
  then show ?thesis by (auto simp: AbortScopeForCode_def AbortConditions_def)
next
  case False
  then have "map_of (rev AbortConditions) code = None" by (simp add: map_of_eq_None_iff)
  then have "AbortScopeForCode code = AbortCanary" by (simp add: AbortScopeForCode_def)
  moreover have "code \<notin> {''policy_deny'', ''stale_decision'', ''credential_not_ready'',
      ''response_inspection_block'', ''emergency_kill_for_request'', ''allowance_consumed''}"
    using False by (auto simp: AbortConditions_def)
  ultimately show ?thesis by simp
qed

lemma Trip_stable:
  "ac_aborted c \<Longrightarrow> snd (Trip code gen now (Some c)) = Some c"
  by simp

lemma Trip_latches:
  "gen = ac_generation c \<Longrightarrow> AbortScopeForCode code \<noteq> AbortRequest \<Longrightarrow>
   \<exists>c'. Trip code gen now (Some c) = (TripCanaryLatched, Some c') \<and> ac_aborted c' \<and>
        ac_generation c' = ac_generation c \<and> (ac_code c' = code \<or> ac_aborted c)"
  by simp

lemma Trip_generation [simp]:
  "map_option ac_generation (snd (Trip code gen now oc)) = map_option ac_generation oc"
  by (cases oc) simp_all

lemma abort_round_trip:
  "ac_generation c \<noteq> 0 \<Longrightarrow> RestoreAbortController (ac_generation c) (Abort_Snapshot (Some c)) = Some c"
  by (simp add: RestoreAbortController_def)

section \<open>Health\<close>

text \<open>The counters a monitor can hold, as long as no sum leaves the 64-bit range.\<close>

definition monitor_wf :: "health_monitor \<Rightarrow> bool" where
  "monitor_wf h \<longleftrightarrow> 0 \<le> hm_failures h \<and> hm_failures h \<le> hm_samples h \<and>
     0 \<le> hm_hardLatencies h \<and> hm_hardLatencies h \<le> hm_samples h \<and>
     hm_hardLatencies h * HealthLatencyHardLimit \<le> hm_latencySumNs h \<and>
     (hm_hardLatencies h = 0 \<longrightarrow> hm_samples h = 0 \<and> hm_latencySumNs h = 0 \<or>
        hm_latencySumNs h < hm_samples h * HealthLatencyHardLimit) \<and>
     (hm_samples h = 0 \<longrightarrow> hm_latencySumNs h = 0)"

lemma wrap64_id: "- (2 ^ 63) \<le> n \<Longrightarrow> n < 2 ^ 63 \<Longrightarrow> wrap64 n = n"
  by (simp add: wrap64_def)

lemma NewHealthMonitor_wf: "NewHealthMonitor g = Some h \<Longrightarrow> monitor_wf h"
  by (auto simp: NewHealthMonitor_def monitor_wf_def split: if_split_asm)

lemma observe_wf:
  assumes "monitor_wf h" and "hm_latencySumNs h + latency < 2 ^ 63" and "0 \<le> hm_latencySumNs h"
  shows "monitor_wf (snd (observe_attempt failed latency h))"
proof -
  have w: "latency > 0 \<Longrightarrow> wrap64 (hm_latencySumNs h + latency) = hm_latencySumNs h + latency"
    using assms(2,3) by (intro wrap64_id) auto
  show ?thesis
    using assms(1) w
    by (auto simp: observe_attempt_def monitor_wf_def Let_def HealthLatencyHardLimit_def
        nanosPerSecond_def)
qed

lemma monitor_wf_nonneg: "monitor_wf h \<Longrightarrow> 0 \<le> hm_latencySumNs h \<and> 0 \<le> hm_samples h"
  by (auto simp: monitor_wf_def HealthLatencyHardLimit_def nanosPerSecond_def)

lemma snapshot_valid:
  assumes "monitor_wf h" and "hm_samples h \<le> 1000"
  shows "HealthSnapshot_Valid (Health_Snapshot (Some h))"
proof -
  have "hm_hardLatencies h \<le> 1000" using assms by (simp add: monitor_wf_def)
  then have "wrap64 (hm_hardLatencies h * HealthLatencyHardLimit) = hm_hardLatencies h * HealthLatencyHardLimit"
    "wrap64 (hm_samples h * HealthLatencyHardLimit) = hm_samples h * HealthLatencyHardLimit"
    using assms by (intro wrap64_id; simp add: HealthLatencyHardLimit_def nanosPerSecond_def monitor_wf_def)+
  with assms(1) monitor_wf_nonneg[OF assms(1)] show ?thesis
    by (auto simp: HealthSnapshot_Valid_def monitor_wf_def)
qed

lemma health_round_trip:
  assumes "monitor_wf h" and "hm_samples h \<le> 1000" and "hm_generation h \<noteq> 0"
  shows "RestoreHealthMonitor (hm_generation h) (Health_Snapshot (Some h)) = (Some h, True)"
  using snapshot_valid[OF assms(1,2)] assms(3) by (simp add: RestoreHealthMonitor_def)

text \<open>The verdict re-derived after a restart is the one the live path returned.\<close>

lemma Verdict_after_observe:
  assumes "hm_hardLatencies h = 0"
  shows "Verdict (Some (snd (observe_attempt failed latency h))) = fst (observe_attempt failed latency h)"
  using assms by (simp add: observe_attempt_def Let_def)

section \<open>Reviewed targets\<close>

lemma review_loop_OK:
  "review_loop ts seen = [] \<longleftrightarrow>
     (\<forall>t \<in> set ts. target_reason t = [] \<and> seen (target_key t) = None) \<and> distinct (map target_key ts)"
proof (induction ts arbitrary: seen)
  case (Cons t ts)
  have "review_loop (t # ts) seen = [] \<longleftrightarrow>
      target_reason t = [] \<and> seen (target_key t) = None \<and> review_loop ts (seen(target_key t \<mapsto> t)) = []"
    by (auto split: option.splits)
  moreover have "target_key t \<notin> target_key ` set ts \<longleftrightarrow> (\<forall>u\<in>set ts. target_key u \<noteq> target_key t)"
    unfolding image_iff by metis
  ultimately show ?case unfolding Cons.IH by auto
qed simp

lemma Canonicalize_OK:
  "CanonicalizeReviewedTargets ts = (s, []) \<longleftrightarrow>
     ts \<noteq> [] \<and> int (length ts) \<le> MaxReviewedTargets \<and> (\<forall>t \<in> set ts. target_reason t = []) \<and>
     distinct (map target_key ts) \<and> s = sort_key target_key ts"
  by (auto simp: CanonicalizeReviewedTargets_def review_loop_OK)

lemma Canonicalize_perm:
  assumes "CanonicalizeReviewedTargets ts = (s, [])" and "mset us = mset ts"
  shows "CanonicalizeReviewedTargets us = (s, [])"
  using assms sort_key_perm_eq[of us ts target_key] distinct_map_perm[of us ts target_key]
    mset_eq_setD[OF assms(2)] mset_eq_length[OF assms(2)]
  by (auto simp: Canonicalize_OK)

lemma Compare_find:
  "compare_loop_targets s cur b =
     (case find (\<lambda>t. target_key t = target_key cur) s of
        None \<Rightarrow> if b \<or> (\<exists>t \<in> set s. rt_ServerID t = rt_ServerID cur \<and> rt_ToolName t = rt_ToolName cur)
                then ReviewedTenantDrift else ReviewedOutOfScope
      | Some r \<Rightarrow> if rt_ServerIdentity r \<noteq> rt_ServerIdentity cur then ReviewedServerIdentityDrift
                  else if rt_Fingerprint r \<noteq> rt_Fingerprint cur \<or> rt_FingerprintFormat r \<noteq> rt_FingerprintFormat cur
                  then ReviewedFingerprintDrift else ReviewedMatches)"
  by (induction s arbitrary: b) auto

lemma ReadFirst_sound:
  assumes "ReviewedReadFirst s cur"
  shows "\<exists>t \<in> set s. target_key t = target_key cur \<and> rt_ServerIdentity t = rt_ServerIdentity cur \<and>
    rt_Fingerprint t = rt_Fingerprint cur \<and> rt_FingerprintFormat t = rt_FingerprintFormat cur \<and>
    rt_OperationClass t = OpRead"
proof -
  from assms have m: "Reviewed_Compare s cur = ReviewedMatches"
    by (auto simp: ReviewedReadFirst_def OperationClassFor_def split: if_split_asm)
  then obtain t where t: "find (\<lambda>t. target_key t = target_key cur) s = Some t"
    by (auto simp: Reviewed_Compare_def Compare_find split: option.splits if_split_asm)
  then have "t \<in> set s \<and> target_key t = target_key cur"
    by (metis (mono_tags, lifting) find_Some_iff nth_mem)
  moreover have "rt_OperationClass t = OpRead"
    using assms m t by (simp add: ReviewedReadFirst_def OperationClassFor_def)
  moreover have "rt_ServerIdentity t = rt_ServerIdentity cur \<and> rt_Fingerprint t = rt_Fingerprint cur \<and>
      rt_FingerprintFormat t = rt_FingerprintFormat cur"
    using m t by (auto simp: Reviewed_Compare_def Compare_find split: if_split_asm)
  ultimately show ?thesis by blast
qed

end
