(* ===== verification/CanaryRuntime.thy ===== *)
theory CanaryRuntime
  imports CanaryGuards Fileutil RolloutMode
begin

text \<open>
  The activation runtime of one capability (\<open>mcp_canary_runtime.go\<close>) and its automatic
  stops (\<open>mcp_canary_autostop.go\<close>): the in-memory state under its mutex, the durable record,
  and restarts. The two capabilities have separate instances of everything here.

  The disk is the content the directory entry shows and the contents a crash can bring back: a
  rename whose directory was not synced can be undone by a crash, so the displaced content stays
  possible until a later directory sync. \<open>None\<close> is a missing file, \<open>Undecodable\<close> a file the
  strict decoder rejects, such as an emptied one. JSON keeps every number and turns invalid UTF-8
  in strings into replacement characters (\<open>json_text\<close>).

  Every call takes its environment as a \<open>runtime_io\<close>: the clock sample, and the faults of its
  first and second durable write with the faults of the clean-up after each. The window watchdog is
  the pending timer: its generation and delay.
\<close>

section \<open>The durable record and the disk\<close>

record runtime_state =
  rs_SchemaVersion :: int
  rs_Capability :: string
  rs_BuildVersion :: string
  rs_Generation :: "64 word"
  rs_Active :: bool
  rs_Budget :: budget
  rs_BudgetSnapshot :: budget_snapshot
  rs_AbortSnapshot :: abort_snapshot
  rs_HealthSnapshot :: health_snapshot
  rs_ReviewedTargets :: "reviewed_target list"

definition canaryRuntimeSchemaVersion :: int where "canaryRuntimeSchemaVersion = 3"

datatype content = Undecodable | StateRecord runtime_state

record cleanup_faults =
  trunc_fault :: "go_error option"
  truncsync_fault :: "go_error option"
  remove_fault :: "go_error option"
  parentsync_fault :: "go_error option"

record runtime_io =
  ri_now :: gotime
  ri_write :: fs_faults
  ri_cleanup :: cleanup_faults
  ri_write2 :: fs_faults
  ri_cleanup2 :: cleanup_faults

text \<open>
  Emptying the file in place and syncing its data. When the sync fails the old content can come
  back.
\<close>

definition invalidateFileContentDurably :: "cleanup_faults \<Rightarrow> content disk \<Rightarrow> go_error option \<times> content disk" where
  "invalidateFileContentDurably cf d = (case dk_visible d of
     None \<Rightarrow> (None, d)
   | Some c \<Rightarrow> (case trunc_fault cf of
       Some e \<Rightarrow> (Some e, d)
     | None \<Rightarrow> (truncsync_fault cf, \<lparr>dk_visible = Some Undecodable,
         dk_revertible = (if truncsync_fault cf = None then dk_revertible d else Some c # dk_revertible d)\<rparr>)))"

definition syncParentDir :: "cleanup_faults \<Rightarrow> content disk \<Rightarrow> go_error option \<times> content disk" where
  "syncParentDir cf d = (parentsync_fault cf,
     if parentsync_fault cf = None then d\<lparr>dk_revertible := []\<rparr> else d)"

definition removeRuntimeStateAfterSafetyPersistFailure :: "cleanup_faults \<Rightarrow> content disk \<Rightarrow> go_error option \<times> content disk" where
  "removeRuntimeStateAfterSafetyPersistFailure cf d = (case invalidateFileContentDurably cf d of
     (Some e, d1) \<Rightarrow> (Some e, d1)
   | (None, d1) \<Rightarrow>
       if dk_visible d1 \<noteq> None \<and> remove_fault cf \<noteq> None then (remove_fault cf, d1)
       else syncParentDir cf \<lparr>dk_visible = None, dk_revertible =
              (if dk_visible d1 = None then dk_revertible d1 else dk_visible d1 # dk_revertible d1)\<rparr>)"

section \<open>The runtime of a capability\<close>

record cap_runtime =
  cr_generation :: "64 word"
  cr_active :: bool
  cr_budget :: budget
  cr_reviewed :: "reviewed_target list"
  cr_enforcer :: "budget_enforcer option"
  cr_aborter :: "abort_controller option"
  cr_health :: "health_monitor option"
  cr_watchdog :: "(64 word \<times> int) option"

record runtime =
  rn_cap :: rollout_capability
  rn_build :: string
  rn_mem :: cap_runtime
  rn_disk :: "content disk"

definition fresh_mem :: cap_runtime where
  "fresh_mem = \<lparr>cr_generation = 0, cr_active = False, cr_budget = zero_budget, cr_reviewed = [],
     cr_enforcer = None, cr_aborter = None, cr_health = None, cr_watchdog = None\<rparr>"

definition json_budget_snapshot :: "budget_snapshot \<Rightarrow> budget_snapshot" where
  "json_budget_snapshot s = s\<lparr>bs_Principals := map json_text (bs_Principals s),
     bs_Tools := map json_text (bs_Tools s), bs_Servers := map json_text (bs_Servers s)\<rparr>"

definition json_target :: "reviewed_target \<Rightarrow> reviewed_target" where
  "json_target t = t\<lparr>rt_Tenant := json_text (rt_Tenant t), rt_ServerID := json_text (rt_ServerID t),
     rt_ToolName := json_text (rt_ToolName t), rt_ServerIdentity := json_text (rt_ServerIdentity t)\<rparr>"

text \<open>The record a persist writes, as the decoder will read it.\<close>

definition state_record :: "rollout_capability \<Rightarrow> string \<Rightarrow> cap_runtime \<Rightarrow> runtime_state" where
  "state_record capb build cr = \<lparr>rs_SchemaVersion = canaryRuntimeSchemaVersion,
     rs_Capability = RolloutCapability_String capb, rs_BuildVersion = build,
     rs_Generation = cr_generation cr, rs_Active = cr_active cr, rs_Budget = cr_budget cr,
     rs_BudgetSnapshot = json_budget_snapshot (Budget_Snapshot (cr_enforcer cr)),
     rs_AbortSnapshot = (Abort_Snapshot (cr_aborter cr))\<lparr>an_Code := json_text (AbortCode (cr_aborter cr))\<rparr>,
     rs_HealthSnapshot = Health_Snapshot (cr_health cr),
     rs_ReviewedTargets = map json_target (cr_reviewed cr)\<rparr>"

definition persistRuntime :: "fs_faults \<Rightarrow> runtime \<Rightarrow> go_error option \<times> runtime" where
  "persistRuntime fs r =
     (let (e, d) = write_disk (StateRecord (state_record (rn_cap r) (rn_build r) (rn_mem r))) fs (rn_disk r)
      in (e, r\<lparr>rn_disk := d\<rparr>))"

definition cleanup_runtime :: "cleanup_faults \<Rightarrow> runtime \<Rightarrow> runtime" where
  "cleanup_runtime cf r = r\<lparr>rn_disk := snd (removeRuntimeStateAfterSafetyPersistFailure cf (rn_disk r))\<rparr>"

text \<open>A safety latch: persist, and remove the durable record when the persist failed.\<close>

definition persist_or_remove :: "fs_faults \<Rightarrow> cleanup_faults \<Rightarrow> runtime \<Rightarrow> runtime" where
  "persist_or_remove fs cf r = (case persistRuntime fs r of
     (None, r') \<Rightarrow> r' | (Some e, r') \<Rightarrow> cleanup_runtime cf r')"

definition disarmed :: "cap_runtime \<Rightarrow> cap_runtime" where
  "disarmed cr = cr\<lparr>cr_active := False, cr_budget := zero_budget, cr_reviewed := [],
     cr_enforcer := None, cr_aborter := None, cr_health := None\<rparr>"

section \<open>Automatic stops\<close>

definition tripAutoStopLocked :: "string \<Rightarrow> gotime \<Rightarrow> fs_faults \<Rightarrow> cleanup_faults \<Rightarrow> runtime \<Rightarrow> runtime" where
  "tripAutoStopLocked code now fs cf r =
     (if cr_aborter (rn_mem r) = None then r
      else (case Trip code (cr_generation (rn_mem r)) now (cr_aborter (rn_mem r)) of (res, ab) \<Rightarrow>
        let r1 = r\<lparr>rn_mem := (rn_mem r)\<lparr>cr_aborter := ab\<rparr>\<rparr> in
        if res = TripCanaryLatched then persist_or_remove fs cf r1 else r1))"

definition stopWindowWatchdog :: "cap_runtime \<Rightarrow> cap_runtime" where
  "stopWindowWatchdog cr = cr\<lparr>cr_watchdog := None\<rparr>"

definition armWindowWatchdog :: "64 word \<Rightarrow> int \<Rightarrow> cap_runtime \<Rightarrow> cap_runtime" where
  "armWindowWatchdog gen delay cr = cr\<lparr>cr_watchdog := Some (gen, if delay < 0 then 0 else delay)\<rparr>"

definition reconcileWindowDeadlineLocked :: "gotime \<Rightarrow> fs_faults \<Rightarrow> cleanup_faults \<Rightarrow> runtime \<Rightarrow> runtime" where
  "reconcileWindowDeadlineLocked now fs cf r0 =
     (let r = r0\<lparr>rn_mem := stopWindowWatchdog (rn_mem r0)\<rparr>; cr = rn_mem r in
      if \<not> cr_active cr \<or> cr_enforcer cr = None \<or> cr_aborter cr = None then r
      else if Remaining (cr_enforcer cr) \<le> 0 then tripAutoStopLocked ''budget_exhausted'' now fs cf r
      else if Verdict (cr_health cr) \<noteq> [] then tripAutoStopLocked (Verdict (cr_health cr)) now fs cf r
      else if WindowDeadline (cr_enforcer cr) = 0 then r
      else if \<not> WindowOpen (cr_enforcer cr) now then tripAutoStopLocked ''window_expired'' now fs cf r
      else r\<lparr>rn_mem := armWindowWatchdog (cr_generation cr)
                 (Time_Sub (WindowDeadline (cr_enforcer cr)) now) cr\<rparr>)"

section \<open>Activation and demotion\<close>

record activation_spec =
  as_Budget :: budget
  as_ReviewedTargets :: "reviewed_target list"
  as_StartedAt :: gotime

definition errCanaryBudgetInvalid :: go_error where
  "errCanaryBudgetInvalid = PlainErr ''canary_budget_invalid''"

definition errCanaryReviewedTargetsInvalid :: go_error where
  "errCanaryReviewedTargetsInvalid = PlainErr ''canary_reviewed_targets_invalid''"

definition armed_mem :: "activation_spec \<Rightarrow> reviewed_target list \<Rightarrow> cap_runtime \<Rightarrow> cap_runtime" where
  "armed_mem spec reviewed cr =
     (let gen = cr_generation cr + 1 in
      cr\<lparr>cr_generation := gen, cr_active := True, cr_budget := as_Budget spec, cr_reviewed := reviewed,
         cr_enforcer := NewBudgetEnforcer (as_Budget spec) gen (as_StartedAt spec),
         cr_aborter := NewAbortController gen, cr_health := NewHealthMonitor gen\<rparr>)"

definition beginCanaryActivation ::
    "runtime_io \<Rightarrow> activation_spec \<Rightarrow> runtime \<Rightarrow> (64 word \<times> go_error option) \<times> runtime" where
  "beginCanaryActivation io spec r =
     (if ValidateBudget (as_Budget spec) \<noteq> [] then ((0, Some errCanaryBudgetInvalid), r)
      else (case CanonicalizeReviewedTargets (as_ReviewedTargets spec) of (reviewed, rr) \<Rightarrow>
        if rr \<noteq> [] then ((0, Some (WrapErr (Some errCanaryReviewedTargetsInvalid))), r)
        else
          let r1 = r\<lparr>rn_mem := armed_mem spec reviewed (rn_mem r)\<rparr>; gen = cr_generation (rn_mem r1) in
          (case persistRuntime (ri_write io) r1 of
             (Some e, r2) \<Rightarrow>
               ((gen, Some e), cleanup_runtime (ri_cleanup io) (r2\<lparr>rn_mem := disarmed (rn_mem r2)\<rparr>))
           | (None, r2) \<Rightarrow>
               ((gen, None), reconcileWindowDeadlineLocked (ri_now io) (ri_write2 io) (ri_cleanup2 io) r2))))"

definition demoteCanary :: "runtime_io \<Rightarrow> runtime \<Rightarrow> go_error option \<times> runtime" where
  "demoteCanary io r =
     (let r1 = r\<lparr>rn_mem := disarmed (stopWindowWatchdog (rn_mem r))\<rparr> in
      (case persistRuntime (ri_write io) r1 of
         (Some e, r2) \<Rightarrow> (Some e, cleanup_runtime (ri_cleanup io) r2)
       | (None, r2) \<Rightarrow> (None, r2)))"

section \<open>Reads\<close>

definition generationActive :: "gotime \<Rightarrow> 64 word \<Rightarrow> cap_runtime \<Rightarrow> bool" where
  "generationActive now gen cr =
     (if \<not> cr_active cr \<or> cr_aborter cr = None \<or> cr_generation cr \<noteq> gen then False
      else if \<not> ExecutionEligible (cr_aborter cr) gen then False
      else if cr_enforcer cr \<noteq> None \<and> \<not> WindowOpen (cr_enforcer cr) now then False
      else True)"

definition executionEligible :: "gotime \<Rightarrow> cap_runtime \<Rightarrow> bool" where
  "executionEligible now cr =
     (if \<not> cr_active cr \<or> cr_enforcer cr = None \<or> cr_aborter cr = None then False
      else ExecutionEligible (cr_aborter cr) (cr_generation cr) \<and> Reservable (cr_enforcer cr) now)"

definition windowDeadlineIfOpen :: "gotime \<Rightarrow> cap_runtime \<Rightarrow> gotime \<times> bool" where
  "windowDeadlineIfOpen now cr =
     (if \<not> cr_active cr \<or> cr_enforcer cr = None \<or> \<not> WindowOpen (cr_enforcer cr) now then (0, False)
      else (WindowDeadline (cr_enforcer cr), WindowDeadline (cr_enforcer cr) \<noteq> 0))"

section \<open>Reservations\<close>

text \<open>The latch a refused reservation sets, by the outcome of the budget.\<close>

definition reserve_trip :: "budget_outcome \<Rightarrow> 64 word \<Rightarrow> gotime \<Rightarrow> abort_controller option \<Rightarrow> abort_controller option" where
  "reserve_trip outcome gen now ab =
     (if outcome = BudgetDeniedWindow then snd (Trip ''window_expired'' gen now ab)
      else if WholeCanaryExhaustion outcome then snd (Trip ''budget_exhausted'' gen now ab)
      else if IdentityCapExceeded outcome then snd (Trip ''scope_escape'' gen now ab)
      else ab)"

definition reserveLocked :: "runtime_io \<Rightarrow> 64 word \<Rightarrow> execution_identity \<Rightarrow> runtime \<Rightarrow> budget_outcome \<times> runtime" where
  "reserveLocked io gen ident r =
     (case Reserve gen (ri_now io) ident (cr_enforcer (rn_mem r)) of (outcome, enf) \<Rightarrow>
       let cr1 = (rn_mem r)\<lparr>cr_enforcer := enf,
             cr_aborter := reserve_trip outcome gen (ri_now io) (cr_aborter (rn_mem r))\<rparr>
       in (case persistRuntime (ri_write io) (r\<lparr>rn_mem := cr1\<rparr>) of
             (None, r2) \<Rightarrow> (outcome, r2)
           | (Some e, r2) \<Rightarrow>
               let r3 = (if WholeCanaryExhaustion outcome \<or> IdentityCapExceeded outcome
                         then cleanup_runtime (ri_cleanup io) r2 else r2)
               in if outcome = BudgetGranted
                  then (BudgetDeniedInvalid,
                        r3\<lparr>rn_mem := (rn_mem r3)\<lparr>cr_enforcer := Release (cr_enforcer (rn_mem r3))\<rparr>\<rparr>)
                  else (outcome, r3)))"

definition reserveCanaryExecution ::
    "runtime_io \<Rightarrow> execution_identity \<Rightarrow> runtime \<Rightarrow> (budget_outcome \<times> 64 word) \<times> runtime" where
  "reserveCanaryExecution io ident r =
     (let cr = rn_mem r; gen = cr_generation cr in
      if \<not> cr_active cr \<or> cr_enforcer cr = None \<or> cr_aborter cr = None then ((BudgetDeniedInvalid, 0), r)
      else if \<not> ExecutionEligible (cr_aborter cr) gen then ((BudgetDeniedInvalid, gen), r)
      else (case reserveLocked io gen ident r of (outcome, r') \<Rightarrow> ((outcome, gen), r')))"

definition releaseCanaryExecution :: "runtime_io \<Rightarrow> 64 word \<Rightarrow> runtime \<Rightarrow> runtime" where
  "releaseCanaryExecution io gen r =
     (if cr_enforcer (rn_mem r) = None \<or> cr_generation (rn_mem r) \<noteq> gen then r
      else let enf = Release (cr_enforcer (rn_mem r)); r1 = r\<lparr>rn_mem := (rn_mem r)\<lparr>cr_enforcer := enf\<rparr>\<rparr> in
        if Remaining enf \<le> 0 \<and> Inflight enf = 0
        then tripAutoStopLocked ''budget_exhausted'' (ri_now io) (ri_write io) (ri_cleanup io) r1 else r1)"

section \<open>Trips\<close>

definition tripCanaryAbortForGeneration ::
    "runtime_io \<Rightarrow> 64 word \<Rightarrow> string \<Rightarrow> runtime \<Rightarrow> trip_result \<times> runtime" where
  "tripCanaryAbortForGeneration io wantGen code r =
     (let cr = rn_mem r in
      if \<not> cr_active cr \<or> cr_aborter cr = None then (TripCanaryLatched, r)
      else if wantGen \<noteq> 0 \<and> cr_generation cr \<noteq> wantGen then (TripCanaryLatched, r)
      else (case Trip code (cr_generation cr) (ri_now io) (cr_aborter cr) of (res, ab) \<Rightarrow>
        let r1 = r\<lparr>rn_mem := cr\<lparr>cr_aborter := ab\<rparr>\<rparr> in
        (res, if res = TripCanaryLatched then persist_or_remove (ri_write io) (ri_cleanup io) r1 else r1)))"

definition tripCanaryAbort :: "runtime_io \<Rightarrow> string \<Rightarrow> runtime \<Rightarrow> trip_result \<times> runtime" where
  "tripCanaryAbort io code r = tripCanaryAbortForGeneration io 0 code r"

definition Breach :: "runtime_io \<Rightarrow> string \<Rightarrow> 64 word \<Rightarrow> string \<Rightarrow> runtime \<Rightarrow> runtime" where
  "Breach io capability gen code r =
     (if capability \<noteq> RolloutCapability_String (rn_cap r) then r
      else if gen = 0 then r
      else snd (tripCanaryAbortForGeneration io gen code r))"

definition observeAttemptSettled :: "runtime_io \<Rightarrow> 64 word \<Rightarrow> bool \<Rightarrow> int \<Rightarrow> runtime \<Rightarrow> runtime" where
  "observeAttemptSettled io gen failed latency r =
     (let cr = rn_mem r in
      if \<not> cr_active cr \<or> cr_health cr = None \<or> cr_generation cr \<noteq> gen then r
      else (case Observe gen failed latency (cr_health cr) of (code, h) \<Rightarrow>
        let r1 = r\<lparr>rn_mem := cr\<lparr>cr_health := h\<rparr>\<rparr> in
        if code \<noteq> [] then tripAutoStopLocked code (ri_now io) (ri_write io) (ri_cleanup io) r1
        else persist_or_remove (ri_write io) (ri_cleanup io) r1))"

definition AttemptSettled :: "runtime_io \<Rightarrow> string \<Rightarrow> 64 word \<Rightarrow> bool \<Rightarrow> int \<Rightarrow> runtime \<Rightarrow> runtime" where
  "AttemptSettled io capability gen failed latency r =
     (if capability \<noteq> RolloutCapability_String (rn_cap r) then r
      else observeAttemptSettled io gen failed latency r)"

definition rearmWindowWatchdog :: "64 word \<Rightarrow> int \<Rightarrow> runtime \<Rightarrow> runtime" where
  "rearmWindowWatchdog gen delay r =
     (if \<not> cr_active (rn_mem r) \<or> cr_generation (rn_mem r) \<noteq> gen then r
      else r\<lparr>rn_mem := armWindowWatchdog gen delay (stopWindowWatchdog (rn_mem r))\<rparr>)"

text \<open>The callback of the timer armed for generation \<open>gen\<close>.\<close>

definition watchdog_callback :: "runtime_io \<Rightarrow> 64 word \<Rightarrow> runtime \<Rightarrow> runtime" where
  "watchdog_callback io gen r =
     (if cr_generation (rn_mem r) \<noteq> gen then r
      else (case windowDeadlineIfOpen (ri_now io) (rn_mem r) of (d, ok) \<Rightarrow>
        if ok \<and> ri_now io < d then rearmWindowWatchdog gen (Time_Sub d (ri_now io)) r
        else snd (tripCanaryAbortForGeneration io gen ''window_expired'' r)))"

section \<open>Restart\<close>

definition restored_mem :: "runtime_state \<Rightarrow> cap_runtime \<Rightarrow> cap_runtime" where
  "restored_mem st cr =
     (let (reviewed, rr) = CanonicalizeReviewedTargets (rs_ReviewedTargets st) in
      if rr \<noteq> [] then disarmed cr
      else
        let enf = RestoreBudgetEnforcer (rs_Budget st) (rs_Generation st) (rs_BudgetSnapshot st);
            ab = RestoreAbortController (rs_Generation st) (rs_AbortSnapshot st);
            (h, hok) = RestoreHealthMonitor (rs_Generation st) (rs_HealthSnapshot st);
            healthOK = (hok \<and> \<not> hs_Samples (rs_HealthSnapshot st) > bs_TotalReserved (rs_BudgetSnapshot st))
        in if enf = None \<or> ab = None \<or> \<not> healthOK
           then (disarmed cr)\<lparr>cr_reviewed := reviewed\<rparr>
           else cr\<lparr>cr_reviewed := reviewed, cr_budget := rs_Budget st, cr_enforcer := enf, cr_aborter := ab,
                   cr_health := h, cr_active := True\<rparr>)"

definition restoreCapability :: "runtime_io \<Rightarrow> runtime \<Rightarrow> runtime" where
  "restoreCapability io r =
     (let quarantined = (if remove_fault (ri_cleanup2 io) = None
            then r\<lparr>rn_disk := (rn_disk r)\<lparr>dk_visible := None,
                    dk_revertible := dk_visible (rn_disk r) # dk_revertible (rn_disk r)\<rparr>\<rparr> else r) in
      case dk_visible (rn_disk r) of
        None \<Rightarrow> r
      | Some Undecodable \<Rightarrow> quarantined
      | Some (StateRecord st) \<Rightarrow>
          if rs_SchemaVersion st \<noteq> canaryRuntimeSchemaVersion
             \<or> rs_Capability st \<noteq> RolloutCapability_String (rn_cap r) then quarantined
          else
            let cr = (rn_mem r)\<lparr>cr_generation := rs_Generation st\<rparr> in
            if \<not> rs_Active st \<or> rs_BuildVersion st \<noteq> rn_build r \<or> rs_Generation st = 0 then
              r\<lparr>rn_mem := disarmed cr\<rparr>
            else if bs_Generation (rs_BudgetSnapshot st) \<noteq> rs_Generation st
                    \<or> an_Generation (rs_AbortSnapshot st) \<noteq> rs_Generation st then
              r\<lparr>rn_mem := disarmed cr\<rparr>
            else let cr' = restored_mem st cr; r' = r\<lparr>rn_mem := cr'\<rparr> in
              if cr_active cr' then reconcileWindowDeadlineLocked (ri_now io) (ri_write io) (ri_cleanup io) r'
              else r')"

text \<open>
  A crash brings back one of the possible contents of the file; the new process, of build
  \<open>build\<close>, starts from an empty runtime and restores it.
\<close>

definition crash_restart :: "runtime_io \<Rightarrow> nat \<Rightarrow> string \<Rightarrow> runtime \<Rightarrow> runtime" where
  "crash_restart io k build r =
     (let cs = dk_visible (rn_disk r) # dk_revertible (rn_disk r);
          c = cs ! (k mod length cs)
      in restoreCapability io (r\<lparr>rn_build := build, rn_mem := fresh_mem,
           rn_disk := \<lparr>dk_visible = c, dk_revertible = []\<rparr>\<rparr>))"

definition reconcileCanaryRuntimeAfterRestore :: "runtime_io \<Rightarrow> mode \<Rightarrow> runtime \<Rightarrow> runtime" where
  "reconcileCanaryRuntimeAfterRestore io currentMode r =
     (if \<not> cr_active (rn_mem r) then r
      else if RequiresLiveExecution currentMode then r
      else snd (demoteCanary io r))"

section \<open>Steps\<close>

datatype runtime_op =
    OpBegin activation_spec
  | OpDemote
  | OpReserve execution_identity
  | OpRelease "64 word"
  | OpTrip "64 word" string
  | OpSettled "64 word" bool int
  | OpWatchdog "64 word"
  | OpReconcile mode
  | OpCrash nat string

fun runtime_step :: "runtime_io \<times> runtime_op \<Rightarrow> runtime \<Rightarrow> runtime" where
  "runtime_step (io, OpBegin spec) r = snd (beginCanaryActivation io spec r)"
| "runtime_step (io, OpDemote) r = snd (demoteCanary io r)"
| "runtime_step (io, OpReserve ident) r = snd (reserveCanaryExecution io ident r)"
| "runtime_step (io, OpRelease gen) r = releaseCanaryExecution io gen r"
| "runtime_step (io, OpTrip gen code) r = snd (tripCanaryAbortForGeneration io gen code r)"
| "runtime_step (io, OpSettled gen failed latency) r = observeAttemptSettled io gen failed latency r"
| "runtime_step (io, OpWatchdog gen) r = watchdog_callback io gen r"
| "runtime_step (io, OpReconcile m) r = reconcileCanaryRuntimeAfterRestore io m r"
| "runtime_step (io, OpCrash k build) r = crash_restart io k build r"

text \<open>
  How many executions were granted under each generation since its last activation: a call that
  begins generation \<open>gen\<close> starts its count, a granted reservation adds one.
\<close>

fun count_grant :: "runtime_io \<times> runtime_op \<Rightarrow> runtime \<Rightarrow> (64 word \<Rightarrow> nat) \<Rightarrow> (64 word \<Rightarrow> nat)" where
  "count_grant (io, OpBegin spec) r g = g(fst (fst (beginCanaryActivation io spec r)) := 0)"
| "count_grant (io, OpReserve ident) r g = (case fst (reserveCanaryExecution io ident r) of
     (outcome, gen) \<Rightarrow> if outcome = BudgetGranted then g(gen := g gen + 1) else g)"
| "count_grant _ r g = g"

definition counted_step :: "runtime_io \<times> runtime_op \<Rightarrow> runtime \<times> (64 word \<Rightarrow> nat) \<Rightarrow> runtime \<times> (64 word \<Rightarrow> nat)" where
  "counted_step x s = (runtime_step x (fst s), count_grant x (fst s) (snd s))"

section \<open>The disk\<close>

lemma invalidate_contents:
  "contents (snd (invalidateFileContentDurably cf d)) \<subseteq> insert (Some Undecodable) (contents d)"
  by (auto simp: invalidateFileContentDurably_def contents_def split: option.splits)

lemma remove_contents:
  "contents (snd (removeRuntimeStateAfterSafetyPersistFailure cf d)) \<subseteq>
     {None, Some Undecodable} \<union> contents d"
  using invalidate_contents[of cf d]
  by (auto simp: removeRuntimeStateAfterSafetyPersistFailure_def syncParentDir_def contents_def
      split: prod.splits option.splits if_split_asm)

lemma remove_clean:
  "fst (removeRuntimeStateAfterSafetyPersistFailure cf d) = None \<Longrightarrow>
   contents (snd (removeRuntimeStateAfterSafetyPersistFailure cf d)) = {None}"
  by (auto simp: removeRuntimeStateAfterSafetyPersistFailure_def syncParentDir_def contents_def
      split: prod.splits option.splits if_split_asm)

lemma persistRuntime_mem [simp]:
  "rn_mem (snd (persistRuntime fs r)) = rn_mem r" "rn_cap (snd (persistRuntime fs r)) = rn_cap r"
  "rn_build (snd (persistRuntime fs r)) = rn_build r"
  by (simp_all add: persistRuntime_def split: prod.splits)

lemma cleanup_mem [simp]:
  "rn_mem (cleanup_runtime cf r) = rn_mem r" "rn_cap (cleanup_runtime cf r) = rn_cap r"
  "rn_build (cleanup_runtime cf r) = rn_build r"
  by (simp_all add: cleanup_runtime_def)

text \<open>A fact that holds of every possible record and of the record of the memory survives a persist.\<close>

definition on_disk :: "(runtime_state \<Rightarrow> bool) \<Rightarrow> runtime \<Rightarrow> bool" where
  "on_disk Q r \<longleftrightarrow> (\<forall>st. Some (StateRecord st) \<in> contents (rn_disk r) \<longrightarrow> Q st)"

lemma on_disk_persist:
  "on_disk Q r \<Longrightarrow> Q (state_record (rn_cap r) (rn_build r) (rn_mem r)) \<Longrightarrow> on_disk Q (snd (persistRuntime fs r))"
  using write_disk_contents[of "StateRecord (state_record (rn_cap r) (rn_build r) (rn_mem r))" fs "rn_disk r"]
  by (auto simp: on_disk_def persistRuntime_def split_beta)

text \<open>After a synced write the record of the memory is the only one left.\<close>

lemma on_disk_persisted:
  assumes "persistRuntime fs r = (None, r')" "reported fs"
  shows "on_disk Q r' \<longleftrightarrow> Q (state_record (rn_cap r) (rn_build r) (rn_mem r))"
proof -
  let ?c = "StateRecord (state_record (rn_cap r) (rn_build r) (rn_mem r))"
  obtain d where w: "write_disk ?c fs (rn_disk r) = (None, d)" and r': "r' = r\<lparr>rn_disk := d\<rparr>"
    using assms unfolding persistRuntime_def by (cases "write_disk ?c fs (rn_disk r)") auto
  show ?thesis using write_disk_synced[OF w assms(2)] r' by (simp add: on_disk_def)
qed

lemma on_disk_cleanup: "on_disk Q r \<Longrightarrow> on_disk Q (cleanup_runtime cf r)"
  using remove_contents[of cf "rn_disk r"] by (auto simp: on_disk_def cleanup_runtime_def)

lemma on_disk_mem [simp]: "on_disk Q (r\<lparr>rn_mem := m\<rparr>) = on_disk Q r"
  by (simp add: on_disk_def)

lemma persistRuntime_frame:
  "persistRuntime fs r = (e, r') \<Longrightarrow> \<exists>d. r' = r\<lparr>rn_disk := d\<rparr>"
  by (auto simp: persistRuntime_def split: prod.splits)

lemma persist_or_remove_frame: "\<exists>d. persist_or_remove fs cf r = r\<lparr>rn_disk := d\<rparr>"
proof (cases "persistRuntime fs r")
  case (Pair e r')
  then obtain d where "r' = r\<lparr>rn_disk := d\<rparr>" using persistRuntime_frame by blast
  then show ?thesis using Pair
    by (cases e) (auto simp: persist_or_remove_def cleanup_runtime_def)
qed

lemma persist_or_remove_mem [simp]:
  "rn_mem (persist_or_remove fs cf r) = rn_mem r" "rn_cap (persist_or_remove fs cf r) = rn_cap r"
  "rn_build (persist_or_remove fs cf r) = rn_build r"
  using persist_or_remove_frame[of fs cf r] by auto

lemma on_disk_persist_or_remove:
  assumes "on_disk Q r" "Q (state_record (rn_cap r) (rn_build r) (rn_mem r))"
  shows "on_disk Q (persist_or_remove fs cf r)"
  using on_disk_persist[OF assms, of fs]
  by (auto simp: persist_or_remove_def intro: on_disk_cleanup split: prod.splits option.splits)

end
