(* ===== verification/CanaryDurability.thy ===== *)
theory CanaryDurability
  imports CanaryRuntime
begin

text \<open>
  What the activation runtime keeps across its operations, disk faults, crashes and restarts. A
  durable invariant speaks of the memory and of every record a crash can bring back; the locale
  \<open>durable_invariant\<close> lifts it to the operations, and three instances follow: the spend of
  a generation, the fence around a stopped generation, and the start of an activation. The watchdog
  of the window is an invariant of the memory alone.
\<close>

section \<open>Durable invariants\<close>

text \<open>
  A fact \<open>P\<close> about the memory together with a fact \<open>Q\<close> about every record a crash can
  bring back. The laws say what the parts of the runtime have to keep; the lemmas lift them to the
  operations, restarts included. Activation and reservation are left to the instance.
\<close>

definition durably :: "(cap_runtime \<Rightarrow> bool) \<Rightarrow> (runtime_state \<Rightarrow> bool) \<Rightarrow> runtime \<Rightarrow> bool" where
  "durably P Q r \<longleftrightarrow> P (rn_mem r) \<and> on_disk Q r"

lemma durably_mem: "durably P Q r \<Longrightarrow> P m \<Longrightarrow> durably P Q (r\<lparr>rn_mem := m\<rparr>)"
  by (simp add: durably_def)

lemma durably_cleanup: "durably P Q r \<Longrightarrow> durably P Q (cleanup_runtime cf r)"
  by (simp add: durably_def on_disk_cleanup)

lemma crash_choice: "(c # cs) ! (k mod length (c # cs)) \<in> set (c # cs)"
  by (intro nth_mem) simp

text \<open>What a reservation leaves in memory, whatever the disk does.\<close>

lemma reserve_mem:
  "rn_mem (snd (reserveCanaryExecution io ident r)) = rn_mem r \<or>
   (\<exists>outcome enf enf'. Reserve (cr_generation (rn_mem r)) (ri_now io) ident (cr_enforcer (rn_mem r)) = (outcome, enf) \<and>
     (enf' = enf \<or> enf' = Release enf) \<and>
     rn_mem (snd (reserveCanaryExecution io ident r)) = (rn_mem r)\<lparr>cr_enforcer := enf',
       cr_aborter := reserve_trip outcome (cr_generation (rn_mem r)) (ri_now io) (cr_aborter (rn_mem r))\<rparr>)"
proof -
  let ?gen = "cr_generation (rn_mem r)"
  obtain outcome enf where o: "Reserve ?gen (ri_now io) ident (cr_enforcer (rn_mem r)) = (outcome, enf)" by fastforce
  let ?m = "(rn_mem r)\<lparr>cr_enforcer := enf, cr_aborter := reserve_trip outcome ?gen (ri_now io) (cr_aborter (rn_mem r))\<rparr>"
  obtain err r2 where p: "persistRuntime (ri_write io) (r\<lparr>rn_mem := ?m\<rparr>) = (err, r2)" by fastforce
  have m: "rn_mem r2 = ?m" using persistRuntime_mem(1)[of "ri_write io" "r\<lparr>rn_mem := ?m\<rparr>"] p by simp
  have "rn_mem (snd (reserveLocked io ?gen ident r)) = ?m \<or>
      rn_mem (snd (reserveLocked io ?gen ident r)) = ?m\<lparr>cr_enforcer := Release enf\<rparr>"
    using o p m by (cases err) (simp_all add: reserveLocked_def Let_def)
  then show ?thesis using o
    by (auto simp: reserveCanaryExecution_def Let_def split: prod.splits if_split_asm)
qed

lemma reserve_disk:
  assumes "on_disk Q r" and "\<And>outcome enf. Reserve (cr_generation (rn_mem r)) (ri_now io) ident (cr_enforcer (rn_mem r)) = (outcome, enf) \<Longrightarrow>
    Q (state_record (rn_cap r) (rn_build r) ((rn_mem r)\<lparr>cr_enforcer := enf,
       cr_aborter := reserve_trip outcome (cr_generation (rn_mem r)) (ri_now io) (cr_aborter (rn_mem r))\<rparr>))"
  shows "on_disk Q (snd (reserveCanaryExecution io ident r))"
proof -
  let ?gen = "cr_generation (rn_mem r)"
  obtain outcome enf where o: "Reserve ?gen (ri_now io) ident (cr_enforcer (rn_mem r)) = (outcome, enf)" by fastforce
  let ?r1 = "r\<lparr>rn_mem := (rn_mem r)\<lparr>cr_enforcer := enf, cr_aborter := reserve_trip outcome ?gen (ri_now io) (cr_aborter (rn_mem r))\<rparr>\<rparr>"
  have "on_disk Q ?r1" using assms(1) by simp
  then have "on_disk Q (snd (persistRuntime (ri_write io) ?r1))"
    by (rule on_disk_persist) (use assms(2)[OF o] in simp)
  moreover obtain err r2 where p: "persistRuntime (ri_write io) ?r1 = (err, r2)" by fastforce
  ultimately have d: "on_disk Q r2" "on_disk Q (cleanup_runtime cf r2)" for cf by (simp_all add: on_disk_cleanup)
  have "on_disk Q (snd (reserveLocked io ?gen ident r))"
    using o p d by (cases err) (simp_all add: reserveLocked_def Let_def)
  then show ?thesis using assms(1) by (auto simp: reserveCanaryExecution_def Let_def split: prod.splits)
qed

locale durable_invariant =
  fixes P :: "cap_runtime \<Rightarrow> bool" and Q :: "runtime_state \<Rightarrow> bool"
  assumes P_record: "P cr \<Longrightarrow> Q (state_record capb build cr)"
    and P_fresh: "P fresh_mem"
    and P_disarmed: "P (disarmed cr)"
    and P_trip: "P cr \<Longrightarrow> P (cr\<lparr>cr_aborter := snd (Trip code k now (cr_aborter cr))\<rparr>)"
    and P_release: "P cr \<Longrightarrow> P (cr\<lparr>cr_enforcer := Release (cr_enforcer cr)\<rparr>)"
    and P_health: "P cr \<Longrightarrow> P (cr\<lparr>cr_health := h\<rparr>)"
    and P_watchdog: "P cr \<Longrightarrow> P (cr\<lparr>cr_watchdog := w\<rparr>)"
    and P_restored: "\<lbrakk>Q st; rs_Active st; rs_Generation st \<noteq> 0; bs_Generation (rs_BudgetSnapshot st) = rs_Generation st;
      an_Generation (rs_AbortSnapshot st) = rs_Generation st; cr_generation cr = rs_Generation st\<rbrakk> \<Longrightarrow>
      P (restored_mem st cr)"
begin

lemma persist: "durably P Q r \<Longrightarrow> durably P Q (snd (persistRuntime fs r))"
  by (auto simp: durably_def intro: on_disk_persist P_record)

lemma persist_remove: "durably P Q r \<Longrightarrow> durably P Q (persist_or_remove fs cf r)"
  by (auto simp: durably_def intro: on_disk_persist_or_remove P_record)

lemma trip_auto: "durably P Q r \<Longrightarrow> durably P Q (tripAutoStopLocked code now fs cf r)"
proof -
  assume s: "durably P Q r"
  obtain res ab where t: "Trip code (cr_generation (rn_mem r)) now (cr_aborter (rn_mem r)) = (res, ab)"
    by fastforce
  have "durably P Q (r\<lparr>rn_mem := (rn_mem r)\<lparr>cr_aborter := ab\<rparr>\<rparr>)"
    using s P_trip[of "rn_mem r" code "cr_generation (rn_mem r)" now] t by (simp add: durably_def)
  then show ?thesis using s t by (simp add: tripAutoStopLocked_def Let_def persist_remove)
qed

lemma window: "durably P Q r \<Longrightarrow> durably P Q (reconcileWindowDeadlineLocked now fs cf r)"
proof -
  assume s: "durably P Q r"
  let ?m = "stopWindowWatchdog (rn_mem r)"
  have m: "P ?m" using s by (simp add: durably_def stopWindowWatchdog_def P_watchdog)
  have "durably P Q (r\<lparr>rn_mem := ?m\<rparr>)" using s m by (rule durably_mem)
  moreover have "durably P Q (r\<lparr>rn_mem := armWindowWatchdog k d ?m\<rparr>)" for k d
    using s P_watchdog[OF m] by (simp add: durably_def armWindowWatchdog_def)
  ultimately show ?thesis
    unfolding reconcileWindowDeadlineLocked_def Let_def by (simp add: trip_auto)
qed

lemma demote: "durably P Q r \<Longrightarrow> durably P Q (snd (demoteCanary io r))"
proof -
  assume s: "durably P Q r"
  let ?r1 = "r\<lparr>rn_mem := disarmed (stopWindowWatchdog (rn_mem r))\<rparr>"
  have "durably P Q ?r1" using s P_disarmed by (rule durably_mem)
  then have "durably P Q (snd (persistRuntime (ri_write io) ?r1))" by (rule persist)
  then show ?thesis
    by (auto simp: demoteCanary_def Let_def intro: durably_cleanup split: prod.splits option.splits)
qed

lemma release: "durably P Q r \<Longrightarrow> durably P Q (releaseCanaryExecution io gen r)"
proof -
  assume s: "durably P Q r"
  then have "durably P Q (r\<lparr>rn_mem := (rn_mem r)\<lparr>cr_enforcer := Release (cr_enforcer (rn_mem r))\<rparr>\<rparr>)"
    by (simp add: durably_def P_release)
  with s show ?thesis by (simp add: releaseCanaryExecution_def Let_def trip_auto)
qed

lemma trip: "durably P Q r \<Longrightarrow> durably P Q (snd (tripCanaryAbortForGeneration io gen code r))"
proof -
  assume s: "durably P Q r"
  obtain res ab where t: "Trip code (cr_generation (rn_mem r)) (ri_now io) (cr_aborter (rn_mem r)) = (res, ab)"
    by fastforce
  have "durably P Q (r\<lparr>rn_mem := (rn_mem r)\<lparr>cr_aborter := ab\<rparr>\<rparr>)"
    using s P_trip[of "rn_mem r" code "cr_generation (rn_mem r)" "ri_now io"] t by (simp add: durably_def)
  with s t show ?thesis by (simp add: tripCanaryAbortForGeneration_def Let_def persist_remove)
qed

lemma settled: "durably P Q r \<Longrightarrow> durably P Q (observeAttemptSettled io gen failed latency r)"
proof -
  assume s: "durably P Q r"
  obtain code h where t: "Observe gen failed latency (cr_health (rn_mem r)) = (code, h)" by fastforce
  have "durably P Q (r\<lparr>rn_mem := (rn_mem r)\<lparr>cr_health := h\<rparr>\<rparr>)" using s by (simp add: durably_def P_health)
  with s t show ?thesis
    by (simp add: observeAttemptSettled_def Let_def persist_remove trip_auto)
qed

lemma watchdog: "durably P Q r \<Longrightarrow> durably P Q (watchdog_callback io gen r)"
proof -
  assume s: "durably P Q r"
  then have "durably P Q (rearmWindowWatchdog gen d r)" for d
    by (simp add: rearmWindowWatchdog_def durably_def armWindowWatchdog_def stopWindowWatchdog_def P_watchdog)
  with s show ?thesis by (simp add: watchdog_callback_def trip split: prod.splits)
qed

lemma restore_record:
  assumes "durably P Q r" "dk_visible (rn_disk r) = Some (StateRecord st)"
  shows "durably P Q (restoreCapability io r)"
proof -
  let ?q = "r\<lparr>rn_disk := (rn_disk r)\<lparr>dk_visible := None, dk_revertible := dk_visible (rn_disk r) # dk_revertible (rn_disk r)\<rparr>\<rparr>"
  let ?cr = "(rn_mem r)\<lparr>cr_generation := rs_Generation st\<rparr>"
  have q: "durably P Q ?q" using assms(1) by (simp add: durably_def on_disk_def contents_def)
  have d: "durably P Q (r\<lparr>rn_mem := disarmed ?cr\<rparr>)" using assms(1) P_disarmed by (rule durably_mem)
  have "Q st" using assms by (simp add: durably_def on_disk_def contents_def)
  then have "durably P Q (r\<lparr>rn_mem := restored_mem st ?cr\<rparr>)"
    if "rs_Active st" "rs_Generation st \<noteq> 0" "bs_Generation (rs_BudgetSnapshot st) = rs_Generation st"
      "an_Generation (rs_AbortSnapshot st) = rs_Generation st"
    using that by (intro durably_mem[OF assms(1)] P_restored) simp_all
  then show ?thesis using assms q d by (simp add: restoreCapability_def Let_def window)
qed

lemma restore: "durably P Q r \<Longrightarrow> durably P Q (restoreCapability io r)"
proof -
  assume s: "durably P Q r"
  let ?q = "r\<lparr>rn_disk := (rn_disk r)\<lparr>dk_visible := None, dk_revertible := dk_visible (rn_disk r) # dk_revertible (rn_disk r)\<rparr>\<rparr>"
  have q: "durably P Q ?q" using s by (simp add: durably_def on_disk_def contents_def)
  consider "dk_visible (rn_disk r) = None" | "dk_visible (rn_disk r) = Some Undecodable"
    | st where "dk_visible (rn_disk r) = Some (StateRecord st)"
    by (metis content.exhaust not_None_eq)
  then show ?thesis
  proof cases
    case 3 then show ?thesis using s restore_record by blast
  qed (use s q in \<open>simp_all add: restoreCapability_def Let_def\<close>)
qed

lemma crash: "durably P Q r \<Longrightarrow> durably P Q (crash_restart io k build r)"
proof -
  assume s: "durably P Q r"
  let ?c = "(dk_visible (rn_disk r) # dk_revertible (rn_disk r)) !
      (k mod length (dk_visible (rn_disk r) # dk_revertible (rn_disk r)))"
  have "?c \<in> contents (rn_disk r)"
    using crash_choice[of "dk_visible (rn_disk r)" "dk_revertible (rn_disk r)" k] by (simp add: contents_def)
  then have "durably P Q (r\<lparr>rn_build := build, rn_mem := fresh_mem, rn_disk := \<lparr>dk_visible = ?c, dk_revertible = []\<rparr>\<rparr>)"
    using s P_fresh by (auto simp: durably_def on_disk_def contents_def)
  then show ?thesis unfolding crash_restart_def Let_def by (rule restore)
qed

lemma after_restore: "durably P Q r \<Longrightarrow> durably P Q (reconcileCanaryRuntimeAfterRestore io m r)"
  by (simp add: reconcileCanaryRuntimeAfterRestore_def demote)

lemma activation:
  assumes "durably P Q r" and "\<And>reviewed. ValidateBudget (as_Budget spec) = [] \<Longrightarrow> P (armed_mem spec reviewed (rn_mem r))"
  shows "durably P Q (snd (beginCanaryActivation io spec r))"
proof -
  obtain reviewed rr where c: "CanonicalizeReviewedTargets (as_ReviewedTargets spec) = (reviewed, rr)" by fastforce
  let ?r1 = "r\<lparr>rn_mem := armed_mem spec reviewed (rn_mem r)\<rparr>"
  obtain e r2 where p: "persistRuntime (ri_write io) ?r1 = (e, r2)" by fastforce
  have s2: "durably P Q r2" if "ValidateBudget (as_Budget spec) = []"
    using persist[OF durably_mem[OF assms(1) assms(2)[OF that]], of "ri_write io" reviewed] p by simp
  then have d: "durably P Q (cleanup_runtime (ri_cleanup io) (r2\<lparr>rn_mem := disarmed (rn_mem r2)\<rparr>))"
    if "ValidateBudget (as_Budget spec) = []"
    using that by (intro durably_cleanup durably_mem P_disarmed) simp_all
  show ?thesis using assms(1) c p s2 d
    by (cases e) (auto simp: beginCanaryActivation_def Let_def window)
qed

lemmas operations = demote release trip settled watchdog crash after_restore

end

text \<open>Invariants that a reservation keeps as well.\<close>

lemma enforcer_aborter_commute:
  "cr\<lparr>cr_aborter := ab, cr_enforcer := e\<rparr> = cr\<lparr>cr_enforcer := e, cr_aborter := ab\<rparr>"
  by (cases cr) simp

locale reservation_invariant = durable_invariant +
  assumes P_reserve: "P cr \<Longrightarrow> Reserve k now ident (cr_enforcer cr) = (outcome, enf) \<Longrightarrow>
      P (cr\<lparr>cr_enforcer := enf, cr_aborter := reserve_trip outcome k now' (cr_aborter cr)\<rparr>)"
begin

lemma reservation: "durably P Q r \<Longrightarrow> durably P Q (snd (reserveCanaryExecution io ident r))"
proof -
  assume s: "durably P Q r"
  have m: "P ((rn_mem r)\<lparr>cr_enforcer := enf, cr_aborter := ab\<rparr>)"
      "P ((rn_mem r)\<lparr>cr_enforcer := Release enf, cr_aborter := ab\<rparr>)"
    if "Reserve (cr_generation (rn_mem r)) (ri_now io) ident (cr_enforcer (rn_mem r)) = (outcome, enf)"
      "ab = reserve_trip outcome (cr_generation (rn_mem r)) (ri_now io) (cr_aborter (rn_mem r))" for outcome enf ab
    using s that P_reserve[OF _ that(1), of "ri_now io"]
      P_release[of "(rn_mem r)\<lparr>cr_enforcer := enf, cr_aborter := ab\<rparr>"] by (simp_all add: durably_def enforcer_aborter_commute)
  have "P (rn_mem (snd (reserveCanaryExecution io ident r)))"
    using reserve_mem[of io ident r] s m by (auto simp: durably_def)
  moreover have "on_disk Q (snd (reserveCanaryExecution io ident r))"
    using s m by (intro reserve_disk) (auto simp: durably_def intro: P_record)
  ultimately show ?thesis by (simp add: durably_def)
qed

end

section \<open>Spending across restarts\<close>

text \<open>
  \<open>g\<close> counts the grants under each generation. An enforcer in memory and every active record
  a crash can bring back account for at least that many.
\<close>

definition ledger_ok :: "(64 word \<Rightarrow> nat) \<Rightarrow> cap_runtime \<Rightarrow> budget_enforcer \<Rightarrow> bool" where
  "ledger_ok g cr e \<longleftrightarrow> ValidateBudget (be_budget e) = [] \<and> be_generation e = cr_generation cr \<and>
     be_budget e = cr_budget cr \<and> be_total e \<le> bu_MaxTotalExecutions (be_budget e) \<and>
     int (g (cr_generation cr)) \<le> be_total e"

definition mem_spend :: "(64 word \<Rightarrow> nat) \<Rightarrow> cap_runtime \<Rightarrow> bool" where
  "mem_spend g cr \<longleftrightarrow> (\<forall>e. cr_enforcer cr = Some e \<longrightarrow> ledger_ok g cr e)"

definition record_spend :: "(64 word \<Rightarrow> nat) \<Rightarrow> runtime_state \<Rightarrow> bool" where
  "record_spend g st \<longleftrightarrow> (rs_Active st \<and> rs_Generation st \<noteq> 0 \<and>
     bs_Generation (rs_BudgetSnapshot st) = rs_Generation st \<longrightarrow>
     int (g (rs_Generation st)) \<le> bs_TotalReserved (rs_BudgetSnapshot st))"

abbreviation spend_ok :: "(64 word \<Rightarrow> nat) \<Rightarrow> runtime \<Rightarrow> bool" where
  "spend_ok g \<equiv> durably (mem_spend g) (record_spend g)"

lemma record_spend_mem: "mem_spend g cr \<Longrightarrow> record_spend g (state_record capb build cr)"
  by (cases "cr_enforcer cr")
    (auto simp: mem_spend_def record_spend_def state_record_def json_budget_snapshot_def
      ledger_ok_def zero_budget_snapshot_def)

lemma mem_spend_simps [simp]:
  "mem_spend g fresh_mem" "mem_spend g (disarmed cr)"
  "mem_spend g (cr\<lparr>cr_aborter := ab\<rparr>) = mem_spend g cr" "mem_spend g (cr\<lparr>cr_health := h\<rparr>) = mem_spend g cr"
  "mem_spend g (cr\<lparr>cr_watchdog := w\<rparr>) = mem_spend g cr"
  "mem_spend g (cr\<lparr>cr_enforcer := Some e\<rparr>) = ledger_ok g cr e"
  by (simp_all add: mem_spend_def ledger_ok_def disarmed_def fresh_mem_def)

lemma mem_spend_release:
  "mem_spend g cr \<Longrightarrow> mem_spend g (cr\<lparr>cr_enforcer := Release (cr_enforcer cr)\<rparr>)"
  by (cases "cr_enforcer cr") (auto simp: mem_spend_def ledger_ok_def release_slot_def)

text \<open>A restored enforcer starts from the spend of the record it was read from.\<close>

lemma mem_spend_restored:
  assumes "record_spend g st" "rs_Active st" "rs_Generation st \<noteq> 0"
    "bs_Generation (rs_BudgetSnapshot st) = rs_Generation st" "cr_generation cr = rs_Generation st"
  shows "mem_spend g (restored_mem st cr)"
proof -
  have "ledger_ok g (cr\<lparr>cr_budget := rs_Budget st\<rparr>) e"
    if "RestoreBudgetEnforcer (rs_Budget st) (rs_Generation st) (rs_BudgetSnapshot st) = Some e" for e
    using that assms by (auto simp: RestoreBudgetEnforcer_def ledger_ok_def record_spend_def Let_def split: if_split_asm)
  then show ?thesis
    by (auto simp: restored_mem_def mem_spend_def Let_def disarmed_def ledger_ok_def split: prod.splits if_split_asm)
qed

interpretation spend: durable_invariant "mem_spend g" "record_spend g" for g
  by unfold_locales (simp_all add: record_spend_mem mem_spend_release mem_spend_restored)

lemma spend_antimono:
  assumes "spend_ok g r" and "\<And>x. g' x \<le> g x"
  shows "spend_ok g' r"
proof -
  have le: "int (g' x) \<le> int (g x)" for x using assms(2) by simp
  have "mem_spend g' (rn_mem r)"
    using assms(1) order_trans[OF le] by (auto simp: durably_def mem_spend_def ledger_ok_def)
  moreover have "record_spend g' st" if "record_spend g st" for st
    using that order_trans[OF le] by (auto simp: record_spend_def)
  ultimately show ?thesis using assms(1) by (auto simp: durably_def on_disk_def)
qed


lemma begin_generation:
  "fst (fst (beginCanaryActivation io spec r)) = 0 \<and> snd (beginCanaryActivation io spec r) = r \<or>
   fst (fst (beginCanaryActivation io spec r)) = cr_generation (rn_mem r) + 1"
  by (auto simp: beginCanaryActivation_def armed_mem_def Let_def split: prod.splits option.splits)

lemma spend_begin:
  assumes "spend_ok g r"
  shows "spend_ok (g(fst (fst (beginCanaryActivation io spec r)) := 0)) (snd (beginCanaryActivation io spec r))"
proof -
  let ?gen = "cr_generation (rn_mem r) + 1"
  have low: "spend_ok (g(x := 0)) r" for x using assms by (rule spend_antimono) simp
  have "mem_spend (g(?gen := 0)) (armed_mem spec reviewed (rn_mem r))"
    if "ValidateBudget (as_Budget spec) = []" for reviewed
    using that ValidateBudget_OK(1)[OF that]
    by (auto simp: mem_spend_def ledger_ok_def armed_mem_def Let_def NewBudgetEnforcer_def)
  then have "spend_ok (g(?gen := 0)) (snd (beginCanaryActivation io spec r))"
    by (intro spend.activation low)
  then show ?thesis using begin_generation[of io spec r] low[of 0] by auto
qed

text \<open>A granted slot is on the ledger; every other outcome leaves the total alone.\<close>

definition granted_to :: "64 word \<Rightarrow> budget_outcome \<Rightarrow> (64 word \<Rightarrow> nat) \<Rightarrow> (64 word \<Rightarrow> nat)" where
  "granted_to gen outcome g = (if outcome = BudgetGranted then g(gen := g gen + 1) else g)"

lemma ledger_reserve:
  assumes "ledger_ok g cr e"
  shows "ledger_ok (granted_to (cr_generation cr) (fst (reserve_slot gen now ident e)) g) cr
           (snd (reserve_slot gen now ident e))"
  using assms unfolding reserve_slot_snd granted_to_def
  by (auto simp: ledger_ok_def reserve_slot_granted admissible_def grant_slot_def)

lemma mem_spend_reserve:
  assumes "mem_spend g cr" "cr_enforcer cr = Some e" "Reserve gen now ident (Some e) = (outcome, enf)"
  shows "mem_spend (granted_to (cr_generation cr) outcome g) (cr\<lparr>cr_enforcer := enf\<rparr>)"
proof -
  have "outcome = fst (reserve_slot gen now ident e)" "enf = Some (snd (reserve_slot gen now ident e))"
    using assms(3) by (auto simp: map_prod_def split: prod.splits)
  moreover have "ledger_ok g cr e" using assms(1,2) by (simp add: mem_spend_def)
  ultimately show ?thesis using ledger_reserve[of g cr e gen now ident] by simp
qed

lemma granted_to_le: "g x \<le> granted_to gen outcome g x"
  by (simp add: granted_to_def)

lemma mem_spend_antimono: "mem_spend g cr \<Longrightarrow> (\<And>x. g' x \<le> g x) \<Longrightarrow> mem_spend g' cr"
  by (force simp: mem_spend_def ledger_ok_def intro: order_trans[of "int _" "int _"])

lemma spend_reserveLocked:
  assumes "spend_ok g r" "cr_enforcer (rn_mem r) = Some e" "gen = cr_generation (rn_mem r)" "reported (ri_write io)"
  shows "spend_ok (granted_to gen (fst (reserveLocked io gen ident r)) g) (snd (reserveLocked io gen ident r))"
proof -
  obtain outcome enf where o: "Reserve gen (ri_now io) ident (Some e) = (outcome, enf)" by fastforce
  let ?m = "(rn_mem r)\<lparr>cr_enforcer := enf, cr_aborter := reserve_trip outcome gen (ri_now io) (cr_aborter (rn_mem r))\<rparr>"
  let ?r1 = "r\<lparr>rn_mem := ?m\<rparr>"
  have m: "mem_spend (granted_to gen outcome g) ?m"
    using mem_spend_reserve[OF _ assms(2) o, of g] assms(1,3) by (simp add: durably_def)
  then have s1: "spend_ok g ?r1"
    using assms(1) mem_spend_antimono[OF m granted_to_le] by (simp add: durably_def)
  obtain err r2 where p: "persistRuntime (ri_write io) ?r1 = (err, r2)" by fastforce
  have s2: "spend_ok g r2" using spend.persist[OF s1, of "ri_write io"] p by simp
  have m2: "rn_mem r2 = ?m" using persistRuntime_mem(1)[of "ri_write io" ?r1] p by simp
  show ?thesis
  proof (cases err)
    case None
    have "on_disk (record_spend (granted_to gen outcome g)) r2"
      using on_disk_persisted[of "ri_write io" ?r1 r2] assms(4) p None record_spend_mem[OF m] by simp
    then show ?thesis using None o p m m2 assms(2) by (simp add: reserveLocked_def Let_def durably_def)
  next
    case (Some x)
    show ?thesis
    proof (cases "outcome = BudgetGranted")
      case True
      have "spend_ok g (r2\<lparr>rn_mem := (rn_mem r2)\<lparr>cr_enforcer := Release (cr_enforcer (rn_mem r2))\<rparr>\<rparr>)"
        using s2 by (simp add: durably_def mem_spend_release)
      then show ?thesis using True Some o p assms(2)
        by (simp add: reserveLocked_def Let_def granted_to_def WholeCanaryExhaustion_def IdentityCapExceeded_def)
    next
      case False
      then show ?thesis using Some o p assms(2) s2
        by (simp add: reserveLocked_def Let_def granted_to_def durably_cleanup)
    qed
  qed
qed

lemma spend_reserve:
  assumes "spend_ok g r" "reported (ri_write io)"
  shows "spend_ok (granted_to (snd (fst (reserveCanaryExecution io ident r)))
      (fst (fst (reserveCanaryExecution io ident r))) g) (snd (reserveCanaryExecution io ident r))"
proof (cases "cr_active (rn_mem r) \<and> cr_enforcer (rn_mem r) \<noteq> None \<and> cr_aborter (rn_mem r) \<noteq> None \<and>
    ExecutionEligible (cr_aborter (rn_mem r)) (cr_generation (rn_mem r))")
  case True
  then obtain e where "cr_enforcer (rn_mem r) = Some e" by blast
  from spend_reserveLocked[OF assms(1) this refl assms(2), of ident] True show ?thesis
    by (auto simp: reserveCanaryExecution_def Let_def split: prod.splits)
next
  case False
  then show ?thesis using assms by (auto simp: reserveCanaryExecution_def Let_def granted_to_def)
qed

definition spend_inv :: "runtime \<times> (64 word \<Rightarrow> nat) \<Rightarrow> bool" where
  "spend_inv s \<longleftrightarrow> spend_ok (snd s) (fst s) \<and> (\<forall>x. int (snd s x) \<le> FirstCanaryMaxTotalCeiling)"

text \<open>Steps whose first write reports success only when the directory was synced.\<close>

definition write_reported :: "runtime_io \<times> runtime_op \<Rightarrow> bool" where
  "write_reported x \<longleftrightarrow> reported (ri_write (fst x))"

lemma spend_step:
  assumes a: "spend_ok (snd s) (fst s)" and w: "write_reported x"
  shows "spend_ok (snd (counted_step x s)) (fst (counted_step x s))"
proof -
  obtain io oper where x: "x = (io, oper)" by fastforce
  show ?thesis
  proof (cases oper)
    case (OpReserve ident)
    have "count_grant x (fst s) (snd s) = granted_to (snd (fst (reserveCanaryExecution io ident (fst s))))
        (fst (fst (reserveCanaryExecution io ident (fst s)))) (snd s)"
      using x OpReserve by (simp add: granted_to_def split: prod.splits)
    then show ?thesis using spend_reserve[OF a, of io ident] w x OpReserve by (simp add: counted_step_def write_reported_def)
  qed (use a x in \<open>simp_all add: counted_step_def spend_begin spend.operations\<close>)
qed


lemma granted_mem:
  assumes "fst (fst (reserveCanaryExecution io ident r)) = BudgetGranted"
  shows "cr_generation (rn_mem (snd (reserveCanaryExecution io ident r))) = snd (fst (reserveCanaryExecution io ident r)) \<and>
    cr_enforcer (rn_mem (snd (reserveCanaryExecution io ident r))) \<noteq> None"
proof -
  let ?gen = "cr_generation (rn_mem r)"
  from assms obtain e where a: "cr_active (rn_mem r)" "cr_enforcer (rn_mem r) = Some e" "cr_aborter (rn_mem r) \<noteq> None"
      "ExecutionEligible (cr_aborter (rn_mem r)) ?gen"
    by (auto simp: reserveCanaryExecution_def Let_def split: if_split_asm)
  obtain outcome enf where o: "Reserve ?gen (ri_now io) ident (Some e) = (outcome, enf)" by fastforce
  then have "enf \<noteq> None" by (auto simp: map_prod_def split: prod.splits)
  let ?m = "(rn_mem r)\<lparr>cr_enforcer := enf, cr_aborter := reserve_trip outcome ?gen (ri_now io) (cr_aborter (rn_mem r))\<rparr>"
  obtain err r2 where p: "persistRuntime (ri_write io) (r\<lparr>rn_mem := ?m\<rparr>) = (err, r2)" by fastforce
  have m: "rn_mem r2 = ?m" using persistRuntime_mem(1)[of "ri_write io" "r\<lparr>rn_mem := ?m\<rparr>"] p by simp
  have f: "reserveCanaryExecution io ident r =
      ((fst (reserveLocked io ?gen ident r), ?gen), snd (reserveLocked io ?gen ident r))"
    using a by (auto simp: reserveCanaryExecution_def Let_def split: prod.splits)
  have "err = None" using assms o p a(2) unfolding f
    by (cases err; cases "outcome = BudgetGranted") (simp_all add: reserveLocked_def Let_def del: Reserve.simps)
  then show ?thesis using o p m a(2) \<open>enf \<noteq> None\<close> unfolding f by (simp add: reserveLocked_def Let_def)
qed

lemma mem_spend_bound:
  assumes "mem_spend g cr" "cr_enforcer cr \<noteq> None"
  shows "int (g (cr_generation cr)) \<le> bu_MaxTotalExecutions (cr_budget cr) \<and>
    bu_MaxTotalExecutions (cr_budget cr) \<le> FirstCanaryMaxTotalCeiling"
proof -
  from assms obtain e where e: "ledger_ok g cr e" by (auto simp: mem_spend_def)
  then have v: "ValidateBudget (cr_budget cr) = []" by (simp add: ledger_ok_def) (metis)
  show ?thesis using e ValidateBudget_OK(2)[OF v]
    by (auto simp: ledger_ok_def FirstCanaryMaxTotalCeiling_def)
qed

lemma count_grant_le:
  assumes "\<forall>y. int (g y) \<le> FirstCanaryMaxTotalCeiling" "spend_ok (count_grant x r g) (runtime_step x r)"
  shows "int (count_grant x r g y) \<le> FirstCanaryMaxTotalCeiling"
proof -
  obtain io oper where x: "x = (io, oper)" by fastforce
  show ?thesis
  proof (cases oper)
    case (OpReserve ident)
    let ?q = "reserveCanaryExecution io ident r"
    have c: "count_grant x r g = granted_to (snd (fst ?q)) (fst (fst ?q)) g"
      using x OpReserve by (simp add: granted_to_def split: prod.splits)
    show ?thesis
    proof (cases "fst (fst ?q) = BudgetGranted \<and> y = snd (fst ?q)")
      case True
      then have "int (count_grant x r g (cr_generation (rn_mem (snd ?q)))) \<le> FirstCanaryMaxTotalCeiling"
        using granted_mem[of io ident r] mem_spend_bound[of "count_grant x r g" "rn_mem (snd ?q)"] assms(2) x OpReserve
        by (force simp: durably_def)
      then show ?thesis using True granted_mem[of io ident r] by simp
    next
      case False
      then show ?thesis using c assms(1) by (auto simp: granted_to_def)
    qed
  qed (use assms(1) x in \<open>simp_all add: FirstCanaryMaxTotalCeiling_def\<close>)
qed

lemma spend_inv_step: "write_reported x \<Longrightarrow> spend_inv s \<Longrightarrow> spend_inv (counted_step x s)"
  using spend_step[of s x] count_grant_le[of "snd s" x "fst s"]
  by (auto simp: spend_inv_def counted_step_def)

definition fresh_runtime :: "rollout_capability \<Rightarrow> string \<Rightarrow> runtime" where
  "fresh_runtime capb build = \<lparr>rn_cap = capb, rn_build = build, rn_mem = fresh_mem,
     rn_disk = \<lparr>dk_visible = None, dk_revertible = []\<rparr>\<rparr>"

lemma spend_inv_fresh: "spend_inv (fresh_runtime capb build, \<lambda>_. 0)"
  by (simp add: spend_inv_def durably_def mem_spend_def on_disk_def contents_def fresh_runtime_def
      fresh_mem_def FirstCanaryMaxTotalCeiling_def)

lemma spend_inv_run:
  "list_all write_reported ops \<Longrightarrow> spend_inv (run_ops counted_step ops (fresh_runtime capb build, \<lambda>_. 0))"
  using run_ops_inv[where J = spend_inv and step = counted_step and allowed = write_reported] spend_inv_step
    spend_inv_fresh by blast

section \<open>A stopped generation stays stopped\<close>

text \<open>
  Generation \<open>gen\<close> is fenced when neither the memory nor a record a crash can bring back lets
  it execute: an active one has the abort of that generation latched.
\<close>

definition mem_fenced :: "64 word \<Rightarrow> cap_runtime \<Rightarrow> bool" where
  "mem_fenced gen cr \<longleftrightarrow> (cr_active cr \<and> cr_generation cr = gen \<longrightarrow>
     (\<forall>c. cr_aborter cr = Some c \<and> ac_generation c = gen \<longrightarrow> ac_aborted c))"

definition record_fenced :: "64 word \<Rightarrow> runtime_state \<Rightarrow> bool" where
  "record_fenced gen st \<longleftrightarrow> (rs_Active st \<and> rs_Generation st = gen \<longrightarrow>
     an_Generation (rs_AbortSnapshot st) = gen \<longrightarrow> gen = 0 \<or> an_Aborted (rs_AbortSnapshot st))"

definition fenced :: "64 word \<Rightarrow> runtime \<Rightarrow> bool" where
  "fenced gen = durably (mem_fenced gen) (record_fenced gen)"

lemma record_fenced_mem: "mem_fenced gen cr \<Longrightarrow> record_fenced gen (state_record capb build cr)"
  by (cases "cr_aborter cr") (auto simp: mem_fenced_def record_fenced_def state_record_def)

lemma mem_fenced_not_eligible:
  "mem_fenced gen cr \<Longrightarrow> \<not> generationActive now gen cr"
  by (cases "cr_aborter cr") (auto simp: mem_fenced_def generationActive_def)

lemma mem_fenced_simps [simp]:
  "mem_fenced gen (disarmed cr)" "mem_fenced gen fresh_mem"
  "mem_fenced gen (cr\<lparr>cr_enforcer := e\<rparr>) = mem_fenced gen cr"
  "mem_fenced gen (cr\<lparr>cr_health := h\<rparr>) = mem_fenced gen cr"
  "mem_fenced gen (cr\<lparr>cr_watchdog := w\<rparr>) = mem_fenced gen cr"
  by (simp_all add: mem_fenced_def disarmed_def fresh_mem_def)

lemma Trip_keeps:
  "Trip code k now (Some c) = (res, ab) \<Longrightarrow>
   \<exists>c'. ab = Some c' \<and> ac_generation c' = ac_generation c \<and> (ac_aborted c \<longrightarrow> ac_aborted c')"
  by (auto split: if_split_asm)

lemma mem_fenced_trip:
  assumes "mem_fenced gen cr"
  shows "mem_fenced gen (cr\<lparr>cr_aborter := snd (Trip code k now (cr_aborter cr))\<rparr>)"
proof (cases "cr_aborter cr")
  case None
  then show ?thesis using assms by (simp add: mem_fenced_def)
next
  case (Some c)
  obtain res ab where t: "Trip code k now (Some c) = (res, ab)" by fastforce
  then obtain c' where "ab = Some c'" "ac_generation c' = ac_generation c" "ac_aborted c \<longrightarrow> ac_aborted c'"
    using Trip_keeps by metis
  then show ?thesis using assms Some t by (auto simp: mem_fenced_def)
qed

lemma mem_fenced_reserve_trip:
  "mem_fenced gen cr \<Longrightarrow> mem_fenced gen (cr\<lparr>cr_aborter := reserve_trip outcome k now (cr_aborter cr)\<rparr>)"
  by (simp add: reserve_trip_def mem_fenced_trip)

lemma mem_fenced_restored:
  assumes "record_fenced gen st" "rs_Active st" "rs_Generation st \<noteq> 0"
    "an_Generation (rs_AbortSnapshot st) = rs_Generation st" "cr_generation cr = rs_Generation st"
  shows "mem_fenced gen (restored_mem st cr)"
  using assms
  by (auto simp: restored_mem_def mem_fenced_def record_fenced_def Let_def disarmed_def RestoreAbortController_def
      split: prod.splits)

interpretation fencing: reservation_invariant "mem_fenced gen" "record_fenced gen" for gen
proof unfold_locales
  show "mem_fenced gen (cr\<lparr>cr_enforcer := enf, cr_aborter := reserve_trip outcome k now' (cr_aborter cr)\<rparr>)"
    if "mem_fenced gen cr" for cr enf outcome k now' gen
    using mem_fenced_reserve_trip[of gen "cr\<lparr>cr_enforcer := enf\<rparr>"] that by simp
qed (simp_all add: record_fenced_mem mem_fenced_trip mem_fenced_restored)

lemma fenced_not_granted:
  assumes "fenced gen r" "snd (fst (reserveCanaryExecution io ident r)) = gen" "gen \<noteq> 0"
  shows "fst (fst (reserveCanaryExecution io ident r)) \<noteq> BudgetGranted"
  using assms
  by (cases "cr_aborter (rn_mem r)")
    (auto simp: reserveCanaryExecution_def Let_def fenced_def durably_def mem_fenced_def split: prod.splits if_split_asm)

text \<open>An activation of another generation.\<close>

lemma fenced_begin:
  assumes "fenced gen r" "cr_generation (rn_mem r) + 1 \<noteq> gen"
  shows "fenced gen (snd (beginCanaryActivation io spec r))"
  using assms unfolding fenced_def
  by (intro fencing.activation) (simp_all add: mem_fenced_def armed_mem_def Let_def)

text \<open>Runs in which no later activation is numbered \<open>gen\<close>.\<close>

inductive runs_without :: "64 word \<Rightarrow> runtime \<Rightarrow> runtime \<Rightarrow> bool" for gen where
  run_refl: "runs_without gen r r"
| run_begin: "runs_without gen r r' \<Longrightarrow> cr_generation (rn_mem r') + 1 \<noteq> gen \<Longrightarrow>
    runs_without gen r (runtime_step (io, OpBegin spec) r')"
| run_other: "runs_without gen r r' \<Longrightarrow> (\<forall>spec. oper \<noteq> OpBegin spec) \<Longrightarrow>
    runs_without gen r (runtime_step (io, oper) r')"

lemmas fenced_operations = fencing.operations[folded fenced_def] fencing.reservation[folded fenced_def]

lemma fenced_run: "runs_without gen r r' \<Longrightarrow> fenced gen r \<Longrightarrow> fenced gen r'"
proof (induction rule: runs_without.induct)
  case (run_other r r' oper io)
  then show ?case by (cases oper) (simp_all add: fenced_operations)
qed (simp_all add: fenced_begin)

definition no_cleanup_faults :: cleanup_faults where
  "no_cleanup_faults = \<lparr>trunc_fault = None, truncsync_fault = None, remove_fault = None, parentsync_fault = None\<rparr>"

lemma write_clean: "fst (write_disk c no_faults d) = None"
  by (simp add: write_disk_def AtomicWrite_no_faults)

lemma persist_clean: "fst (persistRuntime no_faults r) = None"
  using write_clean[of "StateRecord (state_record (rn_cap r) (rn_build r) (rn_mem r))" "rn_disk r"]
  by (simp add: persistRuntime_def split_beta)

lemma cleanup_clean: "contents (rn_disk (cleanup_runtime no_cleanup_faults r)) = {None}"
proof -
  have "fst (removeRuntimeStateAfterSafetyPersistFailure no_cleanup_faults (rn_disk r)) = None"
    by (simp add: removeRuntimeStateAfterSafetyPersistFailure_def invalidateFileContentDurably_def
        syncParentDir_def no_cleanup_faults_def split: option.splits)
  then show ?thesis using remove_clean by (simp add: cleanup_runtime_def)
qed

text \<open>
  A safety latch whose write succeeds and is synced, or whose clean-up succeeds after the write
  failed, leaves no record that disagrees with the memory.
\<close>

lemma persist_or_remove_durable:
  assumes "Q (state_record (rn_cap r) (rn_build r) (rn_mem r))" "fs = no_faults \<or> reported fs \<and> cf = no_cleanup_faults"
  shows "on_disk Q (persist_or_remove fs cf r)"
proof -
  obtain e r' where p: "persistRuntime fs r = (e, r')" by fastforce
  show ?thesis
  proof (cases e)
    case None
    have "reported fs" using assms(2) by auto
    with p None show ?thesis using on_disk_persisted[of fs r r' Q] assms(1) by (simp add: persist_or_remove_def)
  next
    case (Some x)
    with p persist_clean[of r] assms(2) have "cf = no_cleanup_faults" by auto
    with p Some cleanup_clean[of r'] show ?thesis by (simp add: persist_or_remove_def on_disk_def)
  qed
qed

lemma trip_fences:
  assumes "generationActive now gen (rn_mem r)" "AbortScopeForCode code \<noteq> AbortRequest"
    "ri_write io = no_faults \<or> reported (ri_write io) \<and> ri_cleanup io = no_cleanup_faults"
  shows "fenced gen (snd (tripCanaryAbortForGeneration io gen code r))"
proof -
  from assms(1) obtain c where a: "cr_active (rn_mem r)" "cr_generation (rn_mem r) = gen"
      "cr_aborter (rn_mem r) = Some c" "ac_generation c = gen" "\<not> ac_aborted c"
    by (cases "cr_aborter (rn_mem r)") (auto simp: generationActive_def split: if_split_asm)
  let ?c = "c\<lparr>ac_aborted := True, ac_code := code, ac_atNanos := UnixNano (ri_now io)\<rparr>"
  let ?r = "r\<lparr>rn_mem := (rn_mem r)\<lparr>cr_aborter := Some ?c\<rparr>\<rparr>"
  have m: "mem_fenced gen (rn_mem ?r)" by (simp add: mem_fenced_def)
  then have "on_disk (record_fenced gen) (persist_or_remove (ri_write io) (ri_cleanup io) ?r)"
    using assms(3) by (intro persist_or_remove_durable record_fenced_mem)
  with m have "fenced gen (persist_or_remove (ri_write io) (ri_cleanup io) ?r)"
    by (simp add: fenced_def durably_def)
  then show ?thesis using a assms(2) by (simp add: tripCanaryAbortForGeneration_def Let_def)
qed

lemma demote_eq:
  "snd (demoteCanary io r) = persist_or_remove (ri_write io) (ri_cleanup io)
     (r\<lparr>rn_mem := disarmed (stopWindowWatchdog (rn_mem r))\<rparr>)"
  by (simp add: demoteCanary_def persist_or_remove_def Let_def split: prod.splits option.splits)

lemma demote_fences:
  assumes "ri_write io = no_faults \<or> reported (ri_write io) \<and> ri_cleanup io = no_cleanup_faults"
  shows "fenced gen (snd (demoteCanary io r))"
  unfolding demote_eq
  using assms by (simp add: fenced_def durably_def persist_or_remove_durable record_fenced_mem)

section \<open>The window always has a watchdog\<close>

text \<open>An activation that can execute has an enforcer with a valid budget and a representable start.\<close>

definition mem_started :: "cap_runtime \<Rightarrow> bool" where
  "mem_started cr \<longleftrightarrow>
     (\<forall>e. cr_enforcer cr = Some e \<longrightarrow> ValidateBudget (be_budget e) = [] \<and> - (2 ^ 63) \<le> be_startNanos e) \<and>
     (cr_active cr \<and> cr_aborter cr \<noteq> None \<longrightarrow> cr_enforcer cr \<noteq> None)"

definition record_started :: "runtime_state \<Rightarrow> bool" where
  "record_started st \<longleftrightarrow> - (2 ^ 63) \<le> bs_StartUnixNano (rs_BudgetSnapshot st)"

lemma wrap64_lower: "- (2 ^ 63) \<le> wrap64 n"
  by (simp add: wrap64_def)

lemma record_started_mem: "mem_started cr \<Longrightarrow> record_started (state_record capb build cr)"
  by (cases "cr_enforcer cr") (auto simp: mem_started_def record_started_def state_record_def
      json_budget_snapshot_def zero_budget_snapshot_def)

lemma Trip_None [simp]: "snd (Trip code k now ab) = None \<longleftrightarrow> ab = None"
  by (cases ab) simp_all

lemma mem_started_restored:
  "record_started st \<Longrightarrow> mem_started (restored_mem st cr)"
  by (auto simp: restored_mem_def mem_started_def record_started_def Let_def disarmed_def
      RestoreBudgetEnforcer_def split: prod.splits if_split_asm)

lemma mem_started_release:
  "mem_started cr \<Longrightarrow> mem_started (cr\<lparr>cr_enforcer := Release (cr_enforcer cr)\<rparr>)"
  by (cases "cr_enforcer cr") (auto simp: mem_started_def release_slot_def)

lemma reserve_slot_static [simp]:
  "be_budget (snd (reserve_slot gen now ident e)) = be_budget e"
  "be_startNanos (snd (reserve_slot gen now ident e)) = be_startNanos e"
  by (simp_all add: reserve_slot_snd grant_slot_def)

lemma Reserve_Some:
  "Reserve k now ident oe = (outcome, enf) \<Longrightarrow>
   enf = map_option (\<lambda>e. snd (reserve_slot k now ident e)) oe"
  by (cases oe) (auto simp: map_prod_def split: prod.splits)

lemma reserve_trip_None [simp]: "reserve_trip outcome k now ab = None \<longleftrightarrow> ab = None"
  by (simp add: reserve_trip_def)

lemma mem_started_reserve:
  assumes "mem_started cr" "Reserve k now ident (cr_enforcer cr) = (outcome, enf)"
  shows "mem_started (cr\<lparr>cr_enforcer := enf, cr_aborter := reserve_trip outcome k now' (cr_aborter cr)\<rparr>)"
  using assms(1) Reserve_Some[OF assms(2)] by (auto simp: mem_started_def)

interpretation started: reservation_invariant mem_started record_started
proof unfold_locales
  show "mem_started cr \<Longrightarrow> mem_started (cr\<lparr>cr_aborter := snd (Trip code k now (cr_aborter cr))\<rparr>)" for cr code k now
    by (auto simp: mem_started_def)
qed (simp_all add: record_started_mem mem_started_restored mem_started_release mem_started_reserve,
    simp_all add: mem_started_def fresh_mem_def disarmed_def)

lemma started_step:
  assumes "durably mem_started record_started r"
  shows "durably mem_started record_started (runtime_step x r)"
proof -
  obtain io oper where x: "x = (io, oper)" by fastforce
  have "mem_started (armed_mem spec reviewed (rn_mem r))" if "ValidateBudget (as_Budget spec) = []" for spec reviewed
    using that wrap64_lower
    by (auto simp: mem_started_def armed_mem_def Let_def NewBudgetEnforcer_def NewAbortController_def UnixNano_def)
  then show ?thesis using assms x
    by (cases oper) (simp_all add: started.operations started.reservation started.activation)
qed

lemma started_run: "mem_started (rn_mem (run_ops runtime_step ops (fresh_runtime capb build)))"
proof -
  have "durably mem_started record_started (fresh_runtime capb build)"
    by (simp add: durably_def mem_started_def on_disk_def contents_def fresh_runtime_def fresh_mem_def)
  then have "durably mem_started record_started (run_ops runtime_step ops (fresh_runtime capb build))"
    by (rule run_ops_inv[where allowed = "\<lambda>_. True", rotated 2]) (simp_all add: started_step list_all_iff)
  then show ?thesis by (simp add: durably_def)
qed

text \<open>An activation that can execute has a watchdog of its own generation.\<close>

definition watched :: "cap_runtime \<Rightarrow> bool" where
  "watched cr \<longleftrightarrow> (cr_active cr \<and> ExecutionEligible (cr_aborter cr) (cr_generation cr) \<and>
     WindowDeadline (cr_enforcer cr) \<noteq> 0 \<longrightarrow> (\<exists>d. cr_watchdog cr = Some (cr_generation cr, d)))"

lemma Trip_eligible: "ExecutionEligible (snd (Trip code k now ab)) g \<Longrightarrow> ExecutionEligible ab g"
  by (cases ab) (auto split: if_split_asm)

lemma Trip_latched: "AbortScopeForCode code \<noteq> AbortRequest \<Longrightarrow> \<not> ExecutionEligible (snd (Trip code k now ab)) k"
  by (cases ab) auto

lemma reserve_trip_eligible: "ExecutionEligible (reserve_trip outcome k now ab) g \<Longrightarrow> ExecutionEligible ab g"
  by (auto simp: reserve_trip_def dest: Trip_eligible split: if_split_asm)

lemma tripAutoStop_mem:
  "rn_mem (tripAutoStopLocked code now fs cf r) =
     (rn_mem r)\<lparr>cr_aborter := snd (Trip code (cr_generation (rn_mem r)) now (cr_aborter (rn_mem r)))\<rparr>"
  by (cases "cr_aborter (rn_mem r)") (simp_all add: tripAutoStopLocked_def Let_def split: prod.splits)

lemma watched_trip: "watched cr \<Longrightarrow> watched (cr\<lparr>cr_aborter := snd (Trip code k now (cr_aborter cr))\<rparr>)"
  by (auto simp: watched_def dest: Trip_eligible)

lemma watched_latched:
  "AbortScopeForCode code \<noteq> AbortRequest \<Longrightarrow>
   watched (cr\<lparr>cr_aborter := snd (Trip code (cr_generation cr) now (cr_aborter cr))\<rparr>)"
  by (simp add: watched_def Trip_latched)

lemma window_codes:
  "AbortScopeForCode ''budget_exhausted'' \<noteq> AbortRequest" "AbortScopeForCode ''window_expired'' \<noteq> AbortRequest"
  by (simp_all add: AbortScopeForCode_request)

lemma Verdict_codes: "Verdict h \<in> {[], ''latency_pathology'', ''elevated_error_rate''}"
  by (cases h) (simp_all add: rate_breach_def)

lemma verdict_latches: "Verdict h \<noteq> [] \<Longrightarrow> AbortScopeForCode (Verdict h) \<noteq> AbortRequest"
  using Verdict_codes[of h] by (auto simp: AbortScopeForCode_request)

lemma watched_stop:
  "AbortScopeForCode code \<noteq> AbortRequest \<Longrightarrow> watched (rn_mem (tripAutoStopLocked code now fs cf r))"
  by (simp add: tripAutoStop_mem watched_latched)

lemma watched_arm: "watched (armWindowWatchdog (cr_generation cr) d cr)"
  by (simp add: watched_def armWindowWatchdog_def)

lemma watched_window: "watched (rn_mem (reconcileWindowDeadlineLocked now fs cf r))"
proof -
  define r1 where "r1 = r\<lparr>rn_mem := stopWindowWatchdog (rn_mem r)\<rparr>"
  define cr where "cr = rn_mem r1"
  have "watched cr" if "\<not> cr_active cr \<or> cr_enforcer cr = None \<or> cr_aborter cr = None \<or> WindowDeadline (cr_enforcer cr) = 0"
    using that by (auto simp: watched_def)
  moreover have "watched (armWindowWatchdog (cr_generation cr) d cr)" for d by (rule watched_arm)
  ultimately show ?thesis
    unfolding reconcileWindowDeadlineLocked_def Let_def r1_def[symmetric] cr_def[symmetric]
    by (simp add: watched_stop window_codes verdict_latches cr_def)
qed

lemma watched_inactive: "\<not> cr_active cr \<Longrightarrow> watched cr"
  by (simp add: watched_def)

lemma WindowDeadline_Release [simp]: "WindowDeadline (Release oe) = WindowDeadline oe"
  by (cases oe) (simp_all add: release_slot_def)

lemma WindowDeadline_Reserve:
  assumes "Reserve k now ident oe = (outcome, enf)"
  shows "WindowDeadline enf = WindowDeadline oe"
  unfolding Reserve_Some[OF assms] by (cases oe) simp_all

lemma watched_reserve:
  assumes "watched (rn_mem r)"
  shows "watched (rn_mem (snd (reserveCanaryExecution io ident r)))"
proof (cases "rn_mem (snd (reserveCanaryExecution io ident r)) = rn_mem r")
  case False
  with reserve_mem[of io ident r] obtain outcome enf enf' where
      o: "Reserve (cr_generation (rn_mem r)) (ri_now io) ident (cr_enforcer (rn_mem r)) = (outcome, enf)"
    and m: "rn_mem (snd (reserveCanaryExecution io ident r)) = (rn_mem r)\<lparr>cr_enforcer := enf',
       cr_aborter := reserve_trip outcome (cr_generation (rn_mem r)) (ri_now io) (cr_aborter (rn_mem r))\<rparr>"
    and e: "enf' = enf \<or> enf' = Release enf"
    by blast
  have "WindowDeadline enf' = WindowDeadline (cr_enforcer (rn_mem r))"
    using WindowDeadline_Reserve[OF o] e by auto
  then show ?thesis unfolding m using assms by (auto simp: watched_def dest: reserve_trip_eligible)
qed (use assms in simp)

lemma watched_trip_generation:
  assumes "watched (rn_mem r)"
  shows "watched (rn_mem (snd (tripCanaryAbortForGeneration io gen code r)))"
proof -
  obtain res ab where t: "Trip code (cr_generation (rn_mem r)) (ri_now io) (cr_aborter (rn_mem r)) = (res, ab)"
    by fastforce
  have "watched ((rn_mem r)\<lparr>cr_aborter := ab\<rparr>)"
    using watched_trip[OF assms, of code "cr_generation (rn_mem r)" "ri_now io"] t by simp
  with assms t show ?thesis by (simp add: tripCanaryAbortForGeneration_def Let_def)
qed

lemma watched_auto: "watched (rn_mem r) \<Longrightarrow> watched (rn_mem (tripAutoStopLocked code now fs cf r))"
  by (simp add: tripAutoStop_mem watched_trip)

lemma watched_release: "watched (rn_mem r) \<Longrightarrow> watched (rn_mem (releaseCanaryExecution io gen r))"
proof -
  assume w: "watched (rn_mem r)"
  then have "watched ((rn_mem r)\<lparr>cr_enforcer := Release (cr_enforcer (rn_mem r))\<rparr>)" by (simp add: watched_def)
  with w show ?thesis by (simp add: releaseCanaryExecution_def Let_def watched_auto)
qed

lemma watched_settled: "watched (rn_mem r) \<Longrightarrow> watched (rn_mem (observeAttemptSettled io gen failed latency r))"
proof -
  assume w: "watched (rn_mem r)"
  obtain code h where o: "Observe gen failed latency (cr_health (rn_mem r)) = (code, h)" by fastforce
  have h: "watched ((rn_mem r)\<lparr>cr_health := h\<rparr>)" using w by (simp add: watched_def)
  with w o show ?thesis by (simp add: observeAttemptSettled_def Let_def watched_auto)
qed

lemma watched_callback: "watched (rn_mem r) \<Longrightarrow> watched (rn_mem (watchdog_callback io gen r))"
proof -
  assume w: "watched (rn_mem r)"
  have "watched (rn_mem (rearmWindowWatchdog gen d r))" for d
    using w by (auto simp: rearmWindowWatchdog_def watched_def armWindowWatchdog_def stopWindowWatchdog_def)
  with w show ?thesis by (simp add: watchdog_callback_def watched_trip_generation split: prod.splits)
qed

lemma disarmed_inactive [simp]: "\<not> cr_active (disarmed cr)"
  by (simp add: disarmed_def)

lemma watched_begin:
  assumes "watched (rn_mem r)"
  shows "watched (rn_mem (snd (beginCanaryActivation io spec r)))"
proof -
  obtain reviewed rr where c: "CanonicalizeReviewedTargets (as_ReviewedTargets spec) = (reviewed, rr)" by fastforce
  let ?r1 = "r\<lparr>rn_mem := armed_mem spec reviewed (rn_mem r)\<rparr>"
  obtain e r2 where p: "persistRuntime (ri_write io) ?r1 = (e, r2)" by fastforce
  show ?thesis using assms c p
    by (cases e) (auto simp: beginCanaryActivation_def Let_def watched_window watched_inactive)
qed

lemma watched_restore: "watched (rn_mem r) \<Longrightarrow> watched (rn_mem (restoreCapability io r))"
  by (auto simp: restoreCapability_def Let_def watched_window watched_inactive split: option.splits content.splits)

lemma watched_demote: "watched (rn_mem (snd (demoteCanary io r)))"
  by (simp add: demote_eq watched_inactive)

lemma watched_crash: "watched (rn_mem (crash_restart io k build r))"
  by (simp add: crash_restart_def Let_def watched_restore watched_inactive fresh_mem_def)

lemma watched_step: "watched (rn_mem r) \<Longrightarrow> watched (rn_mem (runtime_step x r))"
  by (cases x; cases "snd x")
    (auto simp: watched_begin watched_demote watched_reserve watched_release watched_trip_generation watched_settled
      watched_callback watched_crash reconcileCanaryRuntimeAfterRestore_def)

lemma watched_run: "watched (rn_mem (run_ops runtime_step ops (fresh_runtime capb build)))"
  by (rule run_ops_inv[where allowed = "\<lambda>_. True"])
    (simp_all add: watched_step list_all_iff watched_inactive fresh_runtime_def fresh_mem_def)

lemma deadline_positive:
  assumes "mem_started cr" "cr_enforcer cr = Some e"
  shows "WindowDeadline (cr_enforcer cr) \<noteq> 0"
proof -
  have v: "ValidateBudget (be_budget e) = []" "- (2 ^ 63) \<le> be_startNanos e" using assms by (auto simp: mem_started_def)
  show ?thesis using v(2) ValidateBudget_OK(11)[OF v(1)] assms(2)
    by (simp add: unixToInternal_def nanosPerSecond_def)
qed

lemma callback_stops:
  assumes "generationActive now gen (rn_mem r)" "cr_enforcer (rn_mem r) = Some e"
    "WindowDeadline (Some e) \<le> ri_now io"
  shows "\<not> generationActive now' gen (rn_mem (watchdog_callback io gen r))"
proof -
  have g: "cr_generation (rn_mem r) = gen" "cr_active (rn_mem r)" "cr_aborter (rn_mem r) \<noteq> None"
    using assms(1) by (simp_all add: generationActive_def split: if_split_asm)
  obtain d ok where w: "windowDeadlineIfOpen (ri_now io) (rn_mem r) = (d, ok)" by fastforce
  have "\<not> (ok \<and> ri_now io < d)" using w assms(2,3) by (auto simp: windowDeadlineIfOpen_def split: if_split_asm)
  then have "rn_mem (watchdog_callback io gen r) =
      (rn_mem r)\<lparr>cr_aborter := snd (Trip ''window_expired'' gen (ri_now io) (cr_aborter (rn_mem r)))\<rparr>"
    using w g by (auto simp: watchdog_callback_def tripCanaryAbortForGeneration_def Let_def split: prod.splits)
  then show ?thesis using Trip_latched[OF window_codes(2), of gen "ri_now io" "cr_aborter (rn_mem r)"]
    by (simp add: generationActive_def)
qed

end
