(* ===== verification/CanaryGate.thy ===== *)
theory CanaryGate
  imports RolloutScope CanaryGuards
begin

text \<open>
  The pure gates of a Canary activation: the scope contract (\<open>internal/mcp/canary/scope.go\<close>),
  the exact first-Canary scope (\<open>firstcanary_scope.go\<close>), the live-execution trust predicate
  (\<open>trust.go\<close>), scope approvals (\<open>approval.go\<close>), the Shadow Exit attestation
  (\<open>attestation.go\<close>), the rollback rehearsals (\<open>rehearsal.go\<close>,
  \<open>coordinator_rehearsal.go\<close>) and the readiness verdict (\<open>readiness.go\<close>). Reason
  codes are their strings, the admissible value is the empty string, nil records are \<open>None\<close>.
\<close>

section \<open>The scope contract\<close>

definition validateScopeRawFields :: "scope_spec \<Rightarrow> string" where
  "validateScopeRawFields spec =
     (if sp_HighRisk spec then ''scope_high_risk''
      else if list_ex (\<lambda>op. op \<noteq> RiskRead) (sp_Operations spec) then ''scope_not_read_first''
      else if list_ex (\<lambda>t. ts_Fingerprint t = [] \<or> ts_Server t = [] \<or> ts_Name t = []) (sp_Tools spec) then
        ''scope_tool_missing_fingerprint''
      else if list_ex (\<lambda>t. t = []) (sp_Tenants spec) then ''scope_no_explicit_tenant''
      else [])"

definition principalCount :: "scope_spec \<Rightarrow> int" where
  "principalCount spec = int (length (sp_Principals spec)) + int (length (sp_Clients spec))
     + int (length (sp_Agents spec))"

definition validateScopeBounds :: "scope_spec \<Rightarrow> string" where
  "validateScopeBounds spec =
     (if sp_Percent spec \<noteq> 0 then ''scope_uses_percentage''
      else if sp_Servers spec = [] then ''scope_no_explicit_servers''
      else if sp_Tools spec = [] then ''scope_no_explicit_tools''
      else if int (length (sp_Servers spec)) > MaxCanaryServers then ''scope_too_many_servers''
      else if int (length (sp_Tools spec)) > MaxCanaryTools then ''scope_too_many_tools''
      else if sp_Tenants spec = [] then ''scope_no_explicit_tenant''
      else if int (length (sp_Tenants spec)) > MaxCanaryTenants then ''scope_too_many_tenants''
      else if principalCount spec = 0 then ''scope_no_explicit_identity''
      else if sp_Groups spec \<noteq> [] then ''scope_uses_groups''
      else if principalCount spec > MaxCanaryPrincipals then ''scope_too_many_principals''
      else [])"

definition firstNotExcluded :: "string list \<Rightarrow> string list \<Rightarrow> string \<times> bool" where
  "firstNotExcluded incl excl =
     (if incl = [] then ([], True)
      else (case find (\<lambda>v. v \<notin> set excl) incl of Some v \<Rightarrow> (v, True) | None \<Rightarrow> ([], False)))"

definition firstOr :: "string list \<Rightarrow> string" where
  "firstOr ss = (case ss of v # _ \<Rightarrow> v | [] \<Rightarrow> [])"

definition witness_subject :: "scope_spec \<Rightarrow> string \<Rightarrow> string \<Rightarrow> tool_sel \<Rightarrow> subject" where
  "witness_subject spec tenant who t = \<lparr>sj_Capability = sp_Capability spec, sj_Tenant = tenant,
     sj_ServerID = ts_Server t, sj_ToolFingerprint = ts_Fingerprint t, sj_ToolName = ts_Name t,
     sj_PrincipalID = who, sj_AgentID = firstOr (sp_Agents spec), sj_ClientID = firstOr (sp_Clients spec),
     sj_Groups = [], sj_Environment = firstOr (sp_Environments spec), sj_Operation = RiskRead\<rparr>"

definition scopeRealizable :: "scope \<Rightarrow> scope_spec \<Rightarrow> bool" where
  "scopeRealizable sc spec =
     (let (tenant, tenantOK) = firstNotExcluded (sp_Tenants spec) (sp_ExcludeTenants spec);
          (who, principalOK) = firstNotExcluded (sp_Principals spec) (sp_ExcludePrincipals spec)
      in if \<not> tenantOK \<or> \<not> principalOK then False
         else list_ex (\<lambda>t. Contains sc (witness_subject spec tenant who t)) (sp_Tools spec))"

definition ValidateScope :: "scope_spec \<Rightarrow> nat \<Rightarrow> string" where
  "ValidateScope spec scopeRev =
     (if sp_Capability spec \<noteq> CapabilityGateway then ''scope_not_gateway''
      else if validateScopeRawFields spec \<noteq> [] then validateScopeRawFields spec
      else (case Scope_Compile spec scopeRev Rollout_DefaultLimits of
          Inl e \<Rightarrow> ''scope_uncompilable''
        | Inr sc \<Rightarrow>
            if MatchesNothing sc then ''scope_matches_nothing''
            else if \<not> Enumerable sc then ''scope_not_enumerable''
            else if validateScopeBounds spec \<noteq> [] then validateScopeBounds spec
            else if \<not> scopeRealizable sc spec then ''scope_not_realizable''
            else []))"

definition ScopeReadFirst :: "scope_spec \<Rightarrow> bool" where
  "ScopeReadFirst spec =
     (if sp_HighRisk spec then False else list_all (\<lambda>op. op = RiskRead) (sp_Operations spec))"

section \<open>The exact first-Canary scope\<close>

definition firstCanaryCapability :: "scope_spec \<Rightarrow> string" where
  "firstCanaryCapability spec = (if sp_Capability spec \<noteq> CapabilityGateway then ''first_canary_not_gateway'' else [])"

definition firstCanaryPosture :: "scope_spec \<Rightarrow> string" where
  "firstCanaryPosture spec =
     (if sp_HighRisk spec then ''first_canary_high_risk''
      else if length (sp_Operations spec) > 1 then ''first_canary_operations_not_exactly_read''
      else if length (sp_Operations spec) = 1 \<and> hd (sp_Operations spec) \<noteq> RiskRead then
        ''first_canary_operations_not_exactly_read''
      else [])"

definition firstCanarySubSampling :: "scope_spec \<Rightarrow> string" where
  "firstCanarySubSampling spec =
     (if sp_Percent spec \<noteq> 0 then ''first_canary_percentage_forbidden''
      else if sp_BucketSalt spec \<noteq> [] then ''first_canary_bucket_salt_forbidden''
      else if sp_BucketKey spec \<noteq> BucketByPrincipal then ''first_canary_bucket_key_forbidden''
      else [])"

definition firstCanaryForbiddenClasses :: "scope_spec \<Rightarrow> string" where
  "firstCanaryForbiddenClasses spec =
     (if sp_Clients spec \<noteq> [] then ''first_canary_clients_forbidden''
      else if sp_Agents spec \<noteq> [] then ''first_canary_agents_forbidden''
      else if sp_Groups spec \<noteq> [] then ''first_canary_groups_forbidden''
      else if sp_Environments spec \<noteq> [] then ''first_canary_environments_forbidden''
      else if sp_ToolFingerprints spec \<noteq> [] then ''first_canary_bare_tool_fingerprints_forbidden''
      else if sp_ExcludeTenants spec \<noteq> [] \<or> sp_ExcludeServers spec \<noteq> [] \<or> sp_ExcludeTools spec \<noteq> []
              \<or> sp_ExcludePrincipals spec \<noteq> [] then ''first_canary_exclusions_forbidden''
      else [])"

definition nonEmptyOf :: "string list \<Rightarrow> string list" where
  "nonEmptyOf vals = filter (\<lambda>v. v \<noteq> []) vals"

definition firstCanaryGlobChars :: string where "firstCanaryGlobChars = ''*?''"

definition first_canary_identifier :: "int \<Rightarrow> string \<Rightarrow> string" where
  "first_canary_identifier maxBytes v =
     (if v = [] then ''first_canary_empty_identifier''
      else if int (length v) > maxBytes then ''first_canary_identifier_too_long''
      else if list_ex (\<lambda>c. c \<in> set firstCanaryGlobChars) v then ''first_canary_wildcard_identifier''
      else [])"

text \<open>The first reason a list of checks gives.\<close>

fun first_reason :: "string list \<Rightarrow> string" where
  "first_reason [] = []"
| "first_reason (r # rs) = (if r \<noteq> [] then r else first_reason rs)"

definition firstCanaryIdentifierHygiene :: "scope_spec \<Rightarrow> string" where
  "firstCanaryIdentifierHygiene spec =
     first_reason (map (first_canary_identifier (rlm_MaxValueBytes Rollout_DefaultLimits))
       (sp_Tenants spec @ sp_Servers spec @ sp_Principals spec @
        concat (map (\<lambda>t. nonEmptyOf [ts_Server t, ts_Name t, ts_Fingerprint t]) (sp_Tools spec))))"

definition exactlyOne :: "'a list \<Rightarrow> string \<Rightarrow> string \<Rightarrow> string \<Rightarrow> string" where
  "exactlyOne vals none dup many =
     (if vals = [] then none else if \<not> distinct vals then dup else if length vals > 1 then many else [])"

definition firstCanaryTenant :: "scope_spec \<Rightarrow> string" where
  "firstCanaryTenant spec = exactlyOne (sp_Tenants spec)
     ''first_canary_no_tenant'' ''first_canary_duplicate_tenant'' ''first_canary_multiple_tenants''"

definition firstCanaryServer :: "scope_spec \<Rightarrow> string" where
  "firstCanaryServer spec = exactlyOne (sp_Servers spec)
     ''first_canary_no_server'' ''first_canary_duplicate_server'' ''first_canary_multiple_servers''"

definition firstCanaryPrincipal :: "scope_spec \<Rightarrow> string" where
  "firstCanaryPrincipal spec = exactlyOne (sp_Principals spec)
     ''first_canary_no_principal'' ''first_canary_duplicate_principal'' ''first_canary_multiple_principals''"

definition firstCanaryTool :: "scope_spec \<Rightarrow> string" where
  "firstCanaryTool spec =
     (if sp_Tools spec = [] then ''first_canary_no_tool''
      else if list_ex (\<lambda>t. ts_Server t = [] \<or> ts_Name t = [] \<or> ts_Fingerprint t = []) (sp_Tools spec) then
        ''first_canary_tool_incomplete''
      else if \<not> distinct (sp_Tools spec) then ''first_canary_duplicate_tool''
      else if length (sp_Tools spec) > 1 then ''first_canary_multiple_tools''
      else if length (sp_Servers spec) = 1 \<and> ts_Server (hd (sp_Tools spec)) \<noteq> hd (sp_Servers spec) then
        ''first_canary_tool_server_mismatch''
      else [])"

definition firstCanaryChecks :: "(scope_spec \<Rightarrow> string) list" where
  "firstCanaryChecks = [firstCanaryCapability, firstCanaryPosture, firstCanarySubSampling,
     firstCanaryForbiddenClasses, firstCanaryIdentifierHygiene, firstCanaryTenant, firstCanaryServer,
     firstCanaryTool, firstCanaryPrincipal]"

definition ValidateFirstCanaryScope :: "scope_spec \<Rightarrow> nat \<Rightarrow> string" where
  "ValidateFirstCanaryScope spec scopeRev =
     (let r = first_reason (map (\<lambda>check. check spec) firstCanaryChecks) in
      if r \<noteq> [] then r
      else if ValidateScope spec scopeRev \<noteq> [] then ''first_canary_base_contract_failed''
      else [])"

section \<open>Live-execution trust\<close>

definition MaxInitialCanaryApprovalTTL :: int where
  "MaxInitialCanaryApprovalTTL = MaxLiveExecutionApprovalTTL"

record live_target =
  lt_Tenant :: string
  lt_ServerID :: string
  lt_ToolName :: string
  lt_Fingerprint :: string
  lt_FingerprintFormat :: nat

definition SatisfiesLiveExecution :: "tool_approval option \<Rightarrow> live_target \<Rightarrow> gotime \<Rightarrow> string" where
  "SatisfiesLiveExecution oa tgt now = (case oa of
     None \<Rightarrow> ''approval_nil''
   | Some a \<Rightarrow>
       if \<not> PermitsLiveExecution (ta_Purpose a) then ''approval_not_live_execution_purpose''
       else if ta_Status a \<noteq> StatusActive then ''approval_not_active''
       else if ta_RequestedBy a = [] \<or> ta_ApprovedBy a = [] \<or> ta_RequestedBy a = ta_ApprovedBy a then
         ''approval_not_four_eyes''
       else (case ta_ExpiresAt a of
           None \<Rightarrow> ''approval_missing_expiry''
         | Some x \<Rightarrow>
             if \<not> now < x then ''approval_expired''
             else if Time_IsZero (ta_ApprovedAt a) \<or> ta_ApprovedAt a > now then ''approval_instant_in_future''
             else if Time_Sub x (ta_ApprovedAt a) > MaxInitialCanaryApprovalTTL then
               ''approval_ttl_exceeds_ceiling''
             else if ta_FingerprintFormatVersion a \<noteq> lt_FingerprintFormat tgt then
               ''approval_fingerprint_format_mismatch''
             else if \<not> MatchesTool a (lt_Tenant tgt) (lt_ServerID tgt) (lt_ToolName tgt)
                         (lt_Fingerprint tgt) (lt_FingerprintFormat tgt) then ''approval_target_mismatch''
             else []))"

section \<open>Scope approvals\<close>

record tool_approval_binding =
  tb_Target :: live_target
  tb_Approval :: "tool_approval option"
  tb_ServerIdentity :: string

type_synonym approval_key = "string \<times> string \<times> string"

definition binding_key :: "tool_approval_binding \<Rightarrow> approval_key" where
  "binding_key b = (lt_Tenant (tb_Target b), lt_ServerID (tb_Target b), lt_ToolName (tb_Target b))"

definition scope_keys :: "scope_spec \<Rightarrow> (approval_key \<times> tool_sel) list" where
  "scope_keys spec = concat (map (\<lambda>tn. map (\<lambda>t. ((tn, ts_Server t, ts_Name t), t)) (sp_Tools spec)) (sp_Tenants spec))"

text \<open>
  \<open>strings.EqualFold\<close> of a lower-case hexadecimal text: the hexadecimal digits have no case
  partners outside ASCII, so folding ASCII letters decides it.
\<close>

definition fold_ascii :: "char \<Rightarrow> char" where
  "fold_ascii c = (if byte_in 0x41 0x5A c then char_of (of_char c + 32 :: nat) else c)"

definition EqualFold_hex :: "string \<Rightarrow> string \<Rightarrow> bool" where
  "EqualFold_hex s t \<longleftrightarrow> map fold_ascii s = map fold_ascii t"

text \<open>The verdict on one tenant and tool of the scope.\<close>

definition scoped_tool_reason :: "tool_approval_binding list \<Rightarrow> gotime \<Rightarrow> approval_key \<times> tool_sel \<Rightarrow> string" where
  "scoped_tool_reason bindings now = (\<lambda>(k, st).
     (case find (\<lambda>b. binding_key b = k) bindings of
        None \<Rightarrow> ''scope_tool_unapproved''
      | Some b \<Rightarrow>
          if \<not> EqualFold_hex (hex_encode (lt_Fingerprint (tb_Target b))) (ts_Fingerprint st) then
            ''approval_fingerprint_not_scoped''
          else if SatisfiesLiveExecution (tb_Approval b) (tb_Target b) now \<noteq> [] then ''scope_tool_unapproved''
          else []))"

definition ValidateScopeApprovals :: "scope_spec \<Rightarrow> tool_approval_binding list \<Rightarrow> gotime \<Rightarrow> string" where
  "ValidateScopeApprovals spec bindings now =
     (if sp_Tools spec = [] then ''scope_has_no_tools''
      else if sp_Tenants spec = [] then ''scope_has_no_tenant''
      else if \<not> distinct (map binding_key bindings) then ''scope_tool_duplicate_approval''
      else let r = first_reason (map (scoped_tool_reason bindings now) (scope_keys spec)) in
        if r \<noteq> [] then r
        else if list_ex (\<lambda>b. binding_key b \<notin> set (map fst (scope_keys spec))) bindings then
          ''approval_outside_scope''
        else [])"

section \<open>Attestation and rehearsals\<close>

record runtime_identity =
  id_BuildVersion :: string
  id_Commit :: string

definition lower_hex :: "char \<Rightarrow> bool" where
  "lower_hex c \<longleftrightarrow> byte_in 0x30 0x39 c \<or> byte_in 0x61 0x66 c"

definition validCommitStamp :: "string \<Rightarrow> bool" where
  "validCommitStamp c = (if length c < 7 \<or> length c > 64 then False else list_all lower_hex c)"

definition RuntimeIdentity_Valid :: "runtime_identity \<Rightarrow> bool" where
  "RuntimeIdentity_Valid i = validCommitStamp (id_Commit i)"

definition ValidEvidenceDigest :: "string \<Rightarrow> bool" where
  "ValidEvidenceDigest s = (if length s \<noteq> 64 then False else list_all lower_hex s)"

record shadow_exit_attestation =
  at_SchemaVersion :: int
  at_Status :: string
  at_ReviewID :: string
  at_EvidenceDigest :: string
  at_Identity :: runtime_identity
  at_AttestedBy :: string
  at_AttestedAtUnixNano :: int

definition ValidateAttestation :: "shadow_exit_attestation option \<Rightarrow> runtime_identity \<Rightarrow> string" where
  "ValidateAttestation oa current = (case oa of
     None \<Rightarrow> ''attestation_missing''
   | Some a \<Rightarrow>
       if at_SchemaVersion a \<noteq> 1 then ''attestation_schema_unknown''
       else if at_Status a \<noteq> ''shadow_exit_review_passed'' then ''attestation_not_passed''
       else if at_ReviewID a = [] then ''attestation_no_review_id''
       else if at_EvidenceDigest a = [] then ''attestation_no_evidence_digest''
       else if \<not> ValidEvidenceDigest (at_EvidenceDigest a) then ''attestation_bad_evidence_digest''
       else if at_AttestedBy a = [] then ''attestation_no_attestor''
       else if \<not> RuntimeIdentity_Valid current \<or> id_BuildVersion (at_Identity a) \<noteq> id_BuildVersion current then
         ''attestation_identity_mismatch''
       else [])"

definition requiredRollbackPath :: "string list" where
  "requiredRollbackPath = [''canary'', ''shadow'', ''observe'']"

record rollback_rehearsal =
  rr_SchemaVersion :: int
  rr_Capability :: string
  rr_Identity :: runtime_identity
  rr_Executed :: bool
  rr_Steps :: "string list"
  rr_RehearsedAtUnixNano :: int

definition ValidateRehearsal :: "rollback_rehearsal option \<Rightarrow> string \<Rightarrow> runtime_identity \<Rightarrow> string" where
  "ValidateRehearsal orec capToken current = (case orec of
     None \<Rightarrow> ''rehearsal_missing''
   | Some r \<Rightarrow>
       if rr_SchemaVersion r \<noteq> 1 then ''rehearsal_schema_unknown''
       else if rr_Capability r = [] then ''rehearsal_no_capability''
       else if rr_Capability r \<noteq> capToken then ''rehearsal_capability_mismatch''
       else if \<not> rr_Executed r then ''rehearsal_not_executed''
       else if rr_Steps r \<noteq> requiredRollbackPath then ''rehearsal_incomplete_path''
       else if \<not> RuntimeIdentity_Valid current \<or> id_BuildVersion (rr_Identity r) \<noteq> id_BuildVersion current then
         ''rehearsal_identity_mismatch''
       else [])"

record coordinator_rehearsal =
  cr_SchemaVersion :: int
  cr_Capability :: string
  cr_Identity :: runtime_identity
  cr_Routed :: bool
  cr_Steps :: "string list"
  cr_RecoveredMode :: string
  cr_RehearsedAtUnixNano :: int

definition coordinatorRecoveredMode :: string where "coordinatorRecoveredMode = ''observe''"

definition ValidateCoordinatorRehearsal :: "coordinator_rehearsal option \<Rightarrow> string \<Rightarrow> runtime_identity \<Rightarrow> string" where
  "ValidateCoordinatorRehearsal orec capToken current = (case orec of
     None \<Rightarrow> ''coordinator_rehearsal_missing''
   | Some r \<Rightarrow>
       if cr_SchemaVersion r \<noteq> 1 then ''coordinator_rehearsal_schema_unknown''
       else if cr_Capability r = [] then ''coordinator_rehearsal_no_capability''
       else if cr_Capability r \<noteq> capToken then ''coordinator_rehearsal_capability_mismatch''
       else if \<not> cr_Routed r then ''coordinator_rehearsal_not_routed''
       else if cr_Steps r \<noteq> requiredRollbackPath then ''coordinator_rehearsal_incomplete_path''
       else if cr_RecoveredMode r \<noteq> coordinatorRecoveredMode then ''coordinator_rehearsal_recovery_mismatch''
       else if \<not> RuntimeIdentity_Valid current \<or> id_BuildVersion (cr_Identity r) \<noteq> id_BuildVersion current then
         ''coordinator_rehearsal_identity_mismatch''
       else [])"

section \<open>Readiness\<close>

record facts =
  CapabilityGatewayFact :: bool
  ShadowExitReviewPassed :: bool
  ScopeBounded :: bool
  ScopeReadFirstFact :: bool
  ScopeExactFirstCanary :: bool
  LiveExecutorComposed :: bool
  UpstreamCallerPresent :: bool
  CredentialPathReady :: bool
  DurableEventsHealthy :: bool
  ResponseInspectionReady :: bool
  RegistryHealthy :: bool
  CatalogHealthy :: bool
  PolicyHealthy :: bool
  EmergencyKillClear :: bool
  KillBoundaryGuardPresent :: bool
  ToolFreshnessGuardPresent :: bool
  LiveApprovalValid :: bool
  ServerUsable :: bool
  ToolFingerprintCurrent :: bool
  RollbackPathHealthy :: bool
  RollbackCoordinatorRehearsed :: bool
  BudgetConfigured :: bool

datatype fact_scope = FactNode | FactActivation

definition readinessChecks :: "((facts \<Rightarrow> bool) \<times> string \<times> fact_scope) list" where
  "readinessChecks = [
     (ShadowExitReviewPassed, ''shadow_exit_review_not_passed'', FactNode),
     (ScopeBounded, ''canary_scope_not_bounded'', FactActivation),
     (ScopeReadFirstFact, ''canary_scope_not_read_first'', FactActivation),
     (ScopeExactFirstCanary, ''canary_scope_not_exact_first_canary'', FactActivation),
     (LiveExecutorComposed, ''live_executor_absent'', FactNode),
     (UpstreamCallerPresent, ''upstream_caller_absent'', FactNode),
     (CredentialPathReady, ''credential_path_not_ready'', FactNode),
     (DurableEventsHealthy, ''durable_events_degraded'', FactNode),
     (ResponseInspectionReady, ''response_inspection_not_ready'', FactNode),
     (RegistryHealthy, ''registry_unhealthy'', FactNode),
     (CatalogHealthy, ''catalog_unhealthy'', FactNode),
     (PolicyHealthy, ''policy_unhealthy'', FactNode),
     (EmergencyKillClear, ''emergency_kill_active'', FactNode),
     (KillBoundaryGuardPresent, ''kill_boundary_guard_absent'', FactNode),
     (ToolFreshnessGuardPresent, ''tool_freshness_guard_absent'', FactNode),
     (LiveApprovalValid, ''live_execution_approval_invalid'', FactActivation),
     (ServerUsable, ''server_not_usable'', FactActivation),
     (ToolFingerprintCurrent, ''tool_fingerprint_stale'', FactActivation),
     (RollbackPathHealthy, ''rollback_path_unhealthy'', FactNode),
     (RollbackCoordinatorRehearsed, ''rollback_coordinator_rehearsal_pending'', FactNode),
     (BudgetConfigured, ''canary_budget_not_configured'', FactActivation)]"

record readiness =
  rd_Ready :: bool
  rd_Unmet :: "string list"

definition evaluate :: "facts \<Rightarrow> bool \<Rightarrow> readiness" where
  "evaluate f nodeOnly =
     (if \<not> CapabilityGatewayFact f then \<lparr>rd_Ready = False, rd_Unmet = [''capability_not_gateway'']\<rparr>
      else let unmet = map (\<lambda>(check, r, sc). r)
             (filter (\<lambda>(check, r, sc). \<not> (nodeOnly \<and> sc = FactActivation) \<and> \<not> check f) readinessChecks)
        in \<lparr>rd_Ready = (unmet = []), rd_Unmet = unmet\<rparr>)"

definition Evaluate :: "facts \<Rightarrow> readiness" where "Evaluate f = evaluate f False"
definition EvaluateNode :: "facts \<Rightarrow> readiness" where "EvaluateNode f = evaluate f True"

definition AllReasons :: "string list" where
  "AllReasons = [
     ''shadow_exit_review_not_passed'', ''canary_scope_not_bounded'', ''canary_scope_not_read_first'',
     ''canary_scope_not_exact_first_canary'', ''live_executor_absent'', ''upstream_caller_absent'',
     ''credential_path_not_ready'', ''durable_events_degraded'', ''response_inspection_not_ready'',
     ''registry_unhealthy'', ''catalog_unhealthy'', ''policy_unhealthy'',
     ''emergency_kill_active'', ''kill_boundary_guard_absent'', ''tool_freshness_guard_absent'',
     ''live_execution_approval_invalid'', ''server_not_usable'', ''tool_fingerprint_stale'',
     ''rollback_path_unhealthy'', ''rollback_coordinator_rehearsal_pending'', ''canary_budget_not_configured'',
     ''capability_not_gateway'']"

section \<open>Scopes\<close>

lemma first_reason_OK [simp]: "first_reason rs = [] \<longleftrightarrow> list_all (\<lambda>r. r = []) rs"
  by (induction rs) auto

lemma exactlyOne_OK:
  "n \<noteq> [] \<Longrightarrow> d \<noteq> [] \<Longrightarrow> m \<noteq> [] \<Longrightarrow> exactlyOne vals n d m = [] \<longleftrightarrow> (\<exists>v. vals = [v])"
  by (cases vals rule: remdups_adj.cases) (auto simp: exactlyOne_def)

lemma ValidateScope_OK:
  assumes "ValidateScope spec rv = []"
  obtains sc where "Scope_Compile spec rv Rollout_DefaultLimits = Inr sc" "sp_Capability spec = CapabilityGateway"
    "validateScopeRawFields spec = []" "validateScopeBounds spec = []" "scopeRealizable sc spec" "hasInclusion sc"
  using assms by (auto simp: ValidateScope_def Enumerable_def split: if_split_asm sum.splits)

text \<open>Membership in a compiled scope that uses no percentage, over the specification itself.\<close>

lemma Contains_spec:
  assumes "Scope_Compile spec rv lim = Inr sc" "sp_Percent spec = 0"
  shows "Contains sc subj \<longleftrightarrow> sp_Capability spec = sj_Capability subj \<and> hasInclusion sc \<and>
    sj_Tenant subj \<notin> set (sp_ExcludeTenants spec) \<and> sj_ServerID subj \<notin> set (sp_ExcludeServers spec) \<and>
    sj_PrincipalID subj \<notin> set (sp_ExcludePrincipals spec) \<and> subject_tool subj \<notin> set (sp_ExcludeTools spec) \<and>
    RiskClass_Valid (sj_Operation subj) \<and>
    sj_Operation subj \<in> (if set (sp_Operations spec) = {} then {RiskRead} else set (sp_Operations spec)) \<and>
    dimOK (set (sp_Tenants spec)) (sj_Tenant subj) \<and> dimOK (set (sp_Servers spec)) (sj_ServerID subj) \<and>
    dimOK (set (sp_ToolFingerprints spec)) (sj_ToolFingerprint subj) \<and>
    dimOK (set (sp_Tools spec)) (subject_tool subj) \<and> dimOK (set (sp_Principals spec)) (sj_PrincipalID subj) \<and>
    dimOK (set (sp_Agents spec)) (sj_AgentID subj) \<and> dimOK (set (sp_Clients spec)) (sj_ClientID subj) \<and>
    dimOK (set (sp_Environments spec)) (sj_Environment subj) \<and>
    (set (sp_Groups spec) = {} \<or> (\<exists>g \<in> set (sj_Groups subj). g \<in> set (sp_Groups spec)))"
proof -
  note sc = Scope_Compile_Inr[OF assms(1)]
  have "matchGroup sc subj \<longleftrightarrow> (\<exists>g \<in> set (sj_Groups subj). g \<in> set (sp_Groups spec))"
    by (auto simp: matchGroup_def sc scope_of_def list_ex_iff)
  then show ?thesis
    using assms(2) unfolding Contains_iff
    by (simp add: matchDimensions_def inBucket_def dimOK_def sc scope_of_def)
qed

lemma RiskRead_valid: "RiskClass_Valid RiskRead"
  by (simp add: RiskClass_Valid_iff)

lemma raw_fields_read:
  "validateScopeRawFields spec = [] \<Longrightarrow> set (sp_Operations spec) \<subseteq> {RiskRead} \<and> \<not> sp_HighRisk spec"
  by (auto simp: validateScopeRawFields_def list_ex_iff split: if_split_asm)

lemma bounds_sel:
  assumes "validateScopeBounds spec = []"
  shows "sp_Percent spec = 0" "sp_Tools spec \<noteq> []" "sp_Groups spec = []" "sp_Servers spec \<noteq> []"
    "sp_Tenants spec \<noteq> []" "principalCount spec \<noteq> 0"
  using assms by (auto simp: validateScopeBounds_def split: if_split_asm)

lemma firstNotExcluded_fst:
  "snd (firstNotExcluded incl excl) \<Longrightarrow> dimOK (set incl) (fst (firstNotExcluded incl excl)) \<and>
     (incl \<noteq> [] \<longrightarrow> fst (firstNotExcluded incl excl) \<notin> set excl)"
  by (cases "find (\<lambda>v. v \<notin> set excl) incl")
    (auto simp: firstNotExcluded_def dimOK_def dest!: iffD1[OF find_Some_iff])

lemma firstNotExcluded_ex:
  "v \<in> set incl \<Longrightarrow> v \<notin> set excl \<Longrightarrow> snd (firstNotExcluded incl excl)"
  by (auto simp: firstNotExcluded_def find_None_iff split: option.splits)

lemma firstOr_dimOK: "dimOK (set vs) (firstOr vs)"
  by (cases vs) (simp_all add: firstOr_def dimOK_def)

lemma compiled_exclusion_nonempty:
  assumes "Scope_Compile spec rv lim = Inr sc"
  shows "[] \<notin> set (sp_ExcludePrincipals spec)"
proof -
  from assms have "\<exists>S. mkSet lim (sp_ExcludePrincipals spec) = Inr S"
    unfolding Scope_Compile_def Let_def by (simp add: bindR_eq_Inr split: if_split_asm) blast
  then show ?thesis by (auto simp: mkSet_eq_Inr)
qed

text \<open>The witness check decides exactly whether a scope that passed the other gates admits anybody.\<close>

lemma realizable_sound: "scopeRealizable sc spec \<Longrightarrow> \<exists>subj. Contains sc subj"
  by (auto simp: scopeRealizable_def list_ex_iff Let_def split: prod.splits if_split_asm)

lemma realizable_complete:
  assumes "Scope_Compile spec rv lim = Inr sc" "validateScopeRawFields spec = []" "validateScopeBounds spec = []"
    and "Contains sc subj"
  shows "scopeRealizable sc spec"
proof -
  note b = bounds_sel[OF assms(3)]
  note c = assms(4)[unfolded Contains_spec[OF assms(1) b(1)]]
  define tn where "tn = fst (firstNotExcluded (sp_Tenants spec) (sp_ExcludeTenants spec))"
  define p where "p = fst (firstNotExcluded (sp_Principals spec) (sp_ExcludePrincipals spec))"
  have tn: "snd (firstNotExcluded (sp_Tenants spec) (sp_ExcludeTenants spec))"
    using c b(5) by (intro firstNotExcluded_ex[of "sj_Tenant subj"]) (auto simp: dimOK_def)
  have p: "snd (firstNotExcluded (sp_Principals spec) (sp_ExcludePrincipals spec))"
  proof (cases "sp_Principals spec = []")
    case False
    with c show ?thesis by (intro firstNotExcluded_ex[of "sj_PrincipalID subj"]) (auto simp: dimOK_def)
  qed (simp add: firstNotExcluded_def)
  have pe: "p \<notin> set (sp_ExcludePrincipals spec)"
    using firstNotExcluded_fst[OF p] compiled_exclusion_nonempty[OF assms(1)] by (auto simp: p_def firstNotExcluded_def)
  have t: "subject_tool subj \<in> set (sp_Tools spec)" using c b(2) by (auto simp: dimOK_def)
  have st: "subject_tool (witness_subject spec tn p (subject_tool subj)) = subject_tool subj"
    by (simp add: subject_tool_def witness_subject_def)
  have "Contains sc (witness_subject spec tn p (subject_tool subj))"
    unfolding Contains_spec[OF assms(1) b(1)] st
    using c firstNotExcluded_fst[OF tn] firstNotExcluded_fst[OF p] pe b(3,5) raw_fields_read[OF assms(2)]
    by (auto simp: witness_subject_def subject_tool_def tn_def p_def firstOr_dimOK RiskRead_valid)
  with t tn p show ?thesis
    by (auto simp: scopeRealizable_def Let_def list_ex_iff tn_def p_def split: prod.splits)
qed

text \<open>The shape the first-Canary gate leaves, and the one subject it describes.\<close>

definition first_canary_shape :: "scope_spec \<Rightarrow> string \<Rightarrow> tool_sel \<Rightarrow> string \<Rightarrow> bool" where
  "first_canary_shape spec tn t who \<longleftrightarrow>
     sp_Capability spec = CapabilityGateway \<and> sp_Tenants spec = [tn] \<and> sp_Servers spec = [ts_Server t] \<and>
     sp_Tools spec = [t] \<and> sp_Principals spec = [who] \<and> sp_Agents spec = [] \<and> sp_Clients spec = [] \<and>
     sp_Groups spec = [] \<and> sp_Environments spec = [] \<and> sp_ToolFingerprints spec = [] \<and>
     set (sp_Operations spec) \<subseteq> {RiskRead} \<and> sp_Percent spec = 0 \<and> \<not> sp_HighRisk spec \<and>
     sp_ExcludeTenants spec = [] \<and> sp_ExcludeServers spec = [] \<and> sp_ExcludeTools spec = [] \<and>
     sp_ExcludePrincipals spec = []"

lemma first_canary_parts:
  assumes "ValidateFirstCanaryScope spec rv = []"
  shows "firstCanaryCapability spec = []" "firstCanaryPosture spec = []" "firstCanarySubSampling spec = []"
    "firstCanaryForbiddenClasses spec = []" "firstCanaryTenant spec = []" "firstCanaryServer spec = []"
    "firstCanaryTool spec = []" "firstCanaryPrincipal spec = []" "ValidateScope spec rv = []"
proof -
  have "list_all (\<lambda>check. check spec = []) firstCanaryChecks \<and> ValidateScope spec rv = []"
    using assms by (simp add: ValidateFirstCanaryScope_def Let_def list.pred_map comp_def split: if_split_asm)
  then show "firstCanaryCapability spec = []" "firstCanaryPosture spec = []" "firstCanarySubSampling spec = []"
    "firstCanaryForbiddenClasses spec = []" "firstCanaryTenant spec = []" "firstCanaryServer spec = []"
    "firstCanaryTool spec = []" "firstCanaryPrincipal spec = []" "ValidateScope spec rv = []"
    by (simp_all add: firstCanaryChecks_def)
qed

lemma capability_exact: "firstCanaryCapability spec = [] \<Longrightarrow> sp_Capability spec = CapabilityGateway"
  by (simp add: firstCanaryCapability_def split: if_split_asm)

lemma sampling_exact: "firstCanarySubSampling spec = [] \<Longrightarrow> sp_Percent spec = 0"
  by (simp add: firstCanarySubSampling_def split: if_split_asm)

lemma classes_exact:
  assumes "firstCanaryForbiddenClasses spec = []"
  shows "sp_Agents spec = []" "sp_Clients spec = []" "sp_Groups spec = []" "sp_Environments spec = []"
    "sp_ToolFingerprints spec = []" "sp_ExcludeTenants spec = []" "sp_ExcludeServers spec = []"
    "sp_ExcludeTools spec = []" "sp_ExcludePrincipals spec = []"
  using assms by (simp_all add: firstCanaryForbiddenClasses_def split: if_split_asm)

lemma posture_read: "firstCanaryPosture spec = [] \<Longrightarrow> set (sp_Operations spec) \<subseteq> {RiskRead} \<and> \<not> sp_HighRisk spec"
  by (cases "sp_Operations spec") (auto simp: firstCanaryPosture_def split: if_split_asm)

lemma tool_exact:
  assumes "firstCanaryTool spec = []" "sp_Servers spec = [sv]"
  obtains t where "sp_Tools spec = [t]" "ts_Server t = sv"
proof -
  from assms have "sp_Tools spec \<noteq> []" "\<not> length (sp_Tools spec) > 1"
    by (simp_all add: firstCanaryTool_def split: if_split_asm)
  then obtain t where t: "sp_Tools spec = [t]" by (cases "sp_Tools spec") auto
  with assms have "ts_Server t = sv" by (simp add: firstCanaryTool_def split: if_split_asm)
  with t show ?thesis by (rule that)
qed

lemma first_canary_exact:
  assumes "ValidateFirstCanaryScope spec rv = []"
  shows "\<exists>tn t who. first_canary_shape spec tn t who"
proof -
  note parts = first_canary_parts[OF assms]
  from parts(5) obtain tn where tn: "sp_Tenants spec = [tn]" by (auto simp: firstCanaryTenant_def exactlyOne_OK)
  from parts(6) obtain sv where sv: "sp_Servers spec = [sv]" by (auto simp: firstCanaryServer_def exactlyOne_OK)
  from parts(8) obtain who where who: "sp_Principals spec = [who]" by (auto simp: firstCanaryPrincipal_def exactlyOne_OK)
  obtain t where t: "sp_Tools spec = [t]" "ts_Server t = sv" by (rule tool_exact[OF parts(7) sv])
  have "first_canary_shape spec tn t who"
    unfolding first_canary_shape_def
    using capability_exact[OF parts(1)] sampling_exact[OF parts(3)] classes_exact[OF parts(4)]
      posture_read[OF parts(2)] tn sv who t
    by simp
  then show ?thesis by blast
qed

lemma first_canary_Contains:
  assumes "first_canary_shape spec tn t who" "Scope_Compile spec rv lim = Inr sc"
  shows "Contains sc subj \<longleftrightarrow> sj_Capability subj = CapabilityGateway \<and> sj_Tenant subj = tn \<and>
    subject_tool subj = t \<and> sj_PrincipalID subj = who \<and> sj_Operation subj = RiskRead"
proof -
  have i: "hasInclusion sc" using assms by (simp add: hasInclusion_compiled first_canary_shape_def)
  have o: "(if set (sp_Operations spec) = {} then {RiskRead} else set (sp_Operations spec)) = {RiskRead}"
    using assms(1) by (cases "sp_Operations spec") (auto simp: first_canary_shape_def)
  have sv: "subject_tool subj = t \<Longrightarrow> sj_ServerID subj = ts_Server t" by (auto simp: subject_tool_def)
  have pc: "sp_Percent spec = 0" using assms(1) by (simp add: first_canary_shape_def)
  have e: "sp_Capability spec = CapabilityGateway" "sp_Tenants spec = [tn]" "sp_Servers spec = [ts_Server t]"
    "sp_Tools spec = [t]" "sp_Principals spec = [who]" "sp_Agents spec = []" "sp_Clients spec = []"
    "sp_Groups spec = []" "sp_Environments spec = []" "sp_ToolFingerprints spec = []"
    "sp_ExcludeTenants spec = []" "sp_ExcludeServers spec = []" "sp_ExcludeTools spec = []"
    "sp_ExcludePrincipals spec = []"
    using assms(1) unfolding first_canary_shape_def by blast+
  show ?thesis
    unfolding Contains_spec[OF assms(2) pc] o by (auto simp: e dimOK_def i RiskRead_valid sv)
qed

section \<open>Approvals\<close>

lemma Satisfies_OK:
  "SatisfiesLiveExecution oa tgt now = [] \<longleftrightarrow> (\<exists>a x. oa = Some a \<and> ta_Purpose a = PurposeLiveExecution \<and>
     ta_Status a = StatusActive \<and> ta_RequestedBy a \<noteq> [] \<and> ta_ApprovedBy a \<noteq> [] \<and>
     ta_RequestedBy a \<noteq> ta_ApprovedBy a \<and> ta_ExpiresAt a = Some x \<and> ta_ApprovedAt a \<noteq> 0 \<and>
     ta_ApprovedAt a \<le> now \<and> now < x \<and> x \<le> ta_ApprovedAt a + MaxLiveExecutionApprovalTTL \<and>
     MatchesTool a (lt_Tenant tgt) (lt_ServerID tgt) (lt_ToolName tgt) (lt_Fingerprint tgt) (lt_FingerprintFormat tgt))"
proof -
  have ttl: "Time_Sub x y > MaxInitialCanaryApprovalTTL \<longleftrightarrow> x > y + MaxLiveExecutionApprovalTTL" for x y
    using Time_Sub_le[of x y] by (auto simp: MaxInitialCanaryApprovalTTL_def)
  show ?thesis
    by (auto simp: SatisfiesLiveExecution_def ttl PermitsLiveExecution_def Time_IsZero_def MatchesTool_def
        split: option.splits if_split_asm)
qed

lemma scope_keys_set:
  "set (map fst (scope_keys spec)) =
     {(tn, ts_Server t, ts_Name t) | tn t. tn \<in> set (sp_Tenants spec) \<and> t \<in> set (sp_Tools spec)}"
  by (force simp: scope_keys_def)

lemma find_key:
  assumes "distinct (map binding_key bs)"
  shows "find (\<lambda>b. binding_key b = k) bs = Some b \<longleftrightarrow> b \<in> set bs \<and> binding_key b = k"
  using assms by (induction bs) auto

text \<open>Coverage is exact: one satisfied binding for each tenant and tool of the scope, and no other.\<close>

lemma ValidateScopeApprovals_OK:
  assumes "ValidateScopeApprovals spec bindings now = []"
  shows "binding_key ` set bindings =
      {(tn, ts_Server t, ts_Name t) | tn t. tn \<in> set (sp_Tenants spec) \<and> t \<in> set (sp_Tools spec)}"
    and "distinct (map binding_key bindings)"
    and "\<And>tn t. tn \<in> set (sp_Tenants spec) \<Longrightarrow> t \<in> set (sp_Tools spec) \<Longrightarrow>
      \<exists>b \<in> set bindings. binding_key b = (tn, ts_Server t, ts_Name t) \<and>
        SatisfiesLiveExecution (tb_Approval b) (tb_Target b) now = [] \<and>
        EqualFold_hex (hex_encode (lt_Fingerprint (tb_Target b))) (ts_Fingerprint t)"
proof -
  have d: "distinct (map binding_key bindings)"
    and l: "list_all (\<lambda>r. r = []) (map (scoped_tool_reason bindings now) (scope_keys spec))"
    and o: "\<not> list_ex (\<lambda>b. binding_key b \<notin> set (map fst (scope_keys spec))) bindings"
    using assms by (auto simp: ValidateScopeApprovals_def Let_def split: if_split_asm)
  show c: "\<exists>b \<in> set bindings. binding_key b = (tn, ts_Server t, ts_Name t) \<and>
        SatisfiesLiveExecution (tb_Approval b) (tb_Target b) now = [] \<and>
        EqualFold_hex (hex_encode (lt_Fingerprint (tb_Target b))) (ts_Fingerprint t)"
    if "tn \<in> set (sp_Tenants spec)" "t \<in> set (sp_Tools spec)" for tn t
  proof -
    have "((tn, ts_Server t, ts_Name t), t) \<in> set (scope_keys spec)"
      using that by (auto simp: scope_keys_def)
    with l have "scoped_tool_reason bindings now ((tn, ts_Server t, ts_Name t), t) = []"
      by (auto simp: list_all_iff)
    then show ?thesis
      by (auto simp: scoped_tool_reason_def find_key[OF d] split: option.splits if_split_asm)
  qed
  show "distinct (map binding_key bindings)" by (rule d)
  show "binding_key ` set bindings =
      {(tn, ts_Server t, ts_Name t) | tn t. tn \<in> set (sp_Tenants spec) \<and> t \<in> set (sp_Tools spec)}"
  proof
    show "binding_key ` set bindings \<subseteq>
        {(tn, ts_Server t, ts_Name t) | tn t. tn \<in> set (sp_Tenants spec) \<and> t \<in> set (sp_Tools spec)}"
      unfolding scope_keys_set[symmetric] using o by (auto simp: list_ex_iff)
    show "{(tn, ts_Server t, ts_Name t) | tn t. tn \<in> set (sp_Tenants spec) \<and> t \<in> set (sp_Tools spec)} \<subseteq>
        binding_key ` set bindings"
      using c by (clarsimp simp: image_iff) metis
  qed
qed

section \<open>Readiness\<close>

lemma AllReasons_parity: "AllReasons = map (\<lambda>(check, r, sc). r) readinessChecks @ [''capability_not_gateway'']"
  by (simp add: AllReasons_def readinessChecks_def)

lemma ready_iff:
  "rd_Ready (evaluate f nodeOnly) \<longleftrightarrow> CapabilityGatewayFact f \<and>
     (\<forall>(check, r, sc) \<in> set readinessChecks. nodeOnly \<and> sc = FactActivation \<or> check f)"
  by (auto simp: evaluate_def Let_def filter_empty_conv)

lemma ready_unmet: "rd_Ready (evaluate f nodeOnly) \<longleftrightarrow> rd_Unmet (evaluate f nodeOnly) = []"
  by (simp add: evaluate_def Let_def)

text \<open>Whoever lies in a scope with accepted approvals is covered by one of them.\<close>

lemma scope_subjects_approved:
  assumes "ValidateScopeApprovals spec bindings now = []" "Scope_Compile spec rv lim = Inr sc" "Contains sc subj"
  shows "\<exists>b a x. b \<in> set bindings \<and> tb_Approval b = Some a \<and> ta_Purpose a = PurposeLiveExecution \<and>
    ta_Status a = StatusActive \<and> ta_RequestedBy a \<noteq> ta_ApprovedBy a \<and> ta_ExpiresAt a = Some x \<and>
    ta_ApprovedAt a \<le> now \<and> now < x \<and> x \<le> ta_ApprovedAt a + MaxLiveExecutionApprovalTTL \<and>
    ta_Tenant a = sj_Tenant subj \<and> ta_ServerID a = sj_ServerID subj \<and> ta_ToolName a = sj_ToolName subj \<and>
    EqualFold_hex (hex_encode (ta_Fingerprint a)) (sj_ToolFingerprint subj)"
proof -
  have ne: "sp_Tools spec \<noteq> []" "sp_Tenants spec \<noteq> []"
    using assms(1) by (auto simp: ValidateScopeApprovals_def split: if_split_asm)
  have c: "so_tenants sc = set (sp_Tenants spec)" "so_tools sc = set (sp_Tools spec)"
    by (simp_all add: Scope_Compile_Inr[OF assms(2)] scope_of_def)
  then have "sj_Tenant subj \<in> set (sp_Tenants spec)" "subject_tool subj \<in> set (sp_Tools spec)"
    using assms(3) ne by (auto simp: Contains_iff matchDimensions_def dimOK_def)
  from ValidateScopeApprovals_OK(3)[OF assms(1) this] obtain b where b: "b \<in> set bindings"
      "binding_key b = (sj_Tenant subj, sj_ServerID subj, sj_ToolName subj)"
      "SatisfiesLiveExecution (tb_Approval b) (tb_Target b) now = []"
      "EqualFold_hex (hex_encode (lt_Fingerprint (tb_Target b))) (sj_ToolFingerprint subj)"
    by (auto simp: subject_tool_def)
  from b(3)[unfolded Satisfies_OK] obtain a x where "tb_Approval b = Some a" "ta_Purpose a = PurposeLiveExecution"
      "ta_Status a = StatusActive" "ta_RequestedBy a \<noteq> ta_ApprovedBy a" "ta_ExpiresAt a = Some x"
      "ta_ApprovedAt a \<le> now" "now < x" "x \<le> ta_ApprovedAt a + MaxLiveExecutionApprovalTTL"
      "MatchesTool a (lt_Tenant (tb_Target b)) (lt_ServerID (tb_Target b)) (lt_ToolName (tb_Target b))
        (lt_Fingerprint (tb_Target b)) (lt_FingerprintFormat (tb_Target b))"
    by blast
  with b(1,2,4) show ?thesis
    by (intro exI[of _ b] exI[of _ a] exI[of _ x]) (simp add: MatchesTool_def binding_key_def)
qed

end
