(* ===== verification/CanaryClaims.thy ===== *)
theory CanaryClaims
  imports CanaryDurability CanaryGate RolloutExample
begin

text \<open>
  The properties of a Canary: its execution budget across crashes, stops that last, the window
  watchdog, and what admission lets into the scope.
\<close>

section \<open>Examples\<close>

definition example_budget :: budget where
  "example_budget = \<lparr>bu_MaxTotalExecutions = 1, bu_MaxExecutionsPerMinute = 10,
     bu_MaxConcurrentExecutions = 1, bu_MaxPrincipals = 1, bu_MaxTools = 1, bu_MaxServers = 1,
     bu_Window = 3600 * nanosPerSecond\<rparr>"

definition example_target :: reviewed_target where
  "example_target = \<lparr>rt_Tenant = ''acme'', rt_ServerID = ''srv'', rt_ToolName = ''read'',
     rt_Fingerprint = replicate 32 (CHR 0x01), rt_FingerprintFormat = 1, rt_ServerIdentity = ''spki'',
     rt_OperationClass = OpRead\<rparr>"

definition example_start :: gotime where
  "example_start = (unixToInternal + 1700000000) * nanosPerSecond"

definition example_spec :: activation_spec where
  "example_spec = \<lparr>as_Budget = example_budget, as_ReviewedTargets = [example_target], as_StartedAt = example_start\<rparr>"

definition example_ident :: execution_identity where
  "example_ident = \<lparr>ei_Principal = ''alice'', ei_Tool = ''read'', ei_Server = ''srv''\<rparr>"

definition example_io :: "int \<Rightarrow> fs_faults \<Rightarrow> runtime_io" where
  "example_io t fs = \<lparr>ri_now = example_start + t * nanosPerSecond, ri_write = fs, ri_cleanup = no_cleanup_faults,
     ri_write2 = no_faults, ri_cleanup2 = no_cleanup_faults\<rparr>"

definition example_begin :: "runtime_io \<times> runtime_op" where
  "example_begin = (example_io 0 no_faults, OpBegin example_spec)"

definition example_reserve :: "int \<Rightarrow> fs_faults \<Rightarrow> runtime_io \<times> runtime_op" where
  "example_reserve t fs = (example_io t fs, OpReserve example_ident)"


definition example_runtime :: runtime where
  "example_runtime = runtime_step example_begin (fresh_runtime CapabilityGateway ''v1'')"

lemma example_active: "generationActive (example_start + nanosPerSecond) 1 (rn_mem example_runtime)"
  by code_simp

section \<open>Budgets\<close>

text \<open>
  C31. The execution budget holds across crashes: over every sequence of activations, demotions,
  reservations, releases, trips, settlements, watchdog callbacks and crashes, with every disk fault
  that \<open>AtomicWrite\<close> reports, the grants under a generation since its activation never exceed
  the first-Canary ceiling, and those of the current activation never exceed its own budget.
\<close>

theorem canary_grants_bounded:
  assumes "list_all write_reported ops" "s = run_ops counted_step ops (fresh_runtime capb build, \<lambda>_. 0)"
  shows "int (snd s gen) \<le> FirstCanaryMaxTotalCeiling \<and>
    (cr_enforcer (rn_mem (fst s)) \<noteq> None \<longrightarrow>
      int (snd s (cr_generation (rn_mem (fst s)))) \<le> bu_MaxTotalExecutions (cr_budget (rn_mem (fst s))))"
proof -
  have i: "spend_inv s" unfolding assms(2) by (rule spend_inv_run[OF assms(1)])
  then have "mem_spend (snd s) (rn_mem (fst s))" by (simp add: spend_inv_def durably_def)
  with i mem_spend_bound[of "snd s" "rn_mem (fst s)"] show ?thesis by (auto simp: spend_inv_def)
qed

definition example_trace :: "(runtime_io \<times> runtime_op) list" where
  "example_trace = [example_begin, example_reserve 1 no_faults, (example_io 2 no_faults, OpCrash 0 ''v1''),
     example_reserve 3 no_faults]"

definition example_counted :: "runtime \<times> (64 word \<Rightarrow> nat)" where
  "example_counted = run_ops counted_step example_trace (fresh_runtime CapabilityGateway ''v1'', \<lambda>_. 0)"

theorem canary_grants_bounded_witness: "int (snd example_counted 1) \<le> FirstCanaryMaxTotalCeiling"
proof -
  have "list_all write_reported example_trace"
    by (simp add: example_trace_def example_begin_def example_reserve_def example_io_def write_reported_def)
  from canary_grants_bounded[OF this example_counted_def] show ?thesis by blast
qed



section \<open>Stops\<close>



text \<open>
  C34. The window closes by itself: whenever a generation can execute after any operations on a fresh
  runtime, a watchdog of that generation is armed; its callback at or after the window's deadline
  stops the generation, and an earlier callback while the window is open re-arms it for the time that
  is left.
\<close>

theorem window_watchdog_stops:
  assumes "r = run_ops runtime_step ops (fresh_runtime capb build)" "generationActive now gen (rn_mem r)"
  shows "\<exists>e d. cr_enforcer (rn_mem r) = Some e \<and> cr_watchdog (rn_mem r) = Some (gen, d) \<and>
    (\<forall>io now'. WindowDeadline (Some e) \<le> ri_now io \<longrightarrow>
       \<not> generationActive now' gen (rn_mem (watchdog_callback io gen r))) \<and>
    (\<forall>io. WindowOpen (Some e) (ri_now io) \<and> ri_now io < WindowDeadline (Some e) \<longrightarrow>
       cr_watchdog (rn_mem (watchdog_callback io gen r)) = Some (gen, Time_Sub (WindowDeadline (Some e)) (ri_now io)))"
proof -
  have g: "cr_active (rn_mem r)" "cr_aborter (rn_mem r) \<noteq> None" "cr_generation (rn_mem r) = gen"
      "ExecutionEligible (cr_aborter (rn_mem r)) gen"
    using assms(2) by (simp_all add: generationActive_def split: if_split_asm)
  have st: "mem_started (rn_mem r)" and w: "watched (rn_mem r)"
    unfolding assms(1) by (rule started_run watched_run)+
  with g obtain e where e: "cr_enforcer (rn_mem r) = Some e" by (auto simp: mem_started_def)
  have dl: "WindowDeadline (Some e) \<noteq> 0" using deadline_positive[OF st e] e by simp
  then obtain d where d: "cr_watchdog (rn_mem r) = Some (gen, d)" using w g e by (auto simp: watched_def)
  have "cr_watchdog (rn_mem (watchdog_callback io gen r)) = Some (gen, Time_Sub (WindowDeadline (Some e)) (ri_now io))"
    if "WindowOpen (Some e) (ri_now io)" "ri_now io < WindowDeadline (Some e)" for io
    using that g e dl
    by (simp add: watchdog_callback_def windowDeadlineIfOpen_def rearmWindowWatchdog_def armWindowWatchdog_def Time_Sub_def
        del: WindowDeadline.simps WindowOpen.simps)
  then show ?thesis using e d callback_stops[OF assms(2) e] by blast
qed

theorem window_watchdog_stops_witness:
  "\<exists>e d. cr_enforcer (rn_mem (run_ops runtime_step [example_begin] (fresh_runtime CapabilityGateway ''v1''))) = Some e \<and>
     cr_watchdog (rn_mem (run_ops runtime_step [example_begin] (fresh_runtime CapabilityGateway ''v1''))) = Some (1, d)"
proof -
  have "generationActive (example_start + nanosPerSecond) 1
      (rn_mem (run_ops runtime_step [example_begin] (fresh_runtime CapabilityGateway ''v1'')))"
    using example_active by (simp add: example_runtime_def)
  from window_watchdog_stops[OF refl this] show ?thesis by blast
qed

section \<open>Admission\<close>

text \<open>
  C35. The exact first-Canary scope: a scope the first-Canary validation accepts compiles, and it
  contains the read operations of one principal of one tenant on one tool of one Gateway server, and
  nothing else.
\<close>

theorem first_canary_scope_exact:
  assumes "ValidateFirstCanaryScope spec rv = []"
  shows "\<exists>sc tn t who. Scope_Compile spec rv Rollout_DefaultLimits = Inr sc \<and>
    (\<forall>subj. Contains sc subj \<longleftrightarrow> sj_Capability subj = CapabilityGateway \<and> sj_Tenant subj = tn \<and>
       subject_tool subj = t \<and> sj_PrincipalID subj = who \<and> sj_Operation subj = RiskRead)"
proof -
  from first_canary_exact[OF assms] obtain tn t who where s: "first_canary_shape spec tn t who" by blast
  have "ValidateScope spec rv = []"
    using assms by (simp add: ValidateFirstCanaryScope_def Let_def split: if_split_asm)
  then obtain sc where "Scope_Compile spec rv Rollout_DefaultLimits = Inr sc" by (rule ValidateScope_OK)
  with first_canary_Contains[OF s] show ?thesis by blast
qed

definition example_tool :: tool_sel where
  "example_tool = \<lparr>ts_Server = ''srv'', ts_Name = ''read'', ts_Fingerprint = hex_encode (replicate 32 (CHR 0x01))\<rparr>"

definition example_scope :: scope_spec where
  "example_scope = (empty_spec CapabilityGateway)\<lparr>sp_Tenants := [''acme''], sp_Servers := [''srv''],
     sp_Tools := [example_tool], sp_Principals := [''alice'']\<rparr>"

lemma example_fingerprint: "hex_encode (replicate 32 (CHR 0x01)) = concat (replicate 32 ''01'')"
  by code_simp

lemma example_scope_compiles: "Scope_Compile example_scope 1 Rollout_DefaultLimits = Inr (ex_sc example_scope)"
proof (rule ex_compiles)
  show "small_scope example_scope"
    by (simp add: small_scope_def small_def small_tools_def validatePercent_def RolloutCapability_Valid_def
        example_scope_def example_tool_def empty_spec_def example_fingerprint length_concat sum_list_replicate)
qed

lemma example_inclusion: "hasInclusion (ex_sc example_scope)"
  using hasInclusion_compiled[OF example_scope_compiles] by (simp add: example_scope_def)

lemma example_contains: "Contains (ex_sc example_scope) (witness_subject example_scope ''acme'' ''alice'' example_tool)"
proof -
  have p: "sp_Percent example_scope = 0" by (simp add: example_scope_def empty_spec_def)
  show ?thesis
    unfolding Contains_spec[OF example_scope_compiles p]
    using example_inclusion
    by (simp add: dimOK_def)
      (simp add: RiskRead_valid example_scope_def example_tool_def empty_spec_def witness_subject_def subject_tool_def firstOr_def)
qed

lemma example_realizable: "scopeRealizable (ex_sc example_scope) example_scope"
proof -
  have "firstNotExcluded (sp_Tenants example_scope) (sp_ExcludeTenants example_scope) = (''acme'', True)"
    "firstNotExcluded (sp_Principals example_scope) (sp_ExcludePrincipals example_scope) = (''alice'', True)"
    "sp_Tools example_scope = [example_tool]"
    by (simp_all add: firstNotExcluded_def example_scope_def empty_spec_def)
  with example_contains show ?thesis by (simp add: scopeRealizable_def)
qed

lemma example_scope_valid: "ValidateScope example_scope 1 = []"
proof -
  have "validateScopeRawFields example_scope = []" "validateScopeBounds example_scope = []"
      "sp_Capability example_scope = CapabilityGateway"
    by code_simp+
  with example_inclusion example_realizable show ?thesis
    unfolding ValidateScope_def example_scope_compiles by (simp add: MatchesNothing_def Enumerable_def ex_sc_def)
qed

lemma example_first_canary: "ValidateFirstCanaryScope example_scope 1 = []"
proof -
  have "first_reason (map (\<lambda>check. check example_scope) firstCanaryChecks) = []" by code_simp
  with example_scope_valid show ?thesis by (simp add: ValidateFirstCanaryScope_def Let_def)
qed

theorem first_canary_scope_exact_witness:
  "\<exists>tn t who. \<forall>subj. Contains (ex_sc example_scope) subj \<longleftrightarrow> sj_Capability subj = CapabilityGateway \<and>
     sj_Tenant subj = tn \<and> subject_tool subj = t \<and> sj_PrincipalID subj = who \<and> sj_Operation subj = RiskRead"
  using first_canary_scope_exact[OF example_first_canary] unfolding example_scope_compiles by blast

text \<open>
  C36. Nobody executes without an approval: whatever subject lies in a compiled scope whose approvals
  the Canary gate accepted, one of the bindings carries an active live-execution approval of exactly
  its tenant, server, tool and fingerprint, requested and approved by two different actors, in force
  now and for no longer than the ceiling from its approval.
\<close>

theorem canary_subjects_approved:
  assumes "ValidateScopeApprovals spec bindings now = []" "Scope_Compile spec rv lim = Inr sc" "Contains sc subj"
  shows "\<exists>b a x. b \<in> set bindings \<and> tb_Approval b = Some a \<and> ta_Purpose a = PurposeLiveExecution \<and>
    ta_Status a = StatusActive \<and> ta_RequestedBy a \<noteq> ta_ApprovedBy a \<and> ta_ExpiresAt a = Some x \<and>
    ta_ApprovedAt a \<le> now \<and> now < x \<and> x \<le> ta_ApprovedAt a + MaxLiveExecutionApprovalTTL \<and>
    ta_Tenant a = sj_Tenant subj \<and> ta_ServerID a = sj_ServerID subj \<and> ta_ToolName a = sj_ToolName subj \<and>
    EqualFold_hex (hex_encode (ta_Fingerprint a)) (sj_ToolFingerprint subj)"
  using assms by (rule scope_subjects_approved)

definition example_approval :: tool_approval where
  "example_approval = \<lparr>ta_SchemaVersion = 1, ta_ApprovalID = ''id'', ta_Tenant = ''acme'', ta_ServerID = ''srv'',
     ta_ToolName = ''read'', ta_Fingerprint = replicate 32 (CHR 0x01), ta_FingerprintFormatVersion = 1,
     ta_CatalogRevision = 0, ta_ServerRevision = 0, ta_Purpose = PurposeLiveExecution,
     ta_ReviewedOperationClass = ReviewedOpReadOnly, ta_Status = StatusActive, ta_RequestedBy = ''bob'', ta_RequestedAt = 1,
     ta_ApprovedBy = ''carol'', ta_ApprovedAt = 2, ta_Reason = [], ta_TicketRef = [], ta_ExpiresAt = Some 10,
     ta_RevokedBy = [], ta_RevokedAt = None, ta_RevocationReason = [],
     ta_RejectedBy = [], ta_RejectedAt = None, ta_RejectedReason = []\<rparr>"

definition example_binding :: tool_approval_binding where
  "example_binding = \<lparr>tb_Target = \<lparr>lt_Tenant = ''acme'', lt_ServerID = ''srv'', lt_ToolName = ''read'',
     lt_Fingerprint = replicate 32 (CHR 0x01), lt_FingerprintFormat = 1\<rparr>,
     tb_Approval = Some example_approval, tb_ServerIdentity = ''spki''\<rparr>"

theorem canary_subjects_approved_witness:
  "\<exists>b a. b \<in> set [example_binding] \<and> tb_Approval b = Some a \<and> ta_Status a = StatusActive \<and>
     ta_RequestedBy a \<noteq> ta_ApprovedBy a"
proof -
  have a: "ValidateScopeApprovals example_scope [example_binding] 5 = []" by code_simp
  from canary_subjects_approved[OF a example_scope_compiles example_contains] show ?thesis by blast
qed

end
