(* ===== verification/ToolTrustStore.thy ===== *)
theory ToolTrustStore
  imports ToolTrust "HOL-Library.Product_Lexorder"
begin

text \<open>
  The durable approval store (\<open>internal/mcp/tooltrust/store.go\<close>). The index \<open>byID\<close> is
  the list of its records in the order a Go \<open>range\<close> visits them, which is unspecified, so
  every statement is about an arbitrary list. The store mutex makes each method one step.

  The environment of a step is a \<open>step_io\<close>: what the injected clock returns, the 16 bytes
  \<open>crypto/rand\<close> yields or its error, the bytes \<open>json.Marshal\<close> emits, and the faults of
  the file system. A file is its bytes together with what \<open>encoding/json\<close> reads from them;
  the document a store writes is read back with every string as \<open>json_text\<close> of it.
\<close>

section \<open>The store\<close>

record persisted_store =
  ps_SchemaVersion :: nat
  ps_Approvals :: "tool_approval option list"

datatype decoding = DecodeError go_error | TrailingData | Decoded persisted_store

datatype store_file = OpenError go_error | ReadError go_error | FileBytes string decoding

record trust_store =
  ts_byID :: "tool_approval list"
  ts_maxRecords :: int
  ts_maxPerTenant :: int
  ts_liveView :: "tool_approval list option"
  ts_file :: "store_file option"

record step_io =
  io_now :: gotime
  io_rand :: "string res"
  io_raw :: string
  io_faults :: fs_faults

definition defaultMaxRecords :: int where "defaultMaxRecords = 4096"
definition defaultMaxPerTenant :: int where "defaultMaxPerTenant = 256"

definition maxRecordStringBounds :: nat where
  "maxRecordStringBounds = 3 * maxReasonBytes + 4 * maxActorBytes + maxTenantBytes + maxServerIDBytes
     + maxToolNameBytes + maxTicketBytes + maxIDBytes"

definition recordFixedOverhead :: nat where "recordFixedOverhead = 2048"

definition maxRecordJSONBytes :: nat where
  "maxRecordJSONBytes = 6 * maxRecordStringBounds + recordFixedOverhead"

definition storeEnvelopeSlackBytes :: nat where "storeEnvelopeSlackBytes = 4096"

text \<open>The order of records on disk and in the read snapshot: request time, then identifier.\<close>

definition sortApprovals :: "tool_approval list \<Rightarrow> tool_approval list" where
  "sortApprovals = sort_key (\<lambda>a. (ta_RequestedAt a, ta_ApprovalID a))"

definition lookup :: "string \<Rightarrow> tool_approval list \<Rightarrow> tool_approval option" where
  "lookup aid xs = find (\<lambda>a. ta_ApprovalID a = aid) xs"

definition replace :: "string \<Rightarrow> (tool_approval \<Rightarrow> tool_approval) \<Rightarrow> tool_approval list \<Rightarrow> tool_approval list" where
  "replace aid f xs = map (\<lambda>a. if ta_ApprovalID a = aid then f a else a) xs"

definition NewStore :: "string \<Rightarrow> int \<Rightarrow> int \<Rightarrow> go_error option \<Rightarrow> store_file option \<Rightarrow> trust_store res" where
  "NewStore path maxRecords maxPerTenant mkdirErr file =
     (if path = [] then Inl (New ReasonConfigInvalid ''tooltrust.new'' ''empty store path'')
      else (case mkdirErr of
          Some e \<Rightarrow> Inl (Wrap ReasonConfigInvalid ''tooltrust.new'' ''create store dir'' (Some e))
        | None \<Rightarrow> Inr \<lparr>ts_byID = [],
            ts_maxRecords = (if maxRecords \<le> 0 then defaultMaxRecords else maxRecords),
            ts_maxPerTenant = (if maxPerTenant \<le> 0 then defaultMaxPerTenant else maxPerTenant),
            ts_liveView = None, ts_file = file\<rparr>))"

section \<open>Validation of stored records\<close>

definition boundedToken :: "string \<Rightarrow> nat \<Rightarrow> string \<Rightarrow> go_error option" where
  "boundedToken s maxBytes name =
     (if s = [] then Some (New ReasonAdminRequestInvalid ''tooltrust.request'' (name @ '' is empty''))
      else if length s > maxBytes then
        Some (New ReasonAdminRequestInvalid ''tooltrust.request'' (name @ '' exceeds byte bound''))
      else if \<not> ValidString s then
        Some (New ReasonAdminRequestInvalid ''tooltrust.request'' (name @ '' is not valid UTF-8''))
      else None)"

definition loadErr :: "string \<Rightarrow> go_error" where
  "loadErr detail = New ReasonConfigInvalid ''tooltrust.load'' detail"

definition hasTerminalEvidence :: "tool_approval \<Rightarrow> bool" where
  "hasTerminalEvidence a \<longleftrightarrow>
     ta_RejectedBy a \<noteq> [] \<or> ta_RejectedAt a \<noteq> None \<or> ta_RejectedReason a \<noteq> [] \<or>
     ta_RevokedBy a \<noteq> [] \<or> ta_RevokedAt a \<noteq> None \<or> ta_RevocationReason a \<noteq> []"

definition validatePendingEvidence :: "tool_approval \<Rightarrow> go_error option" where
  "validatePendingEvidence a =
     (if ta_ApprovedBy a \<noteq> [] \<or> \<not> Time_IsZero (ta_ApprovedAt a) \<or> hasTerminalEvidence a
      then Some (loadErr ''pending record carries decision evidence'') else None)"

definition validateActiveEvidence :: "tool_approval \<Rightarrow> go_error option" where
  "validateActiveEvidence a =
     (if ta_ApprovedBy a = [] \<or> Time_IsZero (ta_ApprovedAt a) then
        Some (loadErr ''active record without recorded approval evidence'')
      else if hasTerminalEvidence a then
        Some (loadErr ''active record carries terminal-decision evidence'')
      else None)"

definition validateStatusLifecycle :: "tool_approval \<Rightarrow> go_error option" where
  "validateStatusLifecycle a = (case ta_Status a of
     StatusPending \<Rightarrow> validatePendingEvidence a
   | StatusActive \<Rightarrow> validateActiveEvidence a
   | StatusRejected \<Rightarrow> err_if (ta_RejectedBy a = [] \<or> ta_RejectedAt a = None)
       (loadErr ''rejected record without recorded rejection evidence'')
   | StatusRevoked \<Rightarrow> err_if (ta_RevokedBy a = [] \<or> ta_RevokedAt a = None)
       (loadErr ''revoked record without recorded revocation evidence'')
   | StatusExpired \<Rightarrow> None
   | _ \<Rightarrow> Some (loadErr ''record has an unknown status''))"

definition validateLiveInvariantsStored :: "tool_approval \<Rightarrow> go_error option" where
  "validateLiveInvariantsStored a =
     (if ta_Purpose a \<noteq> PurposeLiveExecution then None
      else if ta_ExpiresAt a = None then Some (loadErr ''live_execution record without an expiry'')
      else if ta_Status a = StatusActive \<and>
              (ta_ApprovedBy a = [] \<or> ta_RequestedBy a = [] \<or> ta_ApprovedBy a = ta_RequestedBy a) then
        Some (loadErr ''active live_execution record without four-eyes evidence'')
      else None)"

definition freeTextOverBound :: "tool_approval \<Rightarrow> bool" where
  "freeTextOverBound a \<longleftrightarrow>
     length (ta_Reason a) > maxReasonBytes \<or> length (ta_TicketRef a) > maxTicketBytes \<or>
     length (ta_RevocationReason a) > maxReasonBytes \<or> length (ta_RejectedReason a) > maxReasonBytes \<or>
     length (ta_RequestedBy a) > maxActorBytes \<or> length (ta_ApprovedBy a) > maxActorBytes \<or>
     length (ta_RevokedBy a) > maxActorBytes \<or> length (ta_RejectedBy a) > maxActorBytes"

definition validateStored :: "tool_approval \<Rightarrow> go_error option" where
  "validateStored a = first_err [
     err_if (ta_SchemaVersion a \<noteq> SchemaVersion) (loadErr ''record schema version mismatch''),
     boundedToken (ta_ApprovalID a) maxIDBytes ''approval_id'',
     boundedToken (ta_Tenant a) maxTenantBytes ''tenant'',
     boundedToken (ta_ServerID a) maxServerIDBytes ''server id'',
     boundedToken (ta_ToolName a) maxToolNameBytes ''tool name'',
     err_if (\<not> Issuable (ta_Purpose a)) (loadErr ''record carries a non-issuable purpose''),
     err_if (freeTextOverBound a) (loadErr ''record free-text field exceeds byte bound''),
     validateStatusLifecycle a,
     validateLiveInvariantsStored a]"

definition effectiveTerminal :: "tool_approval \<Rightarrow> gotime \<Rightarrow> bool" where
  "effectiveTerminal a now = (if status_terminal (ta_Status a) then True else pastExpiry a now)"

definition prunableAsOf :: "tool_approval \<Rightarrow> gotime \<Rightarrow> bool" where
  "prunableAsOf a now =
     (if status_terminal (ta_Status a) then True
      else ta_Status a = StatusPending \<and> pastExpiry a now)"

section \<open>Loading\<close>

definition hex_value :: "char \<Rightarrow> nat option" where
  "hex_value c =
     (if byte_in 0x30 0x39 c then Some (of_char c - 0x30)
      else if byte_in 0x61 0x66 c then Some (of_char c - 0x61 + 10)
      else if byte_in 0x41 0x46 c then Some (of_char c - 0x41 + 10)
      else None)"

definition parseHex4 :: "string \<Rightarrow> nat option" where
  "parseHex4 b = (case map hex_value (take 4 b) of
     [Some x, Some y, Some z, Some w] \<Rightarrow> Some (((x * 16 + y) * 16 + z) * 16 + w)
   | _ \<Rightarrow> None)"

text \<open>The scan over the bytes that remain; each branch is one of the \<open>continue\<close>s of the loop.\<close>

function hasUnpairedSurrogateEscape :: "string \<Rightarrow> bool" where
  "hasUnpairedSurrogateEscape raw =
     (if length raw < 2 then False
      else if hd raw \<noteq> CHR 0x5C then hasUnpairedSurrogateEscape (drop 1 raw)
      else if raw ! 1 \<noteq> CHR ''u'' then hasUnpairedSurrogateEscape (drop 2 raw)
      else (case parseHex4 (drop 2 raw) of
          None \<Rightarrow> hasUnpairedSurrogateEscape (drop 2 raw)
        | Some hi \<Rightarrow>
            if hi < 0xD800 \<or> hi > 0xDFFF then hasUnpairedSurrogateEscape (drop 6 raw)
            else if hi \<ge> 0xDC00 then True
            else if length raw > 7 \<and> raw ! 6 = CHR 0x5C \<and> raw ! 7 = CHR ''u'' \<and>
                    (case parseHex4 (drop 8 raw) of Some lo \<Rightarrow> lo \<ge> 0xDC00 \<and> lo \<le> 0xDFFF | None \<Rightarrow> False)
                 then hasUnpairedSurrogateEscape (drop 12 raw)
            else True))"
  by pat_completeness auto
termination
  by (relation "measure length") auto

declare hasUnpairedSurrogateEscape.simps [simp del]

definition readLimit :: "trust_store \<Rightarrow> int" where
  "readLimit s = ts_maxRecords s * int maxRecordJSONBytes + int storeEnvelopeSlackBytes"

text \<open>\<open>counts\<close> holds the non-terminal records of each tenant so far.\<close>

fun buildLoadedIndex :: "gotime \<Rightarrow> int \<Rightarrow> tool_approval option list \<Rightarrow> (string \<Rightarrow> int) \<Rightarrow> tool_approval list
    \<Rightarrow> tool_approval list res" where
  "buildLoadedIndex now maxPerTenant [] counts byID = Inr byID"
| "buildLoadedIndex now maxPerTenant (None # as) counts byID = Inl (loadErr ''nil approval record'')"
| "buildLoadedIndex now maxPerTenant (Some a # as) counts byID = (case validateStored a of
     Some e \<Rightarrow> Inl e
   | None \<Rightarrow>
       if lookup (ta_ApprovalID a) byID \<noteq> None then Inl (loadErr ''duplicate approval id'')
       else if \<not> effectiveTerminal a now then
         (let counts' = counts(ta_Tenant a := counts (ta_Tenant a) + 1) in
          if counts' (ta_Tenant a) > maxPerTenant then
            Inl (loadErr ''tenant non-terminal count exceeds configured bound'')
          else buildLoadedIndex now maxPerTenant as counts' (byID @ [a]))
       else buildLoadedIndex now maxPerTenant as counts (byID @ [a]))"

definition publishLiveView :: "trust_store \<Rightarrow> trust_store" where
  "publishLiveView s = s\<lparr>ts_liveView := Some (sortApprovals (ts_byID s))\<rparr>"

definition load_document :: "gotime \<Rightarrow> trust_store \<Rightarrow> persisted_store \<Rightarrow> tool_approval list res" where
  "load_document now s env =
     (if ps_SchemaVersion env \<noteq> SchemaVersion then Inl (loadErr ''unknown store schema version'')
      else if int (length (ps_Approvals env)) > ts_maxRecords s then
        Inl (loadErr ''store record count exceeds configured bound'')
      else buildLoadedIndex now (ts_maxPerTenant s) (ps_Approvals env) (\<lambda>_. 0) [])"

definition load_file :: "gotime \<Rightarrow> trust_store \<Rightarrow> tool_approval list option res" where
  "load_file now s = (case ts_file s of
     None \<Rightarrow> Inr None
   | Some (OpenError e) \<Rightarrow> Inl (Wrap ReasonConfigInvalid ''tooltrust.load'' ''open store'' (Some e))
   | Some (ReadError e) \<Rightarrow> Inl (Wrap ReasonConfigInvalid ''tooltrust.load'' ''read store'' (Some e))
   | Some (FileBytes raw d) \<Rightarrow>
       if int (length raw) > readLimit s then Inl (loadErr ''store file exceeds size bound'')
       else if \<not> ValidString raw then Inl (loadErr ''store file is not valid UTF-8'')
       else if hasUnpairedSurrogateEscape raw then Inl (loadErr ''store file has an unpaired surrogate escape'')
       else (case d of
           DecodeError e \<Rightarrow> Inl (Wrap ReasonConfigInvalid ''tooltrust.load'' ''corrupt store file'' (Some e))
         | TrailingData \<Rightarrow> Inl (loadErr ''store file has trailing data'')
         | Decoded env \<Rightarrow> bindR (load_document now s env) (\<lambda>xs. Inr (Some xs))))"

definition Load :: "gotime \<Rightarrow> trust_store \<Rightarrow> go_error option \<times> trust_store" where
  "Load now s = (case load_file now s of
     Inl e \<Rightarrow> (Some e, s)
   | Inr None \<Rightarrow> (None, s)
   | Inr (Some byID) \<Rightarrow> (None, publishLiveView (s\<lparr>ts_byID := byID\<rparr>)))"

section \<open>Persisting\<close>

text \<open>\<open>time.Time.MarshalJSON\<close> refuses a year outside 0 to 9999.\<close>

definition time_marshals :: "gotime \<Rightarrow> bool" where
  "time_marshals t \<longleftrightarrow> - 366 * 86400 * nanosPerSecond \<le> t \<and> t < 3652059 * 86400 * nanosPerSecond"

definition stamp_marshals :: "gotime option \<Rightarrow> bool" where
  "stamp_marshals t = (case t of None \<Rightarrow> True | Some x \<Rightarrow> time_marshals x)"

definition marshals :: "tool_approval \<Rightarrow> bool" where
  "marshals a \<longleftrightarrow> time_marshals (ta_RequestedAt a) \<and> time_marshals (ta_ApprovedAt a) \<and>
     stamp_marshals (ta_ExpiresAt a) \<and> stamp_marshals (ta_RevokedAt a) \<and> stamp_marshals (ta_RejectedAt a)"

definition json_record :: "tool_approval \<Rightarrow> tool_approval" where
  "json_record a = a\<lparr>ta_ApprovalID := json_text (ta_ApprovalID a), ta_Tenant := json_text (ta_Tenant a),
     ta_ServerID := json_text (ta_ServerID a), ta_ToolName := json_text (ta_ToolName a),
     ta_RequestedBy := json_text (ta_RequestedBy a), ta_ApprovedBy := json_text (ta_ApprovedBy a),
     ta_Reason := json_text (ta_Reason a), ta_TicketRef := json_text (ta_TicketRef a),
     ta_RevokedBy := json_text (ta_RevokedBy a), ta_RevocationReason := json_text (ta_RevocationReason a),
     ta_RejectedBy := json_text (ta_RejectedBy a), ta_RejectedReason := json_text (ta_RejectedReason a)\<rparr>"

definition persisted :: "tool_approval list \<Rightarrow> persisted_store" where
  "persisted xs = \<lparr>ps_SchemaVersion = SchemaVersion,
     ps_Approvals = map (\<lambda>a. Some (json_record a)) (sortApprovals xs)\<rparr>"

definition yearRangeErr :: go_error where
  "yearRangeErr = WrapErr (Some (PlainErr ''Time.MarshalJSON: year outside of range [0,9999]''))"

definition persistLocked :: "step_io \<Rightarrow> trust_store \<Rightarrow> go_error option \<times> trust_store" where
  "persistLocked io s =
     (if \<not> list_all marshals (ts_byID s) then
        (Some (Wrap ReasonConfigInvalid ''tooltrust.persist'' ''marshal store'' (Some yearRangeErr)), s)
      else (case AtomicWrite (FileBytes (io_raw io) (Decoded (persisted (ts_byID s)))) (io_faults io) (ts_file s) of
          (Some e, file') \<Rightarrow>
            (Some (Wrap ReasonApprovalStoreUnavailable ''tooltrust.persist'' ''atomic write'' (Some e)),
             s\<lparr>ts_file := file'\<rparr>)
        | (None, file') \<Rightarrow> (None, publishLiveView (s\<lparr>ts_file := file'\<rparr>))))"

text \<open>Every mutator: install the new index, persist it, put the old index back on an error.\<close>

definition commit :: "step_io \<Rightarrow> tool_approval list \<Rightarrow> trust_store \<Rightarrow> go_error option \<times> trust_store" where
  "commit io byID' s = (case persistLocked io (s\<lparr>ts_byID := byID'\<rparr>) of
     (Some e, s') \<Rightarrow> (Some e, s'\<lparr>ts_byID := ts_byID s\<rparr>)
   | (None, s') \<Rightarrow> (None, s'))"

section \<open>Requests\<close>

record request_input =
  ri_Tenant :: string
  ri_ServerID :: string
  ri_ToolName :: string
  ri_Fingerprint :: string
  ri_FingerprintFormatVersion :: nat
  ri_Purpose :: purpose
  ri_ReviewedOperationClass :: reviewed_operation_class
  ri_CatalogRevision :: nat
  ri_ServerRevision :: nat
  ri_RequestedBy :: string
  ri_Reason :: string
  ri_TicketRef :: string
  ri_ExpiresAt :: "gotime option"

definition requestErr :: "string \<Rightarrow> go_error" where
  "requestErr detail = New ReasonAdminRequestInvalid ''tooltrust.request'' detail"

definition RequestInput_validate :: "request_input \<Rightarrow> go_error option" where
  "RequestInput_validate i = first_err [
     boundedToken (ri_Tenant i) maxTenantBytes ''tenant'',
     boundedToken (ri_ServerID i) maxServerIDBytes ''server id'',
     boundedToken (ri_ToolName i) maxToolNameBytes ''tool name'',
     boundedToken (ri_RequestedBy i) maxActorBytes ''requested_by'',
     err_if (\<not> Issuable (ri_Purpose i))
       (New ReasonApprovalPurposeUnsupported ''tooltrust.request'' ''purpose not issuable''),
     err_if (ri_Purpose i = PurposeLiveExecution \<and> ri_ExpiresAt i = None)
       (requestErr ''live_execution approval requires an explicit expiry''),
     err_if (ri_Purpose i = PurposeLiveExecution \<and> \<not> Stated (ri_ReviewedOperationClass i))
       (requestErr ''live_execution approval requires an explicit reviewed operation class''),
     err_if (length (ri_Reason i) > maxReasonBytes) (requestErr ''reason exceeds byte bound''),
     err_if (length (ri_TicketRef i) > maxTicketBytes) (requestErr ''ticket_ref exceeds byte bound''),
     err_if (\<not> ValidString (ri_Reason i) \<or> \<not> ValidString (ri_TicketRef i))
       (requestErr ''reason/ticket_ref not valid UTF-8'')]"

text \<open>The loop that picks the oldest prunable record, in the order of the map.\<close>

fun oldest_prunable :: "gotime \<Rightarrow> tool_approval list \<Rightarrow> tool_approval option \<Rightarrow> tool_approval option" where
  "oldest_prunable now [] oldest = oldest"
| "oldest_prunable now (a # as) oldest =
     (if \<not> prunableAsOf a now then oldest_prunable now as oldest
      else (case oldest of
          None \<Rightarrow> oldest_prunable now as (Some a)
        | Some b \<Rightarrow> oldest_prunable now as (Some (if ta_RequestedAt a < ta_RequestedAt b then a else b))))"

definition nonTerminal :: "string \<Rightarrow> gotime \<Rightarrow> tool_approval list \<Rightarrow> nat" where
  "nonTerminal tenant now xs = length (filter (\<lambda>a. ta_Tenant a = tenant \<and> \<not> effectiveTerminal a now) xs)"

definition capacityCheckLocked :: "string \<Rightarrow> gotime \<Rightarrow> trust_store \<Rightarrow> string res" where
  "capacityCheckLocked tenant now s =
     (if int (nonTerminal tenant now (ts_byID s)) \<ge> ts_maxPerTenant s then
        Inl (New ReasonAdminRangeExceeded ''tooltrust.request'' ''tenant approval capacity reached'')
      else if int (length (ts_byID s)) < ts_maxRecords s then Inr []
      else (case oldest_prunable now (ts_byID s) None of
          None \<Rightarrow> Inl (New ReasonAdminRangeExceeded ''tooltrust.request'' ''approval store capacity reached'')
        | Some a \<Rightarrow> Inr (ta_ApprovalID a)))"

definition newApprovalID :: "string res \<Rightarrow> string res" where
  "newApprovalID rnd = (case rnd of
     Inl e \<Rightarrow> Inl (Wrap ReasonAdminRequestInvalid ''tooltrust.request'' ''id generation failed'' (Some e))
   | Inr b \<Rightarrow> Inr (hex_encode b))"

definition pending_record :: "string \<Rightarrow> gotime \<Rightarrow> request_input \<Rightarrow> tool_approval" where
  "pending_record aid now i = \<lparr>ta_SchemaVersion = SchemaVersion, ta_ApprovalID = aid,
     ta_Tenant = ri_Tenant i, ta_ServerID = ri_ServerID i, ta_ToolName = ri_ToolName i,
     ta_Fingerprint = ri_Fingerprint i, ta_FingerprintFormatVersion = ri_FingerprintFormatVersion i,
     ta_CatalogRevision = ri_CatalogRevision i, ta_ServerRevision = ri_ServerRevision i,
     ta_Purpose = ri_Purpose i, ta_ReviewedOperationClass = ri_ReviewedOperationClass i,
     ta_Status = StatusPending, ta_RequestedBy = ri_RequestedBy i, ta_RequestedAt = now,
     ta_ApprovedBy = [], ta_ApprovedAt = 0, ta_Reason = ri_Reason i, ta_TicketRef = ri_TicketRef i,
     ta_ExpiresAt = ri_ExpiresAt i, ta_RevokedBy = [], ta_RevokedAt = None, ta_RevocationReason = [],
     ta_RejectedBy = [], ta_RejectedAt = None, ta_RejectedReason = []\<rparr>"

definition live_window_err :: "gotime \<Rightarrow> request_input \<Rightarrow> go_error option" where
  "live_window_err now i =
     (if ri_Purpose i \<noteq> PurposeLiveExecution then None
      else let exp = the (ri_ExpiresAt i) in
        if \<not> exp > now then Some (requestErr ''live_execution expiry must be in the future'')
        else if Time_Sub exp now > MaxLiveExecutionApprovalTTL then
          Some (requestErr ''live_execution approval ttl exceeds ceiling'')
        else None)"

text \<open>What is decided before the first mutation: the record to evict and the new identifier.\<close>

definition plan_request :: "step_io \<Rightarrow> request_input \<Rightarrow> trust_store \<Rightarrow> (string \<times> string) res" where
  "plan_request io i s =
     bindR (guardR (RequestInput_validate i)) (\<lambda>_.
     bindR (guardR (live_window_err (io_now io) i)) (\<lambda>_.
     bindR (capacityCheckLocked (ri_Tenant i) (io_now io) s) (\<lambda>pruneID.
     bindR (newApprovalID (io_rand io)) (\<lambda>aid.
       if lookup aid (ts_byID s) \<noteq> None then Inl (requestErr ''id collision'') else Inr (pruneID, aid)))))"

definition CreateRequest :: "step_io \<Rightarrow> request_input \<Rightarrow> trust_store \<Rightarrow> tool_approval res \<times> trust_store" where
  "CreateRequest io i s = (case plan_request io i s of
     Inl e \<Rightarrow> (Inl e, s)
   | Inr (pruneID, aid) \<Rightarrow>
       let a = pending_record aid (io_now io) i;
           kept = (if pruneID \<noteq> [] then filter (\<lambda>b. ta_ApprovalID b \<noteq> pruneID) (ts_byID s) else ts_byID s)
       in (case commit io (kept @ [a]) s of
             (Some e, s') \<Rightarrow> (Inl e, s')
           | (None, s') \<Rightarrow> (Inr a, s')))"

section \<open>Decisions\<close>

record current_target =
  ct_ServerExists :: bool
  ct_ServerUsable :: bool
  ct_Tenant :: string
  ct_ToolExists :: bool
  ct_Approvable :: bool
  ct_Fingerprint :: string
  ct_FingerprintFormatVersion :: nat
  ct_CatalogRevision :: nat
  ct_ServerRevision :: nat

definition approveErr :: "reason \<Rightarrow> string \<Rightarrow> go_error" where
  "approveErr r detail = New r ''tooltrust.approve'' detail"

definition verifyTarget :: "tool_approval \<Rightarrow> current_target \<Rightarrow> go_error option" where
  "verifyTarget a t =
     (if \<not> ct_ServerExists t \<or> \<not> ct_ToolExists t then Some (approveErr ReasonToolNotFound ''target tool not found'')
      else if ct_Tenant t \<noteq> ta_Tenant a then Some (approveErr ReasonApprovalTenantConflict ''tenant conflict'')
      else if \<not> ct_ServerUsable t then Some (approveErr ReasonServerNotUsable ''server not usable'')
      else if ct_FingerprintFormatVersion t \<noteq> ta_FingerprintFormatVersion a \<or> ct_Fingerprint t \<noteq> ta_Fingerprint a then
        Some (approveErr ReasonToolFingerprintMismatch ''tool fingerprint changed'')
      else if \<not> ct_Approvable t then Some (approveErr ReasonToolNotApprovable ''tool not in an approvable state'')
      else None)"

definition revisionStale :: "tool_approval \<Rightarrow> current_target \<Rightarrow> bool" where
  "revisionStale a t =
     (if ta_CatalogRevision a \<noteq> 0 \<and> ta_CatalogRevision a \<noteq> ct_CatalogRevision t then True
      else if ta_ServerRevision a \<noteq> 0 \<and> ta_ServerRevision a \<noteq> ct_ServerRevision t then True
      else False)"

definition validateLiveApproveLocked :: "tool_approval \<Rightarrow> string \<Rightarrow> gotime \<Rightarrow> go_error option" where
  "validateLiveApproveLocked a approver now =
     (if ta_RequestedBy a = [] \<or> approver = ta_RequestedBy a then
        Some (approveErr ReasonApprovalSelfApproval
          ''live_execution approval requires a distinct requester and approver (four-eyes)'')
      else (case ta_ExpiresAt a of
          None \<Rightarrow> Some (approveErr ReasonAdminRequestInvalid ''live_execution approval requires an explicit expiry'')
        | Some x \<Rightarrow> if Time_Sub x now > MaxLiveExecutionApprovalTTL then
            Some (approveErr ReasonAdminRequestInvalid ''live_execution approval ttl exceeds ceiling'') else None))"

definition terminalApproveErr :: "status \<Rightarrow> go_error" where
  "terminalApproveErr st =
     (if st = StatusRevoked then approveErr ReasonApprovalRevoked ''revoked''
      else if st = StatusExpired then approveErr ReasonApprovalExpired ''expired''
      else if st = StatusRejected then approveErr ReasonApprovalTerminalState ''already rejected''
      else approveErr ReasonApprovalTerminalState ''not approvable'')"

text \<open>The gates of the transition from pending to active, in the order of the code.\<close>

definition approve_pending_err :: "gotime \<Rightarrow> string \<Rightarrow> current_target \<Rightarrow> tool_approval \<Rightarrow> go_error option" where
  "approve_pending_err now approver t a = first_err [
     err_if (\<not> Issuable (ta_Purpose a)) (approveErr ReasonApprovalPurposeUnsupported ''purpose not issuable''),
     (if ta_Purpose a = PurposeLiveExecution then validateLiveApproveLocked a approver now else None),
     verifyTarget a t,
     err_if (revisionStale a t) (approveErr ReasonToolApprovalStale ''reviewed catalog/registry revision advanced'')]"

definition approved :: "string \<Rightarrow> gotime \<Rightarrow> tool_approval \<Rightarrow> tool_approval" where
  "approved approver now a = a\<lparr>ta_Status := StatusActive, ta_ApprovedBy := approver, ta_ApprovedAt := now\<rparr>"

definition Approve :: "step_io \<Rightarrow> string \<Rightarrow> string \<Rightarrow> current_target \<Rightarrow> trust_store \<Rightarrow> tool_approval res \<times> trust_store" where
  "Approve io aid approver t s =
     (if approver = [] \<or> length approver > maxActorBytes then
        (Inl (approveErr ReasonApprovalNotAuthorized ''invalid approver''), s)
      else (case lookup aid (ts_byID s) of
          None \<Rightarrow> (Inl (approveErr ReasonApprovalNotFound ''not found''), s)
        | Some a \<Rightarrow>
            if pastExpiry a (io_now io) then (Inl (approveErr ReasonApprovalExpired ''expired''), s)
            else if ta_Status a = StatusActive then
              (case verifyTarget a t of Some e \<Rightarrow> (Inl e, s) | None \<Rightarrow> (Inr a, s))
            else if ta_Status a \<noteq> StatusPending then (Inl (terminalApproveErr (ta_Status a)), s)
            else (case approve_pending_err (io_now io) approver t a of
                Some e \<Rightarrow> (Inl e, s)
              | None \<Rightarrow>
                  (case commit io (replace aid (approved approver (io_now io)) (ts_byID s)) s of
                     (Some e, s') \<Rightarrow> (Inl e, s')
                   | (None, s') \<Rightarrow> (Inr (approved approver (io_now io) a), s')))))"

definition rejected :: "string \<Rightarrow> gotime \<Rightarrow> string \<Rightarrow> tool_approval \<Rightarrow> tool_approval" where
  "rejected actor now reason a = a\<lparr>ta_Status := StatusRejected, ta_RejectedBy := actor,
     ta_RejectedAt := Some now, ta_RejectedReason := reason\<rparr>"

definition rejectErr :: "reason \<Rightarrow> string \<Rightarrow> go_error" where
  "rejectErr r detail = New r ''tooltrust.reject'' detail"

definition Reject :: "step_io \<Rightarrow> string \<Rightarrow> string \<Rightarrow> string \<Rightarrow> trust_store \<Rightarrow> go_error option \<times> trust_store" where
  "Reject io aid actor reason s =
     (if actor = [] \<or> length actor > maxActorBytes then
        (Some (rejectErr ReasonApprovalNotAuthorized ''invalid actor''), s)
      else if length reason > maxReasonBytes then
        (Some (rejectErr ReasonAdminRequestInvalid ''reason exceeds byte bound''), s)
      else (case lookup aid (ts_byID s) of
          None \<Rightarrow> (Some (rejectErr ReasonApprovalNotFound ''not found''), s)
        | Some a \<Rightarrow>
            if expiredAsOf a (io_now io) then (Some (rejectErr ReasonApprovalExpired ''expired''), s)
            else (case ta_Status a of
                StatusRejected \<Rightarrow> (None, s)
              | StatusPending \<Rightarrow> commit io (replace aid (rejected actor (io_now io) reason) (ts_byID s)) s
              | StatusActive \<Rightarrow> (Some (rejectErr ReasonApprovalTerminalState ''already active''), s)
              | StatusRevoked \<Rightarrow> (Some (rejectErr ReasonApprovalRevoked ''revoked''), s)
              | StatusExpired \<Rightarrow> (Some (rejectErr ReasonApprovalExpired ''expired''), s)
              | _ \<Rightarrow> (Some (rejectErr ReasonApprovalTerminalState ''not rejectable''), s))))"

definition revoked :: "string \<Rightarrow> gotime \<Rightarrow> string \<Rightarrow> tool_approval \<Rightarrow> tool_approval" where
  "revoked actor now reason a = a\<lparr>ta_Status := StatusRevoked, ta_RevokedBy := actor,
     ta_RevokedAt := Some now, ta_RevocationReason := reason\<rparr>"

definition revokeErr :: "reason \<Rightarrow> string \<Rightarrow> go_error" where
  "revokeErr r detail = New r ''tooltrust.revoke'' detail"

definition Revoke :: "step_io \<Rightarrow> string \<Rightarrow> string \<Rightarrow> string \<Rightarrow> string \<Rightarrow> trust_store \<Rightarrow>
    tool_approval res \<times> trust_store" where
  "Revoke io aid actor tenant reason s =
     (if actor = [] \<or> length actor > maxActorBytes then
        (Inl (revokeErr ReasonApprovalNotAuthorized ''invalid actor''), s)
      else if length reason > maxReasonBytes then
        (Inl (revokeErr ReasonAdminRequestInvalid ''reason exceeds byte bound''), s)
      else (case lookup aid (ts_byID s) of
          None \<Rightarrow> (Inl (revokeErr ReasonApprovalNotFound ''not found''), s)
        | Some a \<Rightarrow>
            if ta_Tenant a \<noteq> tenant then (Inl (revokeErr ReasonApprovalNotFound ''not found''), s)
            else if ta_Status a = StatusRevoked then (Inr a, s)
            else if ta_Status a = StatusActive \<or> ta_Status a = StatusPending then
              (case commit io (replace aid (revoked actor (io_now io) reason) (ts_byID s)) s of
                 (Some e, s') \<Rightarrow> (Inl e, s')
               | (None, s') \<Rightarrow> (Inr (revoked actor (io_now io) reason a), s'))
            else if ta_Status a = StatusRejected then
              (Inl (revokeErr ReasonApprovalTerminalState ''already rejected''), s)
            else if ta_Status a = StatusExpired then (Inl (revokeErr ReasonApprovalExpired ''expired''), s)
            else (Inl (revokeErr ReasonApprovalTerminalState ''not revocable''), s)))"

definition expiry_due :: "gotime \<Rightarrow> tool_approval \<Rightarrow> bool" where
  "expiry_due now a \<longleftrightarrow> \<not> status_terminal (ta_Status a) \<and> pastExpiry a now"

definition expire :: "tool_approval \<Rightarrow> tool_approval" where
  "expire a = a\<lparr>ta_Status := StatusExpired\<rparr>"

definition ExpireDue :: "step_io \<Rightarrow> gotime \<Rightarrow> trust_store \<Rightarrow> tool_approval list res \<times> trust_store" where
  "ExpireDue io now s =
     (let targets = filter (expiry_due now) (ts_byID s) in
      if targets = [] then (Inr [], s)
      else (case commit io (map (\<lambda>a. if expiry_due now a then expire a else a) (ts_byID s)) s of
          (Some e, s') \<Rightarrow> (Inl e, s')
        | (None, s') \<Rightarrow> (Inr (map expire targets), s')))"

section \<open>Reads\<close>

definition ToolRefs :: "trust_store \<Rightarrow> (string \<times> string) list" where
  "ToolRefs s = sort (remdups (map (\<lambda>a. (ta_ServerID a, ta_ToolName a)) (ts_byID s)))"

definition Get :: "string \<Rightarrow> string \<Rightarrow> trust_store \<Rightarrow> tool_approval res" where
  "Get aid tenant s = (case lookup aid (ts_byID s) of
     None \<Rightarrow> Inl (New ReasonApprovalNotFound ''tooltrust.get'' ''not found'')
   | Some a \<Rightarrow> if ta_Tenant a \<noteq> tenant then Inl (New ReasonApprovalNotFound ''tooltrust.get'' ''not found'')
               else Inr a)"

definition List_approvals :: "string \<Rightarrow> int \<Rightarrow> trust_store \<Rightarrow> tool_approval list" where
  "List_approvals tenant limit s =
     (if limit \<le> 0 then []
      else take (nat limit) (sort_key (\<lambda>a. (- ta_RequestedAt a, ta_ApprovalID a))
             (filter (\<lambda>a. ta_Tenant a = tenant) (ts_byID s))))"

definition AllForTenant :: "string \<Rightarrow> trust_store \<Rightarrow> tool_approval list" where
  "AllForTenant tenant s = filter (\<lambda>a. ta_Tenant a = tenant) (ts_byID s)"

definition ActiveApprovals :: "gotime \<Rightarrow> trust_store \<Rightarrow> tool_approval list" where
  "ActiveApprovals now s = sortApprovals (filter (\<lambda>a. activeAsOf a now) (ts_byID s))"

definition ActiveLiveApprovals :: "gotime \<Rightarrow> trust_store \<Rightarrow> tool_approval list" where
  "ActiveLiveApprovals now s = (case ts_liveView s of
     None \<Rightarrow> [] | Some view \<Rightarrow> filter (\<lambda>a. activeLiveAsOf a now) view)"

section \<open>Steps and runs\<close>

datatype trust_op =
    OpCreateRequest request_input
  | OpApprove string string current_target
  | OpReject string string string
  | OpRevoke string string string string
  | OpExpireDue gotime

fun trust_step :: "step_io \<times> trust_op \<Rightarrow> trust_store \<Rightarrow> trust_store" where
  "trust_step (io, OpCreateRequest i) s = snd (CreateRequest io i s)"
| "trust_step (io, OpApprove aid approver t) s = snd (Approve io aid approver t s)"
| "trust_step (io, OpReject aid actor reason) s = snd (Reject io aid actor reason s)"
| "trust_step (io, OpRevoke aid actor tenant reason) s = snd (Revoke io aid actor tenant reason s)"
| "trust_step (io, OpExpireDue now) s = snd (ExpireDue io now s)"

section \<open>Commits\<close>

lemma publish_sel [simp]:
  "ts_byID (publishLiveView s) = ts_byID s" "ts_file (publishLiveView s) = ts_file s"
  "ts_maxRecords (publishLiveView s) = ts_maxRecords s" "ts_maxPerTenant (publishLiveView s) = ts_maxPerTenant s"
  "ts_liveView (publishLiveView s) = Some (sortApprovals (ts_byID s))"
  by (simp_all add: publishLiveView_def)

lemma commit_ok:
  assumes "commit io xs s = (None, s')"
  shows "s' = publishLiveView (s\<lparr>ts_byID := xs,
    ts_file := Some (FileBytes (io_raw io) (Decoded (persisted xs)))\<rparr>) \<and> list_all marshals xs"
  using assms AtomicWrite_ok[of "FileBytes (io_raw io) (Decoded (persisted xs))" "io_faults io" "ts_file s"]
  by (auto simp: commit_def persistLocked_def split: prod.splits option.splits if_split_asm)

lemma commit_fail:
  assumes "commit io xs s = (Some e, s')"
  shows "s' = s\<lparr>ts_file := ts_file s'\<rparr> \<and> (ts_file s' = ts_file s \<or>
    replaced (io_faults io) \<and> ts_file s' = Some (FileBytes (io_raw io) (Decoded (persisted xs))))"
  using assms AtomicWrite_replaced[of "FileBytes (io_raw io) (Decoded (persisted xs))" "io_faults io" "ts_file s"]
  by (auto simp: commit_def persistLocked_def split: prod.splits option.splits if_split_asm)

lemma commit_sel [simp]:
  "ts_maxRecords (snd (commit io xs s)) = ts_maxRecords s"
  "ts_maxPerTenant (snd (commit io xs s)) = ts_maxPerTenant s"
  by (cases "commit io xs s"; cases "fst (commit io xs s)"; auto dest!: commit_ok commit_fail; metis)+

section \<open>What a step does to the index\<close>

text \<open>The moves a stored record can make at an instant.\<close>

inductive approval_step :: "gotime \<Rightarrow> tool_approval \<Rightarrow> tool_approval \<Rightarrow> bool" for now where
  approval_approve: "\<lbrakk>ta_Status a = StatusPending; \<not> pastExpiry a now; approver \<noteq> [];
     length approver \<le> maxActorBytes; approve_pending_err now approver t a = None\<rbrakk> \<Longrightarrow>
     approval_step now a (approved approver now a)"
| approval_reject: "\<lbrakk>ta_Status a = StatusPending; actor \<noteq> []; length actor \<le> maxActorBytes;
     length reason \<le> maxReasonBytes\<rbrakk> \<Longrightarrow> approval_step now a (rejected actor now reason a)"
| approval_revoke: "\<lbrakk>ta_Status a = StatusActive \<or> ta_Status a = StatusPending; actor \<noteq> [];
     length actor \<le> maxActorBytes; length reason \<le> maxReasonBytes\<rbrakk> \<Longrightarrow>
     approval_step now a (revoked actor now reason a)"
| approval_expire: "expiry_due due a \<Longrightarrow> approval_step now a (expire a)"

inductive_cases approval_stepE: "approval_step now a b"

lemma approval_step_source: "approval_step now a b \<Longrightarrow> \<not> status_terminal (ta_Status a)"
  by (erule approval_stepE) (auto simp: status_terminal_def expiry_due_def)

lemma approval_step_identity:
  assumes "approval_step now a b"
  shows "ta_ApprovalID b = ta_ApprovalID a" "ta_Tenant b = ta_Tenant a" "ta_ServerID b = ta_ServerID a"
    "ta_ToolName b = ta_ToolName a" "ta_Fingerprint b = ta_Fingerprint a" "ta_Purpose b = ta_Purpose a"
    "ta_ExpiresAt b = ta_ExpiresAt a" "ta_RequestedBy b = ta_RequestedBy a"
    "ta_ReviewedOperationClass b = ta_ReviewedOperationClass a" "ta_RequestedAt b = ta_RequestedAt a"
    "ta_SchemaVersion b = ta_SchemaVersion a" "ta_Reason b = ta_Reason a" "ta_TicketRef b = ta_TicketRef a"
  using assms by (auto elim!: approval_stepE simp: approved_def rejected_def revoked_def expire_def)

text \<open>The indexes a step can leave behind.\<close>

inductive index_step :: "step_io \<Rightarrow> trust_store \<Rightarrow> tool_approval list \<Rightarrow> bool" for io s where
  index_keep: "index_step io s (ts_byID s)"
| index_create: "plan_request io i s = Inr (pruneID, aid) \<Longrightarrow>
     index_step io s ((if pruneID \<noteq> [] then filter (\<lambda>b. ta_ApprovalID b \<noteq> pruneID) (ts_byID s) else ts_byID s)
       @ [pending_record aid (io_now io) i])"
| index_move: "(\<And>a. a \<in> set (ts_byID s) \<Longrightarrow> f a = a \<or> approval_step (io_now io) a (f a)) \<Longrightarrow>
     index_step io s (map f (ts_byID s))"

inductive_cases index_stepE: "index_step io s xs"

lemma lookup_SomeD: "lookup aid xs = Some a \<Longrightarrow> a \<in> set xs \<and> ta_ApprovalID a = aid"
  by (auto simp: lookup_def find_Some_iff)

lemma lookup_distinct:
  "distinct (map ta_ApprovalID xs) \<Longrightarrow> lookup aid xs = Some a \<longleftrightarrow> a \<in> set xs \<and> ta_ApprovalID a = aid"
  by (induction xs) (auto simp: lookup_def)

lemma lookup_None: "lookup aid xs = None \<longleftrightarrow> aid \<notin> ta_ApprovalID ` set xs"
  by (auto simp: lookup_def find_None_iff)

lemma replace_move:
  assumes "distinct (map ta_ApprovalID (ts_byID s))" "lookup aid (ts_byID s) = Some a"
    and "approval_step (io_now io) a (f a)"
  shows "index_step io s (replace aid f (ts_byID s))"
  unfolding replace_def
proof (rule index_move)
  fix b assume "b \<in> set (ts_byID s)"
  then have "ta_ApprovalID b = aid \<Longrightarrow> b = a"
    using assms(1,2) lookup_distinct[OF assms(1), of aid] by (metis option.inject)
  with assms(3) show "(if ta_ApprovalID b = aid then f b else b) = b \<or>
      approval_step (io_now io) b (if ta_ApprovalID b = aid then f b else b)"
    by auto
qed

lemma commit_snd:
  "snd (commit io xs s) = (if fst (commit io xs s) = None
     then publishLiveView (s\<lparr>ts_byID := xs, ts_file := Some (FileBytes (io_raw io) (Decoded (persisted xs)))\<rparr>)
     else s\<lparr>ts_file := ts_file (snd (commit io xs s))\<rparr>)"
proof (cases "commit io xs s")
  case (Pair r s')
  then show ?thesis
    using commit_ok[of io xs s s'] commit_fail[of io xs s _ s'] by (cases r) auto
qed

lemma commit_fields [simp]:
  "ts_byID (snd (commit io xs s)) = (if fst (commit io xs s) = None then xs else ts_byID s)"
  "ts_liveView (snd (commit io xs s)) =
     (if fst (commit io xs s) = None then Some (sortApprovals xs) else ts_liveView s)"
  by (subst commit_snd; simp)+

text \<open>A step either leaves the store as it is or commits one such index.\<close>

definition distinct_ids :: "trust_store \<Rightarrow> bool" where
  "distinct_ids s \<longleftrightarrow> distinct (map ta_ApprovalID (ts_byID s))"

lemma CreateRequest_commits:
  "snd (CreateRequest io i s) = s \<or> (\<exists>xs. index_step io s xs \<and> snd (CreateRequest io i s) = snd (commit io xs s))"
proof (cases "plan_request io i s")
  case (Inr p)
  obtain pruneID aid where p: "p = (pruneID, aid)" by (cases p)
  with Inr have "index_step io s ((if pruneID \<noteq> [] then filter (\<lambda>b. ta_ApprovalID b \<noteq> pruneID) (ts_byID s)
      else ts_byID s) @ [pending_record aid (io_now io) i])"
    by (simp only: index_create)
  moreover have "snd (CreateRequest io i s) = snd (commit io ((if pruneID \<noteq> [] then
      filter (\<lambda>b. ta_ApprovalID b \<noteq> pruneID) (ts_byID s) else ts_byID s) @ [pending_record aid (io_now io) i]) s)"
    using Inr p by (simp add: CreateRequest_def Let_def split: prod.splits option.splits)
  ultimately show ?thesis by blast
qed (simp add: CreateRequest_def)

lemma Approve_commits:
  assumes "distinct_ids s"
  shows "snd (Approve io aid approver t s) = s \<or>
    (\<exists>xs. index_step io s xs \<and> snd (Approve io aid approver t s) = snd (commit io xs s))"
proof (cases "snd (Approve io aid approver t s) = s")
  case False
  then obtain a where a: "lookup aid (ts_byID s) = Some a" "ta_Status a = StatusPending"
      "\<not> pastExpiry a (io_now io)" "approver \<noteq> []" "length approver \<le> maxActorBytes"
      "approve_pending_err (io_now io) approver t a = None"
    by (auto simp: Approve_def split: if_split_asm option.splits)
  then have "index_step io s (replace aid (approved approver (io_now io)) (ts_byID s))"
    using assms by (intro replace_move[of s aid a]) (auto simp: distinct_ids_def intro: approval_approve)
  moreover have "snd (Approve io aid approver t s) =
      snd (commit io (replace aid (approved approver (io_now io)) (ts_byID s)) s)"
    using a by (simp add: Approve_def split: prod.splits option.splits)
  ultimately show ?thesis by blast
qed simp

lemma Reject_commits:
  assumes "distinct_ids s"
  shows "snd (Reject io aid actor reason s) = s \<or>
    (\<exists>xs. index_step io s xs \<and> snd (Reject io aid actor reason s) = snd (commit io xs s))"
proof (cases "snd (Reject io aid actor reason s) = s")
  case False
  then obtain a where a: "lookup aid (ts_byID s) = Some a" "ta_Status a = StatusPending"
      "\<not> expiredAsOf a (io_now io)" "actor \<noteq> []" "length actor \<le> maxActorBytes" "length reason \<le> maxReasonBytes"
    by (auto simp: Reject_def split: if_split_asm option.splits status.splits)
  then have "index_step io s (replace aid (rejected actor (io_now io) reason) (ts_byID s))"
    using assms by (intro replace_move[of s aid a]) (auto simp: distinct_ids_def intro: approval_reject)
  moreover have "snd (Reject io aid actor reason s) =
      snd (commit io (replace aid (rejected actor (io_now io) reason) (ts_byID s)) s)"
    using a by (simp add: Reject_def)
  ultimately show ?thesis by blast
qed simp

lemma Revoke_commits:
  assumes "distinct_ids s"
  shows "snd (Revoke io aid actor tenant reason s) = s \<or>
    (\<exists>xs. index_step io s xs \<and> snd (Revoke io aid actor tenant reason s) = snd (commit io xs s))"
proof (cases "snd (Revoke io aid actor tenant reason s) = s")
  case False
  then obtain a where a: "lookup aid (ts_byID s) = Some a" "ta_Status a = StatusActive \<or> ta_Status a = StatusPending"
      "ta_Tenant a = tenant" "actor \<noteq> []" "length actor \<le> maxActorBytes" "length reason \<le> maxReasonBytes"
    by (auto simp: Revoke_def split: if_split_asm option.splits)
  then have "index_step io s (replace aid (revoked actor (io_now io) reason) (ts_byID s))"
    using assms by (intro replace_move[of s aid a]) (auto simp: distinct_ids_def intro: approval_revoke)
  moreover have "snd (Revoke io aid actor tenant reason s) =
      snd (commit io (replace aid (revoked actor (io_now io) reason) (ts_byID s)) s)"
    using a by (auto simp: Revoke_def split: prod.splits option.splits)
  ultimately show ?thesis by blast
qed simp

lemma ExpireDue_commits:
  "snd (ExpireDue io now s) = s \<or>
    (\<exists>xs. index_step io s xs \<and> snd (ExpireDue io now s) = snd (commit io xs s))"
proof (cases "filter (expiry_due now) (ts_byID s) = []")
  case False
  have "index_step io s (map (\<lambda>a. if expiry_due now a then expire a else a) (ts_byID s))"
    by (rule index_move) (auto intro: approval_expire)
  moreover have "snd (ExpireDue io now s) =
      snd (commit io (map (\<lambda>a. if expiry_due now a then expire a else a) (ts_byID s)) s)"
    using False by (simp add: ExpireDue_def Let_def split: prod.splits option.splits)
  ultimately show ?thesis by blast
qed (simp add: ExpireDue_def)

lemma step_commits:
  assumes "distinct_ids s"
  shows "trust_step (io, oper) s = s \<or>
    (\<exists>xs. index_step io s xs \<and> trust_step (io, oper) s = snd (commit io xs s))"
  using assms
  by (cases oper) (simp_all add: CreateRequest_commits Approve_commits Reject_commits Revoke_commits
      ExpireDue_commits)

lemma step_index: "distinct_ids s \<Longrightarrow> index_step io s (ts_byID (trust_step (io, oper) s))"
proof -
  assume d: "distinct_ids s"
  from step_commits[OF d, of io oper] show ?thesis
    by (auto intro: index_keep)
qed

section \<open>Invariants\<close>

lemma plan_request_Inr:
  assumes "plan_request io i s = Inr (pruneID, aid)"
  shows "RequestInput_validate i = None" "live_window_err (io_now io) i = None"
    "capacityCheckLocked (ri_Tenant i) (io_now io) s = Inr pruneID" "newApprovalID (io_rand io) = Inr aid"
    "lookup aid (ts_byID s) = None"
  using assms by (auto simp: plan_request_def bindR_eq_Inr split: if_split_asm)

lemma distinct_ids_step:
  assumes "distinct_ids s"
  shows "distinct_ids (trust_step x s)"
proof -
  obtain io oper where x: "x = (io, oper)" by (cases x)
  from step_index[OF assms, of io oper] show ?thesis
  proof cases
    case index_keep
    with assms x show ?thesis by (simp add: distinct_ids_def)
  next
    case (index_create i pruneID aid)
    from plan_request_Inr(5)[OF index_create(2)] have "aid \<notin> ta_ApprovalID ` set (ts_byID s)" by (simp add: lookup_None)
    with index_create assms x show ?thesis
      by (auto simp: distinct_ids_def pending_record_def distinct_map_filter)
  next
    case (index_move f)
    have "map ta_ApprovalID (map f (ts_byID s)) = map ta_ApprovalID (ts_byID s)"
      using index_move(2) approval_step_identity(1) by (auto simp: map_eq_conv) metis
    with index_move(1) assms x show ?thesis by (simp add: distinct_ids_def del: map_map)
  qed
qed

text \<open>A property of single records holds along a run when a request starts with it and every move keeps it.\<close>

lemma records_step:
  assumes "distinct_ids s" and "list_all Q (ts_byID s)"
    and "\<And>i pruneID aid. plan_request io i s = Inr (pruneID, aid) \<Longrightarrow> Q (pending_record aid (io_now io) i)"
    and "\<And>a b. a \<in> set (ts_byID s) \<Longrightarrow> Q a \<Longrightarrow> approval_step (io_now io) a b \<Longrightarrow> Q b"
  shows "list_all Q (ts_byID (trust_step (io, oper) s))"
  using step_index[OF assms(1), of io oper]
proof cases
  case index_keep
  with assms(2) show ?thesis by simp
next
  case (index_create i pruneID aid)
  with assms(2) assms(3)[OF index_create(2)] show ?thesis by (auto simp: list_all_iff)
next
  case (index_move f)
  have "Q (f a)" if a: "a \<in> set (ts_byID s)" for a
    using assms(2) assms(4)[OF a, of "f a"] index_move(2)[OF a] a by (auto simp: list_all_iff)
  with index_move(1) show ?thesis by (simp add: list_all_iff)
qed

text \<open>Live-execution governance of a record: the controls the issue path promises.\<close>

definition governed :: "tool_approval \<Rightarrow> bool" where
  "governed a \<longleftrightarrow> (ta_Purpose a = PurposeLiveExecution \<longrightarrow>
     Stated (ta_ReviewedOperationClass a) \<and> ta_RequestedBy a \<noteq> [] \<and> ta_ExpiresAt a \<noteq> None \<and>
     (ta_Status a = StatusActive \<longrightarrow> ta_ApprovedBy a \<noteq> [] \<and> ta_ApprovedBy a \<noteq> ta_RequestedBy a \<and>
        ta_ApprovedAt a < the (ta_ExpiresAt a) \<and>
        the (ta_ExpiresAt a) \<le> ta_ApprovedAt a + MaxLiveExecutionApprovalTTL))"

lemma boundedToken_None:
  "boundedToken s n name = None \<longleftrightarrow> s \<noteq> [] \<and> length s \<le> n \<and> ValidString s"
  by (simp add: boundedToken_def)

lemma validate_None:
  assumes "RequestInput_validate i = None"
  shows "ri_Tenant i \<noteq> []" "length (ri_Tenant i) \<le> maxTenantBytes" "ValidString (ri_Tenant i)"
    "ri_ServerID i \<noteq> []" "length (ri_ServerID i) \<le> maxServerIDBytes" "ValidString (ri_ServerID i)"
    "ri_ToolName i \<noteq> []" "length (ri_ToolName i) \<le> maxToolNameBytes" "ValidString (ri_ToolName i)"
    "ri_RequestedBy i \<noteq> []" "length (ri_RequestedBy i) \<le> maxActorBytes" "ValidString (ri_RequestedBy i)"
    "Issuable (ri_Purpose i)" "length (ri_Reason i) \<le> maxReasonBytes" "length (ri_TicketRef i) \<le> maxTicketBytes"
    "ValidString (ri_Reason i)" "ValidString (ri_TicketRef i)"
    "ri_Purpose i = PurposeLiveExecution \<Longrightarrow> ri_ExpiresAt i \<noteq> None"
    "ri_Purpose i = PurposeLiveExecution \<Longrightarrow> Stated (ri_ReviewedOperationClass i)"
  using assms by (simp_all add: RequestInput_validate_def boundedToken_None)

lemma pending_sel [simp]:
  "ta_Status (pending_record aid now i) = StatusPending" "ta_ApprovalID (pending_record aid now i) = aid"
  "ta_Tenant (pending_record aid now i) = ri_Tenant i" "ta_Purpose (pending_record aid now i) = ri_Purpose i"
  "ta_ExpiresAt (pending_record aid now i) = ri_ExpiresAt i"
  "ta_RequestedBy (pending_record aid now i) = ri_RequestedBy i"
  "ta_ReviewedOperationClass (pending_record aid now i) = ri_ReviewedOperationClass i"
  by (simp_all add: pending_record_def)

lemma pending_governed: "RequestInput_validate i = None \<Longrightarrow> governed (pending_record aid now i)"
  by (auto simp: governed_def validate_None)

lemma approve_pending_live:
  assumes "approve_pending_err now approver t a = None" "ta_Purpose a = PurposeLiveExecution"
  shows "approver \<noteq> ta_RequestedBy a" "ta_RequestedBy a \<noteq> []"
    "\<exists>x. ta_ExpiresAt a = Some x \<and> x \<le> now + MaxLiveExecutionApprovalTTL"
proof -
  have v: "validateLiveApproveLocked a approver now = None"
    using assms by (simp add: approve_pending_err_def)
  then show "approver \<noteq> ta_RequestedBy a" "ta_RequestedBy a \<noteq> []"
    by (auto simp: validateLiveApproveLocked_def split: if_split_asm)
  from v obtain x where "ta_ExpiresAt a = Some x" "\<not> Time_Sub x now > MaxLiveExecutionApprovalTTL"
    by (auto simp: validateLiveApproveLocked_def split: if_split_asm option.splits)
  with Time_Sub_le[of x now] show "\<exists>x. ta_ExpiresAt a = Some x \<and> x \<le> now + MaxLiveExecutionApprovalTTL"
    by auto
qed

lemma governed_move:
  assumes "governed a" "approval_step now a b"
  shows "governed b"
  using assms(2)
proof cases
  case (approval_approve approver t)
  then show ?thesis
    using assms(1) approve_pending_live[OF approval_approve(6)]
    by (auto simp: governed_def approved_def pastExpiry_def)
qed (use assms(1) in \<open>auto simp: governed_def rejected_def revoked_def expire_def\<close>)

lemma governed_step:
  "distinct_ids s \<Longrightarrow> list_all governed (ts_byID s) \<Longrightarrow> list_all governed (ts_byID (trust_step (io, oper) s))"
  by (rule records_step) (auto intro: pending_governed governed_move plan_request_Inr(1))

lemma governed_run:
  assumes "distinct_ids s" "list_all governed (ts_byID s)"
  shows "distinct_ids (run_ops trust_step xs s) \<and> list_all governed (ts_byID (run_ops trust_step xs s))"
  using assms
  by (induction xs arbitrary: s) (auto simp: distinct_ids_step governed_step)

section \<open>The read snapshot\<close>

definition view_ok :: "trust_store \<Rightarrow> bool" where
  "view_ok s \<longleftrightarrow> ts_liveView s = Some (sortApprovals (ts_byID s)) \<or> ts_liveView s = None \<and> ts_byID s = []"

lemma view_ok_step: "distinct_ids s \<Longrightarrow> view_ok s \<Longrightarrow> view_ok (trust_step (io, oper) s)"
  using step_commits[of s io oper] by (auto simp: view_ok_def split: if_split_asm)

lemma view_ok_run: "distinct_ids s \<Longrightarrow> view_ok s \<Longrightarrow> view_ok (run_ops trust_step xs s)"
  by (induction xs arbitrary: s) (auto simp: distinct_ids_step view_ok_step)

lemma set_sortApprovals [simp]: "set (sortApprovals xs) = set xs"
  by (simp add: sortApprovals_def)

lemma length_sortApprovals [simp]: "length (sortApprovals xs) = length xs"
  by (simp add: sortApprovals_def)

lemma live_approvals_set:
  "view_ok s \<Longrightarrow> set (ActiveLiveApprovals now s) = {a \<in> set (ts_byID s). activeLiveAsOf a now}"
  by (auto simp: view_ok_def ActiveLiveApprovals_def)

section \<open>Terminal records\<close>

definition find_approval :: "trust_store \<Rightarrow> string \<Rightarrow> tool_approval option" where
  "find_approval s aid = lookup aid (ts_byID s)"

definition draws_id :: "step_io \<times> trust_op \<Rightarrow> string \<Rightarrow> bool" where
  "draws_id x aid \<longleftrightarrow> newApprovalID (io_rand (fst x)) = Inr aid"

lemma lookup_filter_other:
  "lookup aid (filter (\<lambda>b. ta_ApprovalID b \<noteq> pid) xs) = (if aid = pid then None else lookup aid xs)"
  by (induction xs) (auto simp: lookup_def)

lemma lookup_append: "lookup aid (xs @ ys) = (case lookup aid xs of Some a \<Rightarrow> Some a | None \<Rightarrow> lookup aid ys)"
  by (induction xs) (auto simp: lookup_def)

lemma lookup_map:
  assumes "\<And>a. a \<in> set xs \<Longrightarrow> ta_ApprovalID (f a) = ta_ApprovalID a"
  shows "lookup aid (map f xs) = map_option f (lookup aid xs)"
  using assms by (induction xs) (auto simp: lookup_def)

lemma step_lookup:
  assumes "distinct_ids s" and "\<not> draws_id (io, oper) aid"
  shows "find_approval (trust_step (io, oper) s) aid = None \<or>
    (\<exists>a b. find_approval s aid = Some a \<and> find_approval (trust_step (io, oper) s) aid = Some b \<and>
       (b = a \<or> approval_step (io_now io) a b))"
  using step_index[OF assms(1), of io oper]
proof cases
  case index_keep
  then show ?thesis by (cases "find_approval s aid") (auto simp: find_approval_def)
next
  case (index_create i pruneID aid')
  with plan_request_Inr(4)[OF index_create(2)] assms(2) have "aid' \<noteq> aid" by (auto simp: draws_id_def)
  with index_create(1) show ?thesis
    by (cases "lookup aid (ts_byID s)")
      (auto simp: find_approval_def lookup_append lookup_filter_other, auto simp: lookup_def)
next
  case (index_move f)
  have "lookup aid (map f (ts_byID s)) = map_option f (lookup aid (ts_byID s))"
    using index_move(2) approval_step_identity(1) by (intro lookup_map) metis
  with index_move show ?thesis
    by (cases "lookup aid (ts_byID s)") (auto simp: find_approval_def dest: lookup_SomeD)
qed

interpretation trust_life: terminal_lifecycle trust_step find_approval "\<lambda>a. status_terminal (ta_Status a)"
  draws_id distinct_ids
proof unfold_locales
  show "distinct_ids s \<Longrightarrow> distinct_ids (trust_step x s)" for x s by (rule distinct_ids_step)
  show "find_approval (trust_step x s) aid = Some a \<or> find_approval (trust_step x s) aid = None"
    if "distinct_ids s" "find_approval s aid = Some a" "status_terminal (ta_Status a)" "\<not> draws_id x aid"
    for s aid a x
    using step_lookup[OF that(1), of "fst x" "snd x" aid] that(2-4) approval_step_source by auto
  show "find_approval (trust_step x s) aid = None"
    if "distinct_ids s" "find_approval s aid = None" "\<not> draws_id x aid" for s aid x
    using step_lookup[OF that(1), of "fst x" "snd x" aid] that(2,3) by auto
qed

section \<open>Stored records stay loadable\<close>

definition io_ok :: "step_io \<Rightarrow> bool" where
  "io_ok io \<longleftrightarrow> io_now io \<noteq> 0 \<and> (case io_rand io of Inr b \<Rightarrow> length b = 16 | Inl e \<Rightarrow> True)"

definition texts_valid :: "tool_approval \<Rightarrow> bool" where
  "texts_valid a \<longleftrightarrow> list_all ValidString [ta_ApprovalID a, ta_Tenant a, ta_ServerID a, ta_ToolName a,
     ta_RequestedBy a, ta_ApprovedBy a, ta_Reason a, ta_TicketRef a, ta_RevokedBy a, ta_RevocationReason a,
     ta_RejectedBy a, ta_RejectedReason a]"

fun op_texts_valid :: "trust_op \<Rightarrow> bool" where
  "op_texts_valid (OpApprove aid approver t) = ValidString approver"
| "op_texts_valid (OpReject aid actor reason) \<longleftrightarrow> ValidString actor \<and> ValidString reason"
| "op_texts_valid (OpRevoke aid actor tenant reason) \<longleftrightarrow> ValidString actor \<and> ValidString reason"
| "op_texts_valid _ = True"

lemma json_record_id: "texts_valid a \<Longrightarrow> json_record a = a"
  by (simp add: texts_valid_def json_record_def json_text_valid)

lemma hex_digit_ascii: "d < 16 \<Longrightarrow> byte_in 0 0x7F (hex_digit d)"
  by (auto simp: hex_digit_def byte_in_def)

lemma hex_encode_ascii: "list_all (byte_in 0 0x7F) (hex_encode bs)"
proof -
  have "of_char c div 16 < (16 :: nat)" for c :: char
    using nat_of_char_less_256[of c] by (simp add: less_mult_imp_div_less)
  then show ?thesis
    by (induction bs) (auto simp: hex_encode_def intro: hex_digit_ascii)
qed

lemma newApprovalID_token:
  assumes "newApprovalID rnd = Inr aid" and "case rnd of Inr b \<Rightarrow> length b = 16 | Inl e \<Rightarrow> True"
  shows "aid \<noteq> []" "length aid \<le> maxIDBytes" "ValidString aid"
proof -
  obtain b where b: "rnd = Inr b" "aid = hex_encode b"
    using assms(1) by (cases rnd) (auto simp: newApprovalID_def)
  with assms(2) have l: "length aid = 32" by simp
  then show "aid \<noteq> []" "length aid \<le> maxIDBytes" by (auto simp: maxIDBytes_def)
  from b(2) show "ValidString aid" by (simp add: ValidString_ascii hex_encode_ascii)
qed

lemma validateStored_None:
  "validateStored a = None \<longleftrightarrow>
     ta_SchemaVersion a = SchemaVersion \<and>
     boundedToken (ta_ApprovalID a) maxIDBytes ''approval_id'' = None \<and>
     boundedToken (ta_Tenant a) maxTenantBytes ''tenant'' = None \<and>
     boundedToken (ta_ServerID a) maxServerIDBytes ''server id'' = None \<and>
     boundedToken (ta_ToolName a) maxToolNameBytes ''tool name'' = None \<and>
     Issuable (ta_Purpose a) \<and> \<not> freeTextOverBound a \<and> validateStatusLifecycle a = None \<and>
     validateLiveInvariantsStored a = None"
  by (simp add: validateStored_def)

lemma pending_stored:
  assumes "RequestInput_validate i = None" "newApprovalID rnd = Inr aid"
    and "case rnd of Inr b \<Rightarrow> length b = 16 | Inl e \<Rightarrow> True"
  shows "validateStored (pending_record aid now i) = None" "texts_valid (pending_record aid now i)"
proof -
  note facts = validate_None[OF assms(1)] newApprovalID_token[OF assms(2,3)]
  show "validateStored (pending_record aid now i) = None"
    using facts
    by (auto simp: validateStored_None boundedToken_None freeTextOverBound_def pending_record_def
        validateStatusLifecycle_def validatePendingEvidence_def Time_IsZero_def hasTerminalEvidence_def
        validateLiveInvariantsStored_def)
  show "texts_valid (pending_record aid now i)"
    using facts by (simp add: texts_valid_def pending_record_def)
qed

lemma commit_replace_all:
  assumes "list_all Q (ts_byID s)" "\<And>a. Q a \<Longrightarrow> Q (f a)"
  shows "list_all Q (ts_byID (snd (commit io (replace aid f (ts_byID s)) s)))"
  using assms by (auto simp: replace_def list_all_iff)

lemma CreateRequest_snd:
  assumes "plan_request io i s = Inr (pruneID, aid)"
  shows "snd (CreateRequest io i s) = snd (commit io ((if pruneID \<noteq> [] then
      filter (\<lambda>b. ta_ApprovalID b \<noteq> pruneID) (ts_byID s) else ts_byID s) @ [pending_record aid (io_now io) i]) s)"
  using assms by (simp add: CreateRequest_def Let_def split: prod.splits option.splits)

lemma texts_step:
  assumes "list_all texts_valid (ts_byID s)" "op_texts_valid oper" "io_ok io"
  shows "list_all texts_valid (ts_byID (trust_step (io, oper) s))"
proof (cases oper)
  case (OpCreateRequest i)
  have "list_all texts_valid (ts_byID (snd (CreateRequest io i s)))"
  proof (cases "plan_request io i s")
    case (Inr p)
    obtain pruneID aid where p: "p = (pruneID, aid)" by (cases p)
    have "texts_valid (pending_record aid (io_now io) i)"
      using plan_request_Inr[OF Inr[unfolded p]] assms(3) by (intro pending_stored(2)) (auto simp: io_ok_def)
    with Inr p assms(1) show ?thesis by (simp add: CreateRequest_snd list_all_iff)
  qed (use assms(1) in \<open>simp add: CreateRequest_def\<close>)
  with OpCreateRequest show ?thesis by simp
next
  case (OpApprove aid approver t)
  have "texts_valid a \<Longrightarrow> texts_valid (approved approver (io_now io) a)" for a
    using assms(2) OpApprove by (simp add: texts_valid_def approved_def)
  note c = commit_replace_all[where f = "approved approver (io_now io)" and io = io and aid = aid, OF assms(1) this]
  have "snd (Approve io aid approver t s) = s \<or> snd (Approve io aid approver t s) =
      snd (commit io (replace aid (approved approver (io_now io)) (ts_byID s)) s)"
    by (auto simp: Approve_def split: option.splits prod.splits)
  with c assms(1) OpApprove show ?thesis by auto
next
  case (OpReject aid actor reason)
  have "texts_valid a \<Longrightarrow> texts_valid (rejected actor (io_now io) reason a)" for a
    using assms(2) OpReject by (simp add: texts_valid_def rejected_def)
  note c = commit_replace_all[where f = "rejected actor (io_now io) reason" and io = io and aid = aid, OF assms(1) this]
  have "snd (Reject io aid actor reason s) = s \<or> snd (Reject io aid actor reason s) =
      snd (commit io (replace aid (rejected actor (io_now io) reason) (ts_byID s)) s)"
    by (auto simp: Reject_def split: option.splits status.splits)
  with c assms(1) OpReject show ?thesis by auto
next
  case (OpRevoke aid actor tenant reason)
  have "texts_valid a \<Longrightarrow> texts_valid (revoked actor (io_now io) reason a)" for a
    using assms(2) OpRevoke by (simp add: texts_valid_def revoked_def)
  note c = commit_replace_all[where f = "revoked actor (io_now io) reason" and io = io and aid = aid, OF assms(1) this]
  have "snd (Revoke io aid actor tenant reason s) = s \<or> snd (Revoke io aid actor tenant reason s) =
      snd (commit io (replace aid (revoked actor (io_now io) reason) (ts_byID s)) s)"
    by (auto simp: Revoke_def split: option.splits prod.splits)
  with c assms(1) OpRevoke show ?thesis by auto
next
  case (OpExpireDue now)
  have "snd (ExpireDue io now s) = s \<or> snd (ExpireDue io now s) =
      snd (commit io (map (\<lambda>a. if expiry_due now a then expire a else a) (ts_byID s)) s)"
    by (auto simp: ExpireDue_def Let_def split: option.splits prod.splits)
  moreover have "texts_valid a \<Longrightarrow> texts_valid (expire a)" for a
    by (simp add: texts_valid_def expire_def)
  ultimately show ?thesis using assms(1) OpExpireDue by (auto simp: list_all_iff split: if_split_asm)
qed

lemma stored_move:
  assumes "validateStored a = None" "approval_step now a b" "now \<noteq> 0"
  shows "validateStored b = None"
  using assms(2)
proof cases
  case (approval_approve approver t)
  from approval_approve assms(1,3) approve_pending_live[OF approval_approve(6)] show ?thesis
    by (auto simp: validateStored_None freeTextOverBound_def approved_def validateStatusLifecycle_def
        validatePendingEvidence_def validateActiveEvidence_def hasTerminalEvidence_def Time_IsZero_def
        validateLiveInvariantsStored_def split: if_split_asm)
next
  case (approval_reject actor reason)
  with assms(1) show ?thesis
    by (auto simp: validateStored_None freeTextOverBound_def rejected_def validateStatusLifecycle_def
        validateLiveInvariantsStored_def split: if_split_asm)
next
  case (approval_revoke actor reason)
  with assms(1) show ?thesis
    by (auto simp: validateStored_None freeTextOverBound_def revoked_def validateStatusLifecycle_def
        validateLiveInvariantsStored_def split: if_split_asm)
next
  case (approval_expire due)
  with assms(1) show ?thesis
    by (auto simp: validateStored_None freeTextOverBound_def expire_def validateStatusLifecycle_def
        validateLiveInvariantsStored_def split: if_split_asm)
qed

lemma stored_step:
  assumes "distinct_ids s" "list_all (\<lambda>a. validateStored a = None) (ts_byID s)" "io_ok io"
  shows "list_all (\<lambda>a. validateStored a = None) (ts_byID (trust_step (io, oper) s))"
proof (rule records_step[OF assms(1,2)])
  show "validateStored (pending_record aid (io_now io) i) = None"
    if "plan_request io i s = Inr (pruneID, aid)" for i pruneID aid
    using plan_request_Inr[OF that] assms(3) by (intro pending_stored(1)) (auto simp: io_ok_def)
  show "validateStored b = None" if "validateStored a = None" "approval_step (io_now io) a b" for a b
    using stored_move[OF that] assms(3) by (simp add: io_ok_def)
qed

section \<open>Capacity\<close>

lemma oldest_prunable_mem:
  "oldest_prunable now xs old = Some a \<Longrightarrow> old = Some a \<or> a \<in> set xs \<and> prunableAsOf a now"
  by (induction xs arbitrary: old) (auto split: if_split_asm option.splits)

lemma oldest_prunable_Some: "oldest_prunable now xs (Some b) \<noteq> None"
  by (induction xs arbitrary: b) (simp_all split: if_split)

lemma oldest_prunable_None:
  "oldest_prunable now xs None = None \<longleftrightarrow> (\<forall>a \<in> set xs. \<not> prunableAsOf a now)"
  by (induction xs) (simp_all add: oldest_prunable_Some del: not_None_eq)

lemma oldest_prunable_oldest:
  "oldest_prunable now xs old = Some a \<Longrightarrow>
   (\<forall>b \<in> set xs. prunableAsOf b now \<longrightarrow> ta_RequestedAt a \<le> ta_RequestedAt b) \<and>
   (\<forall>b. old = Some b \<longrightarrow> ta_RequestedAt a \<le> ta_RequestedAt b)"
  by (induction xs arbitrary: old) (fastforce split: if_split_asm option.splits)+

lemma length_filter_id:
  assumes "distinct (map ta_ApprovalID xs)" "a \<in> set xs"
  shows "length (filter (\<lambda>b. ta_ApprovalID b \<noteq> ta_ApprovalID a) xs) = length xs - 1"
proof -
  from assms have "filter (\<lambda>b. ta_ApprovalID b = ta_ApprovalID a) xs = [a]"
    by (induction xs) (simp_all add: filter_empty_conv image_iff, metis)
  then show ?thesis
    using sum_length_filter_compl[of "\<lambda>b. ta_ApprovalID b = ta_ApprovalID a" xs] by simp
qed

lemma effectiveTerminal_mono: "effectiveTerminal a t \<Longrightarrow> t \<le> u \<Longrightarrow> effectiveTerminal a u"
  by (auto simp: effectiveTerminal_def pastExpiry_def split: if_split_asm option.splits)

lemma effectiveTerminal_move:
  "approval_step now a b \<Longrightarrow> effectiveTerminal a t \<Longrightarrow> effectiveTerminal b t"
  by (erule approval_stepE)
    (auto simp: effectiveTerminal_def status_terminal_def approved_def rejected_def revoked_def expire_def
      pastExpiry_def split: option.splits)

lemma nonTerminal_map_le:
  assumes "\<And>a. a \<in> set xs \<Longrightarrow> ta_Tenant (f a) = ta_Tenant a \<and> (effectiveTerminal a u \<longrightarrow> effectiveTerminal (f a) u)"
  shows "nonTerminal t u (map f xs) \<le> nonTerminal t u xs"
  using assms by (induction xs) (auto simp: nonTerminal_def le_Suc_eq)

lemma nonTerminal_filter_le: "nonTerminal t u (filter Q xs) \<le> nonTerminal t u xs"
  by (induction xs) (auto simp: nonTerminal_def)

lemma nonTerminal_append: "nonTerminal t u (xs @ ys) = nonTerminal t u xs + nonTerminal t u ys"
  by (simp add: nonTerminal_def)

lemma nonTerminal_later: "t \<le> u \<Longrightarrow> nonTerminal tn u xs \<le> nonTerminal tn t xs"
  by (induction xs) (auto simp: nonTerminal_def dest: effectiveTerminal_mono)

definition within_caps :: "gotime \<Rightarrow> trust_store \<Rightarrow> bool" where
  "within_caps now s \<longleftrightarrow> int (length (ts_byID s)) \<le> ts_maxRecords s \<and>
     (\<forall>t. int (nonTerminal t now (ts_byID s)) \<le> ts_maxPerTenant s)"

lemma within_caps_later: "within_caps t s \<Longrightarrow> t \<le> u \<Longrightarrow> within_caps u s"
  unfolding within_caps_def using nonTerminal_later[of t u] by (meson of_nat_mono order_trans)

lemma step_config:
  assumes "distinct_ids s"
  shows "ts_maxRecords (trust_step (io, oper) s) = ts_maxRecords s"
    "ts_maxPerTenant (trust_step (io, oper) s) = ts_maxPerTenant s"
  using step_commits[OF assms, of io oper] by auto

lemma capacity_Inr:
  assumes "capacityCheckLocked tenant now s = Inr pruneID"
  shows "int (nonTerminal tenant now (ts_byID s)) < ts_maxPerTenant s"
    "pruneID = [] \<and> int (length (ts_byID s)) < ts_maxRecords s \<or>
     (\<exists>a \<in> set (ts_byID s). prunableAsOf a now \<and> ta_ApprovalID a = pruneID)"
  using assms oldest_prunable_mem[of now "ts_byID s" None]
  by (auto simp: capacityCheckLocked_def split: if_split_asm option.splits)

lemma caps_step:
  assumes "distinct_ids s" "\<And>a. a \<in> set (ts_byID s) \<Longrightarrow> ta_ApprovalID a \<noteq> []"
    and "within_caps now s" "now \<le> io_now io"
  shows "within_caps (io_now io) (trust_step (io, oper) s)"
proof -
  have w: "within_caps (io_now io) s" by (rule within_caps_later[OF assms(3,4)])
  from step_index[OF assms(1), of io oper] show ?thesis
  proof cases
    case index_keep
    with w show ?thesis using step_config[OF assms(1), of io oper] by (simp add: within_caps_def)
  next
    case (index_create i pruneID aid)
    let ?kept = "if pruneID \<noteq> [] then filter (\<lambda>b. ta_ApprovalID b \<noteq> pruneID) (ts_byID s) else ts_byID s"
    note cap = capacity_Inr[OF plan_request_Inr(3)[OF index_create(2)]]
    have "int (length ?kept) < ts_maxRecords s"
      using cap(2)
    proof (elim disjE bexE conjE)
      fix a assume a: "a \<in> set (ts_byID s)" "ta_ApprovalID a = pruneID"
      then have "length ?kept = length (ts_byID s) - 1" "0 < length (ts_byID s)"
        using length_filter_id[of "ts_byID s" a] assms(1,2) by (auto simp: distinct_ids_def)
      moreover have "int (length (ts_byID s)) \<le> ts_maxRecords s" using w by (simp add: within_caps_def)
      ultimately show ?thesis by linarith
    qed simp
    moreover have "int (nonTerminal t (io_now io) (?kept @ [pending_record aid (io_now io) i])) \<le> ts_maxPerTenant s" for t
    proof -
      have "nonTerminal t (io_now io) ?kept \<le> nonTerminal t (io_now io) (ts_byID s)"
        by (simp add: nonTerminal_filter_le)
      moreover have "nonTerminal t (io_now io) [pending_record aid (io_now io) i] \<le> (if t = ri_Tenant i then 1 else 0)"
        by (simp add: nonTerminal_def)
      moreover have "int (nonTerminal t (io_now io) (ts_byID s)) \<le> ts_maxPerTenant s"
        using w by (simp add: within_caps_def)
      ultimately show ?thesis
        using cap(1) unfolding nonTerminal_append by (cases "t = ri_Tenant i") auto
    qed
    ultimately show ?thesis
      using index_create(1) step_config[OF assms(1), of io oper] by (simp add: within_caps_def)
  next
    case (index_move f)
    have "nonTerminal t (io_now io) (map f (ts_byID s)) \<le> nonTerminal t (io_now io) (ts_byID s)" for t
      using index_move(2) approval_step_identity(2) effectiveTerminal_move
      by (intro nonTerminal_map_le) metis
    then show ?thesis
      using index_move(1) w step_config[OF assms(1), of io oper]
      unfolding within_caps_def by (metis length_map of_nat_mono order_trans)
  qed
qed

section \<open>Memory and disk\<close>

definition raw_ok :: "int \<Rightarrow> string \<Rightarrow> bool" where
  "raw_ok limit raw \<longleftrightarrow> int (length raw) \<le> limit \<and> ValidString raw \<and> \<not> hasUnpairedSurrogateEscape raw"

text \<open>The file holds what memory holds, in bytes the next start will read.\<close>

definition agrees :: "trust_store \<Rightarrow> bool" where
  "agrees s \<longleftrightarrow> (case ts_file s of
     None \<Rightarrow> ts_byID s = []
   | Some (FileBytes raw d) \<Rightarrow> d = Decoded (persisted (ts_byID s)) \<and> raw_ok (readLimit s) raw
   | Some _ \<Rightarrow> False)"

text \<open>A write that reports an error has not touched its target.\<close>

definition clean_faults :: "fs_faults \<Rightarrow> bool" where
  "clean_faults fs \<longleftrightarrow> (replaced fs \<longrightarrow> fst (AtomicWrite () fs None) = None)"

lemma AtomicWrite_fst: "fst (AtomicWrite data fs file) = fst (AtomicWrite () fs None)"
  by (simp add: AtomicWrite_def split: option.splits)

lemma commit_clean:
  assumes "clean_faults (io_faults io)" "commit io xs s = (Some e, s')"
  shows "s' = s"
proof -
  have "\<not> replaced (io_faults io) \<or> \<not> list_all marshals xs"
    using assms AtomicWrite_fst[of "FileBytes (io_raw io) (Decoded (persisted xs))" "io_faults io" "ts_file s"]
    by (auto simp: clean_faults_def commit_def persistLocked_def split: prod.splits option.splits if_split_asm)
  then have "ts_file s' = ts_file s"
    using assms(2) commit_fail[OF assms(2)]
    by (auto simp: commit_def persistLocked_def split: prod.splits option.splits if_split_asm)
  with commit_fail[OF assms(2)] show ?thesis by simp
qed

lemma agrees_step:
  assumes "distinct_ids s" "agrees s" "clean_faults (io_faults io)" "raw_ok (readLimit s) (io_raw io)"
  shows "agrees (trust_step (io, oper) s)"
proof -
  have "agrees (snd (commit io xs s))" for xs
  proof (cases "commit io xs s")
    case (Pair r s')
    show ?thesis
    proof (cases r)
      case None
      with Pair commit_ok[of io xs s s'] assms(4) show ?thesis
        by (auto simp: agrees_def readLimit_def)
    next
      case (Some e)
      with Pair commit_clean[OF assms(3), of xs s e s'] assms(2) show ?thesis by simp
    qed
  qed
  with step_commits[OF assms(1), of io oper] assms(2) show ?thesis by auto
qed

definition durable :: "gotime \<Rightarrow> trust_store \<Rightarrow> bool" where
  "durable now s \<longleftrightarrow> distinct_ids s \<and> view_ok s \<and> agrees s \<and> within_caps now s \<and>
     list_all (\<lambda>a. validateStored a = None) (ts_byID s) \<and> list_all texts_valid (ts_byID s)"

fun step_allowed :: "int \<Rightarrow> step_io \<times> trust_op \<Rightarrow> bool" where
  "step_allowed limit (io, oper) \<longleftrightarrow> io_ok io \<and> op_texts_valid oper \<and> clean_faults (io_faults io) \<and>
     raw_ok limit (io_raw io)"

lemma stored_id: "validateStored a = None \<Longrightarrow> ta_ApprovalID a \<noteq> []"
  by (simp add: validateStored_None boundedToken_None)

lemma durable_step:
  assumes "durable now s" "step_allowed (readLimit s) (io, oper)" "now \<le> io_now io"
  shows "durable (io_now io) (trust_step (io, oper) s)"
proof -
  from assms have d: "distinct_ids s" and st: "list_all (\<lambda>a. validateStored a = None) (ts_byID s)"
    and rest: "view_ok s" "agrees s" "within_caps now s" "list_all texts_valid (ts_byID s)" "io_ok io"
      "op_texts_valid oper" "clean_faults (io_faults io)" "raw_ok (readLimit s) (io_raw io)"
    by (simp_all add: durable_def)
  from st have "a \<in> set (ts_byID s) \<Longrightarrow> ta_ApprovalID a \<noteq> []" for a by (simp add: list_all_iff stored_id)
  with d st rest assms(3) show ?thesis
    unfolding durable_def
    by (simp add: distinct_ids_step view_ok_step agrees_step stored_step texts_step caps_step[of s now])
qed

lemma readLimit_step: "distinct_ids s \<Longrightarrow> readLimit (trust_step (io, oper) s) = readLimit s"
  by (simp add: readLimit_def step_config)

lemma durable_run:
  assumes "durable now s" "list_all (step_allowed (readLimit s)) xs" "sorted (now # map (\<lambda>x. io_now (fst x)) xs)"
  shows "durable (last (now # map (\<lambda>x. io_now (fst x)) xs)) (run_ops trust_step xs s)"
  using assms
proof (induction xs arbitrary: now s)
  case (Cons x xs)
  obtain io oper where x: "x = (io, oper)" by (cases x)
  from Cons.prems have "durable (io_now io) (trust_step (io, oper) s)"
    by (intro durable_step) (auto simp: x)
  moreover have "readLimit (trust_step (io, oper) s) = readLimit s"
    using Cons.prems(1) by (simp add: readLimit_step durable_def)
  ultimately show ?case
    using Cons.IH[of "io_now io" "trust_step (io, oper) s"] Cons.prems by (simp add: x)
qed simp

section \<open>Restart\<close>

definition restarted :: "trust_store \<Rightarrow> trust_store" where
  "restarted s = s\<lparr>ts_byID := [], ts_liveView := None\<rparr>"

lemma buildLoadedIndex_ok:
  assumes "list_all (\<lambda>a. validateStored a = None) xs" "distinct (map ta_ApprovalID (acc @ xs))"
    and "\<And>t. counts t + int (nonTerminal t now xs) \<le> m"
  shows "buildLoadedIndex now m (map Some xs) counts acc = Inr (acc @ xs)"
  using assms
proof (induction xs arbitrary: counts acc)
  case (Cons a xs)
  have l: "lookup (ta_ApprovalID a) acc = None"
    using Cons.prems(2) by (auto simp: lookup_None)
  have d: "distinct (map ta_ApprovalID ((acc @ [a]) @ xs))" using Cons.prems(2) by simp
  show ?case
  proof (cases "effectiveTerminal a now")
    case True
    then have "counts t + int (nonTerminal t now xs) \<le> m" for t
      using Cons.prems(3)[of t] by (simp add: nonTerminal_def)
    with Cons.IH[OF _ d, of counts] Cons.prems(1) l True show ?thesis by simp
  next
    case False
    let ?c = "counts(ta_Tenant a := counts (ta_Tenant a) + 1)"
    have c: "?c t + int (nonTerminal t now xs) \<le> m" for t
      using Cons.prems(3)[of t] False by (cases "ta_Tenant a = t") (simp_all add: nonTerminal_def)
    have "?c (ta_Tenant a) \<le> m" using c[of "ta_Tenant a"] by linarith
    moreover have "buildLoadedIndex now m (map Some xs) ?c (acc @ [a]) = Inr ((acc @ [a]) @ xs)"
      using Cons.prems(1) by (intro Cons.IH d c) simp
    ultimately show ?thesis using Cons.prems(1) l False by (simp add: Let_def)
  qed
qed simp

lemma nonTerminal_sortApprovals [simp]: "nonTerminal t now (sortApprovals xs) = nonTerminal t now xs"
  by (simp add: nonTerminal_def sortApprovals_def filter_sort)

lemma sortApprovals_idem [simp]: "sortApprovals (sortApprovals xs) = sortApprovals xs"
  by (simp add: sortApprovals_def sort_key_id_if_sorted)

lemma distinct_sortApprovals: "distinct_ids s \<Longrightarrow> distinct (map ta_ApprovalID (sortApprovals (ts_byID s)))"
  by (simp add: distinct_ids_def sortApprovals_def distinct_map_perm[of "sort_key _ (ts_byID s)" "ts_byID s"])

lemma reload:
  assumes "durable now s" "now \<le> u"
  shows "Load u (restarted s) = (None, if ts_file s = None then restarted s else
    s\<lparr>ts_byID := sortApprovals (ts_byID s), ts_liveView := Some (sortApprovals (ts_byID s))\<rparr>)"
proof (cases "ts_file s")
  case None
  then show ?thesis by (simp add: Load_def load_file_def restarted_def)
next
  case (Some f)
  with assms obtain raw where f: "f = FileBytes raw (Decoded (persisted (ts_byID s)))" "raw_ok (readLimit s) raw"
    by (auto simp: durable_def agrees_def split: store_file.splits)
  have d: "ps_Approvals (persisted (ts_byID s)) = map Some (sortApprovals (ts_byID s))"
    using assms(1) by (auto simp: durable_def persisted_def list_all_iff json_record_id)
  have "within_caps u s" using assms within_caps_later by (auto simp: durable_def)
  then have "buildLoadedIndex u (ts_maxPerTenant s) (map Some (sortApprovals (ts_byID s))) (\<lambda>_. 0) [] =
      Inr ([] @ sortApprovals (ts_byID s))"
    using assms(1) distinct_sortApprovals[of s]
    by (intro buildLoadedIndex_ok) (auto simp: durable_def within_caps_def list_all_iff)
  with \<open>within_caps u s\<close> d have "load_document u (restarted s) (persisted (ts_byID s)) =
      Inr (sortApprovals (ts_byID s))"
    by (simp add: load_document_def restarted_def within_caps_def) (simp add: persisted_def)
  with f Some show ?thesis
    by (simp add: Load_def load_file_def raw_ok_def restarted_def readLimit_def publishLiveView_def)
qed

end
