(* ===== verification/ToolTrustClaims.thy ===== *)
theory ToolTrustClaims
  imports ToolTrustStore CanaryGate
begin

text \<open>
  The properties of the tool-trust store along runs of its operations: what its live snapshot serves,
  that decided records stay decided, and what a restart brings back.
\<close>

section \<open>Approval instants\<close>

text \<open>An active record was approved, at an instant of the past.\<close>

definition approved_by :: "gotime \<Rightarrow> tool_approval \<Rightarrow> bool" where
  "approved_by now a \<longleftrightarrow> (ta_Status a = StatusActive \<longrightarrow> ta_ApprovedAt a \<noteq> 0 \<and> ta_ApprovedAt a \<le> now)"

lemma approved_by_later: "approved_by t a \<Longrightarrow> t \<le> u \<Longrightarrow> approved_by u a"
  by (auto simp: approved_by_def)

lemma approved_by_move: "approved_by now a \<Longrightarrow> now \<noteq> 0 \<Longrightarrow> approval_step now a b \<Longrightarrow> approved_by now b"
  by (erule approval_stepE) (auto simp: approved_by_def approved_def rejected_def revoked_def expire_def)

lemma approved_by_step:
  assumes "distinct_ids s" "list_all (approved_by t) (ts_byID s)" "t \<le> io_now io" "io_now io \<noteq> 0"
  shows "list_all (approved_by (io_now io)) (ts_byID (trust_step (io, oper) s))"
proof (rule records_step[OF assms(1)])
  show "list_all (approved_by (io_now io)) (ts_byID s)"
    using assms(2,3) by (auto simp: list_all_iff intro: approved_by_later)
  show "approved_by (io_now io) b" if "approved_by (io_now io) a" "approval_step (io_now io) a b" for a b
    by (rule approved_by_move[OF that(1) assms(4) that(2)])
qed (simp add: approved_by_def)

lemma approved_by_run:
  assumes "distinct_ids s" "list_all (approved_by t) (ts_byID s)" "list_all (\<lambda>x. io_now (fst x) \<noteq> 0) xs"
    "sorted (t # map (\<lambda>x. io_now (fst x)) xs @ [now])"
  shows "list_all (approved_by now) (ts_byID (run_ops trust_step xs s))"
  using assms
proof (induction xs arbitrary: s t)
  case Nil
  then show ?case by (auto simp: list_all_iff intro: approved_by_later)
next
  case (Cons x xs)
  obtain io oper where x: "x = (io, oper)" by (cases x)
  from Cons.prems have "list_all (approved_by (io_now io)) (ts_byID (trust_step x s))"
    unfolding x by (intro approved_by_step) auto
  with Cons.IH[of "trust_step x s" "io_now io"] Cons.prems show ?case
    by (simp add: x distinct_ids_step)
qed

lemma new_store:
  assumes "NewStore path mr mt None None = Inr s"
  shows "distinct_ids s" "view_ok s" "ts_byID s = []" "agrees s" "ts_file s = None" "durable now s"
  using assms
  by (auto simp: NewStore_def distinct_ids_def view_ok_def agrees_def durable_def within_caps_def nonTerminal_def
      defaultMaxRecords_def defaultMaxPerTenant_def split: if_split_asm)

section \<open>Live approvals\<close>

definition target_of :: "tool_approval \<Rightarrow> live_target" where
  "target_of a = \<lparr>lt_Tenant = ta_Tenant a, lt_ServerID = ta_ServerID a, lt_ToolName = ta_ToolName a,
     lt_Fingerprint = ta_Fingerprint a, lt_FingerprintFormat = ta_FingerprintFormatVersion a\<rparr>"

lemma governed_satisfies:
  assumes "governed a" "approved_by now a" "activeLiveAsOf a now"
  shows "SatisfiesLiveExecution (Some a) (target_of a) now = []"
  using assms
  by (auto simp: Satisfies_OK governed_def approved_by_def activeLiveAsOf_def PermitsLiveExecution_def target_of_def
      MatchesTool_def split: if_split_asm option.splits)

text \<open>
  C37. What the approval store serves, the Canary gate can rely on: after any operations of a new
  store, with any disk faults and clocks that do not run backwards, every approval in the live
  snapshot satisfies the gate's live-execution check for its own tool. It was stated for a reviewed
  class, requested and approved by different actors, and lasts no longer than the ceiling.
\<close>

theorem live_approvals_governed:
  assumes "NewStore path mr mt None None = Inr s0" "list_all (\<lambda>x. io_now (fst x) \<noteq> 0) xs"
    "sorted (map (\<lambda>x. io_now (fst x)) xs @ [now])"
    "a \<in> set (ActiveLiveApprovals now (run_ops trust_step xs s0))"
  shows "SatisfiesLiveExecution (Some a) (target_of a) now = [] \<and> Stated (ta_ReviewedOperationClass a)"
proof -
  note n = new_store[OF assms(1)]
  let ?s = "run_ops trust_step xs s0"
  obtain t where t: "sorted (t # map (\<lambda>x. io_now (fst x)) xs @ [now])"
    using assms(3) by (cases "map (\<lambda>x. io_now (fst x)) xs @ [now]") (auto intro: order_trans)
  have "list_all governed (ts_byID ?s)" "list_all (approved_by now) (ts_byID ?s)" "view_ok ?s"
    using governed_run[of s0 xs] approved_by_run[OF n(1) _ assms(2) t] view_ok_run[OF n(1,2)] n by auto
  with assms(4) have a: "governed a" "approved_by now a" "activeLiveAsOf a now"
    by (auto simp: live_approvals_set list_all_iff)
  then have "Stated (ta_ReviewedOperationClass a)"
    by (auto simp: governed_def activeLiveAsOf_def PermitsLiveExecution_def split: if_split_asm)
  with governed_satisfies[OF a] show ?thesis by simp
qed


section \<open>Example\<close>

definition trust_io :: "gotime \<Rightarrow> fs_faults \<Rightarrow> step_io" where
  "trust_io now fs = \<lparr>io_now = now, io_rand = Inr (replicate 16 (CHR 0x02)), io_raw = ''{}'', io_faults = fs\<rparr>"

definition trust_request :: request_input where
  "trust_request = \<lparr>ri_Tenant = ''acme'', ri_ServerID = ''srv'', ri_ToolName = ''read'',
     ri_Fingerprint = replicate 32 (CHR 0x01), ri_FingerprintFormatVersion = 1, ri_Purpose = PurposeLiveExecution,
     ri_ReviewedOperationClass = ReviewedOpReadOnly, ri_CatalogRevision = 0, ri_ServerRevision = 0,
     ri_RequestedBy = ''bob'', ri_Reason = [], ri_TicketRef = [], ri_ExpiresAt = Some 100\<rparr>"

definition trust_target :: current_target where
  "trust_target = \<lparr>ct_ServerExists = True, ct_ServerUsable = True, ct_Tenant = ''acme'', ct_ToolExists = True,
     ct_Approvable = True, ct_Fingerprint = replicate 32 (CHR 0x01), ct_FingerprintFormatVersion = 1,
     ct_CatalogRevision = 0, ct_ServerRevision = 0\<rparr>"

definition trust_empty :: trust_store where
  "trust_empty = \<lparr>ts_byID = [], ts_maxRecords = 4096, ts_maxPerTenant = 256, ts_liveView = None, ts_file = None\<rparr>"

definition trust_id :: string where "trust_id = hex_encode (replicate 16 (CHR 0x02))"

definition trust_requested :: "(step_io \<times> trust_op) list" where
  "trust_requested = [(trust_io 1 no_faults, OpCreateRequest trust_request)]"

definition trust_approved :: "(step_io \<times> trust_op) list" where
  "trust_approved = trust_requested @ [(trust_io 2 no_faults, OpApprove trust_id ''carol'' trust_target)]"

definition trust_revoked :: "(step_io \<times> trust_op) list" where
  "trust_revoked = trust_approved @ [(trust_io 3 no_faults, OpRevoke trust_id ''dave'' ''acme'' ''obsolete'')]"

definition trust_active :: tool_approval where
  "trust_active = approved ''carol'' 2 (pending_record trust_id 1 trust_request)"

lemma trust_new: "NewStore ''approvals.json'' 0 0 None None = Inr trust_empty"
  by (simp add: NewStore_def trust_empty_def defaultMaxRecords_def defaultMaxPerTenant_def)

lemma trust_served: "ActiveLiveApprovals 5 (run_ops trust_step trust_approved trust_empty) = [trust_active]"
  by code_simp

theorem live_approvals_governed_witness:
  "SatisfiesLiveExecution (Some trust_active) (target_of trust_active) 5 = []"
proof -
  have "trust_active \<in> set (ActiveLiveApprovals 5 (run_ops trust_step trust_approved trust_empty))"
    by (simp add: trust_served)
  from live_approvals_governed[OF trust_new _ _ this] show ?thesis
    by (simp add: trust_approved_def trust_requested_def trust_io_def)
qed

section \<open>Terminal approvals\<close>

text \<open>
  C38. A rejected, revoked or expired approval is final: whatever operations follow in the store, with
  any disk faults, the record is unchanged or pruned, and the live snapshot never serves an approval
  under its identifier, as long as the identifier is not drawn again.
\<close>

theorem terminal_approval_final:
  assumes "NewStore path mr mt None None = Inr s0" "s = run_ops trust_step xs s0"
    "lookup aid (ts_byID s) = Some a" "status_terminal (ta_Status a)"
    "list_all (\<lambda>x. newApprovalID (io_rand (fst x)) \<noteq> Inr aid) ys"
  shows "lookup aid (ts_byID (run_ops trust_step ys s)) \<in> {Some a, None} \<and>
    aid \<notin> ta_ApprovalID ` set (ActiveLiveApprovals now (run_ops trust_step ys s))"
proof -
  let ?s = "run_ops trust_step ys s"
  note n = new_store[OF assms(1)]
  have d: "distinct_ids s" "view_ok s"
    using governed_run[OF n(1), of xs] view_ok_run[OF n(1,2), of xs] n(3) by (simp_all add: assms(2))
  then have t: "find_approval ?s aid = Some a \<or> find_approval ?s aid = None"
    using assms(3-5) by (intro trust_life.terminal_run) (simp_all add: find_approval_def draws_id_def)
  have v: "distinct_ids ?s" "view_ok ?s"
    using d trust_life.wf_run[OF d(1), of ys] view_ok_run[OF d, of ys] by simp_all
  have "ta_ApprovalID b \<noteq> aid" if b: "b \<in> set (ts_byID ?s)" "activeLiveAsOf b now" for b
  proof
    assume "ta_ApprovalID b = aid"
    with b(1) v(1) have "find_approval ?s aid = Some b"
      by (simp add: find_approval_def lookup_distinct distinct_ids_def)
    with t assms(4) b(2) show False
      by (auto simp: activeLiveAsOf_def status_terminal_def split: if_split_asm)
  qed
  with t v(2) show ?thesis by (auto simp: find_approval_def live_approvals_set)
qed

definition trust_later :: "(step_io \<times> trust_op) list" where
  "trust_later = [((trust_io 4 no_faults)\<lparr>io_rand := Inr (replicate 16 (CHR 0x03))\<rparr>,
     OpApprove trust_id ''carol'' trust_target)]"

definition trust_gone :: tool_approval where
  "trust_gone = revoked ''dave'' 3 ''obsolete'' trust_active"

theorem terminal_approval_final_witness:
  "trust_id \<notin> ta_ApprovalID ` set (ActiveLiveApprovals 5 (run_ops trust_step trust_later
     (run_ops trust_step trust_revoked trust_empty)))"
proof -
  have l: "lookup trust_id (ts_byID (run_ops trust_step trust_revoked trust_empty)) = Some trust_gone" by code_simp
  have t: "status_terminal (ta_Status trust_gone)" by code_simp
  have "list_all (\<lambda>x. newApprovalID (io_rand (fst x)) \<noteq> Inr trust_id) trust_later" by code_simp
  from terminal_approval_final[OF trust_new refl l t this] show ?thesis by blast
qed

section \<open>Restart\<close>













end
