(* ===== verification/Approval.thy ===== *)
theory Approval
  imports PolicyInput
begin

text \<open>
  The four-eyes approval queue of \<open>internal/mcp/approval\<close>: \<open>approval.go\<close> (requests and their
  lifecycle) and \<open>store.go\<close> (the store, decisions and receipts). The store is the list of its
  requests, at most one per identifier; the order in which Go ranges over the map is an argument where
  it matters. Every method holds the mutex and is one step.

  The clock is sampled several times in a call. \<open>ao_check\<close> and \<open>ao_stamp\<close> are the samples taken
  when the request of an identifier is looked at for expiry, \<open>ao_now\<close> the sample of the decision or of
  the creation. The committer is an interface; its answer is a function of what it is asked to record.
\<close>

section \<open>Requests\<close>

datatype approval_kind = KindUnset | KindOperational | KindPublication | KindRaw nat

fun Kind_String :: "approval_kind \<Rightarrow> string" where
  "Kind_String KindOperational = ''operational''"
| "Kind_String KindPublication = ''publication''"
| "Kind_String _ = ''unset''"

datatype approval_state =
  StateUnknown | StatePending | StateApproved | StateRejected | StateExpired | StateRaw nat

fun State_String :: "approval_state \<Rightarrow> string" where
  "State_String StatePending = ''pending''"
| "State_String StateApproved = ''approved''"
| "State_String StateRejected = ''rejected''"
| "State_String StateExpired = ''expired''"
| "State_String _ = ''unknown''"

definition State_terminal :: "approval_state \<Rightarrow> bool" where
  "State_terminal s \<longleftrightarrow> s = StateApproved \<or> s = StateRejected \<or> s = StateExpired"

record revisions =
  rv_Policy :: nat
  rv_Catalog :: nat
  rv_Registry :: nat
  rv_Inspection :: nat

record approval_binding =
  ab_Tenant :: string
  ab_Capability :: string
  ab_DecisionEventID :: string
  ab_DecisionDigest :: string
  ab_ServerID :: string
  ab_ToolFingerprint :: string
  ab_Resource :: string
  ab_Action :: string
  ab_OperationClass :: string
  ab_RiskClass :: string
  ab_CredentialProfile :: string
  ab_PowerCeiling :: string
  ab_CandidateHash :: string
  ab_BaseRevision :: nat
  ab_ProposedRevision :: nat
  ab_SimulationDigest :: string
  ab_Revisions :: revisions

record receipt =
  rc_valid :: bool
  rc_id :: string
  rc_kind :: approval_kind
  rc_tenant :: string
  rc_capability :: string
  rc_approver :: string
  rc_decisionDigest :: string
  rc_candidateHash :: string
  rc_proposedRevision :: nat
  rc_evidenceDigest :: string
  rc_grantedAt :: gotime

record approval_request =
  rq_id :: string
  rq_kind :: approval_kind
  rq_requester :: string
  rq_binding :: approval_binding
  rq_created :: gotime
  rq_expiry :: gotime
  rq_state :: approval_state
  rq_approver :: string
  rq_decidedAt :: gotime
  rq_reason :: string
  rq_grantedReceipt :: "receipt option"

definition expiredAt :: "approval_request \<Rightarrow> gotime \<Rightarrow> bool" where
  "expiredAt r now \<longleftrightarrow> \<not> now < rq_expiry r"

definition zero_receipt :: receipt where
  "zero_receipt = \<lparr>rc_valid = False, rc_id = [], rc_kind = KindUnset, rc_tenant = [], rc_capability = [],
     rc_approver = [], rc_decisionDigest = [], rc_candidateHash = [], rc_proposedRevision = 0,
     rc_evidenceDigest = [], rc_grantedAt = 0\<rparr>"

definition Request_receipt :: "approval_request \<Rightarrow> receipt" where
  "Request_receipt r = (case rq_grantedReceipt r of None \<Rightarrow> zero_receipt | Some rc \<Rightarrow> rc)"

definition Matches :: "receipt \<Rightarrow> string \<Rightarrow> string \<Rightarrow> string \<Rightarrow> nat \<Rightarrow> bool" where
  "Matches r tenant capability candidateHash proposedRevision \<longleftrightarrow> rc_valid r \<and> rc_tenant r = tenant \<and>
     rc_capability r = capability \<and> rc_candidateHash r = candidateHash \<and> rc_proposedRevision r = proposedRevision"

definition bindingCurrent :: "approval_request \<Rightarrow> revisions \<Rightarrow> bool" where
  "bindingCurrent r live =
     (let b = ab_Revisions (rq_binding r) in
      if rv_Policy b \<noteq> rv_Policy live \<or> rv_Catalog b \<noteq> rv_Catalog live \<or>
         rv_Registry b \<noteq> rv_Registry live \<or> rv_Inspection b \<noteq> rv_Inspection live then False
      else if rq_kind r = KindPublication \<and> ab_BaseRevision (rq_binding r) \<noteq> rv_Policy live then False
      else True)"

section \<open>The store\<close>

record approval_store =
  as_byID :: "approval_request list"
  as_perTenant :: "string \<Rightarrow> int"
  as_maxPending :: int
  as_maxPerTenant :: int
  as_ttl :: int

record approval_io =
  ao_check :: "string \<Rightarrow> gotime"
  ao_stamp :: "string \<Rightarrow> gotime"
  ao_now :: gotime
  ao_commit :: "approval_request \<Rightarrow> approval_state \<Rightarrow> string \<Rightarrow> string res"

definition NewStore :: "int \<Rightarrow> int \<Rightarrow> int \<Rightarrow> approval_store" where
  "NewStore maxPending maxPerTenant ttl = \<lparr>as_byID = [], as_perTenant = (\<lambda>_. 0),
     as_maxPending = maxPending, as_maxPerTenant = maxPerTenant, as_ttl = ttl\<rparr>"

definition request_of :: "string \<Rightarrow> approval_store \<Rightarrow> approval_request option" where
  "request_of aid s = find (\<lambda>r. rq_id r = aid) (as_byID s)"

text \<open>A write through the pointer the map holds.\<close>

definition put :: "approval_request \<Rightarrow> approval_store \<Rightarrow> approval_store" where
  "put r s = s\<lparr>as_byID := map (\<lambda>q. if rq_id q = rq_id r then r else q) (as_byID s)\<rparr>"

definition decPendingLocked :: "string \<Rightarrow> approval_store \<Rightarrow> approval_store" where
  "decPendingLocked tenant s =
     (if as_perTenant s tenant > 0
      then s\<lparr>as_perTenant := (as_perTenant s)(tenant := as_perTenant s tenant - 1)\<rparr> else s)"

definition lazyExpireLocked :: "approval_io \<Rightarrow> string \<Rightarrow> approval_store \<Rightarrow> approval_store" where
  "lazyExpireLocked io aid s = (case request_of aid s of
     None \<Rightarrow> s
   | Some r \<Rightarrow>
       if rq_state r = StatePending \<and> expiredAt r (ao_check io aid)
       then decPendingLocked (ab_Tenant (rq_binding r))
              (put (r\<lparr>rq_state := StateExpired, rq_decidedAt := ao_stamp io aid\<rparr>) s)
       else s)"

definition sweepLocked :: "approval_io \<Rightarrow> approval_store \<Rightarrow> approval_store" where
  "sweepLocked io s = fold (lazyExpireLocked io) (map rq_id (as_byID s)) s"

definition pendingCountLocked :: "approval_store \<Rightarrow> int" where
  "pendingCountLocked s = int (length (filter (\<lambda>r. rq_state r = StatePending) (as_byID s)))"

definition Create :: "approval_io \<Rightarrow> string \<Rightarrow> approval_kind \<Rightarrow> string \<Rightarrow> approval_binding \<Rightarrow> approval_store \<Rightarrow>
    approval_request res \<times> approval_store" where
  "Create io aid kind requester b s =
     (if aid = [] \<or> kind = KindUnset \<or> requester = [] \<or> ab_Tenant b = [] \<or> ab_Capability b = [] then
        (Inl (New ReasonAdminRequestInvalid ''approval.create'' ''missing required binding field''), s)
      else if request_of aid s \<noteq> None then
        (Inl (New ReasonAdminRequestInvalid ''approval.create'' ''duplicate approval id''), s)
      else
        let s1 = sweepLocked io s in
        if pendingCountLocked s1 \<ge> as_maxPending s1 then
          (Inl (New ReasonAdminRangeExceeded ''approval.create'' ''pending approval capacity reached''), s1)
        else if as_perTenant s1 (ab_Tenant b) \<ge> as_maxPerTenant s1 then
          (Inl (New ReasonAdminRangeExceeded ''approval.create'' ''tenant pending approval capacity reached''), s1)
        else
          let r = \<lparr>rq_id = aid, rq_kind = kind, rq_requester = requester, rq_binding = b,
                rq_created = ao_now io, rq_expiry = ao_now io + as_ttl s1, rq_state = StatePending,
                rq_approver = [], rq_decidedAt = 0, rq_reason = [], rq_grantedReceipt = None\<rparr>
          in (Inr r, s1\<lparr>as_byID := as_byID s1 @ [r],
                as_perTenant := (as_perTenant s1)(ab_Tenant b := as_perTenant s1 (ab_Tenant b) + 1)\<rparr>))"

definition Get :: "approval_io \<Rightarrow> string \<Rightarrow> string \<Rightarrow> approval_store \<Rightarrow> approval_request res \<times> approval_store" where
  "Get io aid tenant s = (case request_of aid s of
     None \<Rightarrow> (Inl (New ReasonApprovalNotFound ''approval.get'' ''not found''), s)
   | Some r \<Rightarrow>
       if ab_Tenant (rq_binding r) \<noteq> tenant then
         (Inl (New ReasonApprovalNotFound ''approval.get'' ''not found''), s)
       else let s1 = lazyExpireLocked io aid s in (Inr (the (request_of aid s1)), s1))"

text \<open>The loop of \<open>List\<close> over the identifiers in the order of the range statement.\<close>

fun list_loop :: "approval_io \<Rightarrow> string \<Rightarrow> approval_state \<Rightarrow> int \<Rightarrow> string list \<Rightarrow> approval_request list \<Rightarrow>
    approval_store \<Rightarrow> approval_request list \<times> approval_store" where
  "list_loop io tenant stateFilter limit [] out s = (out, s)"
| "list_loop io tenant stateFilter limit (aid # aids) out s = (case request_of aid s of
     None \<Rightarrow> list_loop io tenant stateFilter limit aids out s
   | Some r \<Rightarrow>
       if ab_Tenant (rq_binding r) \<noteq> tenant then list_loop io tenant stateFilter limit aids out s
       else let s1 = lazyExpireLocked io aid s; r1 = the (request_of aid s1) in
         if stateFilter \<noteq> StateUnknown \<and> rq_state r1 \<noteq> stateFilter
         then list_loop io tenant stateFilter limit aids out s1
         else if int (length (out @ [r1])) \<ge> limit then (out @ [r1], s1)
         else list_loop io tenant stateFilter limit aids (out @ [r1]) s1)"

definition List_requests :: "approval_io \<Rightarrow> string list \<Rightarrow> string \<Rightarrow> approval_state \<Rightarrow> int \<Rightarrow> approval_store \<Rightarrow>
    approval_request list \<times> approval_store" where
  "List_requests io order tenant stateFilter limit s = list_loop io tenant stateFilter limit order [] s"

section \<open>Decisions\<close>

definition granted_receipt :: "approval_request \<Rightarrow> string \<Rightarrow> string \<Rightarrow> gotime \<Rightarrow> receipt" where
  "granted_receipt r approver digest now = \<lparr>rc_valid = True, rc_id = rq_id r, rc_kind = rq_kind r,
     rc_tenant = ab_Tenant (rq_binding r), rc_capability = ab_Capability (rq_binding r), rc_approver = approver,
     rc_decisionDigest = ab_DecisionDigest (rq_binding r), rc_candidateHash = ab_CandidateHash (rq_binding r),
     rc_proposedRevision = ab_ProposedRevision (rq_binding r), rc_evidenceDigest = digest, rc_grantedAt = now\<rparr>"

definition Approve :: "approval_io \<Rightarrow> string \<Rightarrow> string \<Rightarrow> revisions \<Rightarrow> approval_store \<Rightarrow> receipt res \<times> approval_store" where
  "Approve io aid approver live s0 =
     (let s = lazyExpireLocked io aid s0 in
      case request_of aid s of
        None \<Rightarrow> (Inl (New ReasonApprovalNotFound ''approval.approve'' ''not found''), s)
      | Some r \<Rightarrow>
          if rq_state r = StateExpired then (Inl (New ReasonApprovalExpired ''approval.approve'' ''expired''), s)
          else if State_terminal (rq_state r) then
            (if rq_state r = StateApproved \<and> rq_approver r = approver then (Inr (Request_receipt r), s)
             else (Inl (New ReasonApprovalTerminalState ''approval.approve'' (''already '' @ State_String (rq_state r))), s))
          else if approver = rq_requester r then
            (Inl (New ReasonApprovalSelfApproval ''approval.approve'' ''requester may not approve own request''), s)
          else if \<not> bindingCurrent r live then
            (Inl (New ReasonApprovalStaleRevision ''approval.approve'' ''bound revision changed''), s)
          else (case ao_commit io r StateApproved approver of
              Inl e \<Rightarrow> (Inl e, s)
            | Inr digest \<Rightarrow>
                let rc = granted_receipt r approver digest (ao_now io) in
                (Inr rc, decPendingLocked (ab_Tenant (rq_binding r))
                   (put (r\<lparr>rq_state := StateApproved, rq_approver := approver, rq_decidedAt := ao_now io,
                          rq_grantedReceipt := Some rc\<rparr>) s))))"

definition Reject :: "approval_io \<Rightarrow> string \<Rightarrow> string \<Rightarrow> string \<Rightarrow> approval_store \<Rightarrow> go_error option \<times> approval_store" where
  "Reject io aid approver reason s0 =
     (let s = lazyExpireLocked io aid s0 in
      case request_of aid s of
        None \<Rightarrow> (Some (New ReasonApprovalNotFound ''approval.reject'' ''not found''), s)
      | Some r \<Rightarrow>
          if rq_state r = StateExpired then (Some (New ReasonApprovalExpired ''approval.reject'' ''expired''), s)
          else if State_terminal (rq_state r) then
            (if rq_state r = StateRejected \<and> rq_approver r = approver then (None, s)
             else (Some (New ReasonApprovalTerminalState ''approval.reject'' (''already '' @ State_String (rq_state r))), s))
          else (case ao_commit io r StateRejected approver of
              Inl e \<Rightarrow> (Some e, s)
            | Inr digest \<Rightarrow> (None, decPendingLocked (ab_Tenant (rq_binding r))
                (put (r\<lparr>rq_state := StateRejected, rq_approver := approver, rq_decidedAt := ao_now io,
                       rq_reason := Sanitize reason 256\<rparr>) s))))"

section \<open>Steps and runs\<close>

datatype approval_op =
    OpCreate string approval_kind string approval_binding
  | OpGet string string
  | OpList "string list" string approval_state int
  | OpApprove string string revisions
  | OpReject string string string

fun queue_step :: "approval_io \<times> approval_op \<Rightarrow> approval_store \<Rightarrow> approval_store" where
  "queue_step (io, OpCreate aid kind requester b) s = snd (Create io aid kind requester b s)"
| "queue_step (io, OpGet aid tenant) s = snd (Get io aid tenant s)"
| "queue_step (io, OpList order tenant stateFilter limit) s = snd (List_requests io order tenant stateFilter limit s)"
| "queue_step (io, OpApprove aid approver live) s = snd (Approve io aid approver live s)"
| "queue_step (io, OpReject aid approver reason) s = snd (Reject io aid approver reason s)"

section \<open>What the operations do to the requests\<close>

text \<open>The moves of a pending request, and the store after one.\<close>

inductive request_move :: "approval_request \<Rightarrow> approval_request \<Rightarrow> bool" where
  request_expires: "request_move r (r\<lparr>rq_state := StateExpired, rq_decidedAt := t\<rparr>)"
| request_approved: "approver \<noteq> rq_requester r \<Longrightarrow> request_move r (r\<lparr>rq_state := StateApproved, rq_approver := approver,
     rq_decidedAt := t, rq_grantedReceipt := Some (granted_receipt r approver digest t)\<rparr>)"
| request_rejected: "request_move r (r\<lparr>rq_state := StateRejected, rq_approver := approver, rq_decidedAt := t,
     rq_reason := reason\<rparr>)"

inductive_cases request_moveE: "request_move r r'"

definition settle :: "approval_request \<Rightarrow> approval_store \<Rightarrow> approval_store" where
  "settle r s = decPendingLocked (ab_Tenant (rq_binding r)) (put r s)"

definition admit :: "approval_request \<Rightarrow> approval_store \<Rightarrow> approval_store" where
  "admit r s = s\<lparr>as_byID := as_byID s @ [r],
     as_perTenant := (as_perTenant s)(ab_Tenant (rq_binding r) := as_perTenant s (ab_Tenant (rq_binding r)) + 1)\<rparr>"

definition room :: "string \<Rightarrow> approval_store \<Rightarrow> bool" where
  "room tenant s \<longleftrightarrow> pendingCountLocked s < as_maxPending s \<and> as_perTenant s tenant < as_maxPerTenant s"

inductive queue_moves :: "approval_store \<Rightarrow> approval_store \<Rightarrow> bool" for s where
  queue_same: "queue_moves s s"
| queue_settle: "queue_moves s s' \<Longrightarrow> request_of (rq_id r) s' = Some r \<Longrightarrow> \<not> State_terminal (rq_state r) \<Longrightarrow>
     request_move r r' \<Longrightarrow> queue_moves s (settle r' s')"
| queue_admit: "queue_moves s s' \<Longrightarrow> request_of (rq_id r) s' = None \<Longrightarrow> rq_state r = StatePending \<Longrightarrow>
     room (ab_Tenant (rq_binding r)) s' \<Longrightarrow> queue_moves s (admit r s')"

lemma request_move_identity:
  assumes "request_move r r'"
  shows "rq_id r' = rq_id r" "rq_binding r' = rq_binding r" "rq_requester r' = rq_requester r"
    "rq_state r' \<noteq> StatePending" "State_terminal (rq_state r')" "rq_kind r' = rq_kind r"
  using assms by (auto elim!: request_moveE simp: State_terminal_def)

lemma request_of_id: "request_of aid s = Some r \<Longrightarrow> rq_id r = aid \<and> r \<in> set (as_byID s)"
  by (auto simp: request_of_def find_Some_iff)

lemma find_map_id: "find (\<lambda>r. rq_id r = aid) (map (\<lambda>q. if rq_id q = rq_id r' then r' else q) xs) =
   (if aid = rq_id r' then map_option (\<lambda>_. r') (find (\<lambda>r. rq_id r = aid) xs) else find (\<lambda>r. rq_id r = aid) xs)"
  by (induction xs) auto

lemma find_append_single: "find P (xs @ [x]) = (case find P xs of Some y \<Rightarrow> Some y | None \<Rightarrow> if P x then Some x else None)"
  by (induction xs) auto

lemma decPending_sel [simp]:
  "as_byID (decPendingLocked t s) = as_byID s" "request_of aid (decPendingLocked t s) = request_of aid s"
  "as_maxPending (decPendingLocked t s) = as_maxPending s" "as_maxPerTenant (decPendingLocked t s) = as_maxPerTenant s"
  "as_ttl (decPendingLocked t s) = as_ttl s"
  by (simp_all add: decPendingLocked_def request_of_def)

lemma settle_sel [simp]:
  "as_maxPending (settle r s) = as_maxPending s" "as_maxPerTenant (settle r s) = as_maxPerTenant s"
  by (simp_all add: settle_def put_def)

lemma admit_sel [simp]:
  "as_maxPending (admit r s) = as_maxPending s" "as_maxPerTenant (admit r s) = as_maxPerTenant s"
  by (simp_all add: admit_def)

lemma request_of_settle: "request_of aid (settle r' s) =
   (if aid = rq_id r' then map_option (\<lambda>_. r') (request_of aid s) else request_of aid s)"
  by (simp add: settle_def put_def) (simp add: request_of_def find_map_id)

lemma request_of_admit: "request_of aid (admit r s) =
   (case request_of aid s of Some q \<Rightarrow> Some q | None \<Rightarrow> if rq_id r = aid then Some r else None)"
  by (simp add: admit_def request_of_def find_append_single)

lemma queue_moves_trans: "queue_moves s' s'' \<Longrightarrow> queue_moves s s' \<Longrightarrow> queue_moves s s''"
  by (induction rule: queue_moves.induct) (auto intro: queue_settle queue_admit)

lemma lazy_settle:
  obtains "lazyExpireLocked io aid s = s"
  | r r' where "request_of aid s = Some r" "rq_id r = aid" "\<not> State_terminal (rq_state r)" "request_move r r'"
    "rq_state r' = StateExpired" "lazyExpireLocked io aid s = settle r' s"
proof (cases "\<exists>r. request_of aid s = Some r \<and> rq_state r = StatePending \<and> expiredAt r (ao_check io aid)")
  case True
  then obtain r where r: "request_of aid s = Some r" "rq_state r = StatePending" "expiredAt r (ao_check io aid)" by blast
  let ?r = "r\<lparr>rq_state := StateExpired, rq_decidedAt := ao_stamp io aid\<rparr>"
  show thesis
  proof (rule that(2))
    show "request_move r ?r" by (rule request_expires)
    show "lazyExpireLocked io aid s = settle ?r s" using r by (simp add: lazyExpireLocked_def settle_def)
  qed (use r request_of_id[OF r(1)] in \<open>simp_all add: State_terminal_def\<close>)
next
  case False
  then show thesis by (intro that(1)) (auto simp: lazyExpireLocked_def split: option.splits)
qed

lemma lazy_moves: "queue_moves s (lazyExpireLocked io aid s)"
  by (rule lazy_settle[of io aid s]) (metis queue_same queue_settle)+

lemma fold_lazy_moves: "queue_moves s (fold (lazyExpireLocked io) aids s)"
  by (induction aids arbitrary: s) (auto intro: queue_same queue_moves_trans lazy_moves)

lemma list_loop_moves: "queue_moves s (snd (list_loop io tenant f limit aids out s))"
proof (induction aids arbitrary: out s)
  case (Cons aid aids)
  have "queue_moves s (snd (list_loop io tenant f limit aids out' (lazyExpireLocked io aid s)))" for out'
    by (rule queue_moves_trans[OF Cons.IH lazy_moves])
  then show ?case
    using Cons.IH[where s = s and out = out] lazy_moves[of s io aid]
    by (auto simp: Let_def split: option.splits)
qed (simp add: queue_same)

lemma request_of_lazy:
  assumes "request_of aid s = None"
  shows "request_of aid (lazyExpireLocked io aid' s) = None"
  by (rule lazy_settle[of io aid' s]) (use assms in \<open>auto simp: request_of_settle\<close>)

lemma request_of_sweep: "request_of aid s = None \<Longrightarrow> request_of aid (sweepLocked io s) = None"
proof -
  have "request_of aid (fold (lazyExpireLocked io) aids s) = None" if "request_of aid s = None" for aids s
    using that by (induction aids arbitrary: s) (simp_all add: request_of_lazy)
  then show "request_of aid s = None \<Longrightarrow> ?thesis" by (simp add: sweepLocked_def)
qed

lemma Create_moves: "queue_moves s (snd (Create io aid kind requester b s))"
proof -
  let ?s = "sweepLocked io s"
  have sw: "queue_moves s ?s" by (simp add: sweepLocked_def fold_lazy_moves)
  let ?r = "\<lparr>rq_id = aid, rq_kind = kind, rq_requester = requester, rq_binding = b, rq_created = ao_now io,
     rq_expiry = ao_now io + as_ttl ?s, rq_state = StatePending, rq_approver = [], rq_decidedAt = 0, rq_reason = [],
     rq_grantedReceipt = None\<rparr>"
  have "queue_moves s (admit ?r ?s)" if "request_of aid s = None" "room (ab_Tenant b) ?s"
    using that sw request_of_sweep by (intro queue_admit) simp_all
  with sw show ?thesis
    by (auto simp: Create_def Let_def admit_def room_def intro: queue_same)
qed

lemma Approve_moves: "queue_moves s (snd (Approve io aid approver live s))"
proof -
  let ?s = "lazyExpireLocked io aid s"
  have lz: "queue_moves s ?s" by (rule lazy_moves)
  show ?thesis
  proof (cases "request_of aid ?s")
    case (Some r)
    from request_of_id[OF this] have [simp]: "rq_id r = aid" by simp
    have "queue_moves s (settle (r\<lparr>rq_state := StateApproved, rq_approver := approver, rq_decidedAt := ao_now io,
        rq_grantedReceipt := Some (granted_receipt r approver digest (ao_now io))\<rparr>) ?s)"
      if "\<not> State_terminal (rq_state r)" "approver \<noteq> rq_requester r" for digest
      by (rule queue_settle[OF lz _ that(1) request_approved[OF that(2)]]) (simp add: Some)
    with Some lz show ?thesis
      by (auto simp: Approve_def Let_def settle_def split: sum.splits)
  qed (simp add: Approve_def lz)
qed

lemma Reject_moves: "queue_moves s (snd (Reject io aid approver reason s))"
proof -
  let ?s = "lazyExpireLocked io aid s"
  have lz: "queue_moves s ?s" by (rule lazy_moves)
  show ?thesis
  proof (cases "request_of aid ?s")
    case (Some r)
    from request_of_id[OF this] have [simp]: "rq_id r = aid" by simp
    have "queue_moves s (settle (r\<lparr>rq_state := StateRejected, rq_approver := approver, rq_decidedAt := ao_now io,
        rq_reason := Sanitize reason 256\<rparr>) ?s)" if "\<not> State_terminal (rq_state r)"
      by (rule queue_settle[OF lz _ that request_rejected]) (simp add: Some)
    with Some lz show ?thesis
      by (auto simp: Reject_def Let_def settle_def split: sum.splits)
  qed (simp add: Reject_def lz)
qed

lemma step_moves: "queue_moves s (queue_step x s)"
proof -
  obtain io oper where x: "x = (io, oper)" by (cases x)
  show ?thesis
    unfolding x
    by (cases oper)
      (auto simp: Create_moves Approve_moves Reject_moves List_requests_def list_loop_moves Get_def Let_def queue_same
        lazy_moves split: option.splits)
qed

lemma run_moves: "queue_moves s (run_ops queue_step ops s)"
  by (induction ops arbitrary: s) (auto intro: queue_same queue_moves_trans step_moves)

section \<open>Invariants\<close>

definition pending_of :: "string \<Rightarrow> approval_store \<Rightarrow> nat" where
  "pending_of tenant s = length (filter (\<lambda>r. rq_state r = StatePending \<and> ab_Tenant (rq_binding r) = tenant) (as_byID s))"

text \<open>A request is pending or decided, and an approval carries the receipt of another actor.\<close>

definition request_ok :: "approval_request \<Rightarrow> bool" where
  "request_ok r \<longleftrightarrow> (rq_state r = StatePending \<or> State_terminal (rq_state r)) \<and>
     (rq_state r = StateApproved \<longrightarrow> rq_approver r \<noteq> rq_requester r \<and>
        (\<exists>digest. rq_grantedReceipt r = Some (granted_receipt r (rq_approver r) digest (rq_decidedAt r))))"

definition queue_ok :: "approval_store \<Rightarrow> bool" where
  "queue_ok s \<longleftrightarrow> distinct (map rq_id (as_byID s)) \<and> list_all request_ok (as_byID s) \<and>
     (\<forall>t. as_perTenant s t = int (pending_of t s)) \<and>
     pendingCountLocked s \<le> max 0 (as_maxPending s) \<and> (\<forall>t. as_perTenant s t \<le> max 0 (as_maxPerTenant s))"

lemma request_move_ok: "request_ok r \<Longrightarrow> request_move r r' \<Longrightarrow> request_ok r'"
  by (erule request_moveE) (auto simp: request_ok_def State_terminal_def granted_receipt_def)

lemma replace_split:
  assumes "distinct (map rq_id xs)" "r \<in> set xs" "rq_id r' = rq_id r"
  obtains ys zs where "xs = ys @ r # zs" "map (\<lambda>q. if rq_id q = rq_id r' then r' else q) xs = ys @ r' # zs"
proof -
  from assms(2) obtain ys zs where xs: "xs = ys @ r # zs" by (meson split_list)
  with assms(1,3) have other: "rq_id x \<noteq> rq_id r'" if "x \<in> set ys \<union> set zs" for x
    using that by (auto simp: image_iff)
  then have "map (\<lambda>q. if rq_id q = rq_id r' then r' else q) ys = ys"
    "map (\<lambda>q. if rq_id q = rq_id r' then r' else q) zs = zs"
    by (simp_all add: map_idI)
  with xs assms(3) show thesis by (intro that[of ys zs]) simp_all
qed

text \<open>Settling a pending request lowers the counts of its tenant and of the store by one, and no other.\<close>

lemma settle_ok:
  assumes "queue_ok s" "request_of (rq_id r) s = Some r" "\<not> State_terminal (rq_state r)" "request_move r r'"
  shows "queue_ok (settle r' s)"
proof -
  note q = assms(1)[unfolded queue_ok_def]
  note m = request_move_identity[OF assms(4)]
  have r: "r \<in> set (as_byID s)" using request_of_id[OF assms(2)] by simp
  have "list_all request_ok (as_byID s)" using q by blast
  with r have rok: "request_ok r" by (auto simp: list_all_iff)
  obtain ys zs where xs: "as_byID s = ys @ r # zs"
      "map (\<lambda>q. if rq_id q = rq_id r' then r' else q) (as_byID s) = ys @ r' # zs"
    by (rule replace_split[OF _ r m(1)]) (use q in blast)+
  let ?t = "ab_Tenant (rq_binding r)"
  have p: "rq_state r = StatePending" using rok assms(3) by (simp add: request_ok_def)
  have b: "as_byID (settle r' s) = ys @ r' # zs" by (simp add: settle_def put_def xs(2))
  have n: "pending_of t s = pending_of t (settle r' s) + (if t = ?t then 1 else 0)" for t
    unfolding pending_of_def b xs(1) using p m(4) by simp
  then have c: "as_perTenant s ?t > 0" using q by simp
  then have pt: "as_perTenant (settle r' s) = (as_perTenant s)(?t := as_perTenant s ?t - 1)"
    using m(2) by (simp add: settle_def put_def decPendingLocked_def)
  have t: "as_perTenant (settle r' s) t = int (pending_of t (settle r' s))" for t
    unfolding pt using q n[of t] by (cases "t = ?t") simp_all
  have pc: "pendingCountLocked (settle r' s) \<le> pendingCountLocked s"
    unfolding pendingCountLocked_def b xs(1) using m(4) by simp
  have le: "as_perTenant (settle r' s) t \<le> as_perTenant s t" for t
    using t q n[of t] by simp
  have d: "distinct (map rq_id (ys @ r' # zs))" using q xs(1) m(1) by simp
  have ok: "list_all request_ok (ys @ r' # zs)" using q xs(1) request_move_ok[OF rok assms(4)] by simp
  show ?thesis
    unfolding queue_ok_def b
  proof (intro conjI allI)
    show "pendingCountLocked (settle r' s) \<le> max 0 (as_maxPending (settle r' s))" using pc q by simp
    show "as_perTenant (settle r' s) t \<le> max 0 (as_maxPerTenant (settle r' s))" for t
    proof -
      have "as_perTenant s t \<le> max 0 (as_maxPerTenant s)" using q by blast
      from order_trans[OF le this] show ?thesis by simp
    qed
  qed (use d ok t in blast)+
qed

lemma admit_ok:
  assumes "queue_ok s" "request_of (rq_id r) s = None" "rq_state r = StatePending" "room (ab_Tenant (rq_binding r)) s"
  shows "queue_ok (admit r s)"
proof -
  note q = assms(1)[unfolded queue_ok_def]
  have new: "rq_id r \<notin> rq_id ` set (as_byID s)"
    using assms(2) by (auto simp: request_of_def find_None_iff)
  have n: "pending_of t (admit r s) = pending_of t s + (if t = ab_Tenant (rq_binding r) then 1 else 0)" for t
    using assms(3) by (simp add: pending_of_def admit_def)
  have pc: "pendingCountLocked (admit r s) = pendingCountLocked s + 1"
    using assms(3) by (simp add: pendingCountLocked_def admit_def)
  have t: "as_perTenant (admit r s) t = int (pending_of t (admit r s))" for t
    using q n[of t] by (simp add: admit_def)
  have le: "as_perTenant (admit r s) t \<le> max 0 (as_maxPerTenant s)" for t
  proof -
    have "as_perTenant s t \<le> max 0 (as_maxPerTenant s)" using q by blast
    with assms(4) show ?thesis by (auto simp: admit_def room_def)
  qed
  have "list_all request_ok (as_byID (admit r s))" "distinct (map rq_id (as_byID (admit r s)))"
    using q new assms(3) by (simp_all add: admit_def request_ok_def)
  moreover have "pendingCountLocked (admit r s) \<le> max 0 (as_maxPending s)" using pc assms(4) by (simp add: room_def max_def)
  ultimately show ?thesis using t le unfolding queue_ok_def admit_sel by blast
qed

lemma moves_ok: "queue_moves s s' \<Longrightarrow> queue_ok s \<Longrightarrow> queue_ok s'"
  by (induction rule: queue_moves.induct) (auto intro: settle_ok admit_ok)

lemma NewStore_ok: "queue_ok (NewStore maxPending maxPerTenant ttl)"
  by (simp add: queue_ok_def NewStore_def pending_of_def pendingCountLocked_def)

lemma run_ok: "queue_ok (run_ops queue_step ops (NewStore maxPending maxPerTenant ttl))"
  using moves_ok[OF run_moves NewStore_ok] .

text \<open>A decided request is never touched again.\<close>

lemma terminal_moves:
  assumes "queue_moves s s'" "request_of aid s = Some r" "State_terminal (rq_state r)"
  shows "request_of aid s' = Some r"
  using assms
proof (induction rule: queue_moves.induct)
  case (queue_settle s' q q')
  then have "rq_id q \<noteq> aid" by auto
  with queue_settle request_move_identity(1)[OF queue_settle(4)] show ?case by (simp add: request_of_settle)
qed (simp_all add: request_of_admit)

section \<open>Receipts\<close>

lemma request_of_ok: "queue_ok s \<Longrightarrow> request_of aid s = Some r \<Longrightarrow> request_ok r"
  using request_of_id by (fastforce simp: queue_ok_def list_all_iff)

lemma Approve_Inr:
  assumes "queue_ok s" "Approve io aid approver live s = (Inr rc, s')"
  shows "\<exists>r digest. request_of aid s' = Some r \<and> rq_state r = StateApproved \<and> rq_approver r = approver \<and>
    approver \<noteq> rq_requester r \<and> rq_grantedReceipt r = Some rc \<and>
    rc = granted_receipt r approver digest (rq_decidedAt r)"
proof -
  let ?s = "lazyExpireLocked io aid s"
  have ok: "queue_ok ?s" by (rule moves_ok[OF lazy_moves assms(1)])
  from assms(2) obtain r where r: "request_of aid ?s = Some r"
    by (auto simp: Approve_def Let_def split: option.splits)
  note rok = request_of_ok[OF ok r, unfolded request_ok_def]
  have [simp]: "rq_id r = aid" using request_of_id[OF r] by simp
  show ?thesis
  proof (cases "State_terminal (rq_state r)")
    case True
    with assms(2) r have "rq_state r = StateApproved" "rq_approver r = approver" "rc = Request_receipt r" "s' = ?s"
      by (auto simp: Approve_def Let_def split: if_split_asm)
    with rok r show ?thesis by (auto simp: Request_receipt_def)
  next
    case False
    let ?r = "\<lambda>digest. r\<lparr>rq_state := StateApproved, rq_approver := approver, rq_decidedAt := ao_now io,
        rq_grantedReceipt := Some (granted_receipt r approver digest (ao_now io))\<rparr>"
    from False assms(2) r obtain digest where "approver \<noteq> rq_requester r"
        "rc = granted_receipt r approver digest (ao_now io)" "s' = settle (?r digest) ?s"
      by (auto simp: Approve_def Let_def settle_def State_terminal_def split: if_split_asm sum.splits)
    then show ?thesis
      by (intro exI[of _ "?r digest"] exI[of _ digest]) (simp add: request_of_settle r granted_receipt_def)
  qed
qed

text \<open>Approving an approved request again gives the same answer and changes nothing.\<close>

lemma Approve_again:
  assumes "request_of aid s = Some r" "rq_state r = StateApproved" "rq_grantedReceipt r = Some rc"
  shows "Approve io aid approver live s = (if approver = rq_approver r then Inr rc else
     Inl (New ReasonApprovalTerminalState ''approval.approve'' ''already approved''), s)"
proof -
  have "lazyExpireLocked io aid s = s" using assms by (simp add: lazyExpireLocked_def)
  with assms show ?thesis by (auto simp: Approve_def Let_def State_terminal_def Request_receipt_def)
qed

text \<open>The first grant: the request was pending, in time, current and durably recorded.\<close>

lemma Approve_first:
  assumes "request_of aid s = Some q" "rq_state q = StatePending" "Approve io aid approver live s = (Inr rc, s')"
  shows "\<not> expiredAt q (ao_check io aid)" "bindingCurrent q live"
    "ao_commit io q StateApproved approver = Inr (rc_evidenceDigest rc)"
proof -
  show ne: "\<not> expiredAt q (ao_check io aid)"
  proof
    assume "expiredAt q (ao_check io aid)"
    let ?q = "q\<lparr>rq_state := StateExpired, rq_decidedAt := ao_stamp io aid\<rparr>"
    from \<open>expiredAt q (ao_check io aid)\<close> have "lazyExpireLocked io aid s = settle ?q s"
      using assms(1,2) by (simp add: lazyExpireLocked_def settle_def)
    then have "request_of aid (lazyExpireLocked io aid s) = Some ?q"
      using assms(1) request_of_id[OF assms(1)] by (simp add: request_of_settle)
    with assms(3) show False by (simp add: Approve_def)
  qed
  then have "lazyExpireLocked io aid s = s" using assms(1) by (simp add: lazyExpireLocked_def)
  then show "bindingCurrent q live" "ao_commit io q StateApproved approver = Inr (rc_evidenceDigest rc)"
    using assms by (auto simp: Approve_def Let_def State_terminal_def granted_receipt_def split: if_split_asm sum.splits)
qed

lemma moves_limits: "queue_moves s s' \<Longrightarrow> as_maxPending s' = as_maxPending s \<and> as_maxPerTenant s' = as_maxPerTenant s"
  by (induction rule: queue_moves.induct) simp_all

section \<open>Example\<close>

definition queue_binding :: approval_binding where
  "queue_binding = \<lparr>ab_Tenant = ''acme'', ab_Capability = ''gateway'', ab_DecisionEventID = [], ab_DecisionDigest = [],
     ab_ServerID = [], ab_ToolFingerprint = [], ab_Resource = [], ab_Action = [], ab_OperationClass = [],
     ab_RiskClass = [], ab_CredentialProfile = [], ab_PowerCeiling = [], ab_CandidateHash = ''c0ffee'',
     ab_BaseRevision = 4, ab_ProposedRevision = 5, ab_SimulationDigest = [],
     ab_Revisions = \<lparr>rv_Policy = 4, rv_Catalog = 1, rv_Registry = 1, rv_Inspection = 1\<rparr>\<rparr>"

definition queue_io :: "gotime \<Rightarrow> approval_io" where
  "queue_io t = \<lparr>ao_check = (\<lambda>_. t), ao_stamp = (\<lambda>_. t), ao_now = t, ao_commit = (\<lambda>r st approver. Inr ''evidence'')\<rparr>"

definition queue_ops :: "(approval_io \<times> approval_op) list" where
  "queue_ops = [(queue_io 1, OpCreate ''a1'' KindPublication ''alice'' queue_binding)]"

definition queue_example :: approval_store where
  "queue_example = run_ops queue_step queue_ops (NewStore 10 5 100)"

definition queue_approval :: "receipt res \<times> approval_store" where
  "queue_approval = Approve (queue_io 2) ''a1'' ''bob'' (ab_Revisions queue_binding) queue_example"

definition queue_receipt :: receipt where
  "queue_receipt = \<lparr>rc_valid = True, rc_id = ''a1'', rc_kind = KindPublication, rc_tenant = ''acme'',
     rc_capability = ''gateway'', rc_approver = ''bob'', rc_decisionDigest = [], rc_candidateHash = ''c0ffee'',
     rc_proposedRevision = 5, rc_evidenceDigest = ''evidence'', rc_grantedAt = 2\<rparr>"

lemma queue_approval_receipt: "queue_approval = (Inr queue_receipt, snd queue_approval)"
  by (simp add: queue_approval_def queue_example_def queue_ops_def queue_io_def queue_binding_def queue_receipt_def
      NewStore_def Create_def request_of_def sweepLocked_def pendingCountLocked_def Approve_def lazyExpireLocked_def
      expiredAt_def State_terminal_def bindingCurrent_def granted_receipt_def Let_def)

section \<open>Properties\<close>

text \<open>
  C17. Approval receipts: whatever operations led to the store, a receipt is only handed out for a
  request it is bound to, to an approver who is not the requester; a first grant found the request
  pending, in time and bound to the live revisions, and its decision was durably recorded before; and
  after any further operations the same approver gets the same receipt again, without a change.
\<close>

theorem approval_receipts_sound:
  assumes "s = run_ops queue_step ops (NewStore maxPending maxPerTenant ttl)"
    "Approve io aid approver live s = (Inr rc, s')"
  shows "(\<exists>r digest. request_of aid s' = Some r \<and> approver \<noteq> rq_requester r \<and>
      rc = granted_receipt r approver digest (rq_decidedAt r)) \<and>
    (\<forall>q. request_of aid s = Some q \<and> rq_state q = StatePending \<longrightarrow> \<not> expiredAt q (ao_check io aid) \<and>
      bindingCurrent q live \<and> ao_commit io q StateApproved approver = Inr (rc_evidenceDigest rc)) \<and>
    (\<forall>later io' live'. Approve io' aid approver live' (run_ops queue_step later s') =
      (Inr rc, run_ops queue_step later s'))"
proof -
  have ok: "queue_ok s" unfolding assms(1) by (rule run_ok)
  obtain r digest where r: "request_of aid s' = Some r" "rq_state r = StateApproved" "rq_approver r = approver"
      "approver \<noteq> rq_requester r" "rq_grantedReceipt r = Some rc"
      "rc = granted_receipt r approver digest (rq_decidedAt r)"
    using Approve_Inr[OF ok assms(2)] by blast
  have "request_of aid (run_ops queue_step later s') = Some r" for later
    using terminal_moves[OF run_moves r(1)] r(2) by (simp add: State_terminal_def)
  then have "Approve io' aid approver live' (run_ops queue_step later s') = (Inr rc, run_ops queue_step later s')"
    for later io' live'
    using Approve_again[OF _ r(2,5)] r(3) by simp
  with r Approve_first[OF _ _ assms(2)] show ?thesis by blast
qed

theorem approval_receipts_sound_witness:
  "Approve (queue_io 9) ''a1'' ''bob'' (ab_Revisions queue_binding) (snd queue_approval) =
     (Inr queue_receipt, snd queue_approval)"
proof -
  have "Approve (queue_io 2) ''a1'' ''bob'' (ab_Revisions queue_binding) queue_example =
      (Inr queue_receipt, snd queue_approval)"
    using queue_approval_receipt by (simp add: queue_approval_def)
  from approval_receipts_sound[OF queue_example_def this]
  have "Approve (queue_io 9) ''a1'' ''bob'' (ab_Revisions queue_binding) (run_ops queue_step [] (snd queue_approval)) =
      (Inr queue_receipt, run_ops queue_step [] (snd queue_approval))" by blast
  then show ?thesis by simp
qed

text \<open>
  C22. The approval queue keeps its books: after any operations the counter of a tenant is the number of
  its pending requests, both capacity bounds hold, and a decided request is never touched again.
\<close>

theorem approval_queue_bounded:
  assumes "s = run_ops queue_step ops (NewStore maxPending maxPerTenant ttl)"
  shows "as_perTenant s tenant = int (pending_of tenant s) \<and> pendingCountLocked s \<le> max 0 maxPending \<and>
    as_perTenant s tenant \<le> max 0 maxPerTenant \<and>
    (\<forall>aid r later. request_of aid s = Some r \<and> State_terminal (rq_state r) \<longrightarrow>
      request_of aid (run_ops queue_step later s) = Some r)"
proof -
  have "as_maxPending s = maxPending" "as_maxPerTenant s = maxPerTenant"
    using moves_limits[OF run_moves, where s = "NewStore maxPending maxPerTenant ttl"] assms by (simp_all add: NewStore_def)
  moreover have "queue_ok s" unfolding assms by (rule run_ok)
  ultimately show ?thesis using terminal_moves[OF run_moves, where s = s] unfolding queue_ok_def by blast
qed

theorem approval_queue_bounded_witness:
  "as_perTenant queue_example ''acme'' = int (pending_of ''acme'' queue_example) \<and>
   pendingCountLocked queue_example \<le> max 0 10"
  using approval_queue_bounded[OF queue_example_def, of "''acme''"] by blast

end
