(* ===== verification/LiveTier.thy ===== *)
theory LiveTier
  imports RolloutMode
begin

text \<open>
  The lifecycle of the live-execution tier of one capability (\<open>mcp_live_tier.go\<close>) with the two
  readiness bits of \<open>mcp_rollout_execdeps.go\<close>. A method that holds the tier's mutex is one step. A
  quiesce is two steps with a wait between them, so other calls can come in between: \<open>lt_draining\<close>
  counts the calls that are in that wait. \<open>lt_slots\<close> counts the release callbacks that were handed out
  and not yet used; \<open>sync.Once\<close> makes each of them count once.
\<close>

section \<open>The tier\<close>

datatype live_tier_state = LiveTierAbsent | LiveTierComposed | LiveTierArmed | LiveTierQuiescing

fun liveTierState_String :: "live_tier_state \<Rightarrow> string" where
  "liveTierState_String LiveTierComposed = ''composed''"
| "liveTierState_String LiveTierArmed = ''armed''"
| "liveTierState_String LiveTierQuiescing = ''quiescing''"
| "liveTierState_String LiveTierAbsent = ''absent''"

record live_tier =
  lt_state :: live_tier_state
  lt_composeReason :: string
  lt_inFlight :: int
  lt_admitClosed :: bool
  xd_shadow :: bool
  xd_live :: bool
  lt_draining :: nat
  lt_slots :: nat

definition newMCPLiveTier :: live_tier where
  "newMCPLiveTier = \<lparr>lt_state = LiveTierAbsent, lt_composeReason = ''not_composed'', lt_inFlight = 0,
     lt_admitClosed = False, xd_shadow = False, xd_live = False, lt_draining = 0, lt_slots = 0\<rparr>"

definition modeExecReady :: "mode \<Rightarrow> live_tier \<Rightarrow> bool" where
  "modeExecReady m t =
     (if RequiresLiveExecution m then xd_live t
      else if m = ModeShadow then xd_shadow t
      else if m = ModeDisabled \<or> m = ModeObserve then True
      else False)"

definition tier_composed :: "live_tier \<Rightarrow> bool" where
  "tier_composed t \<longleftrightarrow> lt_state t = LiveTierComposed \<or> lt_state t = LiveTierArmed \<or> lt_state t = LiveTierQuiescing"

definition tier_armed :: "live_tier \<Rightarrow> bool" where
  "tier_armed t \<longleftrightarrow> lt_state t = LiveTierArmed"

definition admissionOpen :: "live_tier \<Rightarrow> bool" where
  "admissionOpen t \<longleftrightarrow> lt_state t = LiveTierArmed \<and> \<not> lt_admitClosed t"

definition markComposed :: "live_tier \<Rightarrow> live_tier" where
  "markComposed t = t\<lparr>lt_state := (if lt_state t = LiveTierAbsent then LiveTierComposed else lt_state t),
     lt_composeReason := ''composed''\<rparr>"

definition resetForStartupFailure :: "live_tier \<Rightarrow> live_tier" where
  "resetForStartupFailure t =
     (if lt_state t \<noteq> LiveTierComposed then t
      else t\<lparr>lt_state := LiveTierAbsent, lt_composeReason := ''runtime_start_failed''\<rparr>)"

definition setComposeReason :: "string \<Rightarrow> live_tier \<Rightarrow> live_tier" where
  "setComposeReason reason t = t\<lparr>lt_composeReason := reason\<rparr>"

definition tier_Reason :: "live_tier \<Rightarrow> string" where
  "tier_Reason t = (if lt_composeReason t = [] then ''not_composed'' else lt_composeReason t)"

definition errLiveTierNotComposed :: go_error where
  "errLiveTierNotComposed = PlainErr ''mcp live tier: not composed''"

definition errLiveTierNotReady :: go_error where
  "errLiveTierNotReady = PlainErr ''mcp live tier: node not ready to arm''"

definition arm :: "bool \<Rightarrow> string \<Rightarrow> live_tier \<Rightarrow> go_error option \<times> live_tier" where
  "arm ready reason t =
     (if lt_state t \<noteq> LiveTierComposed then (Some errLiveTierNotComposed, t)
      else if \<not> ready then (Some errLiveTierNotReady, t)
      else (None, t\<lparr>lt_state := LiveTierArmed, lt_admitClosed := False, lt_composeReason := reason, xd_live := True\<rparr>))"

definition unarmForDemote :: "live_tier \<Rightarrow> live_tier" where
  "unarmForDemote t = t\<lparr>
     lt_state := (if lt_state t = LiveTierArmed \<or> lt_state t = LiveTierQuiescing then LiveTierComposed else lt_state t),
     lt_admitClosed := True, lt_composeReason := ''demoted'', xd_live := False\<rparr>"

definition enterQuiesceLocked :: "live_tier \<Rightarrow> bool \<times> live_tier" where
  "enterQuiesceLocked t =
     (let quiescing = t\<lparr>lt_state := LiveTierQuiescing, lt_admitClosed := True, lt_composeReason := ''quiescing'',
            xd_live := False\<rparr>
      in if lt_state t = LiveTierArmed then (True, quiescing)
         else if lt_inFlight t > 0 then (True, quiescing)
         else (False, t))"

text \<open>The first half of \<open>quiesce\<close>, up to the drain, and the second half after it.\<close>

definition quiesce_begin :: "live_tier \<Rightarrow> live_tier" where
  "quiesce_begin t = (case enterQuiesceLocked t of (needDrain, t') \<Rightarrow>
     if needDrain then t'\<lparr>lt_draining := lt_draining t' + 1\<rparr> else t')"

definition drainAndLeaveQuiesce :: "live_tier \<Rightarrow> live_tier" where
  "drainAndLeaveQuiesce t =
     (if lt_draining t = 0 then t
      else t\<lparr>lt_state := LiveTierComposed, lt_composeReason := ''quiesced'', lt_draining := lt_draining t - 1\<rparr>)"

definition admitExecution :: "live_tier \<Rightarrow> bool \<times> live_tier" where
  "admitExecution t =
     (if lt_state t \<noteq> LiveTierArmed \<or> lt_admitClosed t then (False, t)
      else (True, t\<lparr>lt_inFlight := lt_inFlight t + 1, lt_slots := lt_slots t + 1\<rparr>))"

definition release_slot_callback :: "live_tier \<Rightarrow> live_tier" where
  "release_slot_callback t =
     (if lt_slots t = 0 then t
      else t\<lparr>lt_inFlight := (if lt_inFlight t > 0 then lt_inFlight t - 1 else lt_inFlight t), lt_slots := lt_slots t - 1\<rparr>)"

definition disarmForRestart :: "live_tier \<Rightarrow> live_tier" where
  "disarmForRestart t = t\<lparr>
     lt_state := (if lt_state t = LiveTierArmed \<or> lt_state t = LiveTierQuiescing then LiveTierComposed else lt_state t),
     lt_admitClosed := False, lt_composeReason := ''restart_unarmed'', xd_live := False\<rparr>"

definition markShadowDepsReady :: "live_tier \<Rightarrow> live_tier" where
  "markShadowDepsReady t = t\<lparr>xd_shadow := True\<rparr>"

section \<open>Steps and runs\<close>

datatype tier_op =
    TierCompose | TierStartupFailure | TierReason string | TierArm bool string | TierDemote
  | TierQuiesce | TierDrained | TierAdmit | TierRelease | TierRestart | TierShadow

fun tier_step :: "tier_op \<Rightarrow> live_tier \<Rightarrow> live_tier" where
  "tier_step TierCompose t = markComposed t"
| "tier_step TierStartupFailure t = resetForStartupFailure t"
| "tier_step (TierReason reason) t = setComposeReason reason t"
| "tier_step (TierArm ready reason) t = snd (arm ready reason t)"
| "tier_step TierDemote t = unarmForDemote t"
| "tier_step TierQuiesce t = quiesce_begin t"
| "tier_step TierDrained t = drainAndLeaveQuiesce t"
| "tier_step TierAdmit t = snd (admitExecution t)"
| "tier_step TierRelease t = release_slot_callback t"
| "tier_step TierRestart t = disarmForRestart t"
| "tier_step TierShadow t = markShadowDepsReady t"

section \<open>Invariants\<close>

lemmas tier_defs = markComposed_def resetForStartupFailure_def setComposeReason_def arm_def unarmForDemote_def
  enterQuiesceLocked_def quiesce_begin_def drainAndLeaveQuiesce_def admitExecution_def release_slot_callback_def
  disarmForRestart_def markShadowDepsReady_def

text \<open>
  An armed tier is open and the mode gate knows it; a quiescing tier is closed on both sides; the
  in-flight count is the number of callbacks that are out.
\<close>

definition tier_ok :: "live_tier \<Rightarrow> bool" where
  "tier_ok t \<longleftrightarrow> (lt_state t = LiveTierArmed \<longrightarrow> xd_live t \<and> \<not> lt_admitClosed t) \<and>
     (lt_state t = LiveTierQuiescing \<longrightarrow> \<not> xd_live t \<and> lt_admitClosed t) \<and> lt_inFlight t = int (lt_slots t)"

lemma tier_ok_new: "tier_ok newMCPLiveTier"
  by (simp add: tier_ok_def newMCPLiveTier_def)

lemma tier_ok_step: "tier_ok t \<Longrightarrow> tier_ok (tier_step x t)"
  by (cases x) (auto simp: tier_defs tier_ok_def Let_def of_nat_diff split: if_split_asm)

interpretation tier_inv: run_invariant tier_step "\<lambda>_. True" tier_ok
  by unfold_locales (rule tier_ok_step)

lemma tier_ok_run: "tier_ok t \<Longrightarrow> tier_ok (run_ops tier_step ops t)"
  by (rule tier_inv.run_keeps) (simp_all add: list_all_iff)

text \<open>Where no tier is armed while a drain is under way, the bit and the lifecycle agree.\<close>

inductive serial_run :: "live_tier \<Rightarrow> bool" where
  serial_new: "serial_run newMCPLiveTier"
| serial_step: "serial_run t \<Longrightarrow> (\<And>ready reason. x = TierArm ready reason \<Longrightarrow> lt_draining t = 0) \<Longrightarrow>
     serial_run (tier_step x t)"

lemma serial_agrees:
  "serial_run t \<Longrightarrow> (xd_live t \<longleftrightarrow> lt_state t = LiveTierArmed) \<and> (lt_draining t > 0 \<longrightarrow> \<not> xd_live t)"
proof (induction rule: serial_run.induct)
  case (serial_step t x)
  then show ?case
    by (cases x) (auto simp: tier_defs Let_def split: if_split_asm)
qed (simp add: newMCPLiveTier_def)

text \<open>The same condition on a list of steps.\<close>

fun arms_serial :: "tier_op list \<Rightarrow> live_tier \<Rightarrow> bool" where
  "arms_serial [] t = True"
| "arms_serial (x # xs) t =
     ((case x of TierArm ready reason \<Rightarrow> lt_draining t = 0 | _ \<Rightarrow> True) \<and> arms_serial xs (tier_step x t))"

lemma arms_serial_run: "arms_serial ops t \<Longrightarrow> serial_run t \<Longrightarrow> serial_run (run_ops tier_step ops t)"
proof (induction ops arbitrary: t)
  case (Cons x ops)
  then have "serial_run (tier_step x t)" by (intro serial_step) auto
  with Cons show ?case by simp
qed simp

text \<open>
  Two drains that overlap: the first one ends and lets the tier be armed again, and the second one then
  puts it back to composed while the mode gate still reads it as armed.
\<close>

lemma overlapping_quiesce:
  "let t = run_ops tier_step [TierCompose, TierArm True ''a'', TierAdmit, TierQuiesce, TierQuiesce, TierDrained,
       TierArm True ''b'', TierDrained] newMCPLiveTier
   in lt_state t = LiveTierComposed \<and> modeExecReady ModeCanary t \<and> \<not> admissionOpen t"
  by code_simp

end
