(* ===== verification/RolloutCommit.thy ===== *)
theory RolloutCommit
  imports RolloutState CanaryRuntime CanaryGate LiveTier
begin

text \<open>
  The rollout coordinator of one capability (\<open>mcp_rollout.go\<close>, \<open>mcp_rollout_persist.go\<close>) with the
  activation preflights it consults (\<open>mcp_canary_preflight.go\<close>, \<open>mcp_shadow_preflight.go\<close>): it
  composes the rollout state, its durable file, the Canary runtime and the live tier. Its mutex makes
  every method one step. The two capabilities have separate states, files, runtimes and tiers.

  What the coordinator reads of the rest of the node (policy, inventory, telemetry, listener, stored
  attestations, the approvals bound to a scope) is a \<open>node_view\<close>, an argument of each call. The
  rehearsal, which drives the same core on a scratch target, is not modelled.
\<close>

section \<open>State\<close>

text \<open>The state file: what decodes, and what does not.\<close>

datatype state_content = StateUndecodable | StateDoc state_persist

record coordinator =
  co_state :: rstate
  co_file :: "state_content disk"
  co_status :: string
  co_transitions :: int
  co_emergencies :: int
  co_runtime :: runtime
  co_tier :: live_tier

record canary_inputs =
  ca_ToolApprovals :: "tool_approval_binding list"
  ca_Budget :: budget
  ca_ServerUsable :: bool
  ca_FingerprintCurrent :: bool

record node_view =
  nv_shadowComposed :: bool
  nv_telemetry :: bool
  nv_policy :: bool
  nv_registry :: bool
  nv_catalog :: bool
  nv_inspection :: bool
  nv_listener :: bool
  nv_usableTool :: "scope_spec \<Rightarrow> nat \<Rightarrow> bool"
  nv_exitReview :: bool
  nv_eventsHealthy :: bool
  nv_rehearsed :: bool
  nv_coordinatorRehearsed :: bool
  nv_inputs :: "scope_spec \<Rightarrow> nat \<Rightarrow> canary_inputs"

text \<open>The clock of a call, its durable writes of the state file, and those of the Canary runtime.\<close>

record commit_io =
  cm_now :: gotime
  cm_write :: fs_faults
  cm_write2 :: fs_faults
  cm_runtime :: runtime_io

text \<open>The coordinator of a process that starts with no files.\<close>

definition getMCPRollout :: "rollout_capability \<Rightarrow> rollout_limits \<Rightarrow> string \<Rightarrow> coordinator" where
  "getMCPRollout capb lim build = \<lparr>co_state = NewState capb lim, co_file = \<lparr>dk_visible = None, dk_revertible = []\<rparr>,
     co_status = [], co_transitions = 0, co_emergencies = 0,
     co_runtime = \<lparr>rn_cap = capb, rn_build = build, rn_mem = fresh_mem, rn_disk = \<lparr>dk_visible = None, dk_revertible = []\<rparr>\<rparr>,
     co_tier = newMCPLiveTier\<rparr>"

definition persistStatus :: "coordinator \<Rightarrow> string" where
  "persistStatus co = (if co_status co = [] then ''fresh'' else co_status co)"

definition setPersistStatus :: "string \<Rightarrow> coordinator \<Rightarrow> coordinator" where
  "setPersistStatus status co = co\<lparr>co_status := status\<rparr>"

section \<open>Persistence\<close>

definition json_tool_sel :: "tool_sel \<Rightarrow> tool_sel" where
  "json_tool_sel t = \<lparr>ts_Server = json_text (ts_Server t), ts_Name = json_text (ts_Name t),
     ts_Fingerprint = json_text (ts_Fingerprint t)\<rparr>"

definition json_spec :: "scope_spec \<Rightarrow> scope_spec" where
  "json_spec s = s\<lparr>sp_Tenants := map json_text (sp_Tenants s), sp_Servers := map json_text (sp_Servers s),
     sp_ToolFingerprints := map json_text (sp_ToolFingerprints s), sp_Tools := map json_tool_sel (sp_Tools s),
     sp_Principals := map json_text (sp_Principals s), sp_Agents := map json_text (sp_Agents s),
     sp_Clients := map json_text (sp_Clients s), sp_Groups := map json_text (sp_Groups s),
     sp_Environments := map json_text (sp_Environments s), sp_BucketSalt := json_text (sp_BucketSalt s),
     sp_ExcludeTenants := map json_text (sp_ExcludeTenants s), sp_ExcludeServers := map json_text (sp_ExcludeServers s),
     sp_ExcludeTools := map json_tool_sel (sp_ExcludeTools s),
     sp_ExcludePrincipals := map json_text (sp_ExcludePrincipals s)\<rparr>"

text \<open>The document as the decoder will read it: JSON replaces invalid UTF-8 in strings.\<close>

definition json_persist :: "state_persist \<Rightarrow> state_persist" where
  "json_persist p = p\<lparr>
     pe_Config := (pe_Config p)\<lparr>cf_Scope := json_spec (cf_Scope (pe_Config p)),
       cf_ShadowScope := json_spec (cf_ShadowScope (pe_Config p)),
       cf_ConnectorMode := json_text (cf_ConnectorMode (pe_Config p))\<rparr>,
     pe_History := map (\<lambda>r. r\<lparr>tr_ScopeHash := json_text (tr_ScopeHash r), tr_Actor := json_text (tr_Actor r),
       tr_Note := json_text (tr_Note r)\<rparr>) (pe_History p),
     pe_Rollback := (pe_Rollback p)\<lparr>rb_LastTargetHash := json_text (rb_LastTargetHash (pe_Rollback p)),
       rb_LastCommandID := json_text (rb_LastCommandID (pe_Rollback p))\<rparr>\<rparr>"

definition persistRolloutState :: "fs_faults \<Rightarrow> coordinator \<Rightarrow> go_error option \<times> coordinator" where
  "persistRolloutState fs co =
     (case write_disk (StateDoc (json_persist (ToPersist (co_state co)))) fs (co_file co) of
        (Some e, d) \<Rightarrow> (Some (WrapErr (Some e)), co\<lparr>co_file := d\<rparr>)
      | (None, d) \<Rightarrow> (None, co\<lparr>co_file := d\<rparr>))"

text \<open>The result of a restore: whether a document was restored, and the error.\<close>

definition restoreRolloutState :: "go_error option \<Rightarrow> coordinator \<Rightarrow> (bool \<times> go_error option) \<times> rstate" where
  "restoreRolloutState readErr co =
     (case readErr of
        Some e \<Rightarrow> ((False, Some (WrapErr (Some e))), co_state co)
      | None \<Rightarrow> (case dk_visible (co_file co) of
          None \<Rightarrow> ((False, None), co_state co)
        | Some StateUndecodable \<Rightarrow> ((False, Some (WrapErr (Some (PlainErr ''corrupt'')))), co_state co)
        | Some (StateDoc p) \<Rightarrow> (case LoadPersist p (co_state co) of
            (Some e, s) \<Rightarrow> ((False, Some (WrapErr (Some e))), s)
          | (None, s) \<Rightarrow> ((True, None), s))))"

section \<open>Preflights\<close>

definition evaluateShadowNodeReadiness :: "node_view \<Rightarrow> rollout_capability \<Rightarrow> coordinator \<Rightarrow> string list" where
  "evaluateShadowNodeReadiness nv capb co =
     (if capb \<noteq> CapabilityGateway then [''shadow_not_supported_for_capability'']
      else concat [
        if \<not> nv_shadowComposed nv \<or> \<not> xd_shadow (co_tier co) then [''shadow_evaluator_not_composed''] else [],
        if xd_live (co_tier co) then [''forbidden_live_execution_requirement''] else [],
        if \<not> nv_telemetry nv then [''durable_events_unavailable''] else [],
        if \<not> nv_policy nv then [''policy_unavailable''] else [],
        if \<not> nv_registry nv \<or> \<not> nv_catalog nv then [''registry_or_catalog_unavailable''] else [],
        if \<not> nv_inspection nv then [''request_inspection_unavailable''] else [],
        if \<not> nv_listener nv then [''gateway_listener_not_ready''] else [],
        if Killed (co_state co) then [''emergency_kill_active''] else []])"

definition evaluateShadowActivationPreflight ::
    "node_view \<Rightarrow> rollout_capability \<Rightarrow> scope_spec \<Rightarrow> nat \<Rightarrow> coordinator \<Rightarrow> string list" where
  "evaluateShadowActivationPreflight nv capb scope scopeRev co =
     (if capb \<noteq> CapabilityGateway then evaluateShadowNodeReadiness nv capb co
      else evaluateShadowNodeReadiness nv capb co @
        (if \<not> nv_usableTool nv scope scopeRev then [''no_usable_shadow_tools''] else []))"

definition shadowPreflightUnreadyIgnoringKill :: "string list \<Rightarrow> bool" where
  "shadowPreflightUnreadyIgnoringKill reasons \<longleftrightarrow> list_ex (\<lambda>r. r \<noteq> ''emergency_kill_active'') reasons"

definition rollbackPathReadyLocked :: "node_view \<Rightarrow> coordinator \<Rightarrow> bool" where
  "rollbackPathReadyLocked nv co =
     (if persistStatus co = ''degraded'' \<or> persistStatus co = ''write_failed'' then False else nv_rehearsed nv)"

definition canaryNodeFactsLocked :: "node_view \<Rightarrow> rollout_capability \<Rightarrow> coordinator \<Rightarrow> facts" where
  "canaryNodeFactsLocked nv capb co =
     (let live = xd_live (co_tier co) in
      \<lparr>CapabilityGatewayFact = (capb = CapabilityGateway),
       ShadowExitReviewPassed = nv_exitReview nv, ScopeBounded = False, ScopeReadFirstFact = False,
       ScopeExactFirstCanary = False, LiveExecutorComposed = live, UpstreamCallerPresent = live,
       CredentialPathReady = live, DurableEventsHealthy = nv_eventsHealthy nv,
       ResponseInspectionReady = nv_inspection nv, RegistryHealthy = nv_registry nv,
       CatalogHealthy = nv_catalog nv, PolicyHealthy = nv_policy nv,
       EmergencyKillClear = (\<not> Killed (co_state co)), KillBoundaryGuardPresent = live,
       ToolFreshnessGuardPresent = live, LiveApprovalValid = False, ServerUsable = False,
       ToolFingerprintCurrent = False, RollbackPathHealthy = rollbackPathReadyLocked nv co,
       RollbackCoordinatorRehearsed = nv_coordinatorRehearsed nv, BudgetConfigured = False\<rparr>)"

definition evaluateActivationOnFacts :: "facts \<Rightarrow> scope_spec \<Rightarrow> nat \<Rightarrow> canary_inputs \<Rightarrow> gotime \<Rightarrow> readiness" where
  "evaluateActivationOnFacts f scope scopeRev ai now = Evaluate (f\<lparr>
     ScopeBounded := (ValidateScope scope scopeRev = []),
     ScopeReadFirstFact := ScopeReadFirst scope,
     ScopeExactFirstCanary := (ValidateFirstCanaryScope scope scopeRev = []),
     LiveApprovalValid := (ValidateScopeApprovals scope (ca_ToolApprovals ai) now = []),
     ServerUsable := ca_ServerUsable ai,
     ToolFingerprintCurrent := ca_FingerprintCurrent ai,
     BudgetConfigured := (ValidateBudget (ca_Budget ai) = [])\<rparr>)"

definition evaluateCanaryActivationPreflightLocked ::
    "node_view \<Rightarrow> rollout_capability \<Rightarrow> scope_spec \<Rightarrow> nat \<Rightarrow> gotime \<Rightarrow> coordinator \<Rightarrow> readiness" where
  "evaluateCanaryActivationPreflightLocked nv capb scope scopeRev now co =
     evaluateActivationOnFacts (canaryNodeFactsLocked nv capb co) scope scopeRev (nv_inputs nv scope scopeRev) now"

definition reviewedTargetsFromBindings :: "tool_approval_binding list \<Rightarrow> reviewed_target list" where
  "reviewedTargetsFromBindings bindings = map (\<lambda>b. let t = tb_Target b in
     \<lparr>rt_Tenant = lt_Tenant t, rt_ServerID = lt_ServerID t, rt_ToolName = lt_ToolName t,
      rt_Fingerprint = lt_Fingerprint t, rt_FingerprintFormat = lt_FingerprintFormat t,
      rt_ServerIdentity = tb_ServerIdentity b,
      rt_OperationClass = (case tb_Approval b of None \<Rightarrow> OpUnset
        | Some a \<Rightarrow> fst (OperationClassFromReviewed (ta_ReviewedOperationClass a)))\<rparr>) bindings"

section \<open>Transitions\<close>

definition transitionErr :: "string \<Rightarrow> go_error" where
  "transitionErr detail = New ReasonRolloutTransitionInvalid ''rollout.transition'' detail"

definition errShadowExecDepsNotConfigured :: go_error where
  "errShadowExecDepsNotConfigured = transitionErr ''shadow_execution_dependencies_not_configured''"

definition errShadowPreflightFailed :: go_error where
  "errShadowPreflightFailed = transitionErr ''shadow_activation_preflight_failed''"

definition errCanaryActivationPreflightFailed :: go_error where
  "errCanaryActivationPreflightFailed = transitionErr ''canary_activation_preflight_failed''"

definition errRolloutCanaryActivationFailed :: go_error where
  "errRolloutCanaryActivationFailed = transitionErr ''canary_runtime_activation_failed''"

definition errRolloutPersistFailed :: go_error where
  "errRolloutPersistFailed = PlainErr ''rollout_persist_failed''"

definition errRolloutCanaryBudgetChanged :: go_error where
  "errRolloutCanaryBudgetChanged = PlainErr ''canary_budget_changed_requires_reactivation''"

definition errRolloutCanaryReviewedTargetsChanged :: go_error where
  "errRolloutCanaryReviewedTargetsChanged = PlainErr ''canary_reviewed_targets_changed_requires_reactivation''"

text \<open>The evidence of a real transition: the entered window starts afresh.\<close>

definition entered_window :: "mode \<Rightarrow> int \<Rightarrow> evidence_origin \<Rightarrow> evidence_summary \<Rightarrow> evidence_summary" where
  "entered_window m nowUnix origin e = BeginWindow m nowUnix origin
     (if m = ModeShadow then e\<lparr>ev_ShadowStartUnix := 0\<rparr>
      else if m = ModeCanary \<or> m = ModeProduction then e\<lparr>ev_CanaryStartUnix := 0\<rparr> else e)"

text \<open>Back to the earlier configuration, or to Disabled when even that is refused.\<close>

definition reinstall :: "signed_config \<Rightarrow> string \<Rightarrow> int \<Rightarrow> rstate \<Rightarrow> rstate" where
  "reinstall prevCfg actor at s = (case SetConfig prevCfg actor at s of
     (None, s') \<Rightarrow> s'
   | (Some e, s') \<Rightarrow> snd (SetConfig (DisabledConfig (ro_capability s)) actor at s'))"

definition rejectActivationAndRollback ::
    "commit_io \<Rightarrow> string \<Rightarrow> signed_config \<Rightarrow> evidence_summary \<Rightarrow> go_error \<Rightarrow> coordinator \<Rightarrow> go_error option \<times> coordinator" where
  "rejectActivationAndRollback io actor prevCfg prevEvidence cause co =
     (let st = reinstall prevCfg actor (UnixNano (cm_now io)) (UpdateEvidence (\<lambda>_. prevEvidence) (co_state co));
          co' = (case persistRolloutState (cm_write2 io) (co\<lparr>co_state := st\<rparr>) of
              (Some e, c) \<Rightarrow> setPersistStatus ''write_failed'' c
            | (None, c) \<Rightarrow> setPersistStatus ''activation_failed'' c)
      in (Some (JoinErr [errRolloutCanaryActivationFailed, cause]), co'))"

definition reconcileCanaryRuntimeAfterCommit ::
    "commit_io \<Rightarrow> mode \<Rightarrow> string \<Rightarrow> mode \<Rightarrow> signed_config \<Rightarrow> evidence_summary \<Rightarrow> activation_spec \<Rightarrow> coordinator \<Rightarrow>
     go_error option \<times> coordinator" where
  "reconcileCanaryRuntimeAfterCommit io m actor prevMode prevCfg prevEvidence activation co =
     (let mem = rn_mem (co_runtime co);
          reject = (\<lambda>cause c. rejectActivationAndRollback io actor prevCfg prevEvidence cause c)
      in if RequiresLiveExecution m \<and> \<not> RequiresLiveExecution prevMode then
           (case beginCanaryActivation (cm_runtime io) activation (co_runtime co) of
              ((gen, Some e), rt) \<Rightarrow> reject e (co\<lparr>co_runtime := rt\<rparr>)
            | ((gen, None), rt) \<Rightarrow> (None, co\<lparr>co_runtime := rt\<rparr>))
         else if RequiresLiveExecution m \<and> RequiresLiveExecution prevMode then
           (if cr_active mem \<and> cr_budget mem \<noteq> as_Budget activation then reject errRolloutCanaryBudgetChanged co
            else if cr_active mem \<and> (case CanonicalizeReviewedTargets (as_ReviewedTargets activation) of (cand, rr) \<Rightarrow>
                rr \<noteq> [] \<or> cr_reviewed mem \<noteq> cand) then reject errRolloutCanaryReviewedTargetsChanged co
            else (None, co))
         else if RequiresLiveExecution prevMode then
           (None, co\<lparr>co_tier := unarmForDemote (co_tier co),
                     co_runtime := snd (demoteCanary (cm_runtime io) (co_runtime co))\<rparr>)
         else (None, co))"

text \<open>The gates before the first change: the tier, the Shadow preflight and the Canary preflight.\<close>

definition commit_gate :: "node_view \<Rightarrow> signed_config \<Rightarrow> gotime \<Rightarrow> coordinator \<Rightarrow> go_error option" where
  "commit_gate nv cfg now co = first_err [
     err_if (\<not> modeExecReady (cf_Mode cfg) (co_tier co)) errShadowExecDepsNotConfigured,
     err_if (cf_Mode cfg = ModeShadow \<and> cf_Capability cfg = CapabilityGateway \<and>
         evaluateShadowActivationPreflight nv (cf_Capability cfg) (cf_Scope cfg) (cf_ScopeRevision cfg) co \<noteq> []) errShadowPreflightFailed,
     err_if (RequiresLiveExecution (cf_Mode cfg) \<and>
         \<not> rd_Ready (evaluateCanaryActivationPreflightLocked nv (cf_Capability cfg) (cf_Scope cfg) (cf_ScopeRevision cfg) now co))
       errCanaryActivationPreflightFailed]"

text \<open>What a live transition arms: the budget and the targets the preflight has just read.\<close>

definition activation_of :: "node_view \<Rightarrow> signed_config \<Rightarrow> gotime \<Rightarrow> activation_spec" where
  "activation_of nv cfg now =
     (let ai = nv_inputs nv (cf_Scope cfg) (cf_ScopeRevision cfg) in
      if RequiresLiveExecution (cf_Mode cfg)
      then \<lparr>as_Budget = ca_Budget ai, as_ReviewedTargets = reviewedTargetsFromBindings (ca_ToolApprovals ai),
             as_StartedAt = now\<rparr>
      else \<lparr>as_Budget = zero_budget, as_ReviewedTargets = [], as_StartedAt = now\<rparr>)"

definition commitRolloutTransitionCore ::
    "commit_io \<Rightarrow> node_view \<Rightarrow> signed_config \<Rightarrow> string \<Rightarrow> evidence_origin \<Rightarrow> coordinator \<Rightarrow> go_error option \<times> coordinator" where
  "commitRolloutTransitionCore io nv cfg actor origin co =
     (case commit_gate nv cfg (cm_now io) co of
        Some e \<Rightarrow> (Some e, co)
      | None \<Rightarrow>
          let st = co_state co;
              activation = activation_of nv cfg (cm_now io);
              at = UnixNano (cm_now io)
          in (case SetConfig cfg actor at st of
                (Some e, st1) \<Rightarrow> (Some e, co\<lparr>co_state := st1\<rparr>)
              | (None, st1) \<Rightarrow>
                  let st2 = (if CurrentMode st = cf_Mode cfg \<and> ScopeHash st = ScopeHash st1 then st1
                        else UpdateEvidence (entered_window (cf_Mode cfg) (Time_Unix (cm_now io)) origin) st1)
                  in (case persistRolloutState (cm_write io) (co\<lparr>co_state := st2\<rparr>) of
                        (Some e, co1) \<Rightarrow>
                          (Some (WrapErr (Some errRolloutPersistFailed)),
                           setPersistStatus ''write_failed'' (co1\<lparr>co_state := UpdateEvidence (\<lambda>_. ro_evidence st)
                             (reinstall (CurrentConfig st) actor at st2)\<rparr>))
                      | (None, co1) \<Rightarrow>
                          (case reconcileCanaryRuntimeAfterCommit io (cf_Mode cfg) actor (CurrentMode st)
                              (CurrentConfig st) (ro_evidence st) activation co1 of
                             (Some e, co2) \<Rightarrow> (Some e, co2)
                           | (None, co2) \<Rightarrow> (None, setPersistStatus ''recovered''
                               (co2\<lparr>co_transitions := co_transitions co2 + 1\<rparr>))))))"

text \<open>The entry points; no configuration is no transition.\<close>

definition commitRolloutTransitionAt ::
    "commit_io \<Rightarrow> node_view \<Rightarrow> signed_config option \<Rightarrow> string \<Rightarrow> evidence_origin \<Rightarrow> coordinator \<Rightarrow>
     go_error option \<times> coordinator" where
  "commitRolloutTransitionAt io nv cfg actor origin co = (case cfg of
     None \<Rightarrow> (None, co) | Some c \<Rightarrow> commitRolloutTransitionCore io nv c actor origin co)"

definition commitRolloutTransition ::
    "commit_io \<Rightarrow> node_view \<Rightarrow> signed_config option \<Rightarrow> string \<Rightarrow> coordinator \<Rightarrow> go_error option \<times> coordinator" where
  "commitRolloutTransition io nv cfg actor co = commitRolloutTransitionAt io nv cfg actor OriginProduction co"

section \<open>Emergencies\<close>

definition emergencyDisable :: "commit_io \<Rightarrow> string \<Rightarrow> coordinator \<Rightarrow> go_error option \<times> coordinator" where
  "emergencyDisable io actor co =
     (case persistRolloutState (cm_write io)
        (co\<lparr>co_state := EngageKillSwitch actor (UnixNano (cm_now io)) (co_state co), co_emergencies := co_emergencies co + 1\<rparr>) of
        (Some e, c) \<Rightarrow> (Some (WrapErr (Some errRolloutPersistFailed)), setPersistStatus ''write_failed'' c)
      | (None, c) \<Rightarrow> (None, setPersistStatus ''recovered'' c))"

definition clearEmergency :: "commit_io \<Rightarrow> coordinator \<Rightarrow> go_error option \<times> coordinator" where
  "clearEmergency io co =
     (case persistRolloutState (cm_write io) (co\<lparr>co_state := ClearKillSwitch (co_state co)\<rparr>) of
        (Some e, c) \<Rightarrow> (Some (WrapErr (Some errRolloutPersistFailed)), setPersistStatus ''write_failed'' c)
      | (None, c) \<Rightarrow> (None, setPersistStatus ''recovered'' c))"

section \<open>Startup\<close>

definition clamp :: "gotime \<Rightarrow> coordinator \<Rightarrow> coordinator" where
  "clamp now co = setPersistStatus ''degraded'' (co\<lparr>co_state :=
     snd (SetConfig (DisabledConfig (ro_capability (co_state co))) ''restore-clamp'' (UnixNano now) (co_state co))\<rparr>)"

definition restore :: "commit_io \<Rightarrow> node_view \<Rightarrow> go_error option \<Rightarrow> coordinator \<Rightarrow> coordinator" where
  "restore io nv readErr co0 =
     (case restoreRolloutState readErr co0 of
        ((_, Some e), st) \<Rightarrow> setPersistStatus ''degraded'' (co0\<lparr>co_state := st\<rparr>)
      | ((False, None), st) \<Rightarrow> setPersistStatus ''fresh'' (co0\<lparr>co_state := st\<rparr>)
      | ((True, None), st) \<Rightarrow>
          let co = co0\<lparr>co_state := st\<rparr>; cfg = CurrentConfig st in
          if \<not> modeExecReady (CurrentMode st) (co_tier co) then clamp (cm_now io) co
          else if CurrentMode st = ModeShadow \<and> shadowPreflightUnreadyIgnoringKill
              (evaluateShadowActivationPreflight nv (ro_capability st) (cf_Scope cfg) (cf_ScopeRevision cfg) co) then clamp (cm_now io) co
          else if RequiresLiveExecution (CurrentMode st) \<and> \<not> rd_Ready
              (evaluateCanaryActivationPreflightLocked nv (ro_capability st) (cf_Scope cfg) (cf_ScopeRevision cfg) (cm_now io) co)
            then clamp (cm_now io) co
          else setPersistStatus ''recovered'' co)"

text \<open>
  A crash and the start of the next process, of build \<open>build\<close>: both files come back with one of their
  possible contents, everything in memory is fresh, and the tier is \<open>tier\<close>.
\<close>

definition initMCPRollout ::
    "commit_io \<Rightarrow> node_view \<Rightarrow> go_error option \<Rightarrow> nat \<Rightarrow> nat \<Rightarrow> string \<Rightarrow> live_tier \<Rightarrow> coordinator \<Rightarrow> coordinator" where
  "initMCPRollout io nv readErr k k' build tier co =
     (let co1 = restore io nv readErr \<lparr>co_state = NewState (ro_capability (co_state co)) (ro_lim (co_state co)),
            co_file = crash_disk k (co_file co), co_status = [], co_transitions = 0, co_emergencies = 0,
            co_runtime = co_runtime co, co_tier = tier\<rparr>;
          rt = crash_restart (cm_runtime io) k' build (co_runtime co1)
      in co1\<lparr>co_runtime := reconcileCanaryRuntimeAfterRestore (cm_runtime io) (CurrentMode (co_state co1)) rt\<rparr>)"

section \<open>What a rejected transition leaves\<close>

text \<open>
  The facts of the state that a transition must not change when it is rejected: everything but the
  history.
\<close>

definition same_rollout :: "rstate \<Rightarrow> rstate \<Rightarrow> bool" where
  "same_rollout s s' \<longleftrightarrow> ro_cur s' = ro_cur s \<and> ro_evidence s' = ro_evidence s \<and> ro_capability s' = ro_capability s \<and>
     ro_lim s' = ro_lim s \<and> ro_desired s' = ro_desired s \<and> ro_rollback s' = ro_rollback s"

text \<open>A state on the way: the configuration and the evidence differ, the rest is that of the start.\<close>

definition moved_rollout :: "rstate \<Rightarrow> rstate \<Rightarrow> bool" where
  "moved_rollout s s' \<longleftrightarrow> as_killed (ro_cur s') = as_killed (ro_cur s) \<and> as_killGen (ro_cur s') = as_killGen (ro_cur s) \<and>
     ro_capability s' = ro_capability s \<and> ro_lim s' = ro_lim s \<and> ro_desired s' = ro_desired s \<and>
     ro_rollback s' = ro_rollback s"

definition state_ok :: "rstate \<Rightarrow> bool" where
  "state_ok s \<longleftrightarrow> RolloutCapability_Valid (ro_capability s) \<and> limits_ok (ro_lim s) \<and>
     bundle_wf (ro_capability s) (ro_lim s) (ro_cur s)"

lemma same_rollout_refl [simp]: "same_rollout s s"
  by (simp add: same_rollout_def)

lemma moved_UpdateEvidence [simp]: "moved_rollout s (UpdateEvidence f s') = moved_rollout s s'"
  by (simp add: moved_rollout_def UpdateEvidence_def)

lemma UpdateEvidence_fields [simp]:
  "ro_cur (UpdateEvidence f s) = ro_cur s" "ro_capability (UpdateEvidence f s) = ro_capability s"
  "ro_lim (UpdateEvidence f s) = ro_lim s" "ro_evidence (UpdateEvidence f s) = f (ro_evidence s)"
  by (simp_all add: UpdateEvidence_def)

lemma SetConfig_moved:
  assumes "SetConfig cfg actor at s = (None, s')"
  shows "moved_rollout s s'" and "as_config (ro_cur s') = cfg" and "as_mode (ro_cur s') = cf_Mode cfg"
    and "bundle_wf (ro_capability s) (ro_lim s) (ro_cur s')"
  using assms by (cases rule: SetConfig_cases[of cfg actor at s]; auto simp: moved_rollout_def bundle_wf_def)+

lemma SetConfig_refused: "SetConfig cfg actor at s = (Some e, s') \<Longrightarrow> s' = s"
  by (cases rule: SetConfig_cases[of cfg actor at s]) auto

lemma SetConfig_again:
  assumes "bundle_wf (ro_capability s) (ro_lim s) (ro_cur s)" and "moved_rollout s s1"
  obtains s' where "SetConfig (CurrentConfig s) actor at s1 = (None, s')" "ro_cur s' = ro_cur s"
    "moved_rollout s s'" "ro_evidence s' = ro_evidence s1"
proof (cases rule: SetConfig_cases[of "CurrentConfig s" actor at s1])
  case (rejected err)
  with assms show ?thesis by (simp add: bundle_wf_def moved_rollout_def CurrentConfig_def)
next
  case (installed s')
  have "ro_cur s' = ro_cur s"
    using assms installed
    by (intro active_state.equality) (auto simp: bundle_wf_def moved_rollout_def CurrentConfig_def)
  moreover have "moved_rollout s s'" using assms(2) installed by (simp add: moved_rollout_def)
  ultimately show ?thesis using installed that by blast
qed

lemma reinstall_restores:
  assumes "bundle_wf (ro_capability s) (ro_lim s) (ro_cur s)" and "moved_rollout s s1" and "ro_evidence s1 = ro_evidence s"
  shows "same_rollout s (reinstall (CurrentConfig s) actor at s1)"
proof -
  obtain s' where "SetConfig (CurrentConfig s) actor at s1 = (None, s')" "ro_cur s' = ro_cur s"
    "moved_rollout s s'" "ro_evidence s' = ro_evidence s1"
    by (rule SetConfig_again[OF assms(1,2)])
  then show ?thesis using assms(3) by (simp add: reinstall_def same_rollout_def moved_rollout_def)
qed

lemma reinstall_then_evidence:
  assumes "bundle_wf (ro_capability s) (ro_lim s) (ro_cur s)" and "moved_rollout s s1"
  shows "same_rollout s (UpdateEvidence (\<lambda>_. ro_evidence s) (reinstall (CurrentConfig s) actor at s1))"
proof -
  obtain s' where "SetConfig (CurrentConfig s) actor at s1 = (None, s')" "ro_cur s' = ro_cur s"
    "moved_rollout s s'" "ro_evidence s' = ro_evidence s1"
    by (rule SetConfig_again[OF assms])
  then show ?thesis by (simp add: reinstall_def same_rollout_def moved_rollout_def UpdateEvidence_def)
qed

lemma persistRolloutState_fields:
  assumes "persistRolloutState fs co = (res, co')"
  shows "co_state co' = co_state co" "co_runtime co' = co_runtime co" "co_tier co' = co_tier co"
    "co_transitions co' = co_transitions co" "co_emergencies co' = co_emergencies co" "co_status co' = co_status co"
  using assms by (auto simp: persistRolloutState_def split: prod.splits option.splits)

lemma persistRolloutState_synced:
  assumes "persistRolloutState fs co = (None, co')" and "reported fs"
  shows "contents (co_file co') = {Some (StateDoc (json_persist (ToPersist (co_state co))))}"
proof -
  let ?c = "StateDoc (json_persist (ToPersist (co_state co)))"
  obtain err d where w: "write_disk ?c fs (co_file co) = (err, d)" by (rule prod.exhaust)
  have "err = None"
    using assms(1) unfolding persistRolloutState_def w by (cases err) simp_all
  moreover from this have "co' = co\<lparr>co_file := d\<rparr>"
    using assms(1) unfolding persistRolloutState_def w by simp
  ultimately show ?thesis using write_disk_synced[OF w[unfolded \<open>err = None\<close>] assms(2)] by simp
qed

lemma setPersistStatus_fields [simp]:
  "co_state (setPersistStatus x co) = co_state co" "co_runtime (setPersistStatus x co) = co_runtime co"
  "co_tier (setPersistStatus x co) = co_tier co" "co_transitions (setPersistStatus x co) = co_transitions co"
  "co_file (setPersistStatus x co) = co_file co" "co_status (setPersistStatus x co) = x"
  by (simp_all add: setPersistStatus_def)

lemma reject_fields:
  assumes "rejectActivationAndRollback io actor (CurrentConfig s) (ro_evidence s) cause co = (res, co')"
    and "bundle_wf (ro_capability s) (ro_lim s) (ro_cur s)" and "moved_rollout s (co_state co)"
  shows "res = Some (JoinErr [errRolloutCanaryActivationFailed, cause])" "same_rollout s (co_state co')"
    "co_runtime co' = co_runtime co" "co_tier co' = co_tier co" "co_transitions co' = co_transitions co"
    "co_status co' \<in> {''write_failed'', ''activation_failed''}"
  using assms(1) reinstall_restores[OF assms(2),
      of "UpdateEvidence (\<lambda>_. ro_evidence s) (co_state co)" actor "UnixNano (cm_now io)"] assms(3)
  by (auto simp: rejectActivationAndRollback_def Let_def persistRolloutState_fields split: prod.splits option.splits)

lemma begin_failed:
  "beginCanaryActivation io spec r = ((gen, Some e), rt) \<Longrightarrow> rt = r \<or> \<not> cr_active (rn_mem rt)"
  by (auto simp: beginCanaryActivation_def Let_def cleanup_runtime_def disarmed_def split: prod.splits option.splits if_split_asm)

lemma reconcile_cases:
  assumes "reconcileCanaryRuntimeAfterCommit io m actor prevMode (CurrentConfig s) (ro_evidence s) spec co = (res, co')"
    and "bundle_wf (ro_capability s) (ro_lim s) (ro_cur s)" and "moved_rollout s (co_state co)"
  obtains (rejected) e where "res = Some e" "same_rollout s (co_state co')" "co_tier co' = co_tier co"
      "co_transitions co' = co_transitions co" "co_runtime co' = co_runtime co \<or> \<not> cr_active (rn_mem (co_runtime co'))"
  | (entered) gen rt where "RequiresLiveExecution m" "\<not> RequiresLiveExecution prevMode"
      "beginCanaryActivation (cm_runtime io) spec (co_runtime co) = ((gen, None), rt)"
      "res = None" "co' = co\<lparr>co_runtime := rt\<rparr>"
  | (kept) "RequiresLiveExecution m" "RequiresLiveExecution prevMode" "res = None" "co' = co"
      "cr_active (rn_mem (co_runtime co)) \<Longrightarrow> cr_budget (rn_mem (co_runtime co)) = as_Budget spec \<and>
         CanonicalizeReviewedTargets (as_ReviewedTargets spec) = (cr_reviewed (rn_mem (co_runtime co)), [])"
  | (left) "\<not> RequiresLiveExecution m" "RequiresLiveExecution prevMode" "res = None"
      "co' = co\<lparr>co_tier := unarmForDemote (co_tier co), co_runtime := snd (demoteCanary (cm_runtime io) (co_runtime co))\<rparr>"
  | (outside) "\<not> RequiresLiveExecution m" "\<not> RequiresLiveExecution prevMode" "res = None" "co' = co"
proof (cases "RequiresLiveExecution m \<and> \<not> RequiresLiveExecution prevMode")
  case True
  obtain gen err rt where b: "beginCanaryActivation (cm_runtime io) spec (co_runtime co) = ((gen, err), rt)"
    by (metis prod.exhaust)
  show ?thesis
  proof (cases err)
    case None
    with True b assms(1) show ?thesis by (intro entered) (auto simp: reconcileCanaryRuntimeAfterCommit_def)
  next
    case (Some e)
    then have "rejectActivationAndRollback io actor (CurrentConfig s) (ro_evidence s) e (co\<lparr>co_runtime := rt\<rparr>) = (res, co')"
      using True b assms(1) by (simp add: reconcileCanaryRuntimeAfterCommit_def)
    from reject_fields[OF this assms(2)] assms(3) begin_failed[OF b[unfolded Some]] show ?thesis
      by (intro rejected) auto
  qed
next
  case notEntering: False
  let ?bad = "\<lambda>cause. rejectActivationAndRollback io actor (CurrentConfig s) (ro_evidence s) cause co = (res, co')"
  have bad: ?thesis if "?bad cause" for cause
    using reject_fields[OF that assms(2,3)] by (intro rejected) auto
  show ?thesis
  proof (cases "RequiresLiveExecution m")
    case True
    note eq = assms(1)[unfolded reconcileCanaryRuntimeAfterCommit_def Let_def]
    have live: "RequiresLiveExecution prevMode" using True notEntering by simp
    let ?mem = "rn_mem (co_runtime co)"
    obtain cand rr where c: "CanonicalizeReviewedTargets (as_ReviewedTargets spec) = (cand, rr)" by fastforce
    consider "cr_active ?mem" "cr_budget ?mem \<noteq> as_Budget spec"
      | "cr_active ?mem" "cr_budget ?mem = as_Budget spec" "rr \<noteq> [] \<or> cr_reviewed ?mem \<noteq> cand"
      | "cr_active ?mem \<Longrightarrow> cr_budget ?mem = as_Budget spec \<and> rr = [] \<and> cr_reviewed ?mem = cand"
      by blast
    then show ?thesis
    proof cases
      case 1
      then have "?bad errRolloutCanaryBudgetChanged" using eq True live by simp
      then show ?thesis by (rule bad)
    next
      case 2
      then have "?bad errRolloutCanaryReviewedTargetsChanged" using eq True live c by simp
      then show ?thesis by (rule bad)
    next
      case 3
      then have "(res, co') = (None, co)" using eq True live c by (cases "cr_active ?mem") simp_all
      with 3 c True live show ?thesis by (intro kept) simp_all
    qed
  next
    case False
    with assms(1) show ?thesis
      by (auto simp: reconcileCanaryRuntimeAfterCommit_def Let_def split: if_split_asm intro: left outside)
  qed
qed

lemma commit_cases:
  assumes "commitRolloutTransitionCore io nv cfg actor origin co = (res, co')"
  obtains (gated) e where "commit_gate nv cfg (cm_now io) co = Some e" "res = Some e" "co' = co"
  | (refused) e where "SetConfig cfg actor (UnixNano (cm_now io)) (co_state co) = (Some e, co_state co)"
      "res = Some e" "co' = co"
  | (unpersisted) s2 co1 e where "moved_rollout (co_state co) s2" "as_config (ro_cur s2) = cfg"
      "persistRolloutState (cm_write io) (co\<lparr>co_state := s2\<rparr>) = (Some e, co1)"
      "res = Some (WrapErr (Some errRolloutPersistFailed))"
      "co' = setPersistStatus ''write_failed'' (co1\<lparr>co_state := UpdateEvidence (\<lambda>_. ro_evidence (co_state co))
         (reinstall (CurrentConfig (co_state co)) actor (UnixNano (cm_now io)) s2)\<rparr>)"
  | (reconciled) s2 co1 co2 where "commit_gate nv cfg (cm_now io) co = None" "moved_rollout (co_state co) s2"
      "as_config (ro_cur s2) = cfg" "bundle_wf (ro_capability (co_state co)) (ro_lim (co_state co)) (ro_cur s2)"
      "persistRolloutState (cm_write io) (co\<lparr>co_state := s2\<rparr>) = (None, co1)"
      "reconcileCanaryRuntimeAfterCommit io (cf_Mode cfg) actor (CurrentMode (co_state co)) (CurrentConfig (co_state co))
         (ro_evidence (co_state co)) (activation_of nv cfg (cm_now io)) co1 = (res, co2)"
      "co' = (if res = None then setPersistStatus ''recovered'' (co2\<lparr>co_transitions := co_transitions co2 + 1\<rparr>) else co2)"
proof (cases "commit_gate nv cfg (cm_now io) co")
  case (Some e)
  then have "(res, co') = (Some e, co)" using assms by (simp add: commitRolloutTransitionCore_def)
  then show ?thesis by (intro gated[OF Some]) simp_all
next
  case gate: None
  let ?s = "co_state co" and ?at = "UnixNano (cm_now io)"
  obtain err s1 where sc: "SetConfig cfg actor ?at ?s = (err, s1)" by fastforce
  show ?thesis
  proof (cases err)
    case (Some e)
    with sc have "s1 = ?s" by (auto dest: SetConfig_refused)
    then have "(res, co') = (Some e, co)" using Some sc gate assms by (simp add: commitRolloutTransitionCore_def Let_def)
    with sc Some \<open>s1 = ?s\<close> show ?thesis by (intro refused) simp_all
  next
    case None
    define s2 where "s2 = (if CurrentMode ?s = cf_Mode cfg \<and> ScopeHash ?s = ScopeHash s1 then s1
      else UpdateEvidence (entered_window (cf_Mode cfg) (Time_Unix (cm_now io)) origin) s1)"
    note m = SetConfig_moved[OF sc[unfolded None]]
    have s2: "moved_rollout ?s s2" "as_config (ro_cur s2) = cfg" "bundle_wf (ro_capability ?s) (ro_lim ?s) (ro_cur s2)"
      using m by (auto simp: s2_def)
    obtain perr co1 where p: "persistRolloutState (cm_write io) (co\<lparr>co_state := s2\<rparr>) = (perr, co1)" by fastforce
    show ?thesis
    proof (cases perr)
      case (Some e)
      have "(res, co') = (Some (WrapErr (Some errRolloutPersistFailed)), setPersistStatus ''write_failed''
          (co1\<lparr>co_state := UpdateEvidence (\<lambda>_. ro_evidence ?s) (reinstall (CurrentConfig ?s) actor ?at s2)\<rparr>))"
        using p sc None gate assms
        by (simp add: commitRolloutTransitionCore_def Let_def s2_def[symmetric] Some del: Product_Type.prod.inject)
      then show ?thesis by (intro unpersisted[OF s2(1,2) p[unfolded Some]]) simp_all
    next
      case None': None
      obtain r2 co2 where rc: "reconcileCanaryRuntimeAfterCommit io (cf_Mode cfg) actor (CurrentMode ?s) (CurrentConfig ?s)
          (ro_evidence ?s) (activation_of nv cfg (cm_now io)) co1 = (r2, co2)" by fastforce
      from p None' sc None gate rc assms
      have r: "res = r2" "co' = (if r2 = None then setPersistStatus ''recovered''
          (co2\<lparr>co_transitions := co_transitions co2 + 1\<rparr>) else co2)"
        by (auto simp: commitRolloutTransitionCore_def Let_def s2_def[symmetric] split: option.splits)
      from reconciled[OF gate s2 p[unfolded None'], of co2] rc r show ?thesis by simp
    qed
  qed
qed

section \<open>Steps\<close>

text \<open>
  The executions, trips and settlements reach the runtime without the coordinator; the activations and
  demotions only through it.
\<close>

fun execution_op :: "runtime_op \<Rightarrow> bool" where
  "execution_op (OpReserve ident) = True"
| "execution_op (OpRelease gen) = True"
| "execution_op (OpTrip gen code) = True"
| "execution_op (OpSettled gen failed latency) = True"
| "execution_op (OpWatchdog gen) = True"
| "execution_op _ = False"

datatype co_op =
    CoCommit commit_io node_view "signed_config option" string evidence_origin
  | CoEmergency commit_io string
  | CoClear commit_io
  | CoExecution runtime_io runtime_op
  | CoTier tier_op
  | CoStart commit_io node_view "go_error option" nat nat string live_tier

fun co_step :: "co_op \<Rightarrow> coordinator \<Rightarrow> coordinator" where
  "co_step (CoCommit io nv cfg actor origin) co = snd (commitRolloutTransitionAt io nv cfg actor origin co)"
| "co_step (CoEmergency io actor) co = snd (emergencyDisable io actor co)"
| "co_step (CoClear io) co = snd (clearEmergency io co)"
| "co_step (CoExecution io x) co =
     (if execution_op x then co\<lparr>co_runtime := runtime_step (io, x) (co_runtime co)\<rparr> else co)"
| "co_step (CoTier x) co = co\<lparr>co_tier := tier_step x (co_tier co)\<rparr>"
| "co_step (CoStart io nv readErr k k' build tier) co = initMCPRollout io nv readErr k k' build tier co"

section \<open>The runtime is armed in live modes only\<close>

definition co_ok :: "coordinator \<Rightarrow> bool" where
  "co_ok co \<longleftrightarrow> state_ok (co_state co) \<and>
     (cr_active (rn_mem (co_runtime co)) \<longrightarrow> RequiresLiveExecution (CurrentMode (co_state co)))"

lemma trip_active: "cr_active (rn_mem (tripAutoStopLocked code now fs cf r)) = cr_active (rn_mem r)"
  by (simp add: tripAutoStopLocked_def Let_def split: prod.splits)

lemma window_mem:
  "cr_active (rn_mem (reconcileWindowDeadlineLocked now fs cf r)) = cr_active (rn_mem r)"
  by (simp add: reconcileWindowDeadlineLocked_def Let_def trip_active stopWindowWatchdog_def armWindowWatchdog_def split: prod.splits)

lemma execution_inactive:
  assumes "\<not> cr_active (rn_mem r)" and "execution_op x"
  shows "\<not> cr_active (rn_mem (runtime_step (io, x) r))"
  using assms by (cases x) (simp_all add: reserveCanaryExecution_def releaseCanaryExecution_def Let_def
    tripCanaryAbortForGeneration_def observeAttemptSettled_def watchdog_callback_def windowDeadlineIfOpen_def trip_active)

lemma demote_inactive: "\<not> cr_active (rn_mem (snd (demoteCanary io r)))"
  by (simp add: demoteCanary_def persistRuntime_def cleanup_runtime_def Let_def disarmed_def split: prod.splits option.splits)

lemma reconcile_restore_active:
  "cr_active (rn_mem (reconcileCanaryRuntimeAfterRestore io m r)) \<Longrightarrow> RequiresLiveExecution m"
  using demote_inactive[of io r] by (auto simp: reconcileCanaryRuntimeAfterRestore_def split: if_split_asm)

lemma same_rollout_ok: "state_ok s \<Longrightarrow> same_rollout s s' \<Longrightarrow> state_ok s' \<and> CurrentMode s' = CurrentMode s"
  by (simp add: state_ok_def same_rollout_def CurrentMode_def)

lemma commit_rejected:
  assumes "state_ok (co_state co)" and "commitRolloutTransitionCore io nv cfg actor origin co = (Some e, co')"
  shows "same_rollout (co_state co) (co_state co') \<and> co_tier co' = co_tier co \<and> co_transitions co' = co_transitions co \<and>
    (co_runtime co' = co_runtime co \<or> \<not> cr_active (rn_mem (co_runtime co')))"
  using assms(2)
proof (cases rule: commit_cases)
  case (unpersisted s2 co1 e)
  with assms(1) persistRolloutState_fields[OF unpersisted(3)] show ?thesis
    by (simp add: reinstall_then_evidence state_ok_def)
next
  case (reconciled s2 co1 co2)
  have wf: "bundle_wf (ro_capability (co_state co)) (ro_lim (co_state co)) (ro_cur (co_state co))"
    using assms(1) by (simp add: state_ok_def)
  have mv: "moved_rollout (co_state co) (co_state co1)" using reconciled persistRolloutState_fields[OF reconciled(5)] by simp
  from reconciled(6) wf mv show ?thesis
  proof (cases rule: reconcile_cases)
    case (rejected e)
    with reconciled persistRolloutState_fields[OF reconciled(5)] show ?thesis by auto
  qed (use reconciled in auto)
qed auto

lemma commit_accepted:
  assumes "state_ok (co_state co)" and "commitRolloutTransitionCore io nv cfg actor origin co = (None, co')"
  obtains (entered) gen rt where "RequiresLiveExecution (cf_Mode cfg)" "\<not> RequiresLiveExecution (CurrentMode (co_state co))"
      "beginCanaryActivation (cm_runtime io) (activation_of nv cfg (cm_now io)) (co_runtime co) = ((gen, None), rt)"
      "co_runtime co' = rt" "co_tier co' = co_tier co"
  | (kept) "RequiresLiveExecution (cf_Mode cfg)" "RequiresLiveExecution (CurrentMode (co_state co))"
      "co_runtime co' = co_runtime co" "co_tier co' = co_tier co"
      "cr_active (rn_mem (co_runtime co)) \<Longrightarrow> cr_budget (rn_mem (co_runtime co)) = as_Budget (activation_of nv cfg (cm_now io)) \<and>
         CanonicalizeReviewedTargets (as_ReviewedTargets (activation_of nv cfg (cm_now io))) = (cr_reviewed (rn_mem (co_runtime co)), [])"
  | (left) "\<not> RequiresLiveExecution (cf_Mode cfg)" "RequiresLiveExecution (CurrentMode (co_state co))"
      "co_runtime co' = snd (demoteCanary (cm_runtime io) (co_runtime co))" "co_tier co' = unarmForDemote (co_tier co)"
  | (outside) "\<not> RequiresLiveExecution (cf_Mode cfg)" "\<not> RequiresLiveExecution (CurrentMode (co_state co))"
      "co_runtime co' = co_runtime co" "co_tier co' = co_tier co"
  using assms(2)
proof (cases rule: commit_cases)
  case (reconciled s2 co1 co2)
  have wf: "bundle_wf (ro_capability (co_state co)) (ro_lim (co_state co)) (ro_cur (co_state co))"
    using assms(1) by (simp add: state_ok_def)
  have mv: "moved_rollout (co_state co) (co_state co1)" using reconciled persistRolloutState_fields[OF reconciled(5)] by simp
  from reconciled(6) wf mv show ?thesis
  proof (cases rule: reconcile_cases)
    case (entered gen rt)
    with reconciled persistRolloutState_fields[OF reconciled(5)] show ?thesis by (intro that(1)) simp_all
  next
    case kept
    with reconciled persistRolloutState_fields[OF reconciled(5)] show ?thesis by (intro that(2)) simp_all
  next
    case left
    with reconciled persistRolloutState_fields[OF reconciled(5)] show ?thesis by (intro that(3)) simp_all
  next
    case outside
    with reconciled persistRolloutState_fields[OF reconciled(5)] show ?thesis by (intro that(4)) simp_all
  qed simp
qed auto

lemma reconcile_keeps:
  assumes "reconcileCanaryRuntimeAfterCommit io m actor prevMode (CurrentConfig s) (ro_evidence s) spec co = (None, co')"
    and "bundle_wf (ro_capability s) (ro_lim s) (ro_cur s)" and "moved_rollout s (co_state co)"
  shows "co_state co' = co_state co \<and> co_file co' = co_file co"
  using assms by (cases rule: reconcile_cases) auto

text \<open>What an accepted transition leaves: the new configuration, on disk before the caller hears of it.\<close>

lemma commit_installed:
  assumes "state_ok (co_state co)" and "commitRolloutTransitionCore io nv cfg actor origin co = (None, co')"
  shows "commit_gate nv cfg (cm_now io) co = None \<and> moved_rollout (co_state co) (co_state co') \<and> state_ok (co_state co') \<and>
    CurrentConfig (co_state co') = cfg \<and> CurrentMode (co_state co') = cf_Mode cfg \<and> co_status co' = ''recovered'' \<and>
    (reported (cm_write io) \<longrightarrow> contents (co_file co') = {Some (StateDoc (json_persist (ToPersist (co_state co'))))})"
  using assms(2)
proof (cases rule: commit_cases)
  case (reconciled s2 co1 co2)
  have wf: "bundle_wf (ro_capability (co_state co)) (ro_lim (co_state co)) (ro_cur (co_state co))"
    using assms(1) by (simp add: state_ok_def)
  have mv: "moved_rollout (co_state co) (co_state co1)" using reconciled persistRolloutState_fields[OF reconciled(5)] by simp
  have k: "co_state co' = s2" "co_file co' = co_file co1"
    using reconcile_keeps[OF reconciled(6) wf mv] reconciled persistRolloutState_fields[OF reconciled(5)] by simp_all
  have "contents (co_file co1) = {Some (StateDoc (json_persist (ToPersist s2)))}" if "reported (cm_write io)"
    using persistRolloutState_synced[OF reconciled(5) that] by simp
  moreover have "state_ok s2" "CurrentConfig s2 = cfg" "CurrentMode s2 = cf_Mode cfg"
    using reconciled(2-4) assms(1) by (simp_all add: state_ok_def moved_rollout_def CurrentConfig_def CurrentMode_def bundle_wf_def)
  ultimately show ?thesis using reconciled(1,2,7) k by simp
qed auto

lemma commit_co_ok:
  assumes "co_ok co"
  shows "co_ok (snd (commitRolloutTransitionCore io nv cfg actor origin co))"
proof -
  obtain res co' where c: "commitRolloutTransitionCore io nv cfg actor origin co = (res, co')" by (rule prod.exhaust)
  have ok: "state_ok (co_state co)" and live: "cr_active (rn_mem (co_runtime co)) \<Longrightarrow> RequiresLiveExecution (CurrentMode (co_state co))"
    using assms by (simp_all add: co_ok_def)
  have "co_ok co'"
  proof (cases res)
    case (Some e)
    note r = commit_rejected[OF ok c[unfolded Some]]
    with same_rollout_ok[OF ok] have "state_ok (co_state co')" "CurrentMode (co_state co') = CurrentMode (co_state co)"
      by blast+
    with r live show ?thesis by (metis co_ok_def)
  next
    case None
    from commit_installed[OF ok c[unfolded None]]
    have i: "state_ok (co_state co')" "CurrentMode (co_state co') = cf_Mode cfg" by blast+
    from ok c[unfolded None] show ?thesis
    proof (cases rule: commit_accepted)
      case left
      with i demote_inactive show ?thesis by (simp add: co_ok_def)
    next
      case outside
      with i live show ?thesis by (auto simp: co_ok_def)
    qed (simp_all add: co_ok_def i)
  qed
  then show ?thesis by (simp add: c)
qed

lemma kill_state_ok:
  "state_ok s \<Longrightarrow> state_ok (EngageKillSwitch actor at s)" "state_ok s \<Longrightarrow> state_ok (ClearKillSwitch s)"
  "CurrentMode (EngageKillSwitch actor at s) = CurrentMode s" "CurrentMode (ClearKillSwitch s) = CurrentMode s"
  by (auto simp: state_ok_def bundle_wf_def CurrentMode_def EngageKillSwitch_def ClearKillSwitch_def appendHistory_def Let_def)

lemma emergency_state: "co_state (snd (emergencyDisable io actor co)) = EngageKillSwitch actor (UnixNano (cm_now io)) (co_state co)"
  "co_runtime (snd (emergencyDisable io actor co)) = co_runtime co"
  "co_state (snd (clearEmergency io co)) = ClearKillSwitch (co_state co)"
  "co_runtime (snd (clearEmergency io co)) = co_runtime co"
  by (simp_all add: emergencyDisable_def clearEmergency_def persistRolloutState_def split: prod.splits option.splits)

lemma NewState_ok: "RolloutCapability_Valid capb \<Longrightarrow> limits_ok lim \<Longrightarrow> state_ok (NewState capb lim)"
  using CompileScope_disabled[of lim capb] DisabledConfig_valid[of lim capb]
  by (simp add: state_ok_def bundle_wf_def NewState_def CompileShadowScope_def)

lemma LoadPersist_ok:
  assumes "state_ok s" and "LoadPersist p s = (err, s')"
  shows "state_ok s'"
proof (cases err)
  case (Some e)
  with assms show ?thesis by (auto simp: LoadPersist_def Let_def split: if_split_asm prod.splits)
next
  case None
  have "ro_capability s' = ro_capability s" "ro_lim s' = ro_lim s"
    using assms(2) by (auto simp: LoadPersist_def Let_def split: if_split_asm prod.splits)
  with None assms LoadPersist_bundle_wf[of s p s'] show ?thesis by (auto simp: state_ok_def)
qed

lemma clamp_ok:
  assumes "state_ok (co_state co)"
  shows "state_ok (co_state (clamp now co)) \<and> CurrentConfig (co_state (clamp now co)) = DisabledConfig (ro_capability (co_state co)) \<and>
    moved_rollout (co_state co) (co_state (clamp now co))"
proof -
  let ?s = "co_state co"
  have v: "SignedConfig_Validate (DisabledConfig (ro_capability ?s)) (ro_capability ?s) (ro_lim ?s) = None"
    using assms DisabledConfig_valid by (simp add: state_ok_def)
  show ?thesis
    using v assms by (cases rule: SetConfig_cases[of "DisabledConfig (ro_capability ?s)" "''restore-clamp''" "UnixNano now" ?s])
      (auto simp: clamp_def state_ok_def bundle_wf_def moved_rollout_def CurrentConfig_def)
qed

lemma restore_runtime [simp]: "co_runtime (restore io nv readErr co) = co_runtime co"
  by (auto simp: restore_def clamp_def Let_def split: prod.splits option.splits bool.splits)

lemma restoreRolloutState_ok:
  "state_ok (co_state co) \<Longrightarrow> state_ok (snd (restoreRolloutState readErr co))"
  by (auto simp: restoreRolloutState_def split: option.splits state_content.splits prod.splits intro: LoadPersist_ok)

text \<open>Startup ends with what was loaded, or with its clamp to Disabled.\<close>

lemma restore_result:
  "co_state (restore io nv readErr co) = snd (restoreRolloutState readErr co) \<or>
   co_state (restore io nv readErr co) = co_state (clamp (cm_now io) (co\<lparr>co_state := snd (restoreRolloutState readErr co)\<rparr>))"
  by (auto simp: restore_def Let_def clamp_def split: prod.splits option.splits bool.splits)

lemma restore_ok:
  assumes "state_ok (co_state co)"
  shows "state_ok (co_state (restore io nv readErr co))"
  using restore_result[of io nv readErr co] restoreRolloutState_ok[OF assms]
    clamp_ok[of "co\<lparr>co_state := snd (restoreRolloutState readErr co)\<rparr>"]
  by auto

lemma start_ok:
  assumes "co_ok co"
  shows "co_ok (initMCPRollout io nv readErr k k' build tier co)"
  using assms reconcile_restore_active
  by (auto simp: initMCPRollout_def Let_def co_ok_def state_ok_def[of "co_state co"] intro!: restore_ok NewState_ok)

lemma emergency_ok: "co_ok co \<Longrightarrow> co_ok (snd (emergencyDisable io actor co))" "co_ok co \<Longrightarrow> co_ok (snd (clearEmergency io co))"
  by (simp_all add: co_ok_def emergency_state kill_state_ok)

lemma co_ok_step:
  assumes "co_ok co"
  shows "co_ok (co_step x co)"
proof (cases x)
  case (CoCommit io nv cfg actor origin)
  with assms show ?thesis by (cases cfg) (simp_all add: commitRolloutTransitionAt_def commit_co_ok)
next
  case (CoExecution io y)
  with assms show ?thesis using execution_inactive[of "co_runtime co" y io] by (auto simp: co_ok_def)
next
  case (CoTier y)
  with assms show ?thesis by (simp add: co_ok_def)
qed (simp_all add: assms emergency_ok start_ok)

interpretation agreement: run_invariant co_step "\<lambda>_. True" co_ok
  by unfold_locales (rule co_ok_step)

lemma co_ok_run: "co_ok co \<Longrightarrow> co_ok (run_ops co_step ops co)"
  by (rule agreement.run_keeps) (simp_all add: list_all_iff)

section \<open>Accepted live transitions\<close>

lemma preflight_ready:
  assumes "rd_Ready (evaluateCanaryActivationPreflightLocked nv capb scope rv now co)"
  shows "capb = CapabilityGateway" "xd_live (co_tier co)" "\<not> Killed (co_state co)" "rollbackPathReadyLocked nv co"
    "nv_exitReview nv" "nv_coordinatorRehearsed nv" "ValidateFirstCanaryScope scope rv = []"
    "ValidateScopeApprovals scope (ca_ToolApprovals (nv_inputs nv scope rv)) now = []"
    "ValidateBudget (ca_Budget (nv_inputs nv scope rv)) = []"
  using assms
  by (simp_all add: evaluateCanaryActivationPreflightLocked_def evaluateActivationOnFacts_def Evaluate_def ready_iff
      readinessChecks_def canaryNodeFactsLocked_def Let_def)

lemma commit_gate_live:
  assumes "commit_gate nv cfg now co = None" and "RequiresLiveExecution (cf_Mode cfg)"
  shows "rd_Ready (evaluateCanaryActivationPreflightLocked nv (cf_Capability cfg) (cf_Scope cfg) (cf_ScopeRevision cfg) now co)"
  using assms by (simp add: commit_gate_def err_if_def split: if_split_asm)

lemma trip_keeps:
  "cr_budget (rn_mem (tripAutoStopLocked code now fs cf r)) = cr_budget (rn_mem r)"
  "cr_reviewed (rn_mem (tripAutoStopLocked code now fs cf r)) = cr_reviewed (rn_mem r)"
  "cr_generation (rn_mem (tripAutoStopLocked code now fs cf r)) = cr_generation (rn_mem r)"
  by (simp_all add: tripAutoStopLocked_def Let_def split: prod.splits)

lemma window_keeps:
  "cr_budget (rn_mem (reconcileWindowDeadlineLocked now fs cf r)) = cr_budget (rn_mem r)"
  "cr_reviewed (rn_mem (reconcileWindowDeadlineLocked now fs cf r)) = cr_reviewed (rn_mem r)"
  "cr_generation (rn_mem (reconcileWindowDeadlineLocked now fs cf r)) = cr_generation (rn_mem r)"
  by (simp_all add: reconcileWindowDeadlineLocked_def Let_def trip_keeps stopWindowWatchdog_def armWindowWatchdog_def
      split: prod.splits)

lemma begin_armed:
  assumes "beginCanaryActivation io spec r = ((gen, None), rt)"
  shows "cr_active (rn_mem rt)" "cr_budget (rn_mem rt) = as_Budget spec"
    "CanonicalizeReviewedTargets (as_ReviewedTargets spec) = (cr_reviewed (rn_mem rt), [])"
    "cr_generation (rn_mem rt) = cr_generation (rn_mem r) + 1"
proof -
  obtain reviewed rr where c: "CanonicalizeReviewedTargets (as_ReviewedTargets spec) = (reviewed, rr)" by (rule prod.exhaust)
  let ?r1 = "r\<lparr>rn_mem := armed_mem spec reviewed (rn_mem r)\<rparr>"
  obtain err r2 where p: "persistRuntime (ri_write io) ?r1 = (err, r2)" by (rule prod.exhaust)
  from assms have "rr = []" "err = None"
    and rt: "rt = reconcileWindowDeadlineLocked (ri_now io) (ri_write2 io) (ri_cleanup2 io) r2"
    by (auto simp: beginCanaryActivation_def c p Let_def split: if_split_asm option.splits)
  with c persistRuntime_mem(1)[of "ri_write io" ?r1, unfolded p] show "cr_active (rn_mem rt)" "cr_budget (rn_mem rt) = as_Budget spec"
    "CanonicalizeReviewedTargets (as_ReviewedTargets spec) = (cr_reviewed (rn_mem rt), [])"
    "cr_generation (rn_mem rt) = cr_generation (rn_mem r) + 1"
    by (simp_all add: window_mem window_keeps armed_mem_def Let_def)
qed

lemma activation_of_live:
  "RequiresLiveExecution (cf_Mode cfg) \<Longrightarrow> as_Budget (activation_of nv cfg now) = ca_Budget (nv_inputs nv (cf_Scope cfg) (cf_ScopeRevision cfg))"
  "RequiresLiveExecution (cf_Mode cfg) \<Longrightarrow> as_ReviewedTargets (activation_of nv cfg now) =
     reviewedTargetsFromBindings (ca_ToolApprovals (nv_inputs nv (cf_Scope cfg) (cf_ScopeRevision cfg)))"
  by (simp_all add: activation_of_def Let_def)

text \<open>A running generation keeps the budget and the targets that were reviewed for the transition.\<close>

lemma live_commit_runtime:
  assumes "state_ok (co_state co)" and "commitRolloutTransitionCore io nv cfg actor origin co = (None, co')"
    and "RequiresLiveExecution (cf_Mode cfg)" and "cr_active (rn_mem (co_runtime co'))"
  shows "cr_budget (rn_mem (co_runtime co')) = ca_Budget (nv_inputs nv (cf_Scope cfg) (cf_ScopeRevision cfg)) \<and>
    CanonicalizeReviewedTargets (reviewedTargetsFromBindings (ca_ToolApprovals (nv_inputs nv (cf_Scope cfg) (cf_ScopeRevision cfg)))) =
      (cr_reviewed (rn_mem (co_runtime co')), [])"
  using assms(1,2)
proof (cases rule: commit_accepted)
  case (entered gen rt)
  from begin_armed(2,3)[OF entered(3)] entered(4) show ?thesis by (simp add: activation_of_live assms(3))
next
  case kept
  with assms(4) show ?thesis by (simp add: activation_of_live assms(3))
qed (use assms(3) in simp_all)

lemma live_commit_entered:
  assumes "state_ok (co_state co)" and "commitRolloutTransitionCore io nv cfg actor origin co = (None, co')"
    and "RequiresLiveExecution (cf_Mode cfg)" and "\<not> RequiresLiveExecution (CurrentMode (co_state co))"
  shows "cr_active (rn_mem (co_runtime co')) \<and>
    cr_generation (rn_mem (co_runtime co')) = cr_generation (rn_mem (co_runtime co)) + 1"
  using assms(1,2)
proof (cases rule: commit_accepted)
  case (entered gen rt)
  from begin_armed(1,4)[OF entered(3)] entered(4) show ?thesis by simp
qed (use assms(3,4) in simp_all)

section \<open>The kill switch across restarts\<close>

text \<open>Every content a crash can bring back is a document of this capability that carries the kill.\<close>

definition kill_doc :: "rollout_capability \<Rightarrow> state_content option \<Rightarrow> bool" where
  "kill_doc capb c = (case c of Some (StateDoc p) \<Rightarrow> pe_Version p = 1 \<and> pe_Capability p = capb \<and> pe_Killed p | _ \<Rightarrow> False)"

definition kill_held :: "coordinator \<Rightarrow> bool" where
  "kill_held co \<longleftrightarrow> Killed (co_state co) \<and> contents (co_file co) \<subseteq> Collect (kill_doc (ro_capability (co_state co)))"

fun keeps_kill :: "co_op \<Rightarrow> bool" where
  "keeps_kill (CoClear io) = False"
| "keeps_kill (CoStart io nv readErr k k' build tier) = (readErr = None)"
| "keeps_kill _ = True"

lemma kill_doc_persist: "Killed s \<Longrightarrow> kill_doc (ro_capability s) (Some (StateDoc (json_persist (ToPersist s))))"
  by (simp add: kill_doc_def json_persist_def ToPersist_def Killed_def)

lemma persist_contents:
  "contents (co_file (snd (persistRolloutState fs co))) \<subseteq>
     insert (Some (StateDoc (json_persist (ToPersist (co_state co))))) (contents (co_file co))"
  using write_disk_contents[of "StateDoc (json_persist (ToPersist (co_state co)))" fs "co_file co"]
  by (cases "write_disk (StateDoc (json_persist (ToPersist (co_state co)))) fs (co_file co)")
    (simp add: persistRolloutState_def split: option.splits)

lemma kill_held_cong:
  "kill_held co \<Longrightarrow> Killed (co_state co') = Killed (co_state co) \<Longrightarrow> ro_capability (co_state co') = ro_capability (co_state co) \<Longrightarrow>
   co_file co' = co_file co \<Longrightarrow> kill_held co'"
  by (simp add: kill_held_def)

lemma kill_held_persist:
  assumes "kill_held co" and "persistRolloutState fs co = (err, co')"
  shows "kill_held co'"
  using assms persist_contents[of fs co] kill_doc_persist[of "co_state co"] persistRolloutState_fields(1)[OF assms(2)]
  by (auto simp: kill_held_def)

lemma SetConfig_capability [simp]: "ro_capability (snd (SetConfig cfg actor at s)) = ro_capability s"
  by (cases rule: SetConfig_cases[of cfg actor at s]) simp_all

lemma reinstall_kill [simp]:
  "Killed (reinstall cfg actor at s) = Killed s" "ro_capability (reinstall cfg actor at s) = ro_capability s"
  by (cases rule: SetConfig_cases[of cfg actor at s]; simp add: reinstall_def Killed_def SetConfig_kill(1)[unfolded Killed_def])+

lemma Killed_UpdateEvidence [simp]: "Killed (UpdateEvidence f s) = Killed s"
  by (simp add: Killed_def)

lemma kill_held_reject:
  assumes "kill_held co"
  shows "kill_held (snd (rejectActivationAndRollback io actor cfg ev cause co))"
proof -
  let ?co = "co\<lparr>co_state := reinstall cfg actor (UnixNano (cm_now io)) (UpdateEvidence (\<lambda>_. ev) (co_state co))\<rparr>"
  obtain err c where p: "persistRolloutState (cm_write2 io) ?co = (err, c)" by (rule prod.exhaust)
  have "kill_held ?co" by (rule kill_held_cong[OF assms]) simp_all
  then have "kill_held c" using p by (rule kill_held_persist)
  then have "kill_held (setPersistStatus x c)" for x by (rule kill_held_cong) simp_all
  then show ?thesis by (cases err) (simp_all add: rejectActivationAndRollback_def Let_def p)
qed

lemma kill_held_reconcile:
  assumes "kill_held co"
  shows "kill_held (snd (reconcileCanaryRuntimeAfterCommit io m actor prevMode cfg ev spec co))"
proof -
  have k: "kill_held (co\<lparr>co_runtime := rt\<rparr>)" "kill_held (co\<lparr>co_tier := t, co_runtime := rt\<rparr>)" for rt t
    by (rule kill_held_cong[OF assms]; simp)+
  obtain gen err rt where b: "beginCanaryActivation (cm_runtime io) spec (co_runtime co) = ((gen, err), rt)"
    by (metis prod.exhaust)
  show ?thesis
    using assms by (cases err) (simp_all add: reconcileCanaryRuntimeAfterCommit_def Let_def b k kill_held_reject)
qed

lemma kill_held_commit:
  assumes "kill_held co"
  shows "kill_held (snd (commitRolloutTransitionCore io nv cfg actor origin co))"
proof -
  obtain res co' where c: "commitRolloutTransitionCore io nv cfg actor origin co = (res, co')" by (rule prod.exhaust)
  have moved: "kill_held co1" if "moved_rollout (co_state co) s2" "persistRolloutState (cm_write io) (co\<lparr>co_state := s2\<rparr>) = (err, co1)"
    for s2 err co1
  proof (rule kill_held_persist[OF _ that(2)])
    show "kill_held (co\<lparr>co_state := s2\<rparr>)"
      using that(1) by (intro kill_held_cong[OF assms]) (simp_all add: moved_rollout_def Killed_def)
  qed
  from c have "kill_held co'"
  proof (cases rule: commit_cases)
    case (unpersisted s2 co1 e)
    have "co_state co1 = s2" using persistRolloutState_fields(1)[OF unpersisted(3)] by simp
    with unpersisted show ?thesis by (intro kill_held_cong[OF moved[OF unpersisted(1,3)]]) simp_all
  next
    case (reconciled s2 co1 co2)
    have "kill_held co2"
      using kill_held_reconcile[OF moved[OF reconciled(2,5)]] reconciled(6) by (metis snd_conv)
    then show ?thesis by (rule kill_held_cong) (simp_all add: reconciled(7))
  qed (use assms in simp_all)
  then show ?thesis by (simp add: c)
qed

lemma LoadPersist_kill_doc:
  assumes "kill_doc (ro_capability s) (Some (StateDoc p))"
  shows "fst (LoadPersist p s) = None \<and> Killed (snd (LoadPersist p s)) \<and> ro_capability (snd (LoadPersist p s)) = ro_capability s"
  using assms by (simp add: LoadPersist_def kill_doc_def Let_def Killed_def split: prod.splits)

lemma kill_held_start:
  assumes "kill_held co"
  shows "kill_held (initMCPRollout io nv None k k' build tier co)"
proof -
  let ?n = "\<lparr>co_state = NewState (ro_capability (co_state co)) (ro_lim (co_state co)), co_file = crash_disk k (co_file co),
    co_status = [], co_transitions = 0, co_emergencies = 0, co_runtime = co_runtime co, co_tier = tier\<rparr>"
  have "kill_doc (ro_capability (co_state co)) (dk_visible (crash_disk k (co_file co)))"
    using assms crash_contents[of k "co_file co"] by (auto simp: kill_held_def)
  then obtain p where p: "dk_visible (crash_disk k (co_file co)) = Some (StateDoc p)"
      "kill_doc (ro_capability (co_state ?n)) (Some (StateDoc p))"
    by (auto simp: kill_doc_def NewState_def split: option.splits state_content.splits)
  obtain s where l: "LoadPersist p (co_state ?n) = (None, s)" "Killed s" "ro_capability s = ro_capability (co_state ?n)"
    using LoadPersist_kill_doc[OF p(2)] by (metis prod.collapse)
  have r: "snd (restoreRolloutState None ?n) = s" by (simp add: restoreRolloutState_def p(1) l(1)[simplified])
  have "Killed (co_state (restore io nv None ?n)) \<and> ro_capability (co_state (restore io nv None ?n)) = ro_capability (co_state co)"
    using restore_result[of io nv None ?n, unfolded r] l(2,3) by (auto simp: clamp_def NewState_def)
  moreover have "co_file (restore io nv None ?n) = crash_disk k (co_file co)"
    by (auto simp: restore_def clamp_def Let_def split: prod.splits option.splits bool.splits)
  moreover have "contents (crash_disk k (co_file co)) = {dk_visible (crash_disk k (co_file co))}"
    by (simp add: crash_disk_def contents_def Let_def)
  ultimately show ?thesis
    using p by (auto simp: initMCPRollout_def Let_def kill_held_def NewState_def)
qed

lemma kill_held_step:
  assumes "kill_held co" and "keeps_kill x"
  shows "kill_held (co_step x co)"
proof (cases x)
  case (CoCommit io nv cfg actor origin)
  with assms show ?thesis by (cases cfg) (simp_all add: commitRolloutTransitionAt_def kill_held_commit)
next
  case (CoEmergency io actor)
  let ?co = "co\<lparr>co_state := EngageKillSwitch actor (UnixNano (cm_now io)) (co_state co), co_emergencies := co_emergencies co + 1\<rparr>"
  obtain err c where p: "persistRolloutState (cm_write io) ?co = (err, c)" by (rule prod.exhaust)
  have "kill_held ?co"
    using assms(1) by (intro kill_held_cong[OF assms(1)]) (simp_all add: kill_held_def Killed_def EngageKillSwitch_def)
  then have "kill_held c" using p by (rule kill_held_persist)
  then have "kill_held (setPersistStatus y c)" for y by (rule kill_held_cong) simp_all
  with CoEmergency show ?thesis by (cases err) (simp_all add: emergencyDisable_def p)
next
  case (CoExecution io y)
  with assms(1) show ?thesis by (auto intro: kill_held_cong)
next
  case (CoTier y)
  with assms(1) show ?thesis by (auto intro: kill_held_cong)
qed (use assms in \<open>simp_all add: kill_held_start\<close>)

interpretation killing: run_invariant co_step keeps_kill kill_held
  by unfold_locales (rule kill_held_step)

lemma emergency_holds:
  assumes "emergencyDisable io actor co = (None, co')" and "reported (cm_write io)"
  shows "kill_held co'"
proof -
  let ?s = "EngageKillSwitch actor (UnixNano (cm_now io)) (co_state co)"
  let ?co = "co\<lparr>co_state := ?s, co_emergencies := co_emergencies co + 1\<rparr>"
  obtain err c where p: "persistRolloutState (cm_write io) ?co = (err, c)" by (rule prod.exhaust)
  then have e: "err = None" "co' = setPersistStatus ''recovered'' c"
    using assms(1) by (cases err; simp add: emergencyDisable_def)+
  have "contents (co_file c) = {Some (StateDoc (json_persist (ToPersist ?s)))}"
    using persistRolloutState_synced[OF p[unfolded e(1)] assms(2)] by simp
  moreover have "co_state c = ?s" using persistRolloutState_fields(1)[OF p] by simp
  ultimately show ?thesis using kill_doc_persist[of ?s] e(2) by (simp add: kill_held_def)
qed

section \<open>Accepted transitions across restarts\<close>

text \<open>A start that reads the document of a state ends in that state's mode or in Disabled, with its kill.\<close>

lemma start_from_doc:
  assumes "state_ok (co_state co)" and "contents (co_file co) = {Some (StateDoc (json_persist (ToPersist (co_state co))))}"
    and "co' = initMCPRollout io nv None k k' build tier co"
  shows "Killed (co_state co') = Killed (co_state co) \<and>
    (CurrentConfig (co_state co') = pe_Config (json_persist (ToPersist (co_state co))) \<and>
       CurrentMode (co_state co') = CurrentMode (co_state co) \<or>
     CurrentConfig (co_state co') = DisabledConfig (ro_capability (co_state co)) \<and> CurrentMode (co_state co') = ModeDisabled)"
proof -
  let ?n = "\<lparr>co_state = NewState (ro_capability (co_state co)) (ro_lim (co_state co)), co_file = crash_disk k (co_file co),
    co_status = [], co_transitions = 0, co_emergencies = 0, co_runtime = co_runtime co, co_tier = tier\<rparr>"
  let ?p = "json_persist (ToPersist (co_state co))"
  have v: "dk_visible (crash_disk k (co_file co)) = Some (StateDoc ?p)"
    using crash_contents[of k "co_file co"] assms(2) by simp
  have n: "state_ok (co_state ?n)" using assms(1) NewState_ok by (simp add: state_ok_def)
  have d: "pe_Version ?p = 1" "pe_Capability ?p = ro_capability (co_state ?n)" "pe_Killed ?p = Killed (co_state co)"
      "cf_Mode (pe_Config ?p) = CurrentMode (co_state co)"
    using assms(1) by (simp_all add: json_persist_def ToPersist_def NewState_def Killed_def CurrentMode_def state_ok_def bundle_wf_def)
  define s where "s = snd (LoadPersist ?p (co_state ?n))"
  have f: "fst (LoadPersist ?p (co_state ?n)) = None" using d by (simp add: LoadPersist_def Let_def split: prod.splits)
  then have l: "LoadPersist ?p (co_state ?n) = (None, s)" by (simp add: s_def prod_eq_iff)
  have s: "Killed s = Killed (co_state co)" "ro_capability s = ro_capability (co_state co)"
    and c: "CurrentConfig s = pe_Config ?p \<and> CurrentMode s = cf_Mode (pe_Config ?p) \<or>
      CurrentConfig s = DisabledConfig (ro_capability (co_state co)) \<and> CurrentMode s = ModeDisabled"
    using d by (auto simp: s_def LoadPersist_def Let_def Killed_def CurrentConfig_def CurrentMode_def NewState_def
        split: prod.splits sum.splits)
  have r: "snd (restoreRolloutState None ?n) = s" by (simp add: restoreRolloutState_def v l[simplified])
  have "state_ok s" by (rule LoadPersist_ok[OF n l])
  then have cl: "CurrentConfig (co_state (clamp t (co\<lparr>co_state := s\<rparr>))) = DisabledConfig (ro_capability s)"
      "CurrentMode (co_state (clamp t (co\<lparr>co_state := s\<rparr>))) = ModeDisabled"
      "Killed (co_state (clamp t (co\<lparr>co_state := s\<rparr>))) = Killed s" for t and co :: coordinator
    using clamp_ok[of "co\<lparr>co_state := s\<rparr>" t]
    by (auto simp: state_ok_def bundle_wf_def CurrentConfig_def CurrentMode_def clamp_def)
  have "co_state co' = s \<or> co_state co' = co_state (clamp (cm_now io) (?n\<lparr>co_state := s\<rparr>))"
    using restore_result[of io nv None ?n, unfolded r] by (simp add: assms(3) initMCPRollout_def Let_def)
  then show ?thesis
  proof
    assume "co_state co' = s"
    then show ?thesis using s c d(4) by simp
  next
    assume "co_state co' = co_state (clamp (cm_now io) (?n\<lparr>co_state := s\<rparr>))"
    then show ?thesis using cl[of "cm_now io" ?n] s by simp
  qed
qed

section \<open>Transitions that go through\<close>

lemma persist_no_faults: "fst (persistRolloutState no_faults co) = None"
  by (simp add: persistRolloutState_def write_disk_def)

lemma commit_accepts:
  assumes "commit_gate nv cfg (cm_now io) co = None"
    and "SignedConfig_Validate cfg (ro_capability (co_state co)) (ro_lim (co_state co)) = None"
    and "cm_write io = no_faults" and "\<not> RequiresLiveExecution (CurrentMode (co_state co))"
    and "RequiresLiveExecution (cf_Mode cfg) \<Longrightarrow>
      snd (fst (beginCanaryActivation (cm_runtime io) (activation_of nv cfg (cm_now io)) (co_runtime co))) = None"
  shows "fst (commitRolloutTransitionCore io nv cfg actor origin co) = None"
proof -
  obtain res co' where c: "commitRolloutTransitionCore io nv cfg actor origin co = (res, co')" by (rule prod.exhaust)
  from c have "res = None"
  proof (cases rule: commit_cases)
    case (gated e)
    with assms(1) show ?thesis by simp
  next
    case (refused e)
    with assms(2) show ?thesis by (cases rule: SetConfig_cases[of cfg actor "UnixNano (cm_now io)" "co_state co"]) simp_all
  next
    case (unpersisted s2 co1 e)
    with persist_no_faults[of "co\<lparr>co_state := s2\<rparr>"] assms(3) show ?thesis by simp
  next
    case (reconciled s2 co1 co2)
    have rt: "co_runtime co1 = co_runtime co" using persistRolloutState_fields(2)[OF reconciled(5)] by simp
    obtain gen err r where b: "beginCanaryActivation (cm_runtime io) (activation_of nv cfg (cm_now io)) (co_runtime co) = ((gen, err), r)"
      by (metis prod.exhaust)
    show ?thesis
    proof (cases "RequiresLiveExecution (cf_Mode cfg)")
      case True
      with assms(5) b have "err = None" by simp
      with reconciled(6) True assms(4) b rt show ?thesis by (simp add: reconcileCanaryRuntimeAfterCommit_def)
    next
      case False
      with reconciled(6) assms(4) show ?thesis by (simp add: reconcileCanaryRuntimeAfterCommit_def Let_def)
    qed
  qed
  then show ?thesis by (simp add: c)
qed

lemma getMCPRollout_ok: "RolloutCapability_Valid capb \<Longrightarrow> limits_ok lim \<Longrightarrow> co_ok (getMCPRollout capb lim build)"
  by (simp add: co_ok_def getMCPRollout_def NewState_ok fresh_mem_def)

lemma reachable_ok:
  "RolloutCapability_Valid capb \<Longrightarrow> limits_ok lim \<Longrightarrow> co_ok (run_ops co_step ops (getMCPRollout capb lim build))"
  by (rule co_ok_run) (rule getMCPRollout_ok)

text \<open>A restored Management Shadow mode never survives a start: the preflight it must pass is Gateway-only.\<close>

lemma management_shadow_clamped:
  assumes "state_ok (co_state co)" and "snd (restoreRolloutState readErr co) = s" and "fst (restoreRolloutState readErr co) = (True, None)"
    and "ro_capability s = CapabilityManagement" and "CurrentMode s = ModeShadow"
  shows "CurrentConfig (co_state (restore io nv readErr co)) = DisabledConfig CapabilityManagement"
proof -
  have ok: "state_ok s" using restoreRolloutState_ok[OF assms(1)] assms(2) by auto
  have u: "shadowPreflightUnreadyIgnoringKill (evaluateShadowActivationPreflight nv CapabilityManagement scope rv c)" for scope rv c
    by (simp add: evaluateShadowActivationPreflight_def evaluateShadowNodeReadiness_def shadowPreflightUnreadyIgnoringKill_def)
  have "restoreRolloutState readErr co = ((True, None), s)" using assms(2,3) by (metis prod.collapse)
  then have "restore io nv readErr co = clamp (cm_now io) (co\<lparr>co_state := s\<rparr>)"
    using assms(4,5) u by (simp add: restore_def Let_def)
  then show ?thesis using clamp_ok[of "co\<lparr>co_state := s\<rparr>" "cm_now io"] ok assms(4) by simp
qed

text \<open>
  A write that replaced the file and then failed to sync its directory: the transition is rejected and
  undone in memory, while the file shows the rejected configuration.
\<close>

lemma rejected_transition_on_disk:
  assumes "state_ok (co_state co)" and "commit_gate nv cfg (cm_now io) co = None"
    and "SignedConfig_Validate cfg (ro_capability (co_state co)) (ro_lim (co_state co)) = None"
    and "cm_write io = no_faults\<lparr>dirsync_fault := Some (PlainErr ''input/output error'')\<rparr>"
    and "commitRolloutTransitionCore io nv cfg actor origin co = (res, co')"
  shows "res \<noteq> None \<and> same_rollout (co_state co) (co_state co') \<and>
    (\<exists>p. dk_visible (co_file co') = Some (StateDoc p) \<and> cf_Mode (pe_Config p) = cf_Mode cfg)"
proof -
  have w: "\<exists>e d. write_disk c (cm_write io) d0 = (Some e, d) \<and> dk_visible d = Some c" for c :: state_content and d0
    by (simp add: assms(4) write_disk_def AtomicWrite_def temp_file_err_def replaced_def no_faults_def
      EINVAL_def ENOTSUP_def EOPNOTSUPP_def)
  have pe: "fst (persistRolloutState (cm_write io) c) \<noteq> None \<and> dk_visible (co_file (snd (persistRolloutState (cm_write io) c))) =
      Some (StateDoc (json_persist (ToPersist (co_state c))))" for c
    using w[of "StateDoc (json_persist (ToPersist (co_state c)))" "co_file c"] by (auto simp: persistRolloutState_def)
  from assms(5) show ?thesis
  proof (cases rule: commit_cases)
    case (refused e)
    with assms(3) show ?thesis by (cases rule: SetConfig_cases[of cfg actor "UnixNano (cm_now io)" "co_state co"]) simp_all
  next
    case (unpersisted s2 co1 e)
    have "cf_Mode (pe_Config (json_persist (ToPersist s2))) = cf_Mode cfg"
      using unpersisted(2) by (simp add: json_persist_def ToPersist_def)
    moreover have "dk_visible (co_file co') = Some (StateDoc (json_persist (ToPersist s2)))"
      using pe[of "co\<lparr>co_state := s2\<rparr>"] unpersisted(3,5) by simp
    moreover have "same_rollout (co_state co) (co_state co')"
      using reinstall_then_evidence[OF _ unpersisted(1)] assms(1) unpersisted(5) by (simp add: state_ok_def)
    ultimately show ?thesis using unpersisted(4) by simp
  next
    case (reconciled s2 co1 co2)
    with pe[of "co\<lparr>co_state := s2\<rparr>"] show ?thesis by simp
  qed (use assms(2) in simp)
qed

end
