(* ===== verification/LiveBindings.thy ===== *)
theory LiveBindings
  imports RolloutCommit ToolTrustStore
begin

text \<open>
  Where the coordinator's activation inputs come from (\<open>mcp_canary_preflight.go\<close>, \<open>mcp_tooltrust.go\<close>):
  the live approvals of the tool-trust store, bound to the current target of each tool in the scope. The
  inventory is what its two snapshots return for a key: the fields that are read here of a catalog record
  and of a registry server.
\<close>

section \<open>Targets\<close>

record catalog_tool =
  cg_Identity :: string
  cg_Sum :: string
  cg_FormatVersion :: nat
  cg_ServerDisabled :: bool
  cg_Revision :: nat

record registry_server =
  rg_OwnerScope :: string
  rg_Revision :: nat
  rg_PinnedIdentity :: string
  rg_Usable :: bool

record inventory =
  iv_tool :: "string \<Rightarrow> string \<Rightarrow> catalog_tool option"
  iv_server :: "string \<Rightarrow> registry_server option"

record target_input =
  ti_target :: current_target
  ti_found :: bool
  ti_pinnedIdentity :: string
  ti_registryPinDiverged :: bool

definition zero_digest32 :: string where "zero_digest32 = replicate 32 (CHR 0x00)"

definition zero_target :: current_target where
  "zero_target = \<lparr>ct_ServerExists = False, ct_ServerUsable = False, ct_Tenant = [], ct_ToolExists = False,
     ct_Approvable = False, ct_Fingerprint = zero_digest32, ct_FingerprintFormatVersion = 0, ct_CatalogRevision = 0,
     ct_ServerRevision = 0\<rparr>"

text \<open>No inventory is the argument \<open>None\<close>.\<close>

definition loadTarget :: "inventory option \<Rightarrow> string \<Rightarrow> string \<Rightarrow> target_input" where
  "loadTarget inven serverID toolName = (case inven of
     None \<Rightarrow> \<lparr>ti_target = zero_target, ti_found = False, ti_pinnedIdentity = [], ti_registryPinDiverged = False\<rparr>
   | Some iv \<Rightarrow>
       let rec = iv_tool iv serverID toolName; srv = iv_server iv serverID;
           t0 = zero_target\<lparr>ct_ServerExists := (srv \<noteq> None),
                  ct_ServerUsable := (case srv of None \<Rightarrow> False | Some s \<Rightarrow> rg_Usable s), ct_ToolExists := (rec \<noteq> None)\<rparr>;
           t1 = (case srv of None \<Rightarrow> t0
             | Some s \<Rightarrow> t0\<lparr>ct_Tenant := rg_OwnerScope s, ct_ServerRevision := rg_Revision s\<rparr>);
           t2 = (case rec of None \<Rightarrow> t1
             | Some c \<Rightarrow> t1\<lparr>ct_Approvable := \<not> cg_ServerDisabled c, ct_Fingerprint := cg_Sum c,
                 ct_FingerprintFormatVersion := cg_FormatVersion c, ct_CatalogRevision := cg_Revision c\<rparr>)
       in \<lparr>ti_target = t2, ti_found = (rec \<noteq> None \<and> srv \<noteq> None),
           ti_pinnedIdentity = (case rec of None \<Rightarrow> [] | Some c \<Rightarrow> cg_Identity c),
           ti_registryPinDiverged = (case (rec, srv) of (Some c, Some s) \<Rightarrow> cg_Identity c \<noteq> rg_PinnedIdentity s | _ \<Rightarrow> False)\<rparr>)"

record authoritative_target =
  au_Found :: bool
  au_Usable :: bool
  au_RegistryPinDiverged :: bool
  au_Target :: "reviewed_target option"

text \<open>The target is the zero record where nothing was found; here it is absent.\<close>

definition mcpCurrentAuthoritativeTarget :: "inventory option \<Rightarrow> string \<Rightarrow> string \<Rightarrow> authoritative_target" where
  "mcpCurrentAuthoritativeTarget inven serverID toolName =
     (let ti = loadTarget inven serverID toolName; t = ti_target ti in
      if \<not> ti_found ti then \<lparr>au_Found = False, au_Usable = False, au_RegistryPinDiverged = False, au_Target = None\<rparr>
      else \<lparr>au_Found = True, au_Usable = ct_ServerUsable t, au_RegistryPinDiverged = ti_registryPinDiverged ti,
             au_Target = Some \<lparr>rt_Tenant = ct_Tenant t, rt_ServerID = serverID, rt_ToolName = toolName,
               rt_Fingerprint = ct_Fingerprint t, rt_FingerprintFormat = ct_FingerprintFormatVersion t,
               rt_ServerIdentity = ti_pinnedIdentity ti, rt_OperationClass = OpUnset\<rparr>\<rparr>)"

section \<open>Bindings\<close>

definition tool_bindings :: "inventory option \<Rightarrow> tool_approval list \<Rightarrow> string \<Rightarrow> tool_sel \<Rightarrow> tool_approval_binding list" where
  "tool_bindings inven active tenant st =
     (let ti = loadTarget inven (ts_Server st) (ts_Name st) in
      if \<not> ti_found ti \<or> ct_Tenant (ti_target ti) \<noteq> tenant then []
      else map (\<lambda>a. \<lparr>tb_Target = \<lparr>lt_Tenant = tenant, lt_ServerID = ts_Server st, lt_ToolName = ts_Name st,
                 lt_Fingerprint = ct_Fingerprint (ti_target ti),
                 lt_FingerprintFormat = ct_FingerprintFormatVersion (ti_target ti)\<rparr>,
               tb_Approval = Some a, tb_ServerIdentity = ti_pinnedIdentity ti\<rparr>)
             (filter (\<lambda>a. ta_Tenant a = tenant \<and> ta_ServerID a = ts_Server st \<and> ta_ToolName a = ts_Name st) active))"

text \<open>The store is absent where the tool-trust coordinator is not composed.\<close>

definition buildLiveApprovalBindings ::
    "inventory option \<Rightarrow> trust_store option \<Rightarrow> gotime \<Rightarrow> scope_spec \<Rightarrow> tool_approval_binding list" where
  "buildLiveApprovalBindings inven st now scope =
     (if sp_Tools scope = [] \<or> sp_Tenants scope = [] then []
      else let active = (case st of None \<Rightarrow> [] | Some s \<Rightarrow> ActiveLiveApprovals now s)
        in concat (map (\<lambda>tenant. concat (map (tool_bindings inven active tenant) (sp_Tools scope))) (sp_Tenants scope)))"

definition productionCanaryActivationInputs ::
    "inventory option \<Rightarrow> trust_store option \<Rightarrow> gotime \<Rightarrow> scope_spec \<Rightarrow> nat \<Rightarrow> canary_inputs" where
  "productionCanaryActivationInputs inven st now scope scopeRev =
     \<lparr>ca_ToolApprovals = buildLiveApprovalBindings inven st now scope, ca_Budget = zero_budget,
      ca_ServerUsable = False, ca_FingerprintCurrent = False\<rparr>"

text \<open>Every binding is a served approval, for the tenant that owns the server, at the current target.\<close>

lemma binding_genuine:
  assumes "b \<in> set (buildLiveApprovalBindings inven st now scope)"
  obtains s a where "st = Some s" "a \<in> set (ActiveLiveApprovals now s)" "tb_Approval b = Some a"
    "binding_key b = (ta_Tenant a, ta_ServerID a, ta_ToolName a)"
    "ti_found (loadTarget inven (ta_ServerID a) (ta_ToolName a))"
    "ct_Tenant (ti_target (loadTarget inven (ta_ServerID a) (ta_ToolName a))) = ta_Tenant a"
    "lt_Fingerprint (tb_Target b) = ct_Fingerprint (ti_target (loadTarget inven (ta_ServerID a) (ta_ToolName a)))"
proof -
  let ?active = "case st of None \<Rightarrow> [] | Some s \<Rightarrow> ActiveLiveApprovals now s"
  from assms obtain tenant t where b: "b \<in> set (tool_bindings inven ?active tenant t)"
    by (auto simp: buildLiveApprovalBindings_def Let_def split: if_split_asm)
  then obtain a where a: "a \<in> set ?active" "ta_Tenant a = tenant" "ta_ServerID a = ts_Server t" "ta_ToolName a = ts_Name t"
      and eq: "tb_Approval b = Some a" "binding_key b = (tenant, ts_Server t, ts_Name t)"
        "ti_found (loadTarget inven (ts_Server t) (ts_Name t))" "ct_Tenant (ti_target (loadTarget inven (ts_Server t) (ts_Name t))) = tenant"
        "lt_Fingerprint (tb_Target b) = ct_Fingerprint (ti_target (loadTarget inven (ts_Server t) (ts_Name t)))"
    by (auto simp: tool_bindings_def Let_def binding_key_def split: if_split_asm)
  from a(1) obtain s where "st = Some s" "a \<in> set (ActiveLiveApprovals now s)" by (cases st) auto
  from that[OF this eq(1)] eq(2-5) show ?thesis unfolding a(2-4)[symmetric] by blast
qed

section \<open>The shipped inputs never admit a live mode\<close>

lemma production_not_ready:
  assumes "nv_inputs nv = productionCanaryActivationInputs inven st t"
  shows "\<not> rd_Ready (evaluateCanaryActivationPreflightLocked nv capb scope rv now co)"
proof
  assume "rd_Ready (evaluateCanaryActivationPreflightLocked nv capb scope rv now co)"
  from preflight_ready(9)[OF this] show False
    by (simp add: assms productionCanaryActivationInputs_def ValidateBudget_def zero_budget_def)
qed

definition shipped_view :: "node_view \<Rightarrow> bool" where
  "shipped_view nv \<longleftrightarrow> (\<exists>inven st t. nv_inputs nv = productionCanaryActivationInputs inven st t)"

fun shipped_op :: "co_op \<Rightarrow> bool" where
  "shipped_op (CoCommit io nv cfg actor origin) = shipped_view nv"
| "shipped_op (CoStart io nv readErr k k' build tier) = shipped_view nv"
| "shipped_op _ = True"

definition not_live :: "coordinator \<Rightarrow> bool" where
  "not_live co \<longleftrightarrow> co_ok co \<and> \<not> RequiresLiveExecution (CurrentMode (co_state co))"

lemma clamp_mode: "state_ok (co_state co) \<Longrightarrow> CurrentMode (co_state (clamp now co)) = ModeDisabled"
  using clamp_ok[of co now] by (auto simp: state_ok_def bundle_wf_def CurrentMode_def CurrentConfig_def)

lemma disabled_not_live [simp]: "\<not> RequiresLiveExecution ModeDisabled"
  by (simp add: RequiresLiveExecution_def)

lemma restore_not_live:
  assumes "shipped_view nv" and "state_ok (co_state co)" and "\<not> RequiresLiveExecution (CurrentMode (co_state co))"
  shows "\<not> RequiresLiveExecution (CurrentMode (co_state (restore io nv readErr co)))"
proof -
  obtain ok err st where r: "restoreRolloutState readErr co = ((ok, err), st)" by (metis prod.exhaust)
  have sok: "state_ok st" using restoreRolloutState_ok[OF assms(2), of readErr] r by simp
  have cl: "\<not> RequiresLiveExecution (CurrentMode (co_state (clamp (cm_now io) (co\<lparr>co_state := st\<rparr>))))"
    using clamp_mode[of "co\<lparr>co_state := st\<rparr>"] sok by simp
  have nr: "\<not> rd_Ready (evaluateCanaryActivationPreflightLocked nv capb scope rv now c)" for capb scope rv now c
    using assms(1) production_not_ready unfolding shipped_view_def by blast
  show ?thesis
  proof (cases "ok \<and> err = None")
    case True
    with cl nr r show ?thesis by (simp add: restore_def Let_def)
  next
    case False
    then have "st = co_state co"
      using r by (auto simp: restoreRolloutState_def LoadPersist_def Let_def split: option.splits state_content.splits prod.splits if_split_asm)
    with False assms(3) r show ?thesis by (cases err; cases ok) (simp_all add: restore_def)
  qed
qed

lemma not_live_step:
  assumes "not_live co" and "shipped_op x"
  shows "not_live (co_step x co)"
proof -
  have ok: "co_ok co" "state_ok (co_state co)" and nl: "\<not> RequiresLiveExecution (CurrentMode (co_state co))"
    using assms(1) unfolding not_live_def co_ok_def by blast+
  have "\<not> RequiresLiveExecution (CurrentMode (co_state (co_step x co)))"
  proof (cases x)
    case (CoCommit io nv cfg actor origin)
    show ?thesis
    proof (cases cfg)
      case None
      with CoCommit nl show ?thesis by (simp add: commitRolloutTransitionAt_def)
    next
      case (Some c)
      obtain res co' where c: "commitRolloutTransitionCore io nv c actor origin co = (res, co')" by (rule prod.exhaust)
      have "\<not> RequiresLiveExecution (CurrentMode (co_state co'))"
      proof (cases res)
        case (Some e)
        have "same_rollout (co_state co) (co_state co')" using commit_rejected[OF ok(2) c[unfolded Some]] by blast
        with nl show ?thesis by (simp add: same_rollout_def CurrentMode_def)
      next
        case None
        from commit_installed[OF ok(2) c[unfolded None]]
        have g: "commit_gate nv c (cm_now io) co = None" and m: "CurrentMode (co_state co') = cf_Mode c" by blast+
        have "\<not> RequiresLiveExecution (cf_Mode c)"
          using commit_gate_live[OF g] production_not_ready assms(2) CoCommit unfolding shipped_view_def by (auto simp: shipped_view_def)
        with m show ?thesis by simp
      qed
      with CoCommit Some c show ?thesis by (simp add: commitRolloutTransitionAt_def)
    qed
  next
    case (CoStart io nv readErr k k' build tier)
    have "state_ok (NewState (ro_capability (co_state co)) (ro_lim (co_state co)))"
      using ok(2) NewState_ok by (simp add: state_ok_def)
    moreover have "CurrentMode (NewState (ro_capability (co_state co)) (ro_lim (co_state co))) = ModeDisabled"
      by (simp add: CurrentMode_def NewState_def)
    ultimately show ?thesis
      using CoStart assms(2) by (simp add: initMCPRollout_def Let_def restore_not_live)
  qed (use nl in \<open>simp_all add: emergency_state kill_state_ok\<close>)
  with co_ok_step[OF ok(1)] show ?thesis by (simp add: not_live_def)
qed

interpretation shipped: run_invariant co_step shipped_op not_live
  by unfold_locales (rule not_live_step)

lemma getMCPRollout_not_live:
  "RolloutCapability_Valid capb \<Longrightarrow> limits_ok lim \<Longrightarrow> not_live (getMCPRollout capb lim build)"
  using getMCPRollout_ok[of capb lim build] by (simp add: not_live_def getMCPRollout_def CurrentMode_def NewState_def)

end
