(* ===== verification/CoordinatorClaims.thy ===== *)
theory CoordinatorClaims
  imports LiveBindings CanaryClaims
begin

text \<open>
  The properties of the rollout coordinator and of the live tier: they span the rollout state, its
  file, the Canary runtime, the Canary gate and the tier.
\<close>

section \<open>An example\<close>

definition canary_config :: signed_config where
  "canary_config = (DisabledConfig CapabilityGateway)\<lparr>cf_Mode := ModeCanary, cf_Scope := example_scope, cf_ScopeRevision := 1\<rparr>"

definition ready_node :: node_view where
  "ready_node = \<lparr>nv_shadowComposed = True, nv_telemetry = True, nv_policy = True, nv_registry = True, nv_catalog = True,
     nv_inspection = True, nv_listener = True, nv_usableTool = (\<lambda>_ _. True), nv_exitReview = True,
     nv_eventsHealthy = True, nv_rehearsed = True, nv_coordinatorRehearsed = True,
     nv_inputs = (\<lambda>_ _. \<lparr>ca_ToolApprovals = [example_binding], ca_Budget = example_budget, ca_ServerUsable = True,
       ca_FingerprintCurrent = True\<rparr>)\<rparr>"

definition commit_with :: "fs_faults \<Rightarrow> commit_io" where
  "commit_with fs = \<lparr>cm_now = 5, cm_write = fs, cm_write2 = no_faults, cm_runtime = \<lparr>ri_now = 5, ri_write = no_faults,
     ri_cleanup = no_cleanup_faults, ri_write2 = no_faults, ri_cleanup2 = no_cleanup_faults\<rparr>\<rparr>"

definition armed_node :: coordinator where
  "armed_node = run_ops co_step [CoTier TierCompose, CoTier (TierArm True ''armed'')]
     (getMCPRollout CapabilityGateway Rollout_DefaultLimits ''v1'')"


lemma default_ok: "RolloutCapability_Valid CapabilityGateway" "limits_ok Rollout_DefaultLimits"
  by (simp add: RolloutCapability_Valid_def) (rule limits_ok_default)

lemma armed_node_fields:
  "co_state armed_node = NewState CapabilityGateway Rollout_DefaultLimits"
  "xd_live (co_tier armed_node)" "co_status armed_node = []"
  "co_runtime armed_node = fresh_runtime CapabilityGateway ''v1''"
  by (simp_all add: armed_node_def getMCPRollout_def fresh_runtime_def markComposed_def arm_def newMCPLiveTier_def)

lemma armed_node_run:
  "run_ops co_step ([CoTier TierCompose, CoTier (TierArm True ''armed'')] @ ops)
     (getMCPRollout CapabilityGateway Rollout_DefaultLimits ''v1'') = run_ops co_step ops armed_node"
  by (simp add: armed_node_def)

lemma canary_config_valid: "SignedConfig_Validate canary_config CapabilityGateway Rollout_DefaultLimits = None"
proof -
  have "CompileScope canary_config Rollout_DefaultLimits = Inr (ex_sc example_scope)"
    using example_scope_compiles by (simp add: CompileScope_def canary_config_def)
  moreover have "Enumerable (ex_sc example_scope)"
    using example_inclusion by (simp add: Enumerable_def ex_sc_def)
  ultimately show ?thesis
    by (simp add: SignedConfig_Validate_def canary_config_def DisabledConfig_def hasShadowScope_def example_scope_def
      err_of_def empty_spec_def SupportsSelectorSchema_def rollout_simps ValidateConnectorMode_def)
qed

lemma canary_live: "RequiresLiveExecution (cf_Mode canary_config)" "\<not> RequiresLiveExecution (CurrentMode (co_state armed_node))"
  by (simp_all add: canary_config_def RequiresLiveExecution_def armed_node_fields CurrentMode_def NewState_def)

lemma example_approvals: "ValidateScopeApprovals example_scope [example_binding] 5 = []"
  by code_simp

lemma example_read_first: "ScopeReadFirst example_scope" "ValidateBudget example_budget = []"
  by code_simp+

lemma canary_gate_open: "commit_gate ready_node canary_config (cm_now (commit_with fs)) armed_node = None"
proof -
  have "rd_Ready (evaluateCanaryActivationPreflightLocked ready_node CapabilityGateway example_scope 1 5 armed_node)"
    by (simp add: evaluateCanaryActivationPreflightLocked_def evaluateActivationOnFacts_def Evaluate_def ready_iff
        readinessChecks_def canaryNodeFactsLocked_def Let_def armed_node_fields ready_node_def example_approvals
        example_read_first example_scope_valid[simplified] example_first_canary[simplified] rollbackPathReadyLocked_def persistStatus_def
        Killed_def NewState_def)
  then show ?thesis
    using canary_live(1) armed_node_fields(2)
    by (simp add: commit_gate_def err_if_def modeExecReady_def canary_config_def commit_with_def)
qed

lemma canary_begins: "snd (fst (beginCanaryActivation (cm_runtime (commit_with fs))
    (activation_of ready_node canary_config 5) (fresh_runtime CapabilityGateway ''v1''))) = None"
proof -
  have "activation_of ready_node canary_config 5 = \<lparr>as_Budget = example_budget,
      as_ReviewedTargets = reviewedTargetsFromBindings [example_binding], as_StartedAt = 5\<rparr>"
    using canary_live(1) by (simp add: activation_of_def Let_def ready_node_def)
  moreover have "snd (fst (beginCanaryActivation (cm_runtime (commit_with no_faults)) \<lparr>as_Budget = example_budget,
      as_ReviewedTargets = reviewedTargetsFromBindings [example_binding], as_StartedAt = 5\<rparr>
      (fresh_runtime CapabilityGateway ''v1''))) = None"
    by code_simp
  ultimately show ?thesis by (simp add: commit_with_def)
qed

lemma canary_commits:
  "fst (commitRolloutTransitionCore (commit_with no_faults) ready_node canary_config ''op'' OriginProduction armed_node) = None"
proof (rule commit_accepts)
  show "commit_gate ready_node canary_config (cm_now (commit_with no_faults)) armed_node = None" by (rule canary_gate_open)
  show "SignedConfig_Validate canary_config (ro_capability (co_state armed_node)) (ro_lim (co_state armed_node)) = None"
    using canary_config_valid by (simp add: armed_node_fields NewState_def)
  show "cm_write (commit_with no_faults) = no_faults" by (simp add: commit_with_def)
  show "\<not> RequiresLiveExecution (CurrentMode (co_state armed_node))" by (rule canary_live)
  show "snd (fst (beginCanaryActivation (cm_runtime (commit_with no_faults))
      (activation_of ready_node canary_config (cm_now (commit_with no_faults))) (co_runtime armed_node))) = None"
    using canary_begins[of no_faults] by (simp add: armed_node_fields commit_with_def)
qed


definition running_node :: coordinator where
  "running_node = snd (commitRolloutTransitionCore (commit_with no_faults) ready_node canary_config ''op'' OriginProduction armed_node)"

lemma running: "commitRolloutTransitionCore (commit_with no_faults) ready_node canary_config ''op'' OriginProduction armed_node =
    (None, running_node)"
  using canary_commits by (simp add: running_node_def prod_eq_iff)

lemma armed_state_ok: "state_ok (co_state armed_node)"
  using NewState_ok[OF default_ok] by (simp add: armed_node_fields)

lemma running_active: "cr_active (rn_mem (co_runtime running_node))"
  using live_commit_entered[OF armed_state_ok running canary_live] by simp

section \<open>The coordinator\<close>

text \<open>
  C9. The Canary runtime and the rollout mode agree: whatever transitions, emergency stops, executions,
  trips, tier changes, write faults and crashes with restarts a node has been through, a runtime that
  is armed stands under a mode that executes.
\<close>

theorem runtime_only_in_live_mode:
  assumes "RolloutCapability_Valid capb" "limits_ok lim" "co = run_ops co_step ops (getMCPRollout capb lim build)"
    and "cr_active (rn_mem (co_runtime co))"
  shows "RequiresLiveExecution (CurrentMode (co_state co))"
  using reachable_ok[OF assms(1,2), of ops build] assms(3,4) by (simp add: co_ok_def)

theorem runtime_only_in_live_mode_witness: "RequiresLiveExecution (CurrentMode (co_state running_node))"
proof (rule runtime_only_in_live_mode[OF default_ok])
  show "running_node = run_ops co_step ([CoTier TierCompose, CoTier (TierArm True ''armed'')] @
      [CoCommit (commit_with no_faults) ready_node (Some canary_config) ''op'' OriginProduction])
      (getMCPRollout CapabilityGateway Rollout_DefaultLimits ''v1'')"
    unfolding armed_node_run by (simp add: commitRolloutTransitionAt_def running)
  show "cr_active (rn_mem (co_runtime running_node))" by (rule running_active)
qed

text \<open>
  C10. What a live mode needs: when a transition into an executing mode is accepted, the tier was armed,
  no kill switch is engaged, the rollback path was rehearsed, the scope is an exact first-Canary scope,
  every subject in it is covered by an active four-eyes approval of its tool that is in force, and a
  running generation has exactly the budget and the reviewed targets that this check has read.
\<close>

theorem live_transition_authorised:
  assumes "RolloutCapability_Valid capb" "limits_ok lim" "co = run_ops co_step ops (getMCPRollout capb lim build)"
    and "commitRolloutTransitionAt io nv (Some cfg) actor origin co = (None, co')" "RequiresLiveExecution (cf_Mode cfg)"
    and "ai = nv_inputs nv (cf_Scope cfg) (cf_ScopeRevision cfg)"
  shows "xd_live (co_tier co) \<and> \<not> Killed (co_state co') \<and> rollbackPathReadyLocked nv co \<and> nv_exitReview nv \<and>
    ValidateFirstCanaryScope (cf_Scope cfg) (cf_ScopeRevision cfg) = [] \<and> ValidateBudget (ca_Budget ai) = [] \<and>
    (\<forall>subj. InScope (co_state co') subj \<longrightarrow> (\<exists>b a x. b \<in> set (ca_ToolApprovals ai) \<and> tb_Approval b = Some a \<and>
       ta_Purpose a = PurposeLiveExecution \<and> ta_Status a = StatusActive \<and> ta_RequestedBy a \<noteq> ta_ApprovedBy a \<and>
       ta_ExpiresAt a = Some x \<and> cm_now io < x \<and> ta_Tenant a = sj_Tenant subj \<and> ta_ServerID a = sj_ServerID subj \<and>
       ta_ToolName a = sj_ToolName subj)) \<and>
    (cr_active (rn_mem (co_runtime co')) \<longrightarrow> cr_budget (rn_mem (co_runtime co')) = ca_Budget ai \<and>
       CanonicalizeReviewedTargets (reviewedTargetsFromBindings (ca_ToolApprovals ai)) = (cr_reviewed (rn_mem (co_runtime co')), [])) \<and>
    (\<not> RequiresLiveExecution (CurrentMode (co_state co)) \<longrightarrow> cr_active (rn_mem (co_runtime co')) \<and>
       cr_generation (rn_mem (co_runtime co')) = cr_generation (rn_mem (co_runtime co)) + 1)"
proof -
  have ok: "state_ok (co_state co)" using reachable_ok[OF assms(1,2)] assms(3) by (simp add: co_ok_def)
  have c: "commitRolloutTransitionCore io nv cfg actor origin co = (None, co')"
    using assms(4) by (simp add: commitRolloutTransitionAt_def)
  from commit_installed[OF ok c] have g: "commit_gate nv cfg (cm_now io) co = None"
    and mv: "moved_rollout (co_state co) (co_state co')" and wf: "state_ok (co_state co')"
    and cfg: "CurrentConfig (co_state co') = cfg" by blast+
  note p = preflight_ready[OF commit_gate_live[OF g assms(5)]]
  have k: "\<not> Killed (co_state co')" using p(3) mv by (simp add: moved_rollout_def Killed_def)
  have sc: "Scope_Compile (cf_Scope cfg) (cf_ScopeRevision cfg) (ro_lim (co_state co')) = Inr (as_scope (ro_cur (co_state co')))"
    using wf cfg by (simp add: state_ok_def bundle_wf_def CompileScope_def CurrentConfig_def)
  have "\<exists>b a x. b \<in> set (ca_ToolApprovals ai) \<and> tb_Approval b = Some a \<and>
       ta_Purpose a = PurposeLiveExecution \<and> ta_Status a = StatusActive \<and> ta_RequestedBy a \<noteq> ta_ApprovedBy a \<and>
       ta_ExpiresAt a = Some x \<and> cm_now io < x \<and> ta_Tenant a = sj_Tenant subj \<and> ta_ServerID a = sj_ServerID subj \<and>
       ta_ToolName a = sj_ToolName subj" if "InScope (co_state co') subj" for subj
    using scope_subjects_approved[OF p(8) sc that[unfolded InScope_def]] assms(6) by blast
  with p(2,4,5,7,9) k live_commit_runtime[OF ok c assms(5)] live_commit_entered[OF ok c assms(5)] show ?thesis
    unfolding assms(6) by blast
qed

theorem live_transition_authorised_witness:
  "xd_live (co_tier armed_node) \<and> cr_active (rn_mem (co_runtime running_node)) \<and>
   cr_budget (rn_mem (co_runtime running_node)) = example_budget"
proof -
  have "armed_node = run_ops co_step ([CoTier TierCompose, CoTier (TierArm True ''armed'')] @ [])
      (getMCPRollout CapabilityGateway Rollout_DefaultLimits ''v1'')"
    unfolding armed_node_run by simp
  note t = live_transition_authorised[OF default_ok this _ canary_live(1) refl,
      where nv = ready_node and io = "commit_with no_faults" and actor = "''op''" and origin = OriginProduction and co' = running_node]
  have b: "ca_Budget (nv_inputs ready_node (cf_Scope canary_config) (cf_ScopeRevision canary_config)) = example_budget"
    by (simp add: ready_node_def)
  have "commitRolloutTransitionAt (commit_with no_faults) ready_node (Some canary_config) ''op'' OriginProduction armed_node =
      (None, running_node)"
    by (simp add: commitRolloutTransitionAt_def running)
  from t[OF this, unfolded b] running_active show ?thesis by blast
qed





text \<open>
  C16. The shipped build never executes: as long as the activation inputs are the production ones, no
  sequence of transitions, stops, tier changes, write faults, crashes and restarts, whatever the tier
  and the state files say, leads to an executing mode or to an armed runtime.
\<close>

theorem shipped_build_never_live:
  assumes "RolloutCapability_Valid capb" "limits_ok lim" "list_all shipped_op ops"
    and "co = run_ops co_step ops (getMCPRollout capb lim build)"
  shows "\<not> RequiresLiveExecution (CurrentMode (co_state co)) \<and> \<not> cr_active (rn_mem (co_runtime co)) \<and>
    \<not> executionEligible now (rn_mem (co_runtime co))"
  using shipped.run_keeps[OF getMCPRollout_not_live[OF assms(1,2)] assms(3), of build] assms(4)
  unfolding not_live_def co_ok_def executionEligible_def by auto

definition shipped_node :: node_view where
  "shipped_node = ready_node\<lparr>nv_inputs := productionCanaryActivationInputs None None 0\<rparr>"

theorem shipped_build_never_live_witness:
  "\<not> RequiresLiveExecution (CurrentMode (co_state (run_ops co_step
     [CoTier TierCompose, CoTier (TierArm True ''armed''),
      CoCommit (commit_with no_faults) shipped_node (Some canary_config) ''op'' OriginProduction]
     (getMCPRollout CapabilityGateway Rollout_DefaultLimits ''v1''))))"
proof -
  have "shipped_view shipped_node"
    unfolding shipped_view_def by (intro exI[of _ None] exI[of _ 0]) (simp add: shipped_node_def)
  then have "list_all shipped_op [CoTier TierCompose, CoTier (TierArm True ''armed''),
      CoCommit (commit_with no_faults) shipped_node (Some canary_config) ''op'' OriginProduction]"
    by simp
  from shipped_build_never_live[OF default_ok this refl] show ?thesis by blast
qed

section \<open>The live tier\<close>

text \<open>
  C18. The tier under every interleaving of its calls: an execution is admitted only while the mode gate
  reads the tier as armed, and the in-flight count is the number of admitted executions that have not
  been released. Where no call arms the tier while a drain is under way, the gate reads it as armed
  exactly when it is.
\<close>

theorem tier_admission_sound:
  assumes "t = run_ops tier_step ops newMCPLiveTier"
  shows "(fst (admitExecution t) \<longrightarrow> modeExecReady ModeCanary t) \<and> lt_inFlight t = int (lt_slots t) \<and>
    (arms_serial ops newMCPLiveTier \<longrightarrow> (xd_live t \<longleftrightarrow> tier_armed t))"
  using tier_ok_run[OF tier_ok_new, of ops] serial_agrees[OF arms_serial_run[OF _ serial_new], of ops] assms
  by (auto simp: admitExecution_def tier_ok_def modeExecReady_def RequiresLiveExecution_def tier_armed_def split: if_split_asm)

theorem tier_admission_sound_witness:
  "modeExecReady ModeCanary (run_ops tier_step [TierCompose, TierArm True ''armed'', TierAdmit] newMCPLiveTier) \<and>
   lt_inFlight (run_ops tier_step [TierCompose, TierArm True ''armed'', TierAdmit] newMCPLiveTier) = 1 \<and>
   xd_live (run_ops tier_step [TierCompose, TierArm True ''armed'', TierAdmit] newMCPLiveTier)"
proof -
  let ?ops = "[TierCompose, TierArm True ''armed'', TierAdmit]"
  have "fst (admitExecution (run_ops tier_step ?ops newMCPLiveTier))" "arms_serial ?ops newMCPLiveTier"
    "tier_armed (run_ops tier_step ?ops newMCPLiveTier)" "lt_slots (run_ops tier_step ?ops newMCPLiveTier) = 1"
    by code_simp+
  with tier_admission_sound[OF refl, of ?ops] show ?thesis by (simp del: run_ops.simps)
qed

end
