(* ===== verification/Spec2Isabelle.thy ===== *)
theory Spec2Isabelle
  imports PolicyClaims RolloutClaims CanaryClaims ToolTrustClaims Approval CoordinatorClaims
begin

text \<open>
  This is the root of a verification library for the MCP security gateway of the Culvert repository
  (Go, under \<open>src/\<close>). It models the decision core of the gateway: what a request may do under a
  policy, how far a rollout lets the decision take effect, under which bounds a live Canary may execute,
  who has approved the tool, and how the rollout coordinator puts these parts together on a node. It imports every other theory of the library.

  \<^bold>\<open>Parts of the program and how they interact.\<close> A request reaches the policy engine as a
  decision tuple; the engine (\<open>internal/mcp/policy\<close>) evaluates it against an immutable compiled
  snapshot that the policy store publishes with optimistic concurrency, and the simulator compares
  snapshots over a corpus. The rollout state of a capability (\<open>internal/mcp/rollout\<close>) says whether the
  resulting action is only recorded, shadowed, blocked or executed: a mode ladder, a signed configuration
  with a compiled scope, a kill switch and evidence. In Canary mode the activation runtime
  (\<open>mcp_canary_runtime.go\<close>, \<open>mcp_canary_autostop.go\<close> over \<open>internal/mcp/canary\<close>) hands out
  execution slots from a small budget, stops a generation on aborts, health breaches or the end of its
  window, and persists each step with \<open>internal/fileutil\<close>. Admission to a Canary requires an exact
  scope, attestations, rehearsals and approvals; the approvals come from the store of
  \<open>internal/mcp/tooltrust\<close>. The rollout coordinator (\<open>mcp_rollout.go\<close>) owns the rollout state,
  its file, the Canary runtime and the live-execution tier (\<open>mcp_live_tier.go\<close>): each transition
  passes its gates, is installed, persisted and reconciled with the runtime, or is rolled back. Requests
  that a policy sends to a human wait in the approval queue (\<open>internal/mcp/approval\<close>).

  \<^bold>\<open>Theories and what they model.\<close>

  \<^item> \<open>Prelude\<close>: errors as values (\<open>'a res\<close>, \<open>bindR\<close>, \<open>first_err\<close>), runs of
    operations (\<open>run_ops\<close>), and the locales shared by components: \<open>run_invariant\<close> (what every allowed
    operation keeps) and \<open>terminal_lifecycle\<close>.
  \<^item> \<open>Mcperr\<close>: \<open>internal/mcp/mcperr\<close>, the reason taxonomy and error wrapping.
  \<^item> \<open>PolicyEnums\<close>, \<open>PolicyInput\<close>, \<open>PolicyGlob\<close>, \<open>PolicyCondition\<close>, \<open>PolicyRules\<close>,
    \<open>PolicyEngine\<close>, \<open>PolicyStore\<close>, \<open>PolicySimulate\<close>: the files of \<open>internal/mcp/policy\<close>
    in the order the code layers them. A \<open>DecisionInput\<close>, a rule and a snapshot are records; a compiled
    condition is a datatype; \<open>Evaluate\<close> returns the decision, the trace and the error as the method does.
  \<^item> \<open>Hashing\<close>, \<open>Utf8\<close>: SHA-256 over bytes and the UTF-8 predicates of the standard library.
  \<^item> \<open>Fileutil\<close>: \<open>AtomicWrite\<close> with a fault at each system call, and a file with what a crash can
    bring back.
  \<^item> \<open>RolloutMode\<close> (\<open>rollout.go\<close>, \<open>transition.go\<close>, \<open>resolve.go\<close>), \<open>RolloutScope\<close>
    (\<open>scope.go\<close>, \<open>limits.go\<close>), \<open>RolloutHardFail\<close> (\<open>hardfail.go\<close>), \<open>RolloutState\<close>
    (\<open>state.go\<close>, \<open>config.go\<close>, \<open>evidence.go\<close>, \<open>connector.go\<close>).
  \<^item> \<open>CanaryBudget\<close> (\<open>budget.go\<close>, \<open>budget_enforce.go\<close>), \<open>CanaryGuards\<close> (\<open>abort.go\<close>,
    \<open>abort_control.go\<close>, \<open>health.go\<close>, \<open>reviewed.go\<close>, \<open>operation.go\<close>), \<open>CanaryGate\<close> (the
    scope contracts, approvals, attestation, rehearsals, readiness and trust), \<open>CanaryRuntime\<close> (the
    activation runtime) and \<open>CanaryDurability\<close> (its invariants across crashes).
  \<^item> \<open>ToolTrust\<close> and \<open>ToolTrustStore\<close>: approval records and their store.
  \<^item> \<open>Approval\<close>: the approval queue (\<open>approval.go\<close>, \<open>store.go\<close> of
    \<open>internal/mcp/approval\<close>) with its properties.
  \<^item> \<open>LiveTier\<close> (\<open>mcp_live_tier.go\<close>, \<open>mcp_rollout_execdeps.go\<close>): the lifecycle of the tier;
    a quiesce is two steps, so that other calls come between them.
  \<^item> \<open>RolloutCommit\<close> (\<open>mcp_rollout.go\<close>, \<open>mcp_rollout_persist.go\<close>, \<open>mcp_shadow_preflight.go\<close>
    and the gates of \<open>mcp_canary_preflight.go\<close>): the record \<open>coordinator\<close> holds the state of one
    capability, \<open>co_step\<close> is one call, startup after a crash included, and a \<open>node_view\<close> is what a
    call reads of the rest of the node.
  \<^item> \<open>LiveBindings\<close>: the production inputs of an activation, from the tool-trust store and the
    inventory (\<open>buildLiveApprovalBindings\<close>, \<open>loadTarget\<close>).
  \<^item> \<open>PolicyExample\<close>, \<open>RolloutExample\<close>: concrete values for the witnesses.
  \<^item> \<open>PolicyClaims\<close>, \<open>RolloutClaims\<close>, \<open>CanaryClaims\<close>, \<open>ToolTrustClaims\<close>,
    \<open>CoordinatorClaims\<close>: the properties.

  \<^bold>\<open>How code becomes definitions.\<close> A struct is a record with a field prefix, an enum a datatype
  whose last constructor carries the unnamed values of the underlying integer, a method a definition of the
  same name. Strings are byte lists. A function that returns an error returns an option or a sum. Instants
  are nanoseconds since the year one as integers; generations are 64-bit words that wrap; differences of
  instants saturate or wrap as in Go where the code depends on it. A method that holds its mutex, or reads
  and writes one atomic pointer, is one step of the state; a run is a list of steps in any order. Clocks,
  random bytes, disk faults and the receipt verifier are arguments.

  \<^bold>\<open>The disk.\<close> A state file is its visible content together with the contents a crash can bring
  back. A write that fails before the rename leaves the file alone; after the rename the displaced content
  stays recoverable until the directory has been synced, also where \<open>AtomicWrite\<close> reports success
  without a sync. A crash picks one of the recoverable contents and the runtime restores from it.

  \<^bold>\<open>What the lemmas show.\<close>

  \<^item> Policy (C1 to C8, C12, C14, C15, C19 to C21, C30): the engine refines a declarative first-match specification with hard
    overrides; it fails closed; permissions are isolated by tenant and destructive ones bounded; compiled
    snapshots are well formed and do not depend on the order of rules; hashing, the glob
    matcher and its termination; publications; comparisons. Further lemmas cover the reason grammar, the
    labels of decisions, the field tables, traces and the counters of a comparison.
  \<^item> Coordinator and tier (C9 to C11, C13, C16, C18): an armed runtime stands under an executing mode,
    such a mode was authorised by the whole preflight and its subjects are approved, a transition happens
    or does not, an emergency stop lasts until it is cleared, the shipped inputs never lead to an executing
    mode, and the tier admits executions only while the gate reads it as armed. Each is an invariant of
    \<open>co_step\<close> or \<open>tier_step\<close> under \<open>run_invariant\<close>, through every write fault and crash.
    The lemmas \<open>overlapping_quiesce\<close>, \<open>rejected_transition_on_disk\<close> and
    \<open>management_shadow_clamped\<close> show where the code departs from its comments.
  \<^item> Approval queue (C17, C22): receipts go to a second person for the request they are bound to and
    never change; the counters are exact and the capacities hold.
  \<^item> Rollout (C23 to C29): the Production lockout over every walk of the ladder, what a state lets
    execute after any operations, monotone scope changes, the exact evaluation preflight, the kill fence
    and the persistence round trip; the scope hash is not injective.
  \<^item> Canary (C31 to C36): budgets hold across crashes, a stopped generation stays stopped, the watchdog
    closes the window, and admission implies an exact scope and approved subjects; C32 is the one fault
    under which a grant is replayed. The locales \<open>durable_invariant\<close> and \<open>reservation_invariant\<close>
    state once what an operation of the runtime must keep in memory and on disk; they are interpreted for the
    spending ledger, the fence of a generation and the start of the window.
  \<^item> Approvals (C37 to C40): what the store serves satisfies the gate of the Canary, decided records are
    final, restarts bring the records back; C40 is the fault under which a failed approval takes effect.

  \<^bold>\<open>Bounds and fuel.\<close> Every loop is structural recursion or a function with a termination proof, so
  no definition runs out of fuel. Only \<open>glob_iter\<close> counts iterations: it is the matching loop with a
  budget, and C30 gives a budget that is enough for all inputs. C28 is stated for fewer than two to the
  64 operations, where the generation counter cannot wrap.

  \<^bold>\<open>Not modelled.\<close> JSON parsing and printing (\<open>parse.go\<close>, the decoders of the stores) belong to
  \<open>encoding/json\<close>: a file is its bytes with the document they decode to, and where text is replaced by
  the encoder that replacement is modelled. Logging and metrics hooks have no effect on the state. The
  status pages, the rehearsal of a rollback (\<open>recordRehearsal\<close> and its drill on a scratch target), the
  bounded wait of a drain, the HTTP administration API, the rest of the wiring of the main package, the MCP
  wire protocol, sessions, credentials, inspection, the event spool and the control plane, and the whole web
  proxy (TLS interception, scanning, feeds, authentication, cluster, PAC, releases) are not modelled: they
  are I/O around net/http, crypto and external services. The registry and the
  catalog are not modelled: \<open>LiveBindings\<close> takes what they return for a key as an argument.
\<close>

end
